(* ===== verification/Prelude.thy ===== *)
theory Prelude
  imports Main "HOL-Library.Word"
begin

text \<open>
  The Go values, failures and effects every component of the model shares.

  \<^item> A Go \<open>(T, error)\<close> pair of which only one half is meaningful is a value of \<open>'a res\<close>
    (\<open>Inl\<close> the error, \<open>Inr\<close> the value); a gRPC handler's \<open>(*Response, error)\<close>, where both
    halves may be set, is a pair of options (\<open>'r reply\<close>).
  \<^item> A run-time panic (index out of range, nil dereference, oversized allocation) is the value
    \<open>Panic\<close> of \<open>'a go\<close>. A nil pointer is \<open>None\<close>.
  \<^item> A call that leaves the process (RPC node, explorer, clock, sleep) is an \<open>io\<close> step: it
    takes the world and returns the new one. The world is the unknown remote state \<open>env\<close>
    together with the \<open>trace\<close> of the calls made so far, so that a theorem can state which calls
    a handler makes, and in which order.
  \<^item> \<open>emits P m\<close> is the effect system over those traces: \<open>m\<close> only appends calls that satisfy
    \<open>P\<close>. Its introduction rules are the collection \<open>emits_intros\<close>.
\<close>

section \<open>Results, errors, panics\<close>

type_synonym byte = "8 word"
type_synonym u16 = "16 word"
type_synonym u32 = "32 word"
type_synonym u64 = "64 word"
type_synonym address = "160 word" \<comment> \<open>a 20-byte EVM address, \<open>common.Address\<close>\<close>
type_synonym hash = "256 word"    \<comment> \<open>a 32-byte hash, \<open>common.Hash\<close>\<close>

text \<open>
  Errors: the sentinel \<open>ethereum.NotFound\<close>, the error \<open>encoding/hex\<close> returns for a character
  that is not a hex digit, and errors made from a text (\<open>errors.New\<close>, \<open>fmt.Errorf\<close>).
\<close>

datatype goerror = NotFound | InvalidByteError char | Errorf string

type_synonym 'a res = "goerror + 'a"

type_synonym 'r reply = "'r option \<times> goerror option"

definition okReply :: "'r \<Rightarrow> 'r reply" where
  "okReply r = (Some r, None)"

definition bothReply :: "'r \<Rightarrow> goerror \<Rightarrow> 'r reply" where
  "bothReply r e = (Some r, Some e)"

definition errReply :: "goerror \<Rightarrow> 'r reply" where
  "errReply e = (None, Some e)"

lemma reply_simps [simp]:
  "okReply r = okReply r' \<longleftrightarrow> r = r'"
  "okReply r \<noteq> errReply e" "errReply e \<noteq> okReply r"
  "okReply r \<noteq> bothReply r' e" "bothReply r' e \<noteq> okReply r"
  "bothReply r e \<noteq> errReply e'" "errReply e' \<noteq> bothReply r e"
  "bothReply r e = bothReply r' e' \<longleftrightarrow> r = r' \<and> e = e'"
  "errReply e = errReply e' \<longleftrightarrow> e = e'"
  by (auto simp: okReply_def errReply_def bothReply_def)

datatype 'a go = Ret 'a | Panic

fun bind_go :: "'a go \<Rightarrow> ('a \<Rightarrow> 'b go) \<Rightarrow> 'b go" where
  "bind_go (Ret x) f = f x"
| "bind_go Panic f = Panic"

lemma bind_go_Ret_iff: "bind_go m f = Ret y \<longleftrightarrow> (\<exists>x. m = Ret x \<and> f x = Ret y)"
  by (cases m) auto

lemma bind_go_assoc: "bind_go (bind_go m f) g = bind_go m (\<lambda>x. bind_go (f x) g)"
  by (cases m) auto

text \<open>Sequencing of \<open>(T, error)\<close> computations: \<open>if err != nil { return err }\<close>.\<close>

fun bind_res :: "'a res \<Rightarrow> ('a \<Rightarrow> 'b res) \<Rightarrow> 'b res" where
  "bind_res (Inr x) f = f x"
| "bind_res (Inl e) f = Inl e"

lemma bind_res_Inr_iff: "bind_res m f = Inr y \<longleftrightarrow> (\<exists>x. m = Inr x \<and> f x = Inr y)"
  by (cases m) auto

text \<open>Go slice expressions and indexing, with the run-time check.\<close>

definition index :: "'a list \<Rightarrow> int \<Rightarrow> 'a go" where
  "index xs i = (if 0 \<le> i \<and> i < int (length xs) then Ret (xs ! nat i) else Panic)"

definition slice :: "'a list \<Rightarrow> int \<Rightarrow> int \<Rightarrow> 'a list go" where
  "slice xs lo hi =
     (if 0 \<le> lo \<and> lo \<le> hi \<and> hi \<le> int (length xs)
      then Ret (take (nat (hi - lo)) (drop (nat lo) xs)) else Panic)"

lemma slice_all [simp]: "slice xs 0 (int (length xs)) = Ret xs"
  by (simp add: slice_def)

lemma slice_prefix: "i \<le> length xs \<Longrightarrow> slice xs 0 (int i) = Ret (take i xs)"
  by (simp add: slice_def)

lemma slice_suffix:
  "i \<le> length xs \<Longrightarrow> slice xs (int i) (int (length xs)) = Ret (drop i xs)"
  by (simp add: slice_def flip: of_nat_diff)

text \<open>64-bit two's complement, for the \<open>int64\<close> arithmetic of the code.\<close>

definition wrap64 :: "int \<Rightarrow> int" where
  "wrap64 x = (x + 2 ^ 63) mod 2 ^ 64 - 2 ^ 63"

definition int64_range :: "int \<Rightarrow> bool" where
  "int64_range x \<longleftrightarrow> - (2 ^ 63) \<le> x \<and> x < 2 ^ 63"

lemma wrap64_id: "int64_range x \<Longrightarrow> wrap64 x = x"
  by (simp add: wrap64_def int64_range_def)

lemma wrap64_range: "int64_range (wrap64 x)"
proof -
  have "0 \<le> (x + 2 ^ 63) mod 2 ^ 64" and "(x + 2 ^ 63) mod 2 ^ 64 < (2 ^ 64 :: int)"
    by simp_all
  then show ?thesis by (simp add: wrap64_def int64_range_def)
qed

section \<open>Calls that leave the process\<close>

datatype event = Ev string "string list"

primrec ev_name :: "event \<Rightarrow> string" where
  "ev_name (Ev n xs) = n"

record 'w world =
  env :: 'w
  trace :: "event list"

type_synonym ('w, 'a) io = "'w world \<Rightarrow> 'a go \<times> 'w world"

definition ret_io :: "'a \<Rightarrow> ('w, 'a) io" where
  "ret_io x = (\<lambda>w. (Ret x, w))"

definition panic_io :: "('w, 'a) io" where
  "panic_io = (\<lambda>w. (Panic, w))"

definition lift_go :: "'a go \<Rightarrow> ('w, 'a) io" where
  "lift_go m = (\<lambda>w. (m, w))"

definition bind_io :: "('w, 'a) io \<Rightarrow> ('a \<Rightarrow> ('w, 'b) io) \<Rightarrow> ('w, 'b) io" where
  "bind_io m f = (\<lambda>w. case m w of (Ret x, w') \<Rightarrow> f x w' | (Panic, w') \<Rightarrow> (Panic, w'))"

text \<open>One external call: the remote side answers and moves on, the trace grows by one event.\<close>

definition ext :: "event \<Rightarrow> ('w \<Rightarrow> 'a \<times> 'w) \<Rightarrow> ('w, 'a) io" where
  "ext ev f = (\<lambda>w. case f (env w) of (x, e') \<Rightarrow> (Ret x, w\<lparr>env := e', trace := trace w @ [ev]\<rparr>))"

lemma ret_io_apply [simp]: "ret_io x w = (Ret x, w)"
  by (simp add: ret_io_def)

lemma panic_io_apply [simp]: "panic_io w = (Panic, w)"
  by (simp add: panic_io_def)

lemma lift_go_simps [simp]: "lift_go (Ret x) = ret_io x" "lift_go Panic = panic_io"
  by (simp_all add: lift_go_def ret_io_def panic_io_def)

lemma bind_io_ret [simp]: "bind_io (ret_io x) f = f x"
  by (simp add: bind_io_def)

lemma bind_io_panic [simp]: "bind_io panic_io f = panic_io"
  by (simp add: bind_io_def panic_io_def)

lemma bind_io_Pair [simp]:
  "bind_io (Pair (Ret x)) f = f x" "bind_io (Pair Panic) f = Pair Panic"
  by (simp_all add: bind_io_def fun_eq_iff)

lemma bind_io_assoc: "bind_io (bind_io m f) g = bind_io m (\<lambda>x. bind_io (f x) g)"
  by (auto simp: bind_io_def split: prod.splits go.splits)

lemma bind_io_apply:
  "bind_io m f w = (case m w of (Ret x, w') \<Rightarrow> f x w' | (Panic, w') \<Rightarrow> (Panic, w'))"
  by (simp add: bind_io_def)

lemma bind_io_run: "m w = (Ret x, w') \<Longrightarrow> bind_io m f w = f x w'"
  by (simp add: bind_io_def)

lemma bind_io_Ret_iff:
  "bind_io m f w = (Ret y, w2) \<longleftrightarrow> (\<exists>x w1. m w = (Ret x, w1) \<and> f x w1 = (Ret y, w2))"
  by (auto simp: bind_io_def split: prod.splits go.splits)

lemma lift_go_Ret_iff: "lift_go m w = (Ret x, w') \<longleftrightarrow> m = Ret x \<and> w' = w"
  by (auto simp: lift_go_def)

lemma case_sum_run_iff:
  "(case x of Inl e \<Rightarrow> f e | Inr v \<Rightarrow> g v) w = (Ret y, w') \<longleftrightarrow>
     (\<exists>e. x = Inl e \<and> f e w = (Ret y, w')) \<or> (\<exists>v. x = Inr v \<and> g v w = (Ret y, w'))"
  by (cases x) auto

lemma case_option_run_iff:
  "(case x of None \<Rightarrow> n | Some v \<Rightarrow> g v) w = (Ret y, w') \<longleftrightarrow>
     (x = None \<and> n w = (Ret y, w')) \<or> (\<exists>v. x = Some v \<and> g v w = (Ret y, w'))"
  by (cases x) auto

text \<open>Runs that return, taken apart step by step.\<close>

lemmas run_iff = bind_io_Ret_iff lift_go_Ret_iff case_sum_run_iff case_option_run_iff

lemma ext_apply:
  "ext ev f w = (Ret (fst (f (env w))), w\<lparr>env := snd (f (env w)), trace := trace w @ [ev]\<rparr>)"
  by (simp add: ext_def split: prod.splits)

lemma bind_ext_apply:
  "bind_io (ext ev f) g w =
     g (fst (f (env w))) (w\<lparr>env := snd (f (env w)), trace := trace w @ [ev]\<rparr>)"
  by (simp add: bind_io_def ext_apply)

text \<open>The value and the final world of a run.\<close>

definition result :: "('w, 'a) io \<Rightarrow> 'w world \<Rightarrow> 'a go" where
  "result m w = fst (m w)"

definition final :: "('w, 'a) io \<Rightarrow> 'w world \<Rightarrow> 'w world" where
  "final m w = snd (m w)"

text \<open>A Go \<open>for _, x := range xs\<close> loop over an accumulator.\<close>

primrec for_io :: "'x list \<Rightarrow> ('x \<Rightarrow> 's \<Rightarrow> ('w, 's) io) \<Rightarrow> 's \<Rightarrow> ('w, 's) io" where
  "for_io [] body s = ret_io s"
| "for_io (x # xs) body s = bind_io (body x s) (for_io xs body)"

lemma for_io_panic:
  assumes "x \<in> set xs" and "\<And>s w. fst (body x s w) = Panic"
  shows "fst (for_io xs body s w) = Panic"
  using assms(1)
proof (induction xs arbitrary: s w)
  case (Cons y ys)
  show ?case
  proof (cases "body y s w")
    case (Pair r w')
    then show ?thesis using Cons assms(2) [of s w]
      by (cases r) (auto simp: bind_io_apply)
  qed
qed simp

text \<open>The loops that append one result per item.\<close>

primrec map_io :: "('x \<Rightarrow> ('w, 'y) io) \<Rightarrow> 'x list \<Rightarrow> ('w, 'y list) io" where
  "map_io f [] = ret_io []"
| "map_io f (x # xs) = bind_io (f x) (\<lambda>y. bind_io (map_io f xs) (\<lambda>ys. ret_io (y # ys)))"

lemma map_io_length:
  "map_io f xs w = (Ret ys, w') \<Longrightarrow> length ys = length xs"
  by (induction xs arbitrary: w ys w') (auto simp: bind_io_Ret_iff)

lemma map_io_nth:
  assumes "map_io f xs w = (Ret ys, w')" and "i < length xs"
  shows "\<exists>w1 w2. f (xs ! i) w1 = (Ret (ys ! i), w2)"
  using assms
proof (induction xs arbitrary: w ys w' i)
  case Nil
  then show ?case by simp
next
  case (Cons x xs)
  from Cons.prems(1) obtain y w1 zs where
    y: "f x w = (Ret y, w1)" and zs: "map_io f xs w1 = (Ret zs, w')" and ys: "ys = y # zs"
    by (auto simp: bind_io_Ret_iff)
  show ?case
  proof (cases i)
    case 0
    with y ys show ?thesis by auto
  next
    case (Suc j)
    with Cons.IH [OF zs, of j] Cons.prems(2) ys show ?thesis by simp
  qed
qed

section \<open>Which calls a computation makes\<close>

definition emits :: "(event \<Rightarrow> bool) \<Rightarrow> ('w, 'a) io \<Rightarrow> bool" where
  "emits P m \<longleftrightarrow> (\<forall>w. \<exists>es. trace (snd (m w)) = trace w @ es \<and> list_all P es)"

named_theorems emits_intros

lemma emits_ret [emits_intros, simp]: "emits P (ret_io x)"
  by (simp add: emits_def)

lemma emits_panic [emits_intros, simp]: "emits P panic_io"
  by (simp add: emits_def)

lemma emits_lift [emits_intros, simp]: "emits P (lift_go m)"
  by (simp add: emits_def lift_go_def)

lemma emits_ext [emits_intros]: "P ev \<Longrightarrow> emits P (ext ev f)"
  by (simp add: emits_def ext_apply)

lemma emits_bind [emits_intros]:
  assumes m: "emits P m" and f: "\<And>x. emits P (f x)"
  shows "emits P (bind_io m f)"
  unfolding emits_def
proof
  fix w
  obtain r w1 where mw: "m w = (r, w1)" by (cases "m w")
  from m mw obtain es where es: "trace w1 = trace w @ es" "list_all P es"
    unfolding emits_def by (metis snd_conv)
  show "\<exists>es. trace (snd (bind_io m f w)) = trace w @ es \<and> list_all P es"
  proof (cases r)
    case (Ret x)
    from f [of x] obtain fs where "trace (snd (f x w1)) = trace w1 @ fs" "list_all P fs"
      unfolding emits_def by metis
    with es Ret mw show ?thesis by (auto simp: bind_io_def intro: exI [of _ "es @ fs"])
  next
    case Panic
    with es mw show ?thesis by (auto simp: bind_io_def)
  qed
qed

lemma emits_for [emits_intros]:
  "(\<And>x s. emits P (body x s)) \<Longrightarrow> emits P (for_io xs body s)"
  by (induction xs arbitrary: s) (auto intro: emits_bind)

lemma emits_map [emits_intros]:
  "(\<And>x. emits P (f x)) \<Longrightarrow> emits P (map_io f xs)"
  by (induction xs) (auto intro!: emits_bind)

lemma emits_if [emits_intros]:
  "(b \<Longrightarrow> emits P m) \<Longrightarrow> (\<not> b \<Longrightarrow> emits P m') \<Longrightarrow> emits P (if b then m else m')"
  by simp

lemma emits_sum_case [emits_intros]:
  "(\<And>e. x = Inl e \<Longrightarrow> emits P (f e)) \<Longrightarrow> (\<And>v. x = Inr v \<Longrightarrow> emits P (g v)) \<Longrightarrow>
   emits P (case x of Inl e \<Rightarrow> f e | Inr v \<Rightarrow> g v)"
  by (cases x) auto

lemma emits_option_case [emits_intros]:
  "(x = None \<Longrightarrow> emits P n) \<Longrightarrow> (\<And>v. x = Some v \<Longrightarrow> emits P (g v)) \<Longrightarrow>
   emits P (case x of None \<Rightarrow> n | Some v \<Rightarrow> g v)"
  by (cases x) auto

lemma emits_let [emits_intros]: "emits P (f x) \<Longrightarrow> emits P (let y = x in f y)"
  by simp

lemma emits_prod_case [emits_intros]:
  "(\<And>a b. p = (a, b) \<Longrightarrow> emits P (f a b)) \<Longrightarrow> emits P (case p of (a, b) \<Rightarrow> f a b)"
  by (cases p) auto

lemma emits_mono: "emits P m \<Longrightarrow> (\<And>ev. P ev \<Longrightarrow> Q ev) \<Longrightarrow> emits Q m"
  unfolding emits_def by (metis list_all_iff)

lemma emits_traceD:
  "emits P m \<Longrightarrow> trace (final m w) = trace w @ es \<Longrightarrow> list_all P es"
  unfolding emits_def final_def by (metis same_append_eq)

text \<open>A computation that emits nothing leaves the trace as it is.\<close>

lemma emits_none_trace: "emits (\<lambda>_. False) m \<Longrightarrow> trace (final m w) = trace w"
proof -
  assume "emits (\<lambda>_. False) m"
  then obtain es where es: "trace (snd (m w)) = trace w @ es" "list_all (\<lambda>_. False) es"
    unfolding emits_def by blast
  then have "es = []" by (cases es) auto
  with es show ?thesis by (simp add: final_def)
qed

text \<open>The calls of a run, and how many of them have a given name.\<close>

definition new_events :: "('w, 'a) io \<Rightarrow> 'w world \<Rightarrow> event list" where
  "new_events m w = drop (length (trace w)) (trace (final m w))"

definition count_ev :: "string \<Rightarrow> event list \<Rightarrow> nat" where
  "count_ev n es = length (filter (\<lambda>ev. ev_name ev = n) es)"

lemma count_ev_append [simp]: "count_ev n (xs @ ys) = count_ev n xs + count_ev n ys"
  by (simp add: count_ev_def)

lemma count_ev_Nil [simp]: "count_ev n [] = 0"
  by (simp add: count_ev_def)

lemma count_ev_Cons [simp]:
  "count_ev n (ev # es) = (if ev_name ev = n then Suc (count_ev n es) else count_ev n es)"
  by (simp add: count_ev_def)

lemma emits_new_events: "emits P m \<Longrightarrow> list_all P (new_events m w)"
  unfolding emits_def new_events_def final_def by (metis append_eq_conv_conj)

lemma emits_count_zero:
  assumes "emits (\<lambda>ev. ev_name ev \<noteq> n) m"
  shows "count_ev n (new_events m w) = 0"
proof -
  from assms have "list_all (\<lambda>ev. ev_name ev \<noteq> n) (new_events m w)"
    by (rule emits_new_events)
  then show ?thesis by (simp add: count_ev_def list_all_iff)
qed

section \<open>Which calls broadcast\<close>

text \<open>The calls of the chains' clients that hand a transaction to the network.\<close>

abbreviation broadcast_names :: "string set" where
  "broadcast_names \<equiv> {''eth_sendRawTransaction'', ''sendrawtransaction'', ''/wallet/broadcasttransaction'', ''sendTransaction''}"

definition no_send :: "event \<Rightarrow> bool" where
  "no_send ev \<longleftrightarrow> ev_name ev \<notin> broadcast_names"

definition broadcasts :: "event list \<Rightarrow> event list" where
  "broadcasts es = filter (\<lambda>ev. \<not> no_send ev) es"

lemma broadcasts_append [simp]: "broadcasts (es @ fs) = broadcasts es @ broadcasts fs"
  by (simp add: broadcasts_def)

lemma broadcasts_Nil [simp]: "broadcasts [] = []"
  by (simp add: broadcasts_def)

lemma broadcasts_quiet: "list_all no_send es \<Longrightarrow> broadcasts es = []"
  by (auto simp: broadcasts_def list_all_iff filter_empty_conv)

lemma broadcasts_all: "list_all (\<lambda>ev. ev_name ev \<in> broadcast_names) es \<Longrightarrow> broadcasts es = es"
  by (induction es) (auto simp: broadcasts_def no_send_def)

lemma broadcasts_send [simp]:
  "broadcasts (Ev ''eth_sendRawTransaction'' xs # es) = Ev ''eth_sendRawTransaction'' xs # broadcasts es"
  by (simp add: broadcasts_def no_send_def)

lemma broadcasts_count: "count_ev ''eth_sendRawTransaction'' es \<le> length (broadcasts es)"
  by (induction es) (auto simp: broadcasts_def no_send_def)

lemma emits_step:
  assumes "emits no_send m" "m w = (r, w')"
  obtains es where "trace w' = trace w @ es" "broadcasts es = []"
  using assms broadcasts_quiet unfolding emits_def by (metis snd_conv)

end
