(* ===== verification/Go_Strings.thy ===== *)
theory Go_Strings
  imports Prelude
begin

text \<open>
  The parts of Go's standard library on strings, numbers and hex that the code uses:
  \<open>strings\<close> (TrimPrefix, HasPrefix, TrimSpace, ToLower, EqualFold, Contains, LastIndex,
  Repeat), \<open>encoding/hex\<close>, \<open>strconv\<close> (FormatInt, FormatUint, ParseInt, ParseUint) and
  \<open>math/big\<close> (\<open>String\<close>, \<open>SetString\<close> in base 10 and 16). A Go string is its list of bytes,
  an Isabelle \<open>string\<close>. The case and space functions are the ASCII part of Go's: on bytes
  from 128 up, where Go would decode UTF-8, they leave the byte as it is.
\<close>

section \<open>strings\<close>

definition HasPrefix :: "string \<Rightarrow> string \<Rightarrow> bool" where
  "HasPrefix s p \<longleftrightarrow> take (length p) s = p"

definition TrimPrefix :: "string \<Rightarrow> string \<Rightarrow> string" where
  "TrimPrefix s p = (if HasPrefix s p then drop (length p) s else s)"

definition is_space :: "char \<Rightarrow> bool" where
  "is_space c \<longleftrightarrow> (let n = of_char c :: nat in n = 32 \<or> (9 \<le> n \<and> n \<le> 13))"

definition TrimSpace :: "string \<Rightarrow> string" where
  "TrimSpace s = rev (dropWhile is_space (rev (dropWhile is_space s)))"

definition lower_char :: "char \<Rightarrow> char" where
  "lower_char c = (let n = of_char c :: nat in if 65 \<le> n \<and> n \<le> 90 then char_of (n + 32) else c)"

definition ToLower :: "string \<Rightarrow> string" where
  "ToLower s = map lower_char s"

definition EqualFold :: "string \<Rightarrow> string \<Rightarrow> bool" where
  "EqualFold s t \<longleftrightarrow> ToLower s = ToLower t"

fun Contains :: "string \<Rightarrow> string \<Rightarrow> bool" where
  "Contains [] t = (t = [])"
| "Contains (c # s) t = (HasPrefix (c # s) t \<or> Contains s t)"

text \<open>\<open>LastIndex s [c]\<close>: the last position of a character, \<open>-1\<close> if there is none.\<close>

definition LastIndexByte :: "string \<Rightarrow> char \<Rightarrow> int" where
  "LastIndexByte s c =
     (if c \<in> set s then int (length s) - 1 - int (length (takeWhile (\<lambda>x. x \<noteq> c) (rev s))) else -1)"

text \<open>\<open>strings.Repeat\<close> panics on a negative count.\<close>

definition Repeat :: "string \<Rightarrow> int \<Rightarrow> string go" where
  "Repeat s n = (if n < 0 then Panic else Ret (concat (replicate (nat n) s)))"

fun Join :: "string list \<Rightarrow> string \<Rightarrow> string" where
  "Join [] sep = []"
| "Join [x] sep = x"
| "Join (x # y # xs) sep = x @ sep @ Join (y # xs) sep"

lemma HasPrefix_append [simp]: "HasPrefix (p @ s) p"
  by (simp add: HasPrefix_def)

lemma TrimPrefix_append [simp]: "TrimPrefix (p @ s) p = s"
  by (simp add: TrimPrefix_def)

lemma HasPrefix_iff: "HasPrefix s p \<longleftrightarrow> (\<exists>r. s = p @ r)"
  by (metis HasPrefix_append HasPrefix_def append_take_drop_id)

lemma length_ToLower [simp]: "length (ToLower s) = length s"
  by (simp add: ToLower_def)

lemma ToLower_Nil_iff [simp]: "ToLower s = [] \<longleftrightarrow> s = []"
  by (simp add: ToLower_def)

lemma ToLower_append [simp]: "ToLower (s @ t) = ToLower s @ ToLower t"
  by (simp add: ToLower_def)

lemma of_char_lower:
  "(of_char (lower_char c) :: nat) =
     (let n = of_char c in if 65 \<le> n \<and> n \<le> 90 then n + 32 else n)"
  by (auto simp: lower_char_def Let_def)

lemma lower_char_idem [simp]: "lower_char (lower_char c) = lower_char c"
  by (simp add: lower_char_def Let_def)

lemma ToLower_idem [simp]: "ToLower (ToLower s) = ToLower s"
  by (simp add: ToLower_def)

lemma EqualFold_refl [simp]: "EqualFold s s"
  by (simp add: EqualFold_def)

lemma EqualFold_sym: "EqualFold s t \<Longrightarrow> EqualFold t s"
  by (simp add: EqualFold_def)

lemma TrimSpace_id: "(\<And>c. c \<in> set s \<Longrightarrow> \<not> is_space c) \<Longrightarrow> TrimSpace s = s"
  by (simp add: TrimSpace_def dropWhile_eq_self_iff last_rev hd_rev) (metis dropWhile_eq_self_iff list.set_sel(1) rev_rev_ident set_rev)

lemma set_TrimSpace: "set (TrimSpace s) \<subseteq> set s"
  unfolding TrimSpace_def by (auto dest!: set_dropWhileD)

lemma dropWhile_snoc_stop:
  "\<not> P x \<Longrightarrow> dropWhile P (xs @ [x]) = dropWhile P xs @ [x]"
  by (simp add: dropWhile_append)

lemma TrimSpace_idem [simp]: "TrimSpace (TrimSpace s) = TrimSpace s"
proof -
  let ?t = "dropWhile is_space s"
  have "dropWhile is_space (TrimSpace s) = TrimSpace s"
  proof (cases "TrimSpace s")
    case (Cons c r)
    have "\<exists>u. ?t = TrimSpace s @ u"
      unfolding TrimSpace_def by (metis append_Nil2 rev_append rev_rev_ident takeWhile_dropWhile_id)
    then obtain u where "?t = c # r @ u" using Cons by auto
    then have "\<not> is_space c" by (metis hd_dropWhile list.distinct(1) list.sel(1))
    then show ?thesis using Cons by simp
  qed simp
  moreover have "dropWhile is_space (rev (TrimSpace s)) = rev (TrimSpace s)"
    by (simp add: TrimSpace_def)
  ultimately show ?thesis by (simp add: TrimSpace_def)
qed

lemma Contains_append: "Contains (a @ t @ b) t"
proof (induction a)
  case Nil
  have "HasPrefix (t @ b) t" by simp
  then show ?case by (cases "t @ b") (simp_all add: HasPrefix_def)
next
  case (Cons c a)
  then show ?case by simp
qed

lemma Contains_iff: "Contains s t \<longleftrightarrow> (\<exists>a b. s = a @ t @ b)"
proof
  show "Contains s t \<Longrightarrow> \<exists>a b. s = a @ t @ b"
  proof (induction s)
    case (Cons c s)
    then show ?case by (auto simp: HasPrefix_iff) (metis append_Nil, metis append_Cons)
  qed simp
next
  assume "\<exists>a b. s = a @ t @ b"
  then show "Contains s t" using Contains_append by auto
qed

lemma LastIndexByte_bounds: "-1 \<le> LastIndexByte s c" "LastIndexByte s c < int (length s)"
  using length_takeWhile_le [of "\<lambda>x. x \<noteq> c" "rev s"]
  by (simp_all add: LastIndexByte_def)

section \<open>Digits\<close>

definition digit_char :: "nat \<Rightarrow> char" where
  "digit_char d = (char_of (if d < 10 then 48 + d else 87 + d) :: char)"

definition digit_val :: "char \<Rightarrow> nat option" where
  "digit_val c =
     (let n = of_char c :: nat in
      if 48 \<le> n \<and> n \<le> 57 then Some (n - 48)
      else if 97 \<le> n \<and> n \<le> 102 then Some (n - 87)
      else if 65 \<le> n \<and> n \<le> 70 then Some (n - 55)
      else None)"

lemma of_char_digit_char: "d < 16 \<Longrightarrow> (of_char (digit_char d) :: nat) = (if d < 10 then 48 + d else 87 + d)"
  by (simp add: digit_char_def)

lemma digit_val_digit_char [simp]: "d < 16 \<Longrightarrow> digit_val (digit_char d) = Some d"
  by (simp add: digit_val_def of_char_digit_char Let_def)

lemma digit_val_bound: "digit_val c = Some d \<Longrightarrow> d < 16"
  by (auto simp: digit_val_def Let_def split: if_splits)

lemma digit_char_not_space [simp]: "d < 16 \<Longrightarrow> \<not> is_space (digit_char d)"
  by (simp add: is_space_def of_char_digit_char Let_def)

lemma lower_digit_char [simp]: "d < 16 \<Longrightarrow> lower_char (digit_char d) = digit_char d"
  by (simp add: lower_char_def of_char_digit_char Let_def)

lemma digit_char_neq_sign [simp]:
  assumes "d < 16"
  shows "digit_char d \<noteq> CHR ''-''" "digit_char d \<noteq> CHR ''+''" "digit_char d \<noteq> CHR ''x''"
proof -
  have "(of_char (digit_char d) :: nat) \<noteq> 45" "(of_char (digit_char d) :: nat) \<noteq> 43"
       "(of_char (digit_char d) :: nat) \<noteq> 120"
    using assms by (simp_all add: of_char_digit_char)
  then show "digit_char d \<noteq> CHR ''-''" "digit_char d \<noteq> CHR ''+''" "digit_char d \<noteq> CHR ''x''"
    by auto
qed

text \<open>Digits of a number in a base, most significant first, and back (\<open>nat\<close> values).\<close>

fun digits_of :: "nat \<Rightarrow> nat \<Rightarrow> nat list" where
  "digits_of b n = (if b < 2 \<or> n < b then [n] else digits_of b (n div b) @ [n mod b])"

declare digits_of.simps [simp del]

definition of_digits :: "nat \<Rightarrow> nat list \<Rightarrow> nat" where
  "of_digits b ds = foldl (\<lambda>acc d. acc * b + d) 0 ds"

lemma of_digits_simps [simp]:
  "of_digits b [] = 0"
  "of_digits b (ds @ [d]) = of_digits b ds * b + d"
  by (simp_all add: of_digits_def)

lemma of_digits_single [simp]: "of_digits b [d] = d"
  by (simp add: of_digits_def)

lemma of_digits_append:
  "of_digits b (xs @ ys) = of_digits b xs * b ^ length ys + of_digits b ys"
proof (induction ys rule: rev_induct)
  case (snoc y ys)
  then show ?case
    using of_digits_simps(2) [of b "xs @ ys" y]
    by (simp add: algebra_simps)
qed simp

lemma of_digits_bound:
  "(\<And>d. d \<in> set ds \<Longrightarrow> d < b) \<Longrightarrow> of_digits b ds < b ^ length ds"
proof (induction ds rule: rev_induct)
  case (snoc d ds)
  then have "of_digits b ds < b ^ length ds" and "d < b" by auto
  then have "of_digits b ds + 1 \<le> b ^ length ds" by simp
  then have "(of_digits b ds + 1) * b \<le> b ^ length ds * b" by (rule mult_le_mono1)
  with \<open>d < b\<close> show ?case by (simp add: algebra_simps)
qed simp

lemma of_digits_zeros [simp]: "of_digits b (replicate n 0) = 0"
  by (induction n) (simp_all add: of_digits_def)

lemma of_digits_pad: "of_digits b (replicate n 0 @ ds) = of_digits b ds"
  by (simp add: of_digits_append)

lemma digits_of_nonempty [simp]: "digits_of b n \<noteq> []"
  by (subst digits_of.simps) simp

lemma digits_of_less: "2 \<le> b \<Longrightarrow> d \<in> set (digits_of b n) \<Longrightarrow> d < b"
proof (induction b n arbitrary: d rule: digits_of.induct)
  case (1 b n)
  then show ?case by (subst (asm) (2) digits_of.simps) (auto split: if_splits)
qed

lemma of_digits_digits_of: "2 \<le> b \<Longrightarrow> of_digits b (digits_of b n) = n"
proof (induction b n rule: digits_of.induct)
  case (1 b n)
  then show ?case by (subst digits_of.simps) (simp add: mult.commute)
qed

lemma digits_of_length:
  "2 \<le> b \<Longrightarrow> 0 < k \<Longrightarrow> n < b ^ k \<Longrightarrow> length (digits_of b n) \<le> k"
proof (induction b n arbitrary: k rule: digits_of.induct)
  case (1 b n)
  show ?case
  proof (cases "n < b")
    case True
    with "1.prems" show ?thesis by (subst digits_of.simps) simp
  next
    case False
    obtain j where k: "k = Suc j" using "1.prems"(2) by (cases k) auto
    have "0 < j" using False "1.prems"(3) k by (cases j) auto
    have "n div b < b ^ j"
      using "1.prems"(3) k by (simp add: less_mult_imp_div_less mult.commute)
    then have "length (digits_of b (n div b)) \<le> j"
      using "1.IH" [of j] False "1.prems"(1) \<open>0 < j\<close> by simp
    moreover have "digits_of b n = digits_of b (n div b) @ [n mod b]"
      using False "1.prems"(1) by (simp add: digits_of.simps [of b n])
    ultimately show ?thesis using k by simp
  qed
qed

definition show_nat :: "nat \<Rightarrow> nat \<Rightarrow> string" where
  "show_nat b n = map digit_char (digits_of b n)"

fun read_digits :: "nat \<Rightarrow> string \<Rightarrow> nat list option" where
  "read_digits b [] = Some []"
| "read_digits b (c # s) =
     (case digit_val c of
        None \<Rightarrow> None
      | Some d \<Rightarrow> if d < b then map_option (Cons d) (read_digits b s) else None)"

definition read_nat :: "nat \<Rightarrow> string \<Rightarrow> nat option" where
  "read_nat b s = (if s = [] then None else map_option (of_digits b) (read_digits b s))"

lemma read_digits_map:
  "b \<le> 16 \<Longrightarrow> (\<And>d. d \<in> set ds \<Longrightarrow> d < b) \<Longrightarrow> read_digits b (map digit_char ds) = Some ds"
proof (induction ds)
  case (Cons d ds)
  then have "d < b" by simp
  moreover from this Cons.prems(1) have "d < 16" by (rule order_less_le_trans)
  ultimately show ?case using Cons by simp
qed simp

lemma read_digits_Some:
  "read_digits b s = Some ds \<Longrightarrow> length ds = length s \<and> (\<forall>d \<in> set ds. d < b)"
  by (induction s arbitrary: ds) (auto split: option.splits if_splits)

lemma read_show_nat [simp]: "2 \<le> b \<Longrightarrow> b \<le> 16 \<Longrightarrow> read_nat b (show_nat b n) = Some n"
  by (simp add: read_nat_def show_nat_def read_digits_map digits_of_less of_digits_digits_of)

lemma show_nat_nonempty [simp]: "show_nat b n \<noteq> []"
  by (simp add: show_nat_def)

lemma show_nat_chars:
  "2 \<le> b \<Longrightarrow> b \<le> 16 \<Longrightarrow> c \<in> set (show_nat b n) \<Longrightarrow> \<exists>d < b. c = digit_char d"
  by (auto simp: show_nat_def dest!: digits_of_less)

lemma hd_show_nat:
  assumes "2 \<le> b" "b \<le> 16" obtains d r where "show_nat b n = digit_char d # r" "d < 16"
proof -
  obtain c r where cr: "show_nat b n = c # r" by (cases "show_nat b n") auto
  then have "\<exists>d < b. c = digit_char d" using show_nat_chars [OF assms] by (metis list.set_intros(1))
  with cr assms that show ?thesis by auto
qed

end
