(* ===== verification/Go_Encoding.thy ===== *)
theory Go_Encoding
  imports Go_Strings
begin

text \<open>
  Numbers as bytes and as text: \<open>encoding/binary\<close> (big and little endian), the byte forms of
  \<open>math/big\<close> (\<open>Bytes\<close>, \<open>SetBytes\<close>, \<open>FillBytes\<close>, \<open>Uint64\<close>, \<open>IsUint64\<close>, \<open>IsInt64\<close>),
  \<open>encoding/hex\<close>, the decimal printers and parsers of \<open>strconv\<close> and the formatting verb
  \<open>%064x\<close>. The two byte orders are two interpretations of the locale \<open>byte_codec\<close>, which
  carries the round trips.
\<close>

section \<open>Fixed-width byte encodings\<close>

locale byte_codec =
  fixes enc :: "nat \<Rightarrow> nat \<Rightarrow> byte list"
    and dec :: "byte list \<Rightarrow> nat"
  assumes enc_length: "length (enc n x) = n"
    and dec_enc_mod: "dec (enc n x) = x mod 256 ^ n"
    and enc_dec: "enc (length bs) (dec bs) = bs"
begin

lemma dec_enc: "x < 256 ^ n \<Longrightarrow> dec (enc n x) = x"
  by (simp add: dec_enc_mod)

lemma dec_bound: "dec bs < 256 ^ length bs"
  using dec_enc_mod [of "length bs" "dec bs"] mod_less_divisor [of "256 ^ length bs" "dec bs"]
  by (simp add: enc_dec)

lemma enc_inject:
  "x < 256 ^ n \<Longrightarrow> y < 256 ^ n \<Longrightarrow> enc n x = enc n y \<longleftrightarrow> x = y"
  using dec_enc by metis

lemma dec_inject:
  "length bs = length cs \<Longrightarrow> dec bs = dec cs \<longleftrightarrow> bs = cs"
  using enc_dec by metis

lemma enc_mod: "enc n (x mod 256 ^ n) = enc n x"
  using enc_dec [of "enc n x"] by (simp add: enc_length dec_enc_mod)

end

primrec be_bytes :: "nat \<Rightarrow> nat \<Rightarrow> byte list" where
  "be_bytes 0 x = []"
| "be_bytes (Suc n) x = be_bytes n (x div 256) @ [word_of_nat x]"

definition be_nat :: "byte list \<Rightarrow> nat" where
  "be_nat bs = of_digits 256 (map unat bs)"

primrec le_bytes :: "nat \<Rightarrow> nat \<Rightarrow> byte list" where
  "le_bytes 0 x = []"
| "le_bytes (Suc n) x = word_of_nat x # le_bytes n (x div 256)"

primrec le_nat :: "byte list \<Rightarrow> nat" where
  "le_nat [] = 0"
| "le_nat (b # bs) = unat b + 256 * le_nat bs"

lemma unat_byte_less: "unat (b :: byte) < 256"
  using unsigned_less [of b] by simp

lemma be_nat_simps [simp]:
  "be_nat [] = 0"
  "be_nat (bs @ [b]) = be_nat bs * 256 + unat b"
  by (simp_all add: be_nat_def)

lemma be_nat_append: "be_nat (xs @ ys) = be_nat xs * 256 ^ length ys + be_nat ys"
  by (simp add: be_nat_def of_digits_append)

lemma be_nat_zeros [simp]: "be_nat (replicate n 0) = 0"
  by (simp add: be_nat_def)

lemma length_be_bytes [simp]: "length (be_bytes n x) = n"
  by (induction n arbitrary: x) simp_all

lemma length_le_bytes [simp]: "length (le_bytes n x) = n"
  by (induction n arbitrary: x) simp_all

lemma unat_byte_of_nat: "unat (word_of_nat x :: byte) = x mod 256"
  by (simp add: unat_of_nat)

lemma byte_of_nat_add [simp]: "word_of_nat (256 * n + unat b) = (b :: byte)"
proof -
  have "(word_of_nat (256 * n) :: byte) = 0" by (simp only: word_of_nat_eq_0_iff) simp
  then show ?thesis by (simp only: of_nat_add) simp
qed

lemma unat_byte_div [simp]: "unat (b :: byte) div 256 = 0"
  by (simp add: unat_byte_less)

lemma mod_256_Suc: "(x div 256) mod 256 ^ n * 256 + x mod 256 = x mod (256 :: nat) ^ Suc n"
  by (simp add: mod_mult2_eq mult.commute)

interpretation be: byte_codec be_bytes be_nat
proof
  show "length (be_bytes n x) = n" for n x by simp
  show "be_nat (be_bytes n x) = x mod 256 ^ n" for n x
  proof (induction n arbitrary: x)
    case (Suc n)
    then show ?case by (simp only: be_bytes.simps be_nat_simps unat_byte_of_nat mod_256_Suc)
  qed simp
  show "be_bytes (length bs) (be_nat bs) = bs" for bs
  proof (induction bs rule: rev_induct)
    case (snoc b bs)
    have "(256 * be_nat bs + unat b) div 256 = be_nat bs" by simp
    with snoc show ?case
      by (simp only: be_nat_simps mult.commute [of _ 256] length_append_singleton be_bytes.simps
        byte_of_nat_add)
  qed simp
qed

interpretation le: byte_codec le_bytes le_nat
proof
  show "length (le_bytes n x) = n" for n x by simp
  show "le_nat (le_bytes n x) = x mod 256 ^ n" for n x
  proof (induction n arbitrary: x)
    case (Suc n)
    then show ?case using mod_256_Suc [of x n] by (simp add: unat_byte_of_nat mult.commute add.commute)
  qed simp
  show "le_bytes (length bs) (le_nat bs) = bs" for bs
  proof (induction bs)
    case (Cons b bs)
    have "(256 * le_nat bs + unat b) div 256 = le_nat bs" by simp
    with Cons show ?case
      by (simp only: le_nat.simps add.commute [of "unat b"] list.size add_Suc_right add_0_right
        le_bytes.simps byte_of_nat_add)
  qed simp
qed

lemma be_bytes_zeros: "be_bytes n 0 = replicate n 0"
  by (induction n) (simp_all add: replicate_append_same)

lemma be_bytes_numeral:
  "be_bytes (numeral k) x = be_bytes (pred_numeral k) (x div 256) @ [word_of_nat x]"
  unfolding numeral_eq_Suc [of k] by (rule be_bytes.simps(2))

lemma be_bytes_append:
  "be_bytes (m + n) x = be_bytes m (x div 256 ^ n) @ be_bytes n x"
proof (induction n arbitrary: x)
  case (Suc n)
  have "x div 256 div 256 ^ n = x div 256 ^ Suc n"
    by (simp add: div_mult2_eq)
  with Suc show ?case by simp
qed simp

text \<open>\<open>big.Int.Bytes\<close>: the absolute value, big endian, without leading zeros.\<close>

definition nat_Bytes :: "nat \<Rightarrow> byte list" where
  "nat_Bytes n = (if n = 0 then [] else map word_of_nat (digits_of 256 n))"

definition big_Bytes :: "int \<Rightarrow> byte list" where
  "big_Bytes x = nat_Bytes (nat \<bar>x\<bar>)"

definition big_SetBytes :: "byte list \<Rightarrow> int" where
  "big_SetBytes bs = int (be_nat bs)"

text \<open>\<open>big.Int.FillBytes\<close> on a buffer of \<open>n\<close> bytes panics when the value does not fit.\<close>

definition FillBytes :: "nat \<Rightarrow> int \<Rightarrow> byte list go" where
  "FillBytes n x = (if \<bar>x\<bar> < 256 ^ n then Ret (be_bytes n (nat \<bar>x\<bar>)) else Panic)"

definition left_pad :: "nat \<Rightarrow> byte list \<Rightarrow> byte list" where
  "left_pad n bs = replicate (n - length bs) 0 @ bs"

lemma be_nat_nat_Bytes [simp]: "be_nat (nat_Bytes n) = n"
proof (cases "n = 0")
  case False
  have "map unat (map word_of_nat (digits_of 256 n) :: byte list) = digits_of 256 n"
    by (simp add: unat_byte_of_nat map_idI digits_of_less)
  with False show ?thesis by (simp add: nat_Bytes_def be_nat_def of_digits_digits_of)
qed (simp add: nat_Bytes_def)

lemma big_SetBytes_Bytes: "big_SetBytes (big_Bytes x) = \<bar>x\<bar>"
  by (simp add: big_SetBytes_def big_Bytes_def)

lemma length_nat_Bytes: "n < 256 ^ k \<Longrightarrow> length (nat_Bytes n) \<le> k"
  by (cases k) (auto simp: nat_Bytes_def intro: digits_of_length)

lemma left_pad_length: "length bs \<le> n \<Longrightarrow> length (left_pad n bs) = n"
  by (simp add: left_pad_def)

lemma be_nat_left_pad [simp]: "be_nat (left_pad n bs) = be_nat bs"
  by (simp add: left_pad_def be_nat_append)

text \<open>Padding the minimal form gives the fixed-width form.\<close>

lemma left_pad_nat_Bytes: "n < 256 ^ k \<Longrightarrow> left_pad k (nat_Bytes n) = be_bytes k n"
  using be.enc_dec [of "left_pad k (nat_Bytes n)"]
  by (simp add: left_pad_length length_nat_Bytes)

definition big_Uint64 :: "int \<Rightarrow> u64" where
  "big_Uint64 x = word_of_nat (nat \<bar>x\<bar>)"

definition IsUint64 :: "int \<Rightarrow> bool" where
  "IsUint64 x \<longleftrightarrow> 0 \<le> x \<and> x < 2 ^ 64"

lemma unat_big_Uint64: "IsUint64 x \<Longrightarrow> int (unat (big_Uint64 x)) = x"
  by (simp add: IsUint64_def big_Uint64_def uint_word_of_int)

section \<open>encoding/hex\<close>

definition hex_byte :: "byte \<Rightarrow> string" where
  "hex_byte b = [digit_char (unat b div 16), digit_char (unat b mod 16)]"

definition EncodeToString :: "byte list \<Rightarrow> string" where
  "EncodeToString bs = concat (map hex_byte bs)"

text \<open>
  \<open>hex.DecodeString\<close> returns, next to the error, the bytes decoded before it.
\<close>

definition hex_ErrLength :: goerror where
  "hex_ErrLength = Errorf ''encoding/hex: odd length hex string''"

fun DecodeString :: "string \<Rightarrow> byte list \<times> goerror option" where
  "DecodeString [] = ([], None)"
| "DecodeString [c] =
     (case digit_val c of None \<Rightarrow> ([], Some (InvalidByteError c)) | Some _ \<Rightarrow> ([], Some hex_ErrLength))"
| "DecodeString (a # b # s) =
     (case digit_val a of
        None \<Rightarrow> ([], Some (InvalidByteError a))
      | Some x \<Rightarrow>
          (case digit_val b of
             None \<Rightarrow> ([], Some (InvalidByteError b))
           | Some y \<Rightarrow> (case DecodeString s of (bs, e) \<Rightarrow> (word_of_nat (16 * x + y) # bs, e))))"

definition hex_decode :: "string \<Rightarrow> byte list res" where
  "hex_decode s = (case DecodeString s of (bs, None) \<Rightarrow> Inr bs | (_, Some e) \<Rightarrow> Inl e)"

lemma length_EncodeToString [simp]: "length (EncodeToString bs) = 2 * length bs"
  by (induction bs) (simp_all add: EncodeToString_def hex_byte_def)

lemma EncodeToString_simps [simp]:
  "EncodeToString [] = []"
  "EncodeToString (b # bs) = hex_byte b @ EncodeToString bs"
  "EncodeToString (bs @ cs) = EncodeToString bs @ EncodeToString cs"
  by (simp_all add: EncodeToString_def)

lemma byte_div_16: "unat (b :: byte) div 16 < 16"
  using unat_byte_less [of b] by (simp add: less_mult_imp_div_less)

lemma EncodeToString_Nil_iff [simp]: "EncodeToString bs = [] \<longleftrightarrow> bs = []"
  by (metis length_0_conv length_EncodeToString mult_eq_0_iff zero_neq_numeral)

lemma Decode_Encode [simp]: "DecodeString (EncodeToString bs) = (bs, None)"
proof (induction bs)
  case (Cons b bs)
  then show ?case by (simp add: hex_byte_def byte_div_16)
qed simp

lemma hex_decode_encode [simp]: "hex_decode (EncodeToString bs) = Inr bs"
  by (simp add: hex_decode_def)

lemma hex_decode_length: "hex_decode s = Inr bs \<Longrightarrow> length s = 2 * length bs"
proof (induction s arbitrary: bs rule: DecodeString.induct)
  case (3 a b s)
  then show ?case
    by (fastforce simp: hex_decode_def split: option.splits prod.splits)
qed (auto simp: hex_decode_def split: option.splits)

lemma hex_byte_chars: "c \<in> set (hex_byte b) \<Longrightarrow> \<exists>d < 16. c = digit_char d"
  using byte_div_16 [of b] by (auto simp: hex_byte_def intro: exI [of _ "unat b mod 16"] exI [of _ "unat b div 16"])

lemma EncodeToString_chars: "c \<in> set (EncodeToString bs) \<Longrightarrow> \<exists>d < 16. c = digit_char d"
  by (auto simp: EncodeToString_def dest!: hex_byte_chars)

lemma TrimSpace_EncodeToString [simp]: "TrimSpace (EncodeToString bs) = EncodeToString bs"
  by (rule TrimSpace_id) (auto dest!: EncodeToString_chars)

lemma ToLower_EncodeToString [simp]: "ToLower (EncodeToString bs) = EncodeToString bs"
  unfolding ToLower_def by (rule map_idI) (auto dest!: EncodeToString_chars)

lemma EncodeToString_no_0x [simp]: "\<not> HasPrefix (EncodeToString bs) ''0x''"
proof
  assume "HasPrefix (EncodeToString bs) ''0x''"
  then have "CHR ''x'' \<in> set (EncodeToString bs)" by (auto simp: HasPrefix_iff)
  then show False by (metis EncodeToString_chars digit_char_neq_sign(3))
qed

lemma TrimPrefix_EncodeToString [simp]:
  "TrimPrefix (EncodeToString bs) ''0x'' = EncodeToString bs"
  by (simp add: TrimPrefix_def)

lemma read_digits_hex_byte [simp]:
  "read_digits 16 (hex_byte b @ s) = map_option (\<lambda>ds. unat b div 16 # unat b mod 16 # ds) (read_digits 16 s)"
  by (simp add: hex_byte_def byte_div_16 option.map_comp comp_def)

lemma read_nat_EncodeToString:
  assumes "bs \<noteq> []" shows "read_nat 16 (EncodeToString bs) = Some (be_nat bs)"
proof -
  have "\<exists>ds. read_digits 16 (EncodeToString bs) = Some ds \<and> of_digits 16 ds = be_nat bs \<and> length ds = 2 * length bs"
  proof (induction bs)
    case (Cons b bs)
    then obtain ds where ds: "read_digits 16 (EncodeToString bs) = Some ds"
      "of_digits 16 ds = be_nat bs" "length ds = 2 * length bs" by blast
    have "of_digits 16 ([unat b div 16, unat b mod 16] @ ds) = be_nat ([b] @ bs)"
      unfolding of_digits_append be_nat_append using ds
      by (simp add: of_digits_def be_nat_def power_mult)
    with ds show ?case by simp
  qed simp
  moreover have "EncodeToString bs \<noteq> []" using assms by (cases bs) (simp_all add: hex_byte_def)
  ultimately show ?thesis by (auto simp: read_nat_def)
qed

section \<open>Decimal and hexadecimal text\<close>

definition show_dec :: "nat \<Rightarrow> string" where
  "show_dec n = show_nat 10 n"

text \<open>\<open>strconv.FormatInt(x, 10)\<close> and \<open>big.Int.String\<close>.\<close>

definition FormatInt :: "int \<Rightarrow> string" where
  "FormatInt x = (if x < 0 then CHR ''-'' # show_dec (nat (- x)) else show_dec (nat x))"

definition FormatUint :: "u64 \<Rightarrow> string" where
  "FormatUint x = show_dec (unat x)"

text \<open>\<open>big.Int.SetString(s, base)\<close> for the bases 10 and 16: an optional sign, then digits only.\<close>

fun big_SetString :: "nat \<Rightarrow> string \<Rightarrow> int option" where
  "big_SetString b [] = None"
| "big_SetString b (c # s) =
     (if c = CHR ''-'' then map_option (\<lambda>n. - int n) (read_nat b s)
      else if c = CHR ''+'' then map_option int (read_nat b s)
      else map_option int (read_nat b (c # s)))"

definition ErrSyntax :: "string \<Rightarrow> string \<Rightarrow> goerror" where
  "ErrSyntax fn s = Errorf (''strconv.'' @ fn @ '': parsing '' @ s @ '': invalid syntax'')"

definition ErrRange :: "string \<Rightarrow> string \<Rightarrow> goerror" where
  "ErrRange fn s = Errorf (''strconv.'' @ fn @ '': parsing '' @ s @ '': value out of range'')"

text \<open>\<open>strconv.Quote\<close> and the verb \<open>%q\<close>, for texts of ASCII characters.\<close>

definition escape_char :: "char \<Rightarrow> string" where
  "escape_char c =
     (let n = of_char c :: nat; bs = CHR 0x5C in
      if n = 34 \<or> n = 92 then [bs, c]
      else if n = 7 then [bs, CHR ''a''] else if n = 8 then [bs, CHR ''b'']
      else if n = 9 then [bs, CHR ''t''] else if n = 10 then [bs, CHR ''n'']
      else if n = 11 then [bs, CHR ''v''] else if n = 12 then [bs, CHR ''f'']
      else if n = 13 then [bs, CHR ''r'']
      else if n < 32 \<or> n = 127 then [bs, CHR ''x'', digit_char (n div 16), digit_char (n mod 16)]
      else [c])"

definition quote :: "string \<Rightarrow> string" where
  "quote s = [CHR 0x22] @ concat (map escape_char s) @ [CHR 0x22]"

definition ParseUint :: "string \<Rightarrow> u64 res" where
  "ParseUint s =
     (case read_nat 10 s of
        None \<Rightarrow> Inl (ErrSyntax ''ParseUint'' (quote s))
      | Some n \<Rightarrow> if n < 2 ^ 64 then Inr (word_of_nat n) else Inl (ErrRange ''ParseUint'' (quote s)))"

definition ParseInt :: "string \<Rightarrow> int res" where
  "ParseInt s =
     (case big_SetString 10 s of
        None \<Rightarrow> Inl (ErrSyntax ''ParseInt'' (quote s))
      | Some x \<Rightarrow> if int64_range x then Inr x else Inl (ErrRange ''ParseInt'' (quote s)))"

text \<open>\<open>fmt.Sprintf("%064x", x)\<close>: zero padded to 64 characters, the sign first.\<close>

definition zero_pad :: "nat \<Rightarrow> string \<Rightarrow> string" where
  "zero_pad n s = replicate (n - length s) (CHR ''0'') @ s"

definition fmt_064x :: "int \<Rightarrow> string" where
  "fmt_064x x =
     (if x < 0 then CHR ''-'' # zero_pad 63 (show_nat 16 (nat (- x))) else zero_pad 64 (show_nat 16 (nat x)))"

lemma read_show_dec [simp]: "read_nat 10 (show_dec n) = Some n"
  by (simp add: show_dec_def)

lemma big_SetString_show_nat:
  assumes "2 \<le> b" "b \<le> 16" shows "big_SetString b (show_nat b n) = Some (int n)"
proof -
  obtain d r where dr: "show_nat b n = digit_char d # r" "d < 16"
    using hd_show_nat [OF assms] by metis
  then have "read_nat b (digit_char d # r) = Some n" using read_show_nat [OF assms] by metis
  with dr show ?thesis by simp
qed

lemma big_SetString_FormatInt [simp]: "big_SetString 10 (FormatInt x) = Some x"
proof (cases "x < 0")
  case True
  then show ?thesis by (simp add: FormatInt_def)
next
  case False
  then show ?thesis
    using big_SetString_show_nat [of 10 "nat x"] by (simp add: FormatInt_def show_dec_def)
qed

lemma FormatInt_inject: "FormatInt x = FormatInt y \<longleftrightarrow> x = y"
  by (metis big_SetString_FormatInt option.inject)

lemma FormatInt_nonempty [simp]: "FormatInt x \<noteq> []"
  by (simp add: FormatInt_def show_dec_def)

lemma ParseInt_FormatInt: "int64_range x \<Longrightarrow> ParseInt (FormatInt x) = Inr x"
  by (simp add: ParseInt_def)

lemma ParseInt_range: "ParseInt s = Inr x \<Longrightarrow> int64_range x"
  by (auto simp: ParseInt_def split: option.splits if_splits)

lemma ParseUint_FormatUint [simp]: "ParseUint (FormatUint x) = Inr x"
  using unsigned_less [of x] by (simp add: ParseUint_def FormatUint_def)

lemma FormatInt_chars:
  "c \<in> set (FormatInt x) \<Longrightarrow> c = CHR ''-'' \<or> (\<exists>d < 10. c = digit_char d)"
  by (auto simp: FormatInt_def show_dec_def split: if_splits dest!: show_nat_chars [rotated -1])

lemma TrimSpace_FormatInt [simp]: "TrimSpace (FormatInt x) = FormatInt x"
proof (rule TrimSpace_id)
  fix c assume "c \<in> set (FormatInt x)"
  then consider "c = CHR ''-''" | d where "d < 10" "c = digit_char d"
    using FormatInt_chars by blast
  then show "\<not> is_space c"
  proof cases
    case 1
    then show ?thesis by (simp add: is_space_def)
  next
    case 2
    then show ?thesis by simp
  qed
qed

lemma length_show_nat_16: "n < 16 ^ k \<Longrightarrow> 0 < k \<Longrightarrow> length (show_nat 16 n) \<le> k"
  by (simp add: show_nat_def digits_of_length)

lemma read_digits_zeros:
  "0 < b \<Longrightarrow> read_digits b (replicate n (CHR ''0'') @ s) = map_option (\<lambda>ds. replicate n 0 @ ds) (read_digits b s)"
proof (induction n)
  case (Suc n)
  have "digit_val (CHR ''0'') = Some 0" by (simp add: digit_val_def)
  with Suc show ?case by (simp add: option.map_comp comp_def)
next
  case 0
  show ?case by (cases "read_digits b s") simp_all
qed

lemma read_nat_zero_pad [simp]:
  assumes "s \<noteq> []" "0 < b" shows "read_nat b (zero_pad n s) = read_nat b s"
  using assms
  by (auto simp: read_nat_def zero_pad_def read_digits_zeros option.map_comp comp_def of_digits_pad)

lemma fmt_064x_length: "0 \<le> x \<Longrightarrow> x < 2 ^ 256 \<Longrightarrow> length (fmt_064x x) = 64"
proof -
  assume "0 \<le> x" "x < 2 ^ 256"
  then have "nat x < 16 ^ 64" by (simp add: nat_less_iff)
  then have "length (show_nat 16 (nat x)) \<le> 64" by (rule length_show_nat_16) simp
  with \<open>0 \<le> x\<close> show ?thesis by (simp add: fmt_064x_def zero_pad_def)
qed

lemma read_fmt_064x: "0 \<le> x \<Longrightarrow> read_nat 16 (fmt_064x x) = Some (nat x)"
  by (simp add: fmt_064x_def)

section \<open>Error texts\<close>

text \<open>
  \<open>fmt.Sprintf("%#U", rune(c))\<close>: the code point, and the character in quotes where it is
  printable (for 161 and up in its two-byte UTF-8 form).
\<close>

definition hex_upper :: "nat \<Rightarrow> char" where
  "hex_upper d = (char_of (if d < 10 then 48 + d else 55 + d) :: char)"

definition fmt_U :: "char \<Rightarrow> string" where
  "fmt_U c =
     (let n = of_char c :: nat in
      ''U+00'' @ [hex_upper (n div 16), hex_upper (n mod 16)] @
      (if 32 \<le> n \<and> n < 127 then '' '' @ [CHR 0x27, c, CHR 0x27]
       else if 161 \<le> n \<and> n \<noteq> 173
       then '' '' @ [CHR 0x27, char_of (192 + n div 64), char_of (128 + n mod 64), CHR 0x27]
       else []))"

fun Error :: "goerror \<Rightarrow> string" where
  "Error NotFound = ''not found''"
| "Error (InvalidByteError c) = ''encoding/hex: invalid byte: '' @ fmt_U c"
| "Error (Errorf s) = s"

text \<open>\<open>fmt.Errorf("...: %w", err)\<close>: only the text matters to the callers in this code.\<close>

definition wrap_err :: "string \<Rightarrow> goerror \<Rightarrow> goerror" where
  "wrap_err p e = Errorf (p @ Error e)"

end
