(* ===== verification/Walletapi.thy ===== *)
theory Walletapi
  imports Go_Encoding
begin

text \<open>
  The messages of the gateway's gRPC service (\<open>protobuf/walletapi/walletapi.pb.go\<close>,
  \<open>protobuf/common/common.pb.go\<close>): the fields of each Go struct, without the three bookkeeping
  fields the protobuf runtime adds to every message. All requests but the first start with the
  fields of \<open>chain_request\<close>, which is what the dispatcher's two interfaces \<open>CommonRequest\<close>
  (GetConsumerToken) and \<open>ChainRequest\<close> (GetChainId) read, so each request type extends it. A
  repeated field is a list; the pointers in it are never nil in a decoded message.
\<close>

section \<open>Enumerations\<close>

datatype ReturnCode = SUCCESS | ERROR

datatype TxStatus = TxStatus_NotFound | TxStatus_Pending | TxStatus_Failed | TxStatus_Success | TxStatus_Other

fun status_code :: "TxStatus \<Rightarrow> u32" where
  "status_code TxStatus_NotFound = 0"
| "status_code TxStatus_Pending = 1"
| "status_code TxStatus_Failed = 2"
| "status_code TxStatus_Success = 3"
| "status_code TxStatus_Other = 4"

lemma status_code_inject: "status_code a = status_code b \<longleftrightarrow> a = b"
  by (cases a; cases b) simp_all

text \<open>The status codes order the enumeration.\<close>

instantiation TxStatus :: linorder
begin

definition less_eq_TxStatus :: "TxStatus \<Rightarrow> TxStatus \<Rightarrow> bool" where
  "less_eq_TxStatus a b \<longleftrightarrow> status_code a \<le> status_code b"

definition less_TxStatus :: "TxStatus \<Rightarrow> TxStatus \<Rightarrow> bool" where
  "less_TxStatus a b \<longleftrightarrow> status_code a < status_code b"

instance
  by standard (auto simp: less_eq_TxStatus_def less_TxStatus_def order_less_le status_code_inject)

end

section \<open>Requests\<close>

record common_request =
  ConsumerToken :: string

record chain_request = common_request +
  ChainId :: string
  Network :: string

record PublicKey =
  pk_Type :: string
  pk_PublicKey :: string

record Addresses =
  ad_Address :: string
  ad_PublicKey :: string
  ad_Type :: string

record ConvertAddressesRequest = chain_request +
  car_AddressFormat :: string
  car_PublicKey :: "PublicKey list"

record ValidAddressesRequest = chain_request +
  var_Addresses :: "Addresses list"

record BlockRequest = chain_request +
  br_HashHeight :: string
  br_IsBlockHash :: bool

record BatchBlockRequest = chain_request +
  bbr_NextHeight :: string
  bbr_EndHeight :: string
  bbr_WithTransactions :: bool

record TransactionByHashRequest = chain_request +
  thr_Hash :: string

record TransactionByAddressRequest = chain_request +
  tar_Address :: string
  tar_ContractAddress :: string
  tar_Page :: u64
  tar_PageSize :: u64

record AccountBalanceRequest = chain_request +
  abr_Address :: string
  abr_ContractAddress :: string

record RawTransaction =
  RawTx :: string

record SendTransactionsRequest = chain_request +
  str_RawTx :: "RawTransaction list"

record Base64Transaction =
  Base64Tx :: string

record UnSignTransactionRequest = chain_request +
  utr_Base64Txn :: "Base64Transaction list"

record Base64TransactionWithSignature =
  bts_Base64Tx :: string
  bts_Signature :: string
  bts_PublicKey :: string

record SignedTransactionRequest = chain_request +
  sgr_TxnWithSignature :: "Base64TransactionWithSignature list"

record AddressApproveListRequest = chain_request +
  aar_Address :: string

record SponsoredTransferRequest = chain_request +
  spr_FromAddress :: string
  spr_ToAddress :: string
  spr_Amount :: string
  spr_TokenAddress :: string
  spr_RequestId :: string

record SponsoredTransferSendRequest = chain_request +
  sps_UserOpJson :: string
  sps_AuthSignature :: string
  sps_UserOpSignature :: string

record CallContractRequest = chain_request +
  ccr_ContractAddress :: string
  ccr_Data :: string
  ccr_From :: string

section \<open>Responses\<close>

text \<open>Every response starts with the return code and the message.\<close>

record response =
  Code :: ReturnCode
  Msg :: string

type_synonym CommonReply = response

record SupportChain =
  sc_ChainName :: string
  sc_ChainId :: string
  sc_Network :: string

record SupportChainResponse = response +
  scr_Chains :: "SupportChain list"

record ConvertAddressesResponse = response +
  cvr_Address :: "Addresses list"

record AddressesValid =
  av_Address :: string
  av_Type :: string
  av_Valid :: bool

record ValidAddressesResponse = response +
  AddressValid :: "AddressesValid list"

record LastestBlockResponse = response +
  lb_Height :: u64
  lb_Hash :: string
  lb_ParentHash :: string
  lb_Timestamp :: u64

record FromAddress =
  fa_Address :: string
  fa_Amount :: string

record ToAddress =
  ta_Address :: string
  ta_Amount :: string

record TransactionList =
  TxHash :: string
  Fee :: string
  Status :: u32
  TxType :: u32
  ContractAddress :: string
  From :: "FromAddress list"
  To :: "ToAddress list"
  BlockHash :: string
  BlockHeight :: u64
  LogIndex :: u32
  TransferKind :: string

text \<open>The zero value of the message: what the fields a composite literal omits hold.\<close>

definition zero_TransactionList :: TransactionList where
  "zero_TransactionList =
     \<lparr>TxHash = [], Fee = [], Status = 0, TxType = 0, ContractAddress = [], From = [], To = [],
      BlockHash = [], BlockHeight = 0, LogIndex = 0, TransferKind = []\<rparr>"

record BlockHeaderInfo =
  bhi_Height :: string
  bhi_Hash :: string
  bhi_ParentHash :: string
  bhi_Timestamp :: u64

record BlockWithTransactions =
  bwt_Height :: string
  bwt_Hash :: string
  bwt_ParentHash :: string
  bwt_Timestamp :: u64
  bwt_Transactions :: "TransactionList list"

record BlockResponse = response +
  bkr_Height :: string
  bkr_Hash :: string
  bkr_ParentHash :: string
  bkr_Timestamp :: u64
  bkr_Transactions :: "TransactionList list"

record BatchBlockResponse = response +
  bbp_Headers :: "BlockHeaderInfo list"
  bbp_Blocks :: "BlockWithTransactions list"

record TransactionByHashResponse = response +
  thp_Transaction :: "TransactionList option"

record TransactionByAddressResponse = response +
  tap_Transaction :: "TransactionList list"

record AccountBalanceResponse = response +
  abp_Network :: string
  Balance :: string

record RawTransactionReturn =
  rtr_TxHash :: string
  rtr_IsSuccess :: bool
  rtr_Message :: string

record SendTransactionResponse = response +
  TxnRet :: "RawTransactionReturn list"

record TransactionSchemaResponse = response +
  Schema :: string

record UnsignedTransactionMessageHash =
  UnsignedTx :: string

record UnSignTransactionResponse = response +
  UnsignedTxn :: "UnsignedTransactionMessageHash list"

record SignedTxWithHash =
  stx_SignedTx :: string
  stx_TxHash :: string
  stx_IsSuccess :: bool

record SignedTransactionResponse = response +
  SignedTxn :: "SignedTxWithHash list"

record ApproveContractList =
  acl_Address :: string

record AddressApproveListResponse = response +
  Contracts :: "ApproveContractList list"

record SponsoredTransferBuildResponse = response +
  spb_UserOpHash :: string
  spb_AuthDigest :: string
  spb_UserOpJson :: string

record CallContractResponse = response +
  Result :: string

text \<open>
  Responses with only a code and a message set, one abbreviation per message type: what the
  code's \<open>&walletapi.XResponse{Code: ..., Msg: ...}\<close> literals build.
\<close>

abbreviation convert_rsp :: "ReturnCode \<Rightarrow> string \<Rightarrow> ConvertAddressesResponse" where
  "convert_rsp c m \<equiv> \<lparr>Code = c, Msg = m, cvr_Address = []\<rparr>"

abbreviation valid_rsp :: "ReturnCode \<Rightarrow> string \<Rightarrow> ValidAddressesResponse" where
  "valid_rsp c m \<equiv> \<lparr>Code = c, Msg = m, AddressValid = []\<rparr>"

abbreviation latest_rsp :: "ReturnCode \<Rightarrow> string \<Rightarrow> LastestBlockResponse" where
  "latest_rsp c m \<equiv> \<lparr>Code = c, Msg = m, lb_Height = 0, lb_Hash = [], lb_ParentHash = [], lb_Timestamp = 0\<rparr>"

abbreviation block_rsp :: "ReturnCode \<Rightarrow> string \<Rightarrow> BlockResponse" where
  "block_rsp c m \<equiv> \<lparr>Code = c, Msg = m, bkr_Height = [], bkr_Hash = [], bkr_ParentHash = [],
     bkr_Timestamp = 0, bkr_Transactions = []\<rparr>"

abbreviation batch_rsp :: "ReturnCode \<Rightarrow> string \<Rightarrow> BatchBlockResponse" where
  "batch_rsp c m \<equiv> \<lparr>Code = c, Msg = m, bbp_Headers = [], bbp_Blocks = []\<rparr>"

abbreviation txhash_rsp :: "ReturnCode \<Rightarrow> string \<Rightarrow> TransactionByHashResponse" where
  "txhash_rsp c m \<equiv> \<lparr>Code = c, Msg = m, thp_Transaction = None\<rparr>"

abbreviation txaddr_rsp :: "ReturnCode \<Rightarrow> string \<Rightarrow> TransactionByAddressResponse" where
  "txaddr_rsp c m \<equiv> \<lparr>Code = c, Msg = m, tap_Transaction = []\<rparr>"

abbreviation balance_rsp :: "ReturnCode \<Rightarrow> string \<Rightarrow> string \<Rightarrow> AccountBalanceResponse" where
  "balance_rsp c m b \<equiv> \<lparr>Code = c, Msg = m, abp_Network = [], Balance = b\<rparr>"

abbreviation send_rsp :: "ReturnCode \<Rightarrow> string \<Rightarrow> SendTransactionResponse" where
  "send_rsp c m \<equiv> \<lparr>Code = c, Msg = m, TxnRet = []\<rparr>"

abbreviation schema_rsp :: "ReturnCode \<Rightarrow> string \<Rightarrow> TransactionSchemaResponse" where
  "schema_rsp c m \<equiv> \<lparr>Code = c, Msg = m, Schema = []\<rparr>"

abbreviation unsign_rsp :: "ReturnCode \<Rightarrow> string \<Rightarrow> UnSignTransactionResponse" where
  "unsign_rsp c m \<equiv> \<lparr>Code = c, Msg = m, UnsignedTxn = []\<rparr>"

abbreviation signed_rsp :: "ReturnCode \<Rightarrow> string \<Rightarrow> SignedTransactionResponse" where
  "signed_rsp c m \<equiv> \<lparr>Code = c, Msg = m, SignedTxn = []\<rparr>"

abbreviation approve_rsp :: "ReturnCode \<Rightarrow> string \<Rightarrow> AddressApproveListResponse" where
  "approve_rsp c m \<equiv> \<lparr>Code = c, Msg = m, Contracts = []\<rparr>"

abbreviation sponsor_rsp :: "ReturnCode \<Rightarrow> string \<Rightarrow> SponsoredTransferBuildResponse" where
  "sponsor_rsp c m \<equiv> \<lparr>Code = c, Msg = m, spb_UserOpHash = [], spb_AuthDigest = [], spb_UserOpJson = []\<rparr>"

abbreviation call_rsp :: "ReturnCode \<Rightarrow> string \<Rightarrow> CallContractResponse" where
  "call_rsp c m \<equiv> \<lparr>Code = c, Msg = m, Result = []\<rparr>"

end
