(* ===== verification/Config.thy ===== *)
theory Config
  imports Go_Encoding
begin

text \<open>
  The gateway's configuration (\<open>config/config.go\<close>): its structs and \<open>NewConfig\<close>. Reading the
  file and the YAML decoder are parameters.
\<close>

record Server =
  srv_Port :: string
  srv_Host :: string

record TronSponsor =
  tsp_Address :: string
  tsp_PublicKey :: string
  ActivationTransferSun :: int
  DelegateBalanceSun :: int
  EstimatedEnergy :: int
  JustLendContract :: string

record AAConfig =
  aac_Enabled :: bool
  aac_EntryPoint :: string
  aac_Delegate :: string
  aac_Paymaster :: string
  aac_SponsorAddress :: string
  aac_SponsorPrivateKey :: string
  aac_VerifyingPrivateKey :: string
  aac_ChainIDNumeric :: string

record Node =
  RpcUrl :: string
  RpcUser :: string
  RpcPass :: string
  DataApiUrl :: string
  DataApiKey :: string
  DataApiToken :: string
  ContractAddr :: "string list"
  TpApiUrl :: string
  TimeOut :: u64
  AA :: AAConfig
  Sponsor :: TronSponsor

record WalletNode =
  Btc :: Node
  Eth :: Node
  BNB :: Node
  Arbi :: Node
  Op :: Node
  Sol :: Node
  Base :: Node
  Polygon :: Node
  Tron :: Node

record Chain =
  ch_ChainName :: string
  ch_ChainId :: string
  ch_Network :: string

record Config =
  RpcServer :: Server
  HttpServer :: Server
  cfg_WalletNode :: WalletNode
  NetWork :: string
  Chains :: "Chain list"
  EnableApiCache :: bool
  AccessToken :: string

definition UnsupportedChain :: string where
  "UnsupportedChain = ''Unsupport chain''"

definition UnsupportedOperation :: string where
  "UnsupportedOperation = UnsupportedChain"

text \<open>The two private keys never come from the file: they are written over what was decoded.\<close>

definition set_aa_keys :: "string \<Rightarrow> string \<Rightarrow> Config \<Rightarrow> Config" where
  "set_aa_keys spk vpk c =
     c\<lparr>cfg_WalletNode := (cfg_WalletNode c)\<lparr>BNB := (BNB (cfg_WalletNode c))\<lparr>AA :=
        (AA (BNB (cfg_WalletNode c)))\<lparr>aac_SponsorPrivateKey := spk, aac_VerifyingPrivateKey := vpk\<rparr>\<rparr>\<rparr>\<rparr>"

definition NewConfig ::
  "(string \<Rightarrow> 'w \<Rightarrow> string res \<times> 'w) \<Rightarrow> (string \<Rightarrow> Config res) \<Rightarrow>
   string \<Rightarrow> string \<Rightarrow> string \<Rightarrow> ('w, Config res) io" where
  "NewConfig readFile unmarshal path sponsorPrivateKey verifyingPrivateKey =
     bind_io (ext (Ev ''os.ReadFile'' [path]) (readFile path)) (\<lambda>data.
     ret_io (case data of
         Inl err \<Rightarrow> Inl err
       | Inr bytes \<Rightarrow>
           (case unmarshal bytes of
              Inl err \<Rightarrow> Inl err
            | Inr config \<Rightarrow> Inr (set_aa_keys sponsorPrivateKey verifyingPrivateKey config))))"

lemma set_aa_keys_frame:
  "Chains (set_aa_keys a b c) = Chains c"
  "AccessToken (set_aa_keys a b c) = AccessToken c"
  "RpcServer (set_aa_keys a b c) = RpcServer c"
  by (simp_all add: set_aa_keys_def)

end
