(* ===== verification/Dispatcher.thy ===== *)
theory Dispatcher
  imports Walletapi Config
begin

text \<open>
  The gateway's front end (\<open>chaindispatcher/dispatcher.go\<close>, \<open>chain/chainadaptor.go\<close>): the
  interface every chain implements, the registry of adaptors built from the configuration, the
  interceptor that authenticates every call and contains its panics, and the 16 routed methods.
  The shape all routes share is the locale \<open>route\<close>; its facts are interpreted for each route.
\<close>

section \<open>The chain interface and the dispatcher's state\<close>

record 'w IChainAdaptor =
  ConvertAddresses :: "ConvertAddressesRequest \<Rightarrow> ('w, ConvertAddressesResponse reply) io"
  ValidAddresses :: "ValidAddressesRequest \<Rightarrow> ('w, ValidAddressesResponse reply) io"
  GetLastestBlock :: "chain_request \<Rightarrow> ('w, LastestBlockResponse reply) io"
  GetBlock :: "BlockRequest \<Rightarrow> ('w, BlockResponse reply) io"
  GetBatchBlock :: "BatchBlockRequest \<Rightarrow> ('w, BatchBlockResponse reply) io"
  GetTransactionByHash :: "TransactionByHashRequest \<Rightarrow> ('w, TransactionByHashResponse reply) io"
  GetTransactionByAddress :: "TransactionByAddressRequest \<Rightarrow> ('w, TransactionByAddressResponse reply) io"
  GetAccountBalance :: "AccountBalanceRequest \<Rightarrow> ('w, AccountBalanceResponse reply) io"
  SendTransaction :: "SendTransactionsRequest \<Rightarrow> ('w, SendTransactionResponse reply) io"
  BuildTransactionSchema :: "chain_request \<Rightarrow> ('w, TransactionSchemaResponse reply) io"
  BuildUnSignTransaction :: "UnSignTransactionRequest \<Rightarrow> ('w, UnSignTransactionResponse reply) io"
  BuildSignedTransaction :: "SignedTransactionRequest \<Rightarrow> ('w, SignedTransactionResponse reply) io"
  BuildSponsoredTransfer :: "SponsoredTransferRequest \<Rightarrow> ('w, SponsoredTransferBuildResponse reply) io"
  SendSponsoredTransfer :: "SponsoredTransferSendRequest \<Rightarrow> ('w, SendTransactionResponse reply) io"
  GetAddressApproveList :: "AddressApproveListRequest \<Rightarrow> ('w, AddressApproveListResponse reply) io"
  CallContract :: "CallContractRequest \<Rightarrow> ('w, CallContractResponse reply) io"

record 'w ChainDispatcher =
  conf :: Config
  registry :: "string \<rightharpoonup> 'w IChainAdaptor"

section \<open>Construction\<close>

text \<open>The \<open>ChainID\<close> constants of the five chain packages.\<close>

definition ethereum_ChainID :: string where "ethereum_ChainID = ''DappLinkEthereum''"
definition bitcoin_ChainID :: string where "bitcoin_ChainID = ''DappLinkBitcoin''"
definition solana_ChainID :: string where "solana_ChainID = ''DappLinkSolana''"
definition tron_ChainID :: string where "tron_ChainID = ''DappLinkTron''"
definition bnbchain_ChainID :: string where "bnbchain_ChainID = ''DappLinkBnbChain''"

lemmas chain_id_defs = ethereum_ChainID_def bitcoin_ChainID_def solana_ChainID_def
  tron_ChainID_def bnbchain_ChainID_def

record 'w factories =
  ethereum_New :: "Config \<Rightarrow> ('w, 'w IChainAdaptor res) io"
  bitcoin_New :: "Config \<Rightarrow> ('w, 'w IChainAdaptor res) io"
  solana_New :: "Config \<Rightarrow> ('w, 'w IChainAdaptor res) io"
  tron_New :: "Config \<Rightarrow> ('w, 'w IChainAdaptor res) io"
  bnbchain_New :: "Config \<Rightarrow> ('w, 'w IChainAdaptor res) io"

definition chainAdaptorFactoryMap :: "'w factories \<Rightarrow> string \<rightharpoonup> (Config \<Rightarrow> ('w, 'w IChainAdaptor res) io)" where
  "chainAdaptorFactoryMap fs =
     [ethereum_ChainID \<mapsto> ethereum_New fs, bitcoin_ChainID \<mapsto> bitcoin_New fs,
      solana_ChainID \<mapsto> solana_New fs, tron_ChainID \<mapsto> tron_New fs, bnbchain_ChainID \<mapsto> bnbchain_New fs]"

definition supportedChains :: "string list" where
  "supportedChains = [ethereum_ChainID, bitcoin_ChainID, solana_ChainID, tron_ChainID, bnbchain_ChainID]"

text \<open>
  The loop over the configured chains. \<open>None\<close> is the end of the process: \<open>log.Crit\<close> exits when
  a factory fails. A chain without a factory is logged and skipped; a chain configured twice is
  built twice and the later adaptor stays.
\<close>

primrec register_chains ::
  "'w factories \<Rightarrow> Config \<Rightarrow> Chain list \<Rightarrow> (string \<rightharpoonup> 'w IChainAdaptor) \<Rightarrow>
   ('w, (string \<rightharpoonup> 'w IChainAdaptor) option) io" where
  "register_chains fs cfg [] reg = ret_io (Some reg)"
| "register_chains fs cfg (c # cs) reg =
     (case chainAdaptorFactoryMap fs (ch_ChainId c) of
        None \<Rightarrow> register_chains fs cfg cs reg
      | Some factory \<Rightarrow>
          bind_io (factory cfg) (\<lambda>r. case r of
              Inl err \<Rightarrow> ret_io None
            | Inr adaptor \<Rightarrow> register_chains fs cfg cs (reg(ch_ChainId c \<mapsto> adaptor))))"

definition NewChainDispatcher :: "'w factories \<Rightarrow> Config \<Rightarrow> ('w, 'w ChainDispatcher option) io" where
  "NewChainDispatcher fs cfg =
     bind_io (register_chains fs cfg (Chains cfg) Map.empty) (\<lambda>r.
       ret_io (map_option (\<lambda>reg. \<lparr>conf = cfg, registry = reg\<rparr>) r))"

section \<open>The interceptor\<close>

text \<open>
  The error a client of the service sees: a denied call, a panic the deferred function turned
  into an internal error, or the handler's own error. A denied call also carries a
  \<open>CommonReply\<close> as its response.
\<close>

datatype rpc_error = PermissionDenied string | InternalPanic | HandlerError goerror

datatype 'r rpc_response = CommonResponse CommonReply | Handled 'r

type_synonym 'r rpc_result = "'r rpc_response option \<times> rpc_error option"

definition recover_panic :: "('w, 'r rpc_result) io \<Rightarrow> ('w, 'r rpc_result) io" where
  "recover_panic m = (\<lambda>w. case m w of
      (Panic, w') \<Rightarrow> (Ret (None, Some InternalPanic), w')
    | (Ret r, w') \<Rightarrow> (Ret r, w'))"

text \<open>
  \<open>tokenOf req\<close> is \<open>req.(CommonRequest).GetConsumerToken()\<close>; \<open>None\<close> is a request whose type
  does not implement it, on which the type assertion panics.
\<close>

definition Interceptor ::
  "'w ChainDispatcher \<Rightarrow> ('q \<Rightarrow> string option) \<Rightarrow> string \<Rightarrow> 'q \<Rightarrow> ('q \<Rightarrow> ('w, 'r reply) io) \<Rightarrow>
   ('w, 'r rpc_result) io" where
  "Interceptor d tokenOf fullMethod req handler = recover_panic (
     bind_io (lift_go (slice fullMethod (LastIndexByte fullMethod (CHR ''/'') + 1) (int (length fullMethod))))
       (\<lambda>meth.
     case tokenOf req of
       None \<Rightarrow> panic_io
     | Some consumerToken \<Rightarrow>
         if consumerToken \<noteq> AccessToken (conf d)
         then ret_io (Some (CommonResponse \<lparr>Code = ERROR, Msg = ''Consumer token is not valid''\<rparr>),
                      Some (PermissionDenied ''access denied''))
         else bind_io (handler req) (\<lambda>(resp, err).
                ret_io (map_option Handled resp, map_option HandlerError err))))"

section \<open>The routed methods\<close>

definition preHandler :: "'w ChainDispatcher \<Rightarrow> 'a chain_request_scheme \<Rightarrow> CommonReply option" where
  "preHandler d req =
     (case registry d (ChainId req) of
        None \<Rightarrow> Some \<lparr>Code = ERROR, Msg = UnsupportedOperation\<rparr>
      | Some _ \<Rightarrow> None)"

definition GetSupportChains :: "'w ChainDispatcher \<Rightarrow> common_request \<Rightarrow> ('w, SupportChainResponse reply) io" where
  "GetSupportChains d request = ret_io (okReply
     \<lparr>Code = SUCCESS, Msg = ''success'',
      scr_Chains = map (\<lambda>c. \<lparr>sc_ChainName = ch_ChainName c, sc_ChainId = ch_ChainId c,
                             sc_Network = ch_Network c\<rparr>) (Chains (conf d))\<rparr>)"

text \<open>
  \<open>d.registry[request.ChainId].M(ctx, request)\<close>: a call through a nil interface value panics.
\<close>

definition invoke ::
  "'w ChainDispatcher \<Rightarrow> string \<Rightarrow> ('w IChainAdaptor \<Rightarrow> ('w, 'r reply) io) \<Rightarrow> ('w, 'r reply) io" where
  "invoke d chainId meth = (case registry d chainId of None \<Rightarrow> panic_io | Some a \<Rightarrow> meth a)"

definition d_ConvertAddresses :: "'w ChainDispatcher \<Rightarrow> ConvertAddressesRequest \<Rightarrow> ('w, ConvertAddressesResponse reply) io" where
  "d_ConvertAddresses d request = (case preHandler d request of
      Some resp \<Rightarrow> ret_io (okReply (convert_rsp ERROR ''failed to convert addresses''))
    | None \<Rightarrow> invoke d (ChainId request) (\<lambda>a. ConvertAddresses a request))"

definition d_ValidAddresses :: "'w ChainDispatcher \<Rightarrow> ValidAddressesRequest \<Rightarrow> ('w, ValidAddressesResponse reply) io" where
  "d_ValidAddresses d request = (case preHandler d request of
      Some resp \<Rightarrow> ret_io (okReply (valid_rsp ERROR ''failed to convert addresses''))
    | None \<Rightarrow> invoke d (ChainId request) (\<lambda>a. ValidAddresses a request))"

definition d_GetLastestBlock :: "'w ChainDispatcher \<Rightarrow> chain_request \<Rightarrow> ('w, LastestBlockResponse reply) io" where
  "d_GetLastestBlock d request = (case preHandler d request of
      Some resp \<Rightarrow> ret_io (okReply (latest_rsp ERROR ''get lastest block failed''))
    | None \<Rightarrow> invoke d (ChainId request) (\<lambda>a. GetLastestBlock a request))"

definition d_GetBlock :: "'w ChainDispatcher \<Rightarrow> BlockRequest \<Rightarrow> ('w, BlockResponse reply) io" where
  "d_GetBlock d request = (case preHandler d request of
      Some resp \<Rightarrow> ret_io (okReply (block_rsp ERROR ''get block info failed''))
    | None \<Rightarrow> invoke d (ChainId request) (\<lambda>a. GetBlock a request))"

definition d_GetBatchBlock :: "'w ChainDispatcher \<Rightarrow> BatchBlockRequest \<Rightarrow> ('w, BatchBlockResponse reply) io" where
  "d_GetBatchBlock d request = (case preHandler d request of
      Some resp \<Rightarrow> ret_io (okReply (batch_rsp ERROR ''get batch block info failed''))
    | None \<Rightarrow> invoke d (ChainId request) (\<lambda>a. GetBatchBlock a request))"

definition d_GetTransactionByHash :: "'w ChainDispatcher \<Rightarrow> TransactionByHashRequest \<Rightarrow> ('w, TransactionByHashResponse reply) io" where
  "d_GetTransactionByHash d request = (case preHandler d request of
      Some resp \<Rightarrow> ret_io (okReply (txhash_rsp ERROR ''get transaction by hash failed''))
    | None \<Rightarrow> invoke d (ChainId request) (\<lambda>a. GetTransactionByHash a request))"

definition d_GetTransactionByAddress :: "'w ChainDispatcher \<Rightarrow> TransactionByAddressRequest \<Rightarrow> ('w, TransactionByAddressResponse reply) io" where
  "d_GetTransactionByAddress d request = (case preHandler d request of
      Some resp \<Rightarrow> ret_io (okReply (txaddr_rsp ERROR ''get transaction by address failed''))
    | None \<Rightarrow> invoke d (ChainId request) (\<lambda>a. GetTransactionByAddress a request))"

definition d_GetAccountBalance :: "'w ChainDispatcher \<Rightarrow> AccountBalanceRequest \<Rightarrow> ('w, AccountBalanceResponse reply) io" where
  "d_GetAccountBalance d request = (case preHandler d request of
      Some resp \<Rightarrow> ret_io (okReply (balance_rsp ERROR ''get account balance failed'' []))
    | None \<Rightarrow> invoke d (ChainId request) (\<lambda>a. GetAccountBalance a request))"

definition d_SendTransaction :: "'w ChainDispatcher \<Rightarrow> SendTransactionsRequest \<Rightarrow> ('w, SendTransactionResponse reply) io" where
  "d_SendTransaction d request = (case preHandler d request of
      Some resp \<Rightarrow> ret_io (okReply (send_rsp ERROR ''send transaction failed''))
    | None \<Rightarrow> invoke d (ChainId request) (\<lambda>a. SendTransaction a request))"

definition d_BuildTransactionSchema :: "'w ChainDispatcher \<Rightarrow> chain_request \<Rightarrow> ('w, TransactionSchemaResponse reply) io" where
  "d_BuildTransactionSchema d request = (case preHandler d request of
      Some resp \<Rightarrow> ret_io (okReply (schema_rsp ERROR ''build transaction schema failed''))
    | None \<Rightarrow> invoke d (ChainId request) (\<lambda>a. BuildTransactionSchema a request))"

definition d_BuildUnSignTransaction :: "'w ChainDispatcher \<Rightarrow> UnSignTransactionRequest \<Rightarrow> ('w, UnSignTransactionResponse reply) io" where
  "d_BuildUnSignTransaction d request = (case preHandler d request of
      Some resp \<Rightarrow> ret_io (okReply (unsign_rsp ERROR ''build unsigned transaction failed''))
    | None \<Rightarrow> invoke d (ChainId request) (\<lambda>a. BuildUnSignTransaction a request))"

definition d_BuildSignedTransaction :: "'w ChainDispatcher \<Rightarrow> SignedTransactionRequest \<Rightarrow> ('w, SignedTransactionResponse reply) io" where
  "d_BuildSignedTransaction d request = (case preHandler d request of
      Some resp \<Rightarrow> ret_io (okReply (signed_rsp ERROR ''build signed transaction failed''))
    | None \<Rightarrow> invoke d (ChainId request) (\<lambda>a. BuildSignedTransaction a request))"

definition d_GetAddressApproveList :: "'w ChainDispatcher \<Rightarrow> AddressApproveListRequest \<Rightarrow> ('w, AddressApproveListResponse reply) io" where
  "d_GetAddressApproveList d request = (case preHandler d request of
      Some resp \<Rightarrow> ret_io (okReply (approve_rsp ERROR ''get address approve list failed''))
    | None \<Rightarrow> invoke d (ChainId request) (\<lambda>a. GetAddressApproveList a request))"

definition d_BuildSponsoredTransfer :: "'w ChainDispatcher \<Rightarrow> SponsoredTransferRequest \<Rightarrow> ('w, SponsoredTransferBuildResponse reply) io" where
  "d_BuildSponsoredTransfer d request = (case preHandler d request of
      Some resp \<Rightarrow> ret_io (okReply (sponsor_rsp ERROR ''build sponsored transfer failed''))
    | None \<Rightarrow> invoke d (ChainId request) (\<lambda>a. BuildSponsoredTransfer a request))"

definition d_SendSponsoredTransfer :: "'w ChainDispatcher \<Rightarrow> SponsoredTransferSendRequest \<Rightarrow> ('w, SendTransactionResponse reply) io" where
  "d_SendSponsoredTransfer d request = (case preHandler d request of
      Some resp \<Rightarrow> ret_io (okReply (send_rsp ERROR ''send sponsored transfer failed''))
    | None \<Rightarrow> invoke d (ChainId request) (\<lambda>a. SendSponsoredTransfer a request))"

definition d_CallContract :: "'w ChainDispatcher \<Rightarrow> CallContractRequest \<Rightarrow> ('w, CallContractResponse reply) io" where
  "d_CallContract d request = (case preHandler d request of
      Some resp \<Rightarrow> ret_io (okReply (call_rsp ERROR ''call contract failed''))
    | None \<Rightarrow> invoke d (ChainId request) (\<lambda>a. CallContract a request))"

lemmas route_defs = preHandler_def invoke_def d_ConvertAddresses_def d_ValidAddresses_def
  d_GetLastestBlock_def d_GetBlock_def d_GetBatchBlock_def d_GetTransactionByHash_def
  d_GetTransactionByAddress_def d_GetAccountBalance_def d_SendTransaction_def
  d_BuildTransactionSchema_def d_BuildUnSignTransaction_def d_BuildSignedTransaction_def
  d_GetAddressApproveList_def d_BuildSponsoredTransfer_def d_SendSponsoredTransfer_def
  d_CallContract_def

section \<open>What the registry holds\<close>

lemma dom_factory_map: "dom (chainAdaptorFactoryMap fs) = set supportedChains"
  by (auto simp: chainAdaptorFactoryMap_def supportedChains_def)

text \<open>One step of the loop, where the chain has a factory and the process goes on.\<close>

lemma register_step:
  assumes "chainAdaptorFactoryMap fs (ch_ChainId c) = Some factory"
    and "register_chains fs cfg (c # cs) reg w = (Ret (Some reg'), w')"
  obtains a w1 where "factory cfg w = (Ret (Inr a), w1)"
    and "register_chains fs cfg cs (reg(ch_ChainId c \<mapsto> a)) w1 = (Ret (Some reg'), w')"
proof -
  from assms obtain r w1 where f: "factory cfg w = (Ret r, w1)"
    and k: "(case r of Inl err \<Rightarrow> ret_io None
      | Inr a \<Rightarrow> register_chains fs cfg cs (reg(ch_ChainId c \<mapsto> a))) w1 = (Ret (Some reg'), w')"
    by (auto simp: bind_io_Ret_iff simp del: fun_upd_apply)
  from k f that show thesis by (cases r) simp_all
qed

lemma register_chains_dom:
  "register_chains fs cfg cs reg w = (Ret (Some reg'), w') \<Longrightarrow>
   dom reg' = dom reg \<union> (ch_ChainId ` set cs \<inter> set supportedChains)"
proof (induction cs arbitrary: reg w)
  case Nil
  then show ?case by simp
next
  case (Cons c cs)
  show ?case
  proof (cases "chainAdaptorFactoryMap fs (ch_ChainId c)")
    case None
    then have "ch_ChainId c \<notin> set supportedChains"
      using dom_factory_map [of fs] by (auto simp: domIff)
    moreover from None Cons.prems have "register_chains fs cfg cs reg w = (Ret (Some reg'), w')"
      by simp
    ultimately show ?thesis using Cons.IH by simp
  next
    case (Some factory)
    then have "ch_ChainId c \<in> set supportedChains"
      using dom_factory_map [of fs] by blast
    moreover obtain a w1 where
      "register_chains fs cfg cs (reg(ch_ChainId c \<mapsto> a)) w1 = (Ret (Some reg'), w')"
      using register_step [OF Some Cons.prems] by blast
    moreover from this have
      "dom reg' = dom (reg(ch_ChainId c \<mapsto> a)) \<union> ch_ChainId ` set cs \<inter> set supportedChains"
      by (rule Cons.IH)
    ultimately show ?thesis by (simp del: fun_upd_apply)
  qed
qed

lemma register_chains_origin:
  "register_chains fs cfg cs reg w = (Ret (Some reg'), w') \<Longrightarrow> reg' k = Some a \<Longrightarrow>
   reg k = Some a \<or>
   (\<exists>factory w1 w2. chainAdaptorFactoryMap fs k = Some factory \<and> factory cfg w1 = (Ret (Inr a), w2))"
proof (induction cs arbitrary: reg w)
  case Nil
  then show ?case by simp
next
  case (Cons c cs)
  show ?case
  proof (cases "chainAdaptorFactoryMap fs (ch_ChainId c)")
    case None
    with Cons.prems have "register_chains fs cfg cs reg w = (Ret (Some reg'), w')" by simp
    from Cons.IH [OF this Cons.prems(2)] show ?thesis .
  next
    case (Some factory)
    obtain b w1 where b: "factory cfg w = (Ret (Inr b), w1)"
      and r: "register_chains fs cfg cs (reg(ch_ChainId c \<mapsto> b)) w1 = (Ret (Some reg'), w')"
      using register_step [OF Some Cons.prems(1)] by blast
    from Cons.IH [OF r Cons.prems(2)] b Some show ?thesis by (auto split: if_splits)
  qed
qed

text \<open>Behind the interceptor a call does what its handler does, and nothing with another token.\<close>

lemma intercepted_final:
  "final (Interceptor d tokenOf m req handler) w =
     (if tokenOf req = Some (AccessToken (conf d)) then final (handler req) w else w)"
proof -
  have "slice m (LastIndexByte m (CHR ''/'') + 1) (int (length m)) \<noteq> Panic"
    using LastIndexByte_bounds [of m "CHR ''/''"] by (simp add: slice_def)
  then obtain meth where "slice m (LastIndexByte m (CHR ''/'') + 1) (int (length m)) = Ret meth"
    by (cases "slice m (LastIndexByte m (CHR ''/'') + 1) (int (length m))") auto
  then show ?thesis
    by (cases "tokenOf req")
       (simp_all add: final_def Interceptor_def recover_panic_def bind_io_apply
             split: prod.splits go.splits)
qed

lemma intercepted_events:
  "new_events (Interceptor d tokenOf m req handler) w =
     (if tokenOf req = Some (AccessToken (conf d)) then new_events (handler req) w else [])"
  by (simp add: new_events_def intercepted_final)

section \<open>The contract of a route\<close>

locale route =
  fixes handle :: "'w ChainDispatcher \<Rightarrow> 'q chain_request_scheme \<Rightarrow> ('w, 'r reply) io"
    and call :: "'w IChainAdaptor \<Rightarrow> 'q chain_request_scheme \<Rightarrow> ('w, 'r reply) io"
    and reject :: 'r
  assumes handle_registered: "registry d (ChainId req) = Some a \<Longrightarrow> handle d req = call a req"
    and handle_unregistered: "registry d (ChainId req) = None \<Longrightarrow> handle d req = ret_io (okReply reject)"
begin

lemma rejected_silently:
  "registry d (ChainId req) = None \<Longrightarrow> handle d req w = (Ret (okReply reject), w)"
  by (simp add: handle_unregistered)

lemma emits_handle:
  "(\<And>a. registry d (ChainId req) = Some a \<Longrightarrow> emits P (call a req)) \<Longrightarrow> emits P (handle d req)"
  by (cases "registry d (ChainId req)") (simp_all add: handle_registered handle_unregistered)

text \<open>A routed call panics only where the chain's own handler does.\<close>

lemma panics_only_in_adaptor:
  "result (handle d req) w = Panic \<Longrightarrow>
   \<exists>a. registry d (ChainId req) = Some a \<and> result (call a req) w = Panic"
  by (cases "registry d (ChainId req)")
     (simp_all add: handle_registered handle_unregistered result_def)

text \<open>
  Behind the interceptor, a call with a valid token for a registered chain is the chain's own
  answer, or the internal error where that answer is a panic.
\<close>

lemma intercepted_call:
  assumes "tokenOf req = Some (AccessToken (conf d))" and "registry d (ChainId req) = Some a"
  shows "Interceptor d tokenOf m req (handle d) w =
    (case call a req w of
       (Ret (resp, err), w') \<Rightarrow> (Ret (map_option Handled resp, map_option HandlerError err), w')
     | (Panic, w') \<Rightarrow> (Ret (None, Some InternalPanic), w'))"
proof -
  have "slice m (LastIndexByte m (CHR ''/'') + 1) (int (length m)) \<noteq> Panic"
    using LastIndexByte_bounds [of m "CHR ''/''"] by (simp add: slice_def)
  then obtain meth where "slice m (LastIndexByte m (CHR ''/'') + 1) (int (length m)) = Ret meth"
    by (cases "slice m (LastIndexByte m (CHR ''/'') + 1) (int (length m))") auto
  with assms show ?thesis
    by (simp add: Interceptor_def recover_panic_def bind_io_apply handle_registered
             split: prod.splits go.splits)
qed

end

interpretation convert: route d_ConvertAddresses ConvertAddresses "convert_rsp ERROR ''failed to convert addresses''"
  by unfold_locales (simp_all add: route_defs)
interpretation valid: route d_ValidAddresses ValidAddresses "valid_rsp ERROR ''failed to convert addresses''"
  by unfold_locales (simp_all add: route_defs)
interpretation latest: route d_GetLastestBlock GetLastestBlock "latest_rsp ERROR ''get lastest block failed''"
  by unfold_locales (simp_all add: route_defs)
interpretation block: route d_GetBlock GetBlock "block_rsp ERROR ''get block info failed''"
  by unfold_locales (simp_all add: route_defs)
interpretation batch: route d_GetBatchBlock GetBatchBlock "batch_rsp ERROR ''get batch block info failed''"
  by unfold_locales (simp_all add: route_defs)
interpretation txhash: route d_GetTransactionByHash GetTransactionByHash "txhash_rsp ERROR ''get transaction by hash failed''"
  by unfold_locales (simp_all add: route_defs)
interpretation txaddr: route d_GetTransactionByAddress GetTransactionByAddress "txaddr_rsp ERROR ''get transaction by address failed''"
  by unfold_locales (simp_all add: route_defs)
interpretation balance: route d_GetAccountBalance GetAccountBalance "balance_rsp ERROR ''get account balance failed'' []"
  by unfold_locales (simp_all add: route_defs)
interpretation send: route d_SendTransaction SendTransaction "send_rsp ERROR ''send transaction failed''"
  by unfold_locales (simp_all add: route_defs)
interpretation schema: route d_BuildTransactionSchema BuildTransactionSchema "schema_rsp ERROR ''build transaction schema failed''"
  by unfold_locales (simp_all add: route_defs)
interpretation unsign: route d_BuildUnSignTransaction BuildUnSignTransaction "unsign_rsp ERROR ''build unsigned transaction failed''"
  by unfold_locales (simp_all add: route_defs)
interpretation signed: route d_BuildSignedTransaction BuildSignedTransaction "signed_rsp ERROR ''build signed transaction failed''"
  by unfold_locales (simp_all add: route_defs)
interpretation approve: route d_GetAddressApproveList GetAddressApproveList "approve_rsp ERROR ''get address approve list failed''"
  by unfold_locales (simp_all add: route_defs)
interpretation sponsor: route d_BuildSponsoredTransfer BuildSponsoredTransfer "sponsor_rsp ERROR ''build sponsored transfer failed''"
  by unfold_locales (simp_all add: route_defs)
interpretation sponsored_send: route d_SendSponsoredTransfer SendSponsoredTransfer "send_rsp ERROR ''send sponsored transfer failed''"
  by unfold_locales (simp_all add: route_defs)
interpretation callc: route d_CallContract CallContract "call_rsp ERROR ''call contract failed''"
  by unfold_locales (simp_all add: route_defs)

section \<open>The properties of the front end\<close>

text \<open>
  A concrete dispatcher without chains, and one with a chain whose \<open>SendTransaction\<close> makes an
  external call and answers; every other handler of it panics.
\<close>

definition sample_config :: "Chain list \<Rightarrow> Config" where
  "sample_config cs =
     (let aa = \<lparr>aac_Enabled = False, aac_EntryPoint = [], aac_Delegate = [], aac_Paymaster = [],
                aac_SponsorAddress = [], aac_SponsorPrivateKey = [], aac_VerifyingPrivateKey = [],
                aac_ChainIDNumeric = []\<rparr>;
          sp = \<lparr>tsp_Address = [], tsp_PublicKey = [], ActivationTransferSun = 0, DelegateBalanceSun = 0,
                EstimatedEnergy = 0, JustLendContract = []\<rparr>;
          n = \<lparr>RpcUrl = [], RpcUser = [], RpcPass = [], DataApiUrl = [], DataApiKey = [], DataApiToken = [],
               ContractAddr = [], TpApiUrl = [], TimeOut = 0, AA = aa, Sponsor = sp\<rparr>;
          srv = \<lparr>srv_Port = [], srv_Host = []\<rparr> in
      \<lparr>RpcServer = srv, HttpServer = srv,
       cfg_WalletNode = \<lparr>Btc = n, Eth = n, BNB = n, Arbi = n, Op = n, Sol = n, Base = n, Polygon = n, Tron = n\<rparr>,
       NetWork = ''mainnet'', Chains = cs, EnableApiCache = False, AccessToken = ''secret''\<rparr>)"

definition sample_adaptor :: "unit IChainAdaptor" where
  "sample_adaptor =
     \<lparr>ConvertAddresses = \<lambda>_. panic_io, ValidAddresses = \<lambda>_. panic_io, GetLastestBlock = \<lambda>_. panic_io,
      GetBlock = \<lambda>_. panic_io, GetBatchBlock = \<lambda>_. panic_io, GetTransactionByHash = \<lambda>_. panic_io,
      GetTransactionByAddress = \<lambda>_. panic_io, GetAccountBalance = \<lambda>_. panic_io,
      SendTransaction = \<lambda>_. ext (Ev ''send'' []) (\<lambda>e. (okReply (send_rsp SUCCESS ''sent''), e)),
      BuildTransactionSchema = \<lambda>_. panic_io, BuildUnSignTransaction = \<lambda>_. panic_io,
      BuildSignedTransaction = \<lambda>_. panic_io, BuildSponsoredTransfer = \<lambda>_. panic_io,
      SendSponsoredTransfer = \<lambda>_. panic_io, GetAddressApproveList = \<lambda>_. panic_io,
      CallContract = \<lambda>_. panic_io\<rparr>"

definition sample_dispatcher :: "(string \<rightharpoonup> unit IChainAdaptor) \<Rightarrow> unit ChainDispatcher" where
  "sample_dispatcher reg = \<lparr>conf = sample_config [], registry = reg\<rparr>"

definition sample_factories :: "unit factories" where
  "sample_factories =
     \<lparr>ethereum_New = \<lambda>_. ret_io (Inr sample_adaptor), bitcoin_New = \<lambda>_. ret_io (Inr sample_adaptor),
      solana_New = \<lambda>_. ret_io (Inr sample_adaptor), tron_New = \<lambda>_. ret_io (Inr sample_adaptor),
      bnbchain_New = \<lambda>_. ret_io (Inr sample_adaptor)\<rparr>"

definition sample_send :: SendTransactionsRequest where
  "sample_send = \<lparr>ConsumerToken = ''secret'', ChainId = ''DappLinkTron'', Network = ''mainnet'', str_RawTx = []\<rparr>"

lemma sample_token [simp]: "AccessToken (sample_config cs) = ''secret''"
  by (simp add: sample_config_def Let_def)

lemma sample_chains [simp]: "Chains (sample_config cs) = cs"
  by (simp add: sample_config_def Let_def)

text \<open>
  C2. Access control: a call whose consumer token is not the configured one never reaches a
  handler. Whatever the handler, the answer is the denied call with its \<open>CommonReply\<close>, and no
  external call is made: the world is unchanged.
\<close>

theorem wrong_token_denied:
  assumes "tokenOf req = Some t" and "t \<noteq> AccessToken (conf d)"
  shows "Interceptor d tokenOf fullMethod req handler w =
    (Ret (Some (CommonResponse \<lparr>Code = ERROR, Msg = ''Consumer token is not valid''\<rparr>),
          Some (PermissionDenied ''access denied'')), w)"
proof -
  have "slice fullMethod (LastIndexByte fullMethod (CHR ''/'') + 1) (int (length fullMethod)) \<noteq> Panic"
    using LastIndexByte_bounds [of fullMethod "CHR ''/''"] by (simp add: slice_def)
  then obtain m where "slice fullMethod (LastIndexByte fullMethod (CHR ''/'') + 1) (int (length fullMethod)) = Ret m"
    by (cases "slice fullMethod (LastIndexByte fullMethod (CHR ''/'') + 1) (int (length fullMethod))") auto
  with assms show ?thesis by (simp add: Interceptor_def recover_panic_def)
qed

theorem wrong_token_denied_witness:
  "Interceptor (sample_dispatcher Map.empty) Some ''/a/b'' ''guess''
     (\<lambda>_. ext (Ev ''send'' []) (\<lambda>e. (okReply (), e))) \<lparr>env = (), trace = []\<rparr> =
    (Ret (Some (CommonResponse \<lparr>Code = ERROR, Msg = ''Consumer token is not valid''\<rparr>),
          Some (PermissionDenied ''access denied'')), \<lparr>env = (), trace = []\<rparr>)"
  by (rule wrong_token_denied [where t = "''guess''"]) (simp_all add: sample_dispatcher_def)

text \<open>
  C22. Panic containment: whatever the request, its type and the handler, the intercepted call
  returns. It returns the internal error exactly where the handler is reached and panics, or the
  request has no consumer token.
\<close>

theorem panics_contained:
  "\<exists>r. result (Interceptor d tokenOf fullMethod req handler) w = Ret r \<and>
       (snd r = Some InternalPanic \<longleftrightarrow>
          (tokenOf req = None \<or>
           tokenOf req = Some (AccessToken (conf d)) \<and> result (handler req) w = Panic))"
proof -
  have "slice fullMethod (LastIndexByte fullMethod (CHR ''/'') + 1) (int (length fullMethod)) \<noteq> Panic"
    using LastIndexByte_bounds [of fullMethod "CHR ''/''"] by (simp add: slice_def)
  then obtain m where "slice fullMethod (LastIndexByte fullMethod (CHR ''/'') + 1) (int (length fullMethod)) = Ret m"
    by (cases "slice fullMethod (LastIndexByte fullMethod (CHR ''/'') + 1) (int (length fullMethod))") auto
  then show ?thesis
    by (auto simp: Interceptor_def recover_panic_def result_def bind_io_apply
             split: option.splits prod.splits go.splits)
qed

text \<open>
  A request for a chain that no adaptor is registered for is answered by every one of the 16
  routes, with an error code, without an error, a panic or an external call.
\<close>

theorem unregistered_chain_rejected:
  assumes "registry d c = None"
  shows "(\<forall>r. ChainId r = c \<longrightarrow> d_ConvertAddresses d r w = (Ret (okReply (convert_rsp ERROR ''failed to convert addresses'')), w)) \<and>
    (\<forall>r. ChainId r = c \<longrightarrow> d_ValidAddresses d r w = (Ret (okReply (valid_rsp ERROR ''failed to convert addresses'')), w)) \<and>
    (\<forall>r. ChainId r = c \<longrightarrow> d_GetLastestBlock d r w = (Ret (okReply (latest_rsp ERROR ''get lastest block failed'')), w)) \<and>
    (\<forall>r. ChainId r = c \<longrightarrow> d_GetBlock d r w = (Ret (okReply (block_rsp ERROR ''get block info failed'')), w)) \<and>
    (\<forall>r. ChainId r = c \<longrightarrow> d_GetBatchBlock d r w = (Ret (okReply (batch_rsp ERROR ''get batch block info failed'')), w)) \<and>
    (\<forall>r. ChainId r = c \<longrightarrow> d_GetTransactionByHash d r w = (Ret (okReply (txhash_rsp ERROR ''get transaction by hash failed'')), w)) \<and>
    (\<forall>r. ChainId r = c \<longrightarrow> d_GetTransactionByAddress d r w = (Ret (okReply (txaddr_rsp ERROR ''get transaction by address failed'')), w)) \<and>
    (\<forall>r. ChainId r = c \<longrightarrow> d_GetAccountBalance d r w = (Ret (okReply (balance_rsp ERROR ''get account balance failed'' [])), w)) \<and>
    (\<forall>r. ChainId r = c \<longrightarrow> d_SendTransaction d r w = (Ret (okReply (send_rsp ERROR ''send transaction failed'')), w)) \<and>
    (\<forall>r. ChainId r = c \<longrightarrow> d_BuildTransactionSchema d r w = (Ret (okReply (schema_rsp ERROR ''build transaction schema failed'')), w)) \<and>
    (\<forall>r. ChainId r = c \<longrightarrow> d_BuildUnSignTransaction d r w = (Ret (okReply (unsign_rsp ERROR ''build unsigned transaction failed'')), w)) \<and>
    (\<forall>r. ChainId r = c \<longrightarrow> d_BuildSignedTransaction d r w = (Ret (okReply (signed_rsp ERROR ''build signed transaction failed'')), w)) \<and>
    (\<forall>r. ChainId r = c \<longrightarrow> d_GetAddressApproveList d r w = (Ret (okReply (approve_rsp ERROR ''get address approve list failed'')), w)) \<and>
    (\<forall>r. ChainId r = c \<longrightarrow> d_BuildSponsoredTransfer d r w = (Ret (okReply (sponsor_rsp ERROR ''build sponsored transfer failed'')), w)) \<and>
    (\<forall>r. ChainId r = c \<longrightarrow> d_SendSponsoredTransfer d r w = (Ret (okReply (send_rsp ERROR ''send sponsored transfer failed'')), w)) \<and>
    (\<forall>r. ChainId r = c \<longrightarrow> d_CallContract d r w = (Ret (okReply (call_rsp ERROR ''call contract failed'')), w))"
  using assms
  by (intro conjI allI impI)
     (simp_all only: convert.rejected_silently valid.rejected_silently latest.rejected_silently
       block.rejected_silently batch.rejected_silently txhash.rejected_silently
       txaddr.rejected_silently balance.rejected_silently send.rejected_silently
       schema.rejected_silently unsign.rejected_silently signed.rejected_silently
       approve.rejected_silently sponsor.rejected_silently sponsored_send.rejected_silently
       callc.rejected_silently)

theorem unregistered_chain_rejected_witness:
  "d_SendTransaction (sample_dispatcher Map.empty) sample_send \<lparr>env = (), trace = []\<rparr> =
     (Ret (okReply (send_rsp ERROR ''send transaction failed'')), \<lparr>env = (), trace = []\<rparr>)"
  using unregistered_chain_rejected [of "sample_dispatcher Map.empty" "''DappLinkTron''" "\<lparr>env = (), trace = []\<rparr>"]
  by (simp add: sample_dispatcher_def sample_send_def)

text \<open>
  C23. Construction: when every factory succeeds, the registry holds exactly the chains that are
  both configured and supported, and each adaptor in it was built by the factory of its own chain.
\<close>

theorem registry_of_new_dispatcher:
  assumes "NewChainDispatcher fs cfg w = (Ret (Some d), w')"
  shows "dom (registry d) = ch_ChainId ` set (Chains cfg) \<inter> set supportedChains \<and> conf d = cfg \<and>
    (\<forall>k a. registry d k = Some a \<longrightarrow>
      (\<exists>factory w1 w2. chainAdaptorFactoryMap fs k = Some factory \<and> factory cfg w1 = (Ret (Inr a), w2)))"
proof -
  from assms obtain reg where r: "register_chains fs cfg (Chains cfg) Map.empty w = (Ret (Some reg), w')"
    and d: "d = \<lparr>conf = cfg, registry = reg\<rparr>"
    by (auto simp: NewChainDispatcher_def bind_io_Ret_iff)
  from register_chains_dom [OF r] register_chains_origin [OF r] d show ?thesis by auto
qed

theorem registry_of_new_dispatcher_witness:
  "\<exists>d. fst (NewChainDispatcher sample_factories
        (sample_config [\<lparr>ch_ChainName = ''Tron'', ch_ChainId = ''DappLinkTron'', ch_Network = ''mainnet''\<rparr>,
                        \<lparr>ch_ChainName = ''Doge'', ch_ChainId = ''Doge'', ch_Network = ''mainnet''\<rparr>])
        \<lparr>env = (), trace = []\<rparr>) = Ret (Some d) \<and> dom (registry d) = {''DappLinkTron''}"
proof -
  let ?cfg = "sample_config [\<lparr>ch_ChainName = ''Tron'', ch_ChainId = ''DappLinkTron'', ch_Network = ''mainnet''\<rparr>,
                             \<lparr>ch_ChainName = ''Doge'', ch_ChainId = ''Doge'', ch_Network = ''mainnet''\<rparr>]"
  have "NewChainDispatcher sample_factories ?cfg \<lparr>env = (), trace = []\<rparr> =
    (Ret (Some \<lparr>conf = ?cfg, registry = [''DappLinkTron'' \<mapsto> sample_adaptor]\<rparr>), \<lparr>env = (), trace = []\<rparr>)"
    by (simp add: NewChainDispatcher_def sample_factories_def chainAdaptorFactoryMap_def chain_id_defs
      bind_io_apply)
  from registry_of_new_dispatcher [OF this] this show ?thesis
    by (simp add: supportedChains_def chain_id_defs)
qed

text \<open>
  End to end: with the configured token and a registered chain, what the client of
  \<open>SendTransaction\<close> receives, and the external calls made, are exactly those of the chain's own
  \<open>SendTransaction\<close> on the request, an internal error standing for its panic.
\<close>

theorem send_end_to_end:
  assumes "ConsumerToken req = AccessToken (conf d)" and "registry d (ChainId req) = Some a"
  shows "Interceptor d (\<lambda>r. Some (ConsumerToken r)) ''/WalletApi/sendTransaction'' req (d_SendTransaction d) w =
    (case SendTransaction a req w of
       (Ret (resp, err), w') \<Rightarrow> (Ret (map_option Handled resp, map_option HandlerError err), w')
     | (Panic, w') \<Rightarrow> (Ret (None, Some InternalPanic), w'))"
  using assms by (intro send.intercepted_call) simp_all

theorem send_end_to_end_witness:
  "Interceptor (sample_dispatcher [''DappLinkTron'' \<mapsto> sample_adaptor]) (\<lambda>r. Some (ConsumerToken r))
     ''/WalletApi/sendTransaction'' sample_send
     (d_SendTransaction (sample_dispatcher [''DappLinkTron'' \<mapsto> sample_adaptor])) \<lparr>env = (), trace = []\<rparr> =
   (Ret (Some (Handled (send_rsp SUCCESS ''sent'')), None), \<lparr>env = (), trace = [Ev ''send'' []]\<rparr>)"
  by (subst send_end_to_end [where a = sample_adaptor])
     (simp_all add: sample_dispatcher_def sample_send_def sample_adaptor_def ext_apply okReply_def)

end
