(* ===== verification/Evm_Types.thy ===== *)
theory Evm_Types
  imports Go_Encoding
begin

text \<open>
  The types of the EVM chains: what the code uses of \<open>go-ethereum\<close>, and the interfaces and data of
  \<open>chain/evmbase/ethclient.go\<close>.

  \<open>go-ethereum\<close> is not part of the repository. Its functions are the fields of the record \<open>geth\<close>,
  an argument of every definition that calls them; what the documentation of its packages
  \<open>common\<close>, \<open>common/hexutil\<close> and \<open>crypto\<close> says of them, as far as a theorem needs it, is
  \<open>geth_ok\<close>. Its data types are records of the fields and observers the code reads.
\<close>

section \<open>go-ethereum\<close>

record geth =
  IsHexAddress :: "string \<Rightarrow> bool"
  HexToAddress :: "string \<Rightarrow> address"
  AddressHex :: "address \<Rightarrow> string"       \<comment> \<open>\<open>Address.Hex\<close>, \<open>Address.String\<close>\<close>
  BytesToAddress :: "byte list \<Rightarrow> address"
  HexToHash :: "string \<Rightarrow> hash"
  HashHex :: "hash \<Rightarrow> string"             \<comment> \<open>\<open>Hash.Hex\<close>, \<open>Hash.String\<close>\<close>
  LeftPadBytes :: "byte list \<Rightarrow> nat \<Rightarrow> byte list"
  RightPadBytes :: "byte list \<Rightarrow> nat \<Rightarrow> byte list"
  Keccak256 :: "byte list \<Rightarrow> hash"        \<comment> \<open>\<open>crypto.Keccak256Hash\<close> of the joined arguments\<close>
  DecodeUint64 :: "string \<Rightarrow> u64 res"     \<comment> \<open>\<open>hexutil\<close>\<close>
  EncodeBig :: "int \<Rightarrow> string"            \<comment> \<open>\<open>hexutil\<close>\<close>
  BlockNumberString :: "int \<Rightarrow> string"    \<comment> \<open>\<open>rpc.BlockNumber(n).String()\<close>\<close>
  ParsePubKey :: "byte list \<Rightarrow> address res" \<comment> \<open>\<open>btcec.ParsePubKey\<close>, then \<open>crypto.PubkeyToAddress\<close>\<close>

text \<open>The bytes of an address and of a hash, and the values of byte strings cropped from the left.\<close>

definition addr_bytes :: "address \<Rightarrow> byte list" where
  "addr_bytes a = be_bytes 20 (unat a)"

definition hash_bytes :: "hash \<Rightarrow> byte list" where
  "hash_bytes h = be_bytes 32 (unat h)"

definition crop_address :: "byte list \<Rightarrow> address" where
  "crop_address bs = word_of_nat (be_nat bs)"

text \<open>
  The documented behaviour the theorems rely on: the hex form of an address is a hex address
  that reads back as the address; \<open>HexToAddress\<close> and \<open>BytesToAddress\<close> crop from the left; padding
  is with zeros, on the left.
\<close>

definition geth_ok :: "geth \<Rightarrow> bool" where
  "geth_ok G \<longleftrightarrow>
     (\<forall>a. IsHexAddress G (AddressHex G a)) \<and>
     (\<forall>a. HexToAddress G (AddressHex G a) = a) \<and>
     (\<forall>bs. HexToAddress G (EncodeToString bs) = crop_address bs) \<and>
     (\<forall>bs. BytesToAddress G bs = crop_address bs) \<and>
     (\<forall>h. HexToHash G (HashHex G h) = h) \<and>
     (\<forall>h. HexToAddress G (HashHex G h) = ucast h) \<and>
     (\<forall>bs n. LeftPadBytes G bs n = left_pad n bs)"

lemma geth_okD:
  assumes "geth_ok G"
  shows "IsHexAddress G (AddressHex G a)" "HexToAddress G (AddressHex G a) = a"
    "HexToAddress G (EncodeToString bs) = crop_address bs" "BytesToAddress G bs = crop_address bs"
    "HexToHash G (HashHex G h) = h" "HexToAddress G (HashHex G h) = ucast h"
    "LeftPadBytes G bs n = left_pad n bs"
  using assms by (simp_all add: geth_ok_def)

lemma AddressHex_inject:
  "geth_ok G \<Longrightarrow> AddressHex G a = AddressHex G b \<longleftrightarrow> a = b"
  by (metis geth_okD(2))

lemma length_addr_bytes [simp]: "length (addr_bytes a) = 20"
  by (simp add: addr_bytes_def)

lemma length_hash_bytes [simp]: "length (hash_bytes h) = 32"
  by (simp add: hash_bytes_def)

lemma unat_address_bound: "unat (a :: address) < 256 ^ 20"
  using unsigned_less [of a] by simp

lemma unat_hash_bound: "unat (h :: hash) < 256 ^ 32"
  using unsigned_less [of h] by simp

lemma be_nat_addr_bytes [simp]: "be_nat (addr_bytes a) = unat a"
  unfolding addr_bytes_def by (rule be.dec_enc) (rule unat_address_bound)

lemma be_nat_hash_bytes [simp]: "be_nat (hash_bytes h) = unat h"
  unfolding hash_bytes_def by (rule be.dec_enc) (rule unat_hash_bound)

lemma crop_addr_bytes [simp]: "crop_address (addr_bytes a) = a"
  by (simp add: crop_address_def)

lemma addr_bytes_inject [simp]: "addr_bytes a = addr_bytes b \<longleftrightarrow> a = b"
  by (metis crop_addr_bytes)

lemma hash_bytes_inject [simp]: "hash_bytes a = hash_bytes b \<longleftrightarrow> a = b"
  by (metis be_nat_hash_bytes unsigned_word_eqI)

text \<open>Left padding does not change a cropped address.\<close>

lemma crop_left_pad [simp]: "crop_address (left_pad n bs) = crop_address bs"
  by (simp add: crop_address_def)

section \<open>Blocks, transactions, receipts\<close>

record Header =
  hdr_Number :: "int option"
  hdr_ParentHash :: hash
  hdr_Time :: u64
  hdr_BaseFee :: "int option"
  hdr_Hash :: hash  \<comment> \<open>the value of the method \<open>Hash\<close>\<close>

record EvmTransactionList =
  etl_From :: string
  etl_To :: string
  etl_Hash :: string
  etl_Value :: string
  etl_Input :: string
  etl_GasPrice :: string

record RpcBlock =
  rb_Hash :: hash
  rb_ParentHash :: hash
  rb_Number :: string
  rb_Transactions :: "EvmTransactionList list"
  rb_BaseFee :: string
  rb_Timestamp :: string

definition NumberUint64 :: "geth \<Rightarrow> RpcBlock \<Rightarrow> u64 res" where
  "NumberUint64 G b = DecodeUint64 G (rb_Number b)"

definition TimestampUint64 :: "geth \<Rightarrow> RpcBlock \<Rightarrow> u64 res" where
  "TimestampUint64 G b = DecodeUint64 G (rb_Timestamp b)"

record Log =
  lg_Address :: address
  lg_Topics :: "hash list"
  lg_Data :: "byte list"
  lg_Index :: u64

record Receipt =
  rc_Status :: u64
  rc_Logs :: "Log option list"
  rc_TxHash :: hash
  rc_ContractAddress :: address
  rc_GasUsed :: u64
  rc_EffectiveGasPrice :: "int option"
  rc_BlockHash :: hash
  rc_BlockNumber :: "int option"

text \<open>
  \<open>types.Transaction\<close> is opaque; \<open>tx_Sender\<close> is the value of \<open>types.Sender\<close> for the latest signer
  of the transaction's chain id.
\<close>

record Transaction =
  tx_Hash :: hash
  tx_To :: "address option"
  tx_Value :: int
  tx_Data :: "byte list"
  tx_Sender :: "address res"

record CallMsg =
  cm_From :: address
  cm_To :: "address option"
  cm_Data :: "byte list"

record DynamicFeeTx =
  df_ChainID :: int
  df_Nonce :: u64
  df_GasTipCap :: int
  df_GasFeeCap :: int
  df_Gas :: u64
  df_To :: address
  df_Value :: int
  df_Data :: "byte list"

record Eip1559DynamicFeeTx =
  e1_ChainId :: string
  e1_FromAddress :: string
  e1_ToAddress :: string
  e1_Amount :: string
  e1_ContractAddress :: string
  e1_Signature :: string

section \<open>The client interface\<close>

text \<open>
  \<open>EthClient\<close>: the calls the adaptors make. A method that returns \<open>(*T, error)\<close> is a \<open>res\<close>: the only
  implementation (\<open>clnt\<close>) never returns a nil pointer without an error, so the callers' extra
  checks for nil after \<open>err == nil\<close> have no effect.
\<close>

record 'w EthClient =
  BlockHeaderByNumber :: "int option \<Rightarrow> ('w, Header res) io"
  BlockHeaderByHash :: "hash \<Rightarrow> ('w, Header res) io"
  BlockHeadersByRange :: "int \<Rightarrow> int \<Rightarrow> u64 \<Rightarrow> ('w, Header list res) io"
  BlocksByRange :: "int \<Rightarrow> int \<Rightarrow> u64 \<Rightarrow> ('w, RpcBlock list res) io"
  BlockByNumber :: "int option \<Rightarrow> ('w, RpcBlock res) io"
  BlockByHash :: "hash \<Rightarrow> ('w, RpcBlock res) io"
  TxCountByAddress :: "address \<Rightarrow> ('w, u64 res) io"
  SuggestGasPrice :: "('w, int res) io"
  SuggestGasTipCap :: "('w, int res) io"
  SendRawTransaction :: "string \<Rightarrow> ('w, hash res) io"
  TxByHash :: "hash \<Rightarrow> ('w, Transaction res) io"
  TxReceiptByHash :: "hash \<Rightarrow> ('w, Receipt res) io"
  BlockReceiptsByNumber :: "int option \<Rightarrow> ('w, Receipt option list res) io"
  EthGetCode :: "address \<Rightarrow> ('w, string res) io"
  GetBalance :: "address \<Rightarrow> ('w, int res) io"
  GetTransactionAccount :: "address \<Rightarrow> ('w, int res) io"
  eth_CallContract :: "CallMsg \<Rightarrow> ('w, byte list res) io"
  eth_Close :: "('w, unit) io"

definition NativeToken :: string where
  "NativeToken = ''0xeeeeeeeeeeeeeeeeeeeeeeeeeeeeeeeeeeeeeeee''"

definition IsEthTransfer :: "Eip1559DynamicFeeTx \<Rightarrow> bool" where
  "IsEthTransfer tx =
     (if e1_ContractAddress tx = [] \<or> e1_ContractAddress tx = NativeToken then True else False)"

section \<open>A concrete instance\<close>

text \<open>
  An instance of \<open>geth\<close> for the witnesses: lower-case hex without the checksum, and a toy hash
  (the value of the bytes).
\<close>

definition strip0x :: "string \<Rightarrow> string" where
  "strip0x s = (if HasPrefix s ''0x'' \<or> HasPrefix s ''0X'' then drop 2 s else s)"

definition sample_geth :: geth where
  "sample_geth =
     \<lparr>IsHexAddress = \<lambda>s. length (strip0x s) = 40 \<and> snd (DecodeString (strip0x s)) = None,
      HexToAddress = \<lambda>s. crop_address (fst (DecodeString (strip0x s))),
      AddressHex = \<lambda>a. ''0x'' @ EncodeToString (addr_bytes a),
      BytesToAddress = crop_address,
      HexToHash = \<lambda>s. word_of_nat (be_nat (fst (DecodeString (strip0x s)))),
      HashHex = \<lambda>h. ''0x'' @ EncodeToString (hash_bytes h),
      LeftPadBytes = \<lambda>bs n. left_pad n bs,
      RightPadBytes = \<lambda>bs n. bs @ replicate (n - length bs) 0,
      Keccak256 = \<lambda>bs. word_of_nat (be_nat bs),
      DecodeUint64 = \<lambda>s. (case read_nat 16 (strip0x s) of
          None \<Rightarrow> Inl (Errorf ''invalid hex string'') | Some n \<Rightarrow> Inr (word_of_nat n)),
      EncodeBig = \<lambda>x. ''0x'' @ show_nat 16 (nat x),
      BlockNumberString = \<lambda>_. ''pending'',
      ParsePubKey = \<lambda>bs. if length bs = 33 then Inr (crop_address bs) else Inl (Errorf ''malformed public key'')\<rparr>"

lemma strip0x_simps [simp]:
  "strip0x (''0x'' @ s) = s" "strip0x (EncodeToString bs) = EncodeToString bs"
proof -
  have "\<not> HasPrefix (EncodeToString bs) ''0X''"
  proof
    assume "HasPrefix (EncodeToString bs) ''0X''"
    then have "CHR ''X'' \<in> set (EncodeToString bs)" by (auto simp: HasPrefix_iff)
    then obtain d where "d < 16" "CHR ''X'' = digit_char d" using EncodeToString_chars by blast
    then have "digit_val (CHR ''X'') = Some d" by simp
    then show False by (simp add: digit_val_def)
  qed
  then show "strip0x (EncodeToString bs) = EncodeToString bs" by (simp add: strip0x_def)
  show "strip0x (''0x'' @ s) = s" by (simp add: strip0x_def HasPrefix_def)
qed

lemma sample_geth_ok [simp]: "geth_ok sample_geth"
proof -
  have "word_of_nat (unat h) = (ucast h :: address)" for h :: hash
    by simp
  moreover have "strip0x (CHR ''0'' # CHR ''x'' # s) = s" for s
    using strip0x_simps(1) [of s] by simp
  ultimately show ?thesis
    by (simp add: geth_ok_def sample_geth_def crop_address_def)
qed

end
