(* ===== verification/AA_UserOp.thy ===== *)
theory AA_UserOp
  imports Evm_Types
begin

unbundle bit_operations_syntax

text \<open>
  Account abstraction, the data: user operations, their packed form and hash, the paymaster's data
  and signature, the addresses of the configuration (\<open>chain/evmbase/aa/userop.go\<close>, \<open>paymaster.go\<close>,
  \<open>signature.go\<close>, \<open>addresses.go\<close>, \<open>auth7702.go\<close>, \<open>entrypoint.go\<close>). A \<open>*big.Int\<close> of a user operation
  may be nil (it comes from the client's JSON), so it is an \<open>int option\<close>.

  The ABI encoder, the ECDSA functions, the types of \<open>core/types\<close> and \<open>uint256\<close>, and the JSON codec
  are the fields of the record \<open>aalib\<close>; \<open>'k\<close> is the type of private keys, \<open>'x\<close> of signed transactions.
\<close>

section \<open>Operations\<close>

record UserOperation =
  Sender :: address
  Nonce :: "int option"
  InitCode :: "byte list"
  CallData :: "byte list"
  VerificationGasLimit :: "int option"
  CallGasLimit :: "int option"
  PreVerificationGas :: "int option"
  MaxFeePerGas :: "int option"
  MaxPriorityFeePerGas :: "int option"
  Paymaster :: address
  PaymasterData :: "byte list"
  PaymasterSignature :: "byte list"
  Signature :: "byte list"
  EntryPoint :: address
  ChainID :: "int option"
  AuthNonce :: u64
  Delegate :: address
  RequestID :: string

record PackedUserOperation =
  p_Sender :: address
  p_Nonce :: int
  p_InitCode :: "byte list"
  p_CallData :: "byte list"
  p_AccountGasLimits :: "byte list"
  p_PreVerificationGas :: int
  p_GasFees :: "byte list"
  p_PaymasterAndData :: "byte list"
  p_Signature :: "byte list"

record aaConfig =
  Enabled :: bool
  cfg_EntryPoint :: address
  cfg_Delegate :: address
  cfg_Paymaster :: address
  SponsorAddress :: address
  SponsorPrivateKey :: string
  VerifyingPrivateKey :: string
  cfg_ChainID :: int

record SetCodeAuthorization =
  auth_ChainID :: "256 word"
  auth_Address :: address
  auth_Nonce :: u64
  auth_V :: byte
  auth_R :: "256 word"
  auth_S :: "256 word"

record SetCodeTx =
  sc_ChainID :: "256 word"
  sc_Nonce :: u64
  sc_GasTipCap :: "256 word"
  sc_GasFeeCap :: "256 word"
  sc_Gas :: u64
  sc_To :: address
  sc_Value :: "256 word"
  sc_Data :: "byte list"
  sc_AuthList :: "SetCodeAuthorization list"

text \<open>The values the code hands to \<open>abi.Arguments.Pack\<close> or to a method's encoder.\<close>

datatype abi_arg = ABytes32 "byte list" | AAddress address | AUint256 int | AOps "PackedUserOperation list"

record ('k, 'x) aalib =
  AbiPack :: "abi_arg list \<Rightarrow> byte list res"
  AbiUnpack2 :: "byte list \<Rightarrow> (int \<times> int) res"  \<comment> \<open>two \<open>uint256\<close> values\<close>
  AbiMethod :: "string \<Rightarrow> abi_arg list \<Rightarrow> byte list res"
  HexToECDSA :: "string \<Rightarrow> 'k res"
  PubkeyToAddress :: "'k \<Rightarrow> address"
  FromECDSA :: "'k \<Rightarrow> byte list"
  ToECDSA :: "byte list \<Rightarrow> 'k res"
  Sign :: "byte list \<Rightarrow> 'k \<Rightarrow> byte list res"
  SigToPub :: "byte list \<Rightarrow> byte list \<Rightarrow> address res" \<comment> \<open>the address of the recovered key\<close>
  SigHash :: "SetCodeAuthorization \<Rightarrow> hash"
  uint256_FromBig :: "int \<Rightarrow> 256 word \<times> bool"
  SignNewTx :: "'k \<Rightarrow> int \<Rightarrow> SetCodeTx \<Rightarrow> 'x res"
  MarshalBinary :: "'x \<Rightarrow> byte list res"
  json_Marshal :: "UserOperation \<Rightarrow> string res"
  json_Unmarshal :: "string \<Rightarrow> UserOperation res"

section \<open>Constants\<close>

text \<open>\<open>common.FromHex("0x7702")\<close> and \<open>common.Hex2Bytes(PaymasterSigMagic)\<close>.\<close>

definition InitCodeEIP7702Marker :: "byte list" where
  "InitCodeEIP7702Marker = [0x77, 0x02]"

definition PaymasterSigMagic :: "byte list" where
  "PaymasterSigMagic = [0x22, 0xe3, 0x25, 0xa2, 0x97, 0x43, 0x96, 0x56]"

definition DefaultVerificationGas :: int where "DefaultVerificationGas = 150000"
definition DefaultCallGas :: int where "DefaultCallGas = 120000"
definition DefaultPreVerificationGas :: int where "DefaultPreVerificationGas = 50000"
definition DefaultPaymasterVerifyGas :: u64 where "DefaultPaymasterVerifyGas = 100000"
definition DefaultPaymasterPostOpGas :: u64 where "DefaultPaymasterPostOpGas = 50000"

definition ascii_bytes :: "string \<Rightarrow> byte list" where
  "ascii_bytes s = map (\<lambda>c. word_of_nat (of_char c)) s"

definition packedUserOpTypeHash :: "geth \<Rightarrow> hash" where
  "packedUserOpTypeHash G = Keccak256 G (ascii_bytes
     ''PackedUserOperation(address sender,uint256 nonce,bytes initCode,bytes callData,bytes32 accountGasLimits,uint256 preVerificationGas,bytes32 gasFees,bytes paymasterAndData)'')"

definition eip712DomainTypeHash :: "geth \<Rightarrow> hash" where
  "eip712DomainTypeHash G = Keccak256 G (ascii_bytes
     ''EIP712Domain(string name,string version,uint256 chainId,address verifyingContract)'')"

definition paymasterSigPlaceholder :: "byte list" where
  "paymasterSigPlaceholder = [0]"

text \<open>The documented ABI encoding of two \<open>uint256\<close> values: two big-endian words.\<close>

definition abi_window_ok :: "('k, 'x) aalib \<Rightarrow> bool" where
  "abi_window_ok L \<longleftrightarrow>
     (\<forall>x y. 0 \<le> x \<and> x < 2 ^ 256 \<and> 0 \<le> y \<and> y < 2 ^ 256 \<longrightarrow>
        AbiPack L [AUint256 x, AUint256 y] = Inr (be_bytes 32 (nat x) @ be_bytes 32 (nat y)) \<and>
        AbiUnpack2 L (be_bytes 32 (nat x) @ be_bytes 32 (nat y)) = Inr (x, y))"

section \<open>Packing\<close>

text \<open>A nil \<open>*big.Int\<close> panics where its value is read.\<close>

definition deref :: "'a option \<Rightarrow> 'a go" where
  "deref p = (case p of None \<Rightarrow> Panic | Some x \<Rightarrow> Ret x)"

definition PackUint128s :: "int option \<Rightarrow> int option \<Rightarrow> byte list go" where
  "PackUint128s high low =
     bind_go (deref high) (\<lambda>hi.
     bind_go (deref low) (\<lambda>lo.
       FillBytes 32 (push_bit 128 hi OR lo)))"

definition packUint128Bytes :: "u64 \<Rightarrow> byte list" where
  "packUint128Bytes v = replicate 8 0 @ be_bytes 8 (unat v)"

definition PackPaymasterAndData :: "address \<Rightarrow> byte list \<Rightarrow> byte list \<Rightarrow> bool \<Rightarrow> byte list" where
  "PackPaymasterAndData paymaster paymasterData paymasterSig forSigning =
     (if paymaster = 0 then []
      else
        (let out = addr_bytes paymaster @ packUint128Bytes DefaultPaymasterVerifyGas @
                   packUint128Bytes DefaultPaymasterPostOpGas @ paymasterData in
         if length paymasterSig > 0 \<and> \<not> forSigning
         then out @ paymasterSig @ be_bytes 2 (unat (word_of_nat (length paymasterSig) :: u16)) @ PaymasterSigMagic
         else if forSigning \<and> length paymasterSig > 0 then out @ PaymasterSigMagic
         else out))"

definition PackUserOp :: "UserOperation \<Rightarrow> bool \<Rightarrow> PackedUserOperation go" where
  "PackUserOp op forSigning =
     (let paymasterAndData = PackPaymasterAndData (Paymaster op) (PaymasterData op) (PaymasterSignature op) forSigning;
          initCode = (if length (InitCode op) = 0 then InitCodeEIP7702Marker else InitCode op) in
      bind_go (deref (Nonce op)) (\<lambda>nonce.
      bind_go (PackUint128s (VerificationGasLimit op) (CallGasLimit op)) (\<lambda>limits.
      bind_go (deref (PreVerificationGas op)) (\<lambda>pre.
      bind_go (PackUint128s (MaxPriorityFeePerGas op) (MaxFeePerGas op)) (\<lambda>fees.
        Ret \<lparr>p_Sender = Sender op, p_Nonce = nonce, p_InitCode = initCode, p_CallData = CallData op,
             p_AccountGasLimits = limits, p_PreVerificationGas = pre, p_GasFees = fees,
             p_PaymasterAndData = paymasterAndData, p_Signature = Signature op\<rparr>)))))"

text \<open>The loop of \<open>bytesEqual\<close>, and the length prefix of \<open>isEIP7702InitCode\<close>.\<close>

fun bytesEqual :: "byte list \<Rightarrow> byte list \<Rightarrow> bool" where
  "bytesEqual [] [] = True"
| "bytesEqual (a # as) (b # bs) = (a = b \<and> bytesEqual as bs)"
| "bytesEqual _ _ = False"

definition paymasterSignatureLength :: "byte list \<Rightarrow> nat" where
  "paymasterSignatureLength data =
     (let magic = PaymasterSigMagic in
      if length data < length magic + 10 then 0
      else
        (let suffix = drop (length data - length magic) data in
         if \<not> bytesEqual suffix magic then 0
         else be_nat (take 2 (drop (length data - length magic - 2) data))))"

definition KeccakPaymasterAndData :: "geth \<Rightarrow> byte list \<Rightarrow> hash go" where
  "KeccakPaymasterAndData G data =
     (let sigLen = paymasterSignatureLength data in
      if sigLen > 0
      then bind_go (slice data 0 (int (length data) - int sigLen - 10)) (\<lambda>prefix.
             Ret (Keccak256 G (prefix @ PaymasterSigMagic)))
      else Ret (Keccak256 G data))"

definition isEIP7702InitCode :: "byte list \<Rightarrow> bool" where
  "isEIP7702InitCode initCode =
     (let marker = InitCodeEIP7702Marker in
      if length initCode < length marker then False
      else list_all2 (=) (take (length marker) initCode) marker)"

definition initCodeHash :: "geth \<Rightarrow> UserOperation \<Rightarrow> byte list \<Rightarrow> hash" where
  "initCodeHash G op initCode =
     (if isEIP7702InitCode initCode
      then if Delegate op = 0 then Keccak256 G initCode
           else if length initCode \<le> 20 then Keccak256 G (addr_bytes (Delegate op))
           else Keccak256 G (addr_bytes (Delegate op) @ drop 20 initCode)
      else Keccak256 G initCode)"

text \<open>An encoder's error is ignored: the encoding is then empty.\<close>

definition ignore_err :: "byte list res \<Rightarrow> byte list" where
  "ignore_err r = (case r of Inl e \<Rightarrow> [] | Inr bs \<Rightarrow> bs)"

text \<open>
  A nil chain id makes \<open>Pack\<close> panic or fail inside the library, depending on its version; the model
  takes the panic. It cannot happen once the configuration has been applied to the operation.
\<close>

definition domainSeparator :: "geth \<Rightarrow> ('k, 'x) aalib \<Rightarrow> address \<Rightarrow> int option \<Rightarrow> hash go" where
  "domainSeparator G L entryPoint chainID =
     (let nameHash = Keccak256 G (ascii_bytes ''ERC4337'');
          versionHash = Keccak256 G (ascii_bytes ''1'') in
      bind_go (deref chainID) (\<lambda>c.
        Ret (Keccak256 G (ignore_err (AbiPack L
          [ABytes32 (hash_bytes (eip712DomainTypeHash G)), ABytes32 (hash_bytes nameHash),
           ABytes32 (hash_bytes versionHash), AUint256 c, AAddress entryPoint])))))"

definition GetUserOpHash :: "geth \<Rightarrow> ('k, 'x) aalib \<Rightarrow> UserOperation \<Rightarrow> hash go" where
  "GetUserOpHash G L op =
     bind_go (PackUserOp op True) (\<lambda>packed.
     bind_go (KeccakPaymasterAndData G (p_PaymasterAndData packed)) (\<lambda>pmHash.
     bind_go (domainSeparator G L (EntryPoint op) (ChainID op)) (\<lambda>domain.
       let encoded = ignore_err (AbiPack L
             [ABytes32 (hash_bytes (packedUserOpTypeHash G)), AAddress (p_Sender packed), AUint256 (p_Nonce packed),
              ABytes32 (hash_bytes (initCodeHash G op (p_InitCode packed))),
              ABytes32 (hash_bytes (Keccak256 G (p_CallData packed))),
              ABytes32 (p_AccountGasLimits packed), AUint256 (p_PreVerificationGas packed),
              ABytes32 (p_GasFees packed), ABytes32 (hash_bytes pmHash)]) in
       Ret (Keccak256 G ([0x19, 0x01] @ hash_bytes domain @ hash_bytes (Keccak256 G encoded))))))"

section \<open>Encoders\<close>

definition EncodeExecuteTokenTransferCall :: "('k, 'x) aalib \<Rightarrow> address \<Rightarrow> address \<Rightarrow> int \<Rightarrow> byte list res" where
  "EncodeExecuteTokenTransferCall L token to amount =
     AbiMethod L ''executeTokenTransfer'' [AAddress token, AAddress to, AUint256 amount]"

definition EncodeHandleOps :: "('k, 'x) aalib \<Rightarrow> PackedUserOperation \<Rightarrow> address \<Rightarrow> byte list res" where
  "EncodeHandleOps L op beneficiary = AbiMethod L ''handleOps'' [AOps [op], AAddress beneficiary]"

definition EncodeGetNonce :: "('k, 'x) aalib \<Rightarrow> address \<Rightarrow> int \<Rightarrow> byte list res" where
  "EncodeGetNonce L sender key = AbiMethod L ''getNonce'' [AAddress sender, AUint256 key]"

definition EncodePaymasterVerifyingSigner :: "('k, 'x) aalib \<Rightarrow> byte list res" where
  "EncodePaymasterVerifyingSigner L = AbiMethod L ''verifyingSigner'' []"

definition UserOpToJSON :: "('k, 'x) aalib \<Rightarrow> UserOperation \<Rightarrow> string res" where
  "UserOpToJSON L op = json_Marshal L op"

definition UserOpFromJSON :: "('k, 'x) aalib \<Rightarrow> string \<Rightarrow> UserOperation res" where
  "UserOpFromJSON L raw = json_Unmarshal L raw"

section \<open>The paymaster's window and signature\<close>

text \<open>\<open>now\<close> is \<open>time.Now().Unix()\<close>.\<close>

definition DefaultValidityWindow :: "('w \<Rightarrow> int \<times> 'w) \<Rightarrow> ('w, u64 \<times> u64) io" where
  "DefaultValidityWindow now = bind_io (ext (Ev ''time.Now'' []) now) (\<lambda>t. ret_io (word_of_int t + 3600, 0))"

definition encodePaymasterWindow :: "('k, 'x) aalib \<Rightarrow> u64 \<Rightarrow> u64 \<Rightarrow> byte list res" where
  "encodePaymasterWindow L until after = AbiPack L [AUint256 (int (unat until)), AUint256 (int (unat after))]"

definition EncodePaymasterSignedData :: "('k, 'x) aalib \<Rightarrow> ('w \<Rightarrow> int \<times> 'w) \<Rightarrow> ('w, byte list) io" where
  "EncodePaymasterSignedData L now =
     bind_io (DefaultValidityWindow now) (\<lambda>(until, after).
       ret_io (ignore_err (encodePaymasterWindow L until after)))"

definition PackPaymasterDataWithWindow :: "('k, 'x) aalib \<Rightarrow> ('w \<Rightarrow> int \<times> 'w) \<Rightarrow> ('w, byte list \<times> u64 \<times> u64) io" where
  "PackPaymasterDataWithWindow L now =
     bind_io (DefaultValidityWindow now) (\<lambda>(until, after).
       case encodePaymasterWindow L until after of
         Inl err \<Rightarrow> bind_io (EncodePaymasterSignedData L now) (\<lambda>d. ret_io (d, until, after))
       | Inr encoded \<Rightarrow> ret_io (encoded, until, after))"

definition DecodePaymasterWindow :: "('k, 'x) aalib \<Rightarrow> ('w \<Rightarrow> int \<times> 'w) \<Rightarrow> byte list \<Rightarrow> ('w, (u64 \<times> u64) res) io" where
  "DecodePaymasterWindow L now data =
     (if length data = 0
      then bind_io (DefaultValidityWindow now) (\<lambda>win. ret_io (Inr win))
      else ret_io (case AbiUnpack2 L data of
          Inl err \<Rightarrow> Inl err
        | Inr (until, after) \<Rightarrow> Inr (big_Uint64 until, big_Uint64 after)))"

definition HashPaymasterData :: "geth \<Rightarrow> ('k, 'x) aalib \<Rightarrow> hash \<Rightarrow> u64 \<Rightarrow> u64 \<Rightarrow> byte list" where
  "HashPaymasterData G L userOpHash validUntil validAfter =
     hash_bytes (Keccak256 G (ignore_err (AbiPack L
       [ABytes32 (hash_bytes userOpHash), AUint256 (int (unat validUntil)), AUint256 (int (unat validAfter))])))"

definition NormalizeECDSAV :: "byte list \<Rightarrow> byte list" where
  "NormalizeECDSAV sig =
     (if length sig \<noteq> 65 \<or> sig ! 64 \<ge> 27 then sig else sig[64 := sig ! 64 + 27])"

text \<open>\<open>recoverPubkey\<close> (\<open>validate.go\<close>) undoes the 27 on a copy.\<close>

definition recoverPubkey :: "('k, 'x) aalib \<Rightarrow> byte list \<Rightarrow> byte list \<Rightarrow> address res" where
  "recoverPubkey L h sig =
     (if length sig \<noteq> 65 then Inl (Errorf (''sig len '' @ FormatInt (int (length sig))))
      else SigToPub L h (if sig ! 64 \<ge> 27 then sig[64 := sig ! 64 - 27] else sig))"

definition SignPaymaster ::
  "geth \<Rightarrow> ('k, 'x) aalib \<Rightarrow> hash \<Rightarrow> u64 \<Rightarrow> u64 \<Rightarrow> byte list \<Rightarrow> byte list res" where
  "SignPaymaster G L userOpHash validUntil validAfter signerKey =
     (let data = HashPaymasterData G L userOpHash validUntil validAfter in
      bind_res (ToECDSA L signerKey) (\<lambda>priv.
      bind_res (Sign L data priv) (\<lambda>sig. Inr (NormalizeECDSAV sig))))"

definition AttachPaymasterSignature :: "UserOperation \<Rightarrow> byte list \<Rightarrow> UserOperation" where
  "AttachPaymasterSignature op pmSig = op\<lparr>PaymasterSignature := pmSig\<rparr>"

definition BigIntChainID :: "string \<Rightarrow> int" where
  "BigIntChainID chainID = (case big_SetString 10 chainID of None \<Rightarrow> 56 | Some i \<Rightarrow> i)"

section \<open>Configuration and authorization\<close>

definition ParseConfiguredAddress :: "geth \<Rightarrow> string \<Rightarrow> string \<Rightarrow> address res" where
  "ParseConfiguredAddress G field val =
     (let v = TrimSpace val in
      if v = [] then Inl (Errorf (field @ '' is empty''))
      else if \<not> IsHexAddress G v
      then Inl (Errorf (''invalid '' @ field @ '' address '' @ quote v @ '' (expected 0x + 40 hex chars)''))
      else Inr (HexToAddress G v))"

definition ApplyConfigToUserOp :: "UserOperation \<Rightarrow> aaConfig \<Rightarrow> UserOperation" where
  "ApplyConfigToUserOp op cfg =
     op\<lparr>EntryPoint := cfg_EntryPoint cfg, Delegate := cfg_Delegate cfg, Paymaster := cfg_Paymaster cfg,
        ChainID := Some (cfg_ChainID cfg)\<rparr>"

definition AuthDigest :: "('k, 'x) aalib \<Rightarrow> 256 word \<Rightarrow> address \<Rightarrow> u64 \<Rightarrow> hash" where
  "AuthDigest L chainID delegate nonce = SigHash L
     \<lparr>auth_ChainID = chainID, auth_Address = delegate, auth_Nonce = nonce, auth_V = 0, auth_R = 0, auth_S = 0\<rparr>"

text \<open>\<open>uint256.Int.SetBytes\<close> of at most 32 bytes is their big-endian value.\<close>

definition ParseAuthSignature :: "256 word \<Rightarrow> address \<Rightarrow> u64 \<Rightarrow> byte list \<Rightarrow> SetCodeAuthorization res" where
  "ParseAuthSignature chainID delegate nonce sigHex =
     (let auth = \<lparr>auth_ChainID = chainID, auth_Address = delegate, auth_Nonce = nonce, auth_V = 0, auth_R = 0, auth_S = 0\<rparr> in
      Inr (if length sigHex = 65
           then auth\<lparr>auth_V := sigHex ! 64, auth_R := word_of_nat (be_nat (take 32 sigHex)),
                     auth_S := word_of_nat (be_nat (take 32 (drop 32 sigHex)))\<rparr>
           else auth))"

definition AuthFromSignature ::
  "('k, 'x) aalib \<Rightarrow> int \<Rightarrow> address \<Rightarrow> u64 \<Rightarrow> byte list \<Rightarrow> SetCodeAuthorization" where
  "AuthFromSignature L chainID delegate nonce sig =
     (let auth = \<lparr>auth_ChainID = fst (uint256_FromBig L chainID), auth_Address = delegate, auth_Nonce = nonce,
                  auth_V = 0, auth_R = 0, auth_S = 0\<rparr> in
      if length sig \<ge> 65
      then auth\<lparr>auth_V := sig ! 64, auth_R := word_of_nat (be_nat (take 32 sig)),
                auth_S := word_of_nat (be_nat (take 32 (drop 32 sig)))\<rparr>
      else auth)"

definition ParseSignatureHex :: "string \<Rightarrow> byte list res" where
  "ParseSignatureHex sig = hex_decode (TrimPrefix sig ''0x'')"

section \<open>The signed transaction\<close>

definition ErrMissingSponsorKey :: goerror where
  "ErrMissingSponsorKey = Errorf ''sponsor private key not configured; set SPONSOR_KEY or --sponsor-private-key''"

definition ErrMissingPaymasterSignerKey :: goerror where
  "ErrMissingPaymasterSignerKey =
     Errorf ''paymaster signer key not configured; set PAYMASTER_SIGNER_KEY or --paymaster-signer-key''"

definition LoadSponsorKey :: "('k, 'x) aalib \<Rightarrow> aaConfig \<Rightarrow> 'k res" where
  "LoadSponsorKey L cfg =
     (let keyHex = TrimPrefix (TrimSpace (SponsorPrivateKey cfg)) ''0x'' in
      if keyHex = [] then Inl ErrMissingSponsorKey else HexToECDSA L keyHex)"

definition LoadVerifyingKey :: "('k, 'x) aalib \<Rightarrow> aaConfig \<Rightarrow> 'k res" where
  "LoadVerifyingKey L cfg =
     (let keyHex = TrimSpace (VerifyingPrivateKey cfg) in
      if keyHex = [] then Inl ErrMissingPaymasterSignerKey
      else HexToECDSA L (TrimPrefix keyHex ''0x''))"

definition MustFromBig :: "('k, 'x) aalib \<Rightarrow> int \<Rightarrow> 256 word go" where
  "MustFromBig L x = (case uint256_FromBig L x of (v, overflow) \<Rightarrow> if overflow then Panic else Ret v)"

definition BuildSetCodeTransaction ::
  "('k, 'x) aalib \<Rightarrow> aaConfig \<Rightarrow> u64 \<Rightarrow> int \<Rightarrow> int \<Rightarrow> u64 \<Rightarrow> byte list \<Rightarrow> SetCodeAuthorization \<Rightarrow> 'x res go" where
  "BuildSetCodeTransaction L cfg sponsorNonce gasTipCap gasFeeCap gasLimit handleOpsData auth =
     (case LoadSponsorKey L cfg of
        Inl err \<Rightarrow> Ret (Inl err)
      | Inr sponsorKey \<Rightarrow>
          bind_go (MustFromBig L gasTipCap) (\<lambda>tip.
          bind_go (MustFromBig L gasFeeCap) (\<lambda>fee.
            Ret (SignNewTx L sponsorKey (cfg_ChainID cfg)
              \<lparr>sc_ChainID = fst (uint256_FromBig L (cfg_ChainID cfg)), sc_Nonce = sponsorNonce,
               sc_GasTipCap = tip, sc_GasFeeCap = fee, sc_Gas = gasLimit, sc_To = cfg_EntryPoint cfg,
               sc_Value = 0, sc_Data = handleOpsData, sc_AuthList = [auth]\<rparr>))))"

definition RawTxHex :: "('k, 'x) aalib \<Rightarrow> 'x \<Rightarrow> string res" where
  "RawTxHex L tx = bind_res (MarshalBinary L tx) (\<lambda>raw. Inr (''0x'' @ EncodeToString raw))"

section \<open>Lemmas\<close>

lemma length_magic [simp]: "length PaymasterSigMagic = 8"
  by (simp add: PaymasterSigMagic_def)

lemma length_packUint128Bytes [simp]: "length (packUint128Bytes v) = 16"
  by (simp add: packUint128Bytes_def)

lemma bytesEqual_iff [simp]: "bytesEqual a b \<longleftrightarrow> a = b"
  by (induction a b rule: bytesEqual.induct) auto

lemma isEIP7702_iff: "isEIP7702InitCode c \<longleftrightarrow> (\<exists>r. c = InitCodeEIP7702Marker @ r)"
proof (cases c)
  case (Cons a as)
  then show ?thesis
    by (cases as) (auto simp: isEIP7702InitCode_def Let_def InitCodeEIP7702Marker_def)
qed (simp add: isEIP7702InitCode_def InitCodeEIP7702Marker_def)

text \<open>The common part of the packed paymaster fields: 52 bytes and the paymaster's data.\<close>

definition pm_prefix :: "address \<Rightarrow> byte list \<Rightarrow> byte list" where
  "pm_prefix pm pd = addr_bytes pm @ packUint128Bytes DefaultPaymasterVerifyGas @
     packUint128Bytes DefaultPaymasterPostOpGas @ pd"

lemma length_pm_prefix [simp]: "length (pm_prefix pm pd) = 52 + length pd"
  by (simp add: pm_prefix_def)

lemma pack_signing: "pm \<noteq> 0 \<Longrightarrow> sig \<noteq> [] \<Longrightarrow>
    PackPaymasterAndData pm pd sig True = pm_prefix pm pd @ PaymasterSigMagic"
  by (simp add: PackPaymasterAndData_def pm_prefix_def Let_def)

lemma pack_onchain: "pm \<noteq> 0 \<Longrightarrow> sig \<noteq> [] \<Longrightarrow>
    PackPaymasterAndData pm pd sig False =
      pm_prefix pm pd @ sig @ be_bytes 2 (unat (word_of_nat (length sig) :: u16)) @ PaymasterSigMagic"
  by (simp add: PackPaymasterAndData_def pm_prefix_def Let_def)

text \<open>What \<open>paymasterSignatureLength\<close> reads in front of the magic suffix.\<close>

lemma siglen_read:
  "length n = 2 \<Longrightarrow> 8 \<le> length xs \<Longrightarrow> paymasterSignatureLength (xs @ n @ PaymasterSigMagic) = be_nat n"
  by (simp add: paymasterSignatureLength_def Let_def)

lemma keccak_cut:
  assumes "length n = 2" "8 \<le> length xs"
  shows "KeccakPaymasterAndData G (xs @ n @ PaymasterSigMagic) =
    (if be_nat n = 0 then Ret (Keccak256 G (xs @ n @ PaymasterSigMagic))
     else if be_nat n \<le> length xs then Ret (Keccak256 G (take (length xs - be_nat n) xs @ PaymasterSigMagic))
     else Panic)"
proof -
  let ?d = "xs @ n @ PaymasterSigMagic"
  have len: "int (length ?d) - int (be_nat n) - 10 = int (length xs) - int (be_nat n)"
    using assms by simp
  show ?thesis
  proof (cases "be_nat n \<le> length xs")
    case True
    then have "slice ?d 0 (int (length xs) - int (be_nat n)) = Ret (take (length xs - be_nat n) ?d)"
      by (simp add: slice_def flip: of_nat_diff)
    then show ?thesis using assms True len
      by (simp add: KeccakPaymasterAndData_def siglen_read Let_def)
  next
    case False
    then have "slice ?d 0 (int (length xs) - int (be_nat n)) = Panic" by (simp add: slice_def)
    then show ?thesis using assms False len
      by (simp add: KeccakPaymasterAndData_def siglen_read Let_def)
  qed
qed

lemma normalize_length [simp]: "length (NormalizeECDSAV sig) = length sig"
  by (simp add: NormalizeECDSAV_def)

lemma byte_add_27:
  assumes "(v :: byte) < 27" shows "27 \<le> v + 27" "v + 27 - 27 = v"
proof -
  have "unat v < 27" using assms by (simp add: word_less_nat_alt)
  then have "unat (v + 27) = unat v + 27" by (simp add: unat_word_ariths)
  then show "27 \<le> v + 27" by (simp add: word_le_nat_alt)
qed simp

lemma normalize_small:
  "length sig = 65 \<Longrightarrow> sig ! 64 < 27 \<Longrightarrow> NormalizeECDSAV sig = sig[64 := sig ! 64 + 27]"
  by (auto simp: NormalizeECDSAV_def not_le [symmetric])

lemma normalize_other:
  "\<not> (length sig = 65 \<and> sig ! 64 < 27) \<Longrightarrow> NormalizeECDSAV sig = sig"
  by (auto simp: NormalizeECDSAV_def)

lemma normalize_idem [simp]: "NormalizeECDSAV (NormalizeECDSAV sig) = NormalizeECDSAV sig"
proof (cases "length sig = 65 \<and> sig ! 64 < 27")
  case True
  then show ?thesis using byte_add_27(1) [of "sig ! 64"]
    by (simp add: normalize_small) (simp add: NormalizeECDSAV_def)
qed (simp add: normalize_other)

lemma normalize_take [simp]: "take 64 (NormalizeECDSAV sig) = take 64 sig"
  by (cases "length sig = 65 \<and> sig ! 64 < 27") (simp_all add: normalize_small normalize_other)

lemma recover_normalize: "recoverPubkey L h (NormalizeECDSAV sig) = recoverPubkey L h sig"
proof (cases "length sig = 65 \<and> sig ! 64 < 27")
  case True
  then have "\<not> 27 \<le> sig ! 64" by (simp add: not_le)
  then show ?thesis using True byte_add_27 [of "sig ! 64"]
    by (simp add: normalize_small recoverPubkey_def)
qed (simp add: normalize_other)

lemma shift_or_128:
  assumes "0 \<le> hi" "0 \<le> lo" "lo < 2 ^ 128"
  shows "push_bit 128 hi OR lo = hi * 2 ^ 128 + (lo :: int)"
proof -
  have "push_bit 128 hi AND lo = 0"
  proof (rule bit_eqI)
    fix n
    have "bit lo n \<Longrightarrow> n < 128"
      using assms by (metis bit_take_bit_iff take_bit_int_eq_self)
    then show "bit (push_bit 128 hi AND lo) n = bit 0 n" by (auto simp: bit_simps)
  qed
  then have "push_bit 128 hi OR lo = push_bit 128 hi + lo" by (simp add: disjunctive_add_eq_or)
  then show ?thesis by (simp add: push_bit_eq_mult)
qed

lemma u64_range: "0 \<le> int (unat (x :: u64))" "int (unat x) < 2 ^ 256"
proof -
  have "uint x < 2 ^ 64" using uint_lt2p [of x] by simp
  then show "0 \<le> int (unat x)" "int (unat x) < 2 ^ 256" by simp_all
qed

lemma big_Uint64_unat [simp]: "big_Uint64 (int (unat (x :: u64))) = x"
  by (simp add: big_Uint64_def)

lemma window_encoded:
  assumes "abi_window_ok L"
  shows "encodePaymasterWindow L u a = Inr (be_bytes 32 (unat u) @ be_bytes 32 (unat a))"
    "AbiUnpack2 L (be_bytes 32 (unat u) @ be_bytes 32 (unat a)) = Inr (int (unat u), int (unat a))"
  using assms u64_range [of u] u64_range [of a]
  unfolding abi_window_ok_def encodePaymasterWindow_def by (metis nat_int)+

section \<open>A concrete instance of the library\<close>

text \<open>
  For the witnesses: the ABI encoding of static values, keys that are addresses, a "signature" that
  is the signer's address, 45 bytes of it zeros, and no method or JSON codec of substance.
\<close>

fun abi_word :: "abi_arg \<Rightarrow> byte list" where
  "abi_word (ABytes32 bs) = bs"
| "abi_word (AAddress a) = left_pad 32 (addr_bytes a)"
| "abi_word (AUint256 x) = be_bytes 32 (nat x)"
| "abi_word (AOps ops) = concat (map p_PaymasterAndData ops)"

definition sample_op :: UserOperation where
  "sample_op =
     \<lparr>Sender = 5, Nonce = Some 1, InitCode = [], CallData = [1, 2], VerificationGasLimit = Some 10,
      CallGasLimit = Some 20, PreVerificationGas = Some 30, MaxFeePerGas = Some 40,
      MaxPriorityFeePerGas = Some 4, Paymaster = 9, PaymasterData = replicate 64 0,
      PaymasterSignature = [0], Signature = [], EntryPoint = 8, ChainID = Some 56, AuthNonce = 3,
      Delegate = 7, RequestID = []\<rparr>"

definition sample_lib :: "(address, SetCodeTx) aalib" where
  "sample_lib =
     \<lparr>AbiPack = \<lambda>args. Inr (concat (map abi_word args)),
      AbiUnpack2 = \<lambda>bs. if length bs = 64 then Inr (int (be_nat (take 32 bs)), int (be_nat (drop 32 bs)))
                       else Inl (Errorf ''abi: length''),
      AbiMethod = \<lambda>m args. Inr (concat (map abi_word args)),
      HexToECDSA = \<lambda>s. bind_res (hex_decode s) (\<lambda>bs. Inr (crop_address bs)),
      PubkeyToAddress = id, FromECDSA = addr_bytes, ToECDSA = \<lambda>bs. Inr (crop_address bs),
      Sign = \<lambda>h k. Inr (addr_bytes k @ replicate 45 0),
      SigToPub = \<lambda>h sig. Inr (crop_address (take 20 sig)),
      SigHash = \<lambda>a. ucast (auth_Address a), uint256_FromBig = \<lambda>x. (word_of_int x, x \<ge> 2 ^ 256),
      SignNewTx = \<lambda>k c tx. Inr tx, MarshalBinary = \<lambda>tx. Inr (sc_Data tx),
      json_Marshal = \<lambda>op. Inr ''{}'', json_Unmarshal = \<lambda>s. Inr sample_op\<rparr>"

section \<open>Properties\<close>

text \<open>
  Packing two gas values: two values that fit in 128 bits become the 16 big-endian bytes of the
  first and then those of the second, so that both can be read back; a first value that does not
  fit panics.
\<close>

theorem pack_uint128s:
  assumes "0 \<le> hi" "0 \<le> lo" "lo < 2 ^ 128"
  shows "PackUint128s (Some hi) (Some lo) =
    (if hi < 2 ^ 128 then Ret (be_bytes 16 (nat hi) @ be_bytes 16 (nat lo)) else Panic)"
proof -
  let ?x = "hi * 2 ^ 128 + lo"
  have x: "push_bit 128 hi OR lo = ?x" using assms by (rule shift_or_128)
  have nx: "nat ?x = nat hi * 256 ^ 16 + nat lo"
    using assms by (simp add: nat_add_distrib nat_mult_distrib)
  have lo: "nat lo < 256 ^ 16" using assms by (simp add: nat_less_iff)
  show ?thesis
  proof (cases "hi < 2 ^ 128")
    case True
    then have "hi + 1 \<le> 2 ^ 128" by simp
    then have "(hi + 1) * 2 ^ 128 \<le> 2 ^ 128 * (2 ^ 128 :: int)" by (intro mult_right_mono) auto
    then have fit: "\<bar>?x\<bar> < 256 ^ 32" using assms by (simp add: algebra_simps)
    have "be_bytes 32 (nat ?x) = be_bytes 16 (nat ?x div 256 ^ 16) @ be_bytes 16 (nat ?x)"
      using be_bytes_append [of 16 16 "nat ?x"] by simp
    also have "nat ?x div 256 ^ 16 = nat hi" unfolding nx using lo by simp
    also have "be_bytes 16 (nat ?x) = be_bytes 16 (nat ?x mod 256 ^ 16)" by (simp only: be.enc_mod)
    also have "nat ?x mod 256 ^ 16 = nat lo" unfolding nx using lo by simp
    finally show ?thesis using True fit assms
      unfolding PackUint128s_def deref_def option.case bind_go.simps x FillBytes_def by simp
  next
    case False
    then have "2 ^ 128 * 2 ^ 128 \<le> hi * (2 ^ 128 :: int)" by (intro mult_right_mono) auto
    then have "\<not> \<bar>?x\<bar> < 256 ^ 32" using assms by simp
    then show ?thesis using False
      unfolding PackUint128s_def deref_def option.case bind_go.simps x FillBytes_def by simp
  qed
qed

theorem pack_uint128s_witness:
  "PackUint128s (Some 1) (Some 513) = Ret
     [0, 0, 0, 0, 0, 0, 0, 0, 0, 0, 0, 0, 0, 0, 0, 1, 0, 0, 0, 0, 0, 0, 0, 0, 0, 0, 0, 0, 0, 0, 2, 1]"
  by (subst pack_uint128s) (simp_all add: be_bytes_numeral)

lemma hash_stable:
  assumes "PaymasterSignature op \<noteq> []" "pmSig \<noteq> []"
  shows "GetUserOpHash G L (AttachPaymasterSignature op pmSig\<lparr>Signature := userSig\<rparr>) = GetUserOpHash G L op"
proof -
  let ?op = "AttachPaymasterSignature op pmSig\<lparr>Signature := userSig\<rparr>"
  have "PackUserOp ?op True = bind_go (PackUserOp op True) (\<lambda>p. Ret (p\<lparr>p_Signature := userSig\<rparr>))"
    using assms by (simp add: PackUserOp_def AttachPaymasterSignature_def PackPaymasterAndData_def
        Let_def bind_go_assoc)
  moreover have "initCodeHash G ?op c = initCodeHash G op c" for c
    unfolding initCodeHash_def by (simp add: AttachPaymasterSignature_def)
  moreover have "EntryPoint ?op = EntryPoint op" "ChainID ?op = ChainID op"
    by (simp_all add: AttachPaymasterSignature_def)
  ultimately show ?thesis
    by (simp add: GetUserOpHash_def bind_go_assoc Let_def)
qed

text \<open>
  C24. The hash that the user signs does not change when the paymaster's signature takes the place of
  the placeholder, nor when the user's own signature is set: the operation signed is the operation
  sent.
\<close>

theorem user_op_hash_stable:
  assumes "PaymasterSignature op \<noteq> []" "pmSig \<noteq> []"
  shows "GetUserOpHash G L (AttachPaymasterSignature op pmSig\<lparr>Signature := userSig\<rparr>) = GetUserOpHash G L op"
  using assms by (rule hash_stable)

theorem user_op_hash_stable_witness:
  "GetUserOpHash sample_geth sample_lib (AttachPaymasterSignature sample_op [1, 2]\<lparr>Signature := [3]\<rparr>) =
   GetUserOpHash sample_geth sample_lib sample_op"
  by (rule user_op_hash_stable) (simp_all add: sample_op_def)



lemma signing_form:
  assumes "pm \<noteq> 0" "sig \<noteq> []"
  shows "KeccakPaymasterAndData G (PackPaymasterAndData pm (be_bytes 32 until @ be_bytes 32 after) sig True) =
    (let form = PackPaymasterAndData pm (be_bytes 32 until @ be_bytes 32 after) sig True;
         k = after mod 65536 in
     if k = 0 then Ret (Keccak256 G form)
     else if k \<le> 114 then Ret (Keccak256 G (take (114 - k) form @ PaymasterSigMagic))
     else Panic)"
proof -
  let ?xs = "pm_prefix pm (be_bytes 32 until @ be_bytes 30 (after div 65536))"
  let ?n = "be_bytes 2 after"
  have n: "be_nat ?n = after mod 65536" by (simp add: be.dec_enc_mod)
  have split: "be_bytes 32 after = be_bytes 30 (after div 65536) @ ?n"
    using be_bytes_append [of 30 2 after] by simp
  have form: "PackPaymasterAndData pm (be_bytes 32 until @ be_bytes 32 after) sig True =
      ?xs @ ?n @ PaymasterSigMagic"
    using assms by (simp add: pack_signing split) (simp add: pm_prefix_def)
  show ?thesis unfolding form Let_def
    by (subst keccak_cut) (simp_all add: n)
qed

text \<open>
  The signed form itself has no signature in it, yet \<open>KeccakPaymasterAndData\<close> looks for its
  length in front of the suffix, where the last two bytes of the paymaster's data are. For a window
  of two 32-byte words it hashes the form as it is exactly when \<open>validAfter\<close> is a multiple of 65536
  (the service's own windows have 0 there); otherwise it cuts into the window, and panics when these
  two bytes read more than 114.
\<close>

theorem signing_form_hash:
  assumes "pm \<noteq> 0" "sig \<noteq> []"
  shows "KeccakPaymasterAndData G (PackPaymasterAndData pm (be_bytes 32 until @ be_bytes 32 after) sig True) =
    (let form = PackPaymasterAndData pm (be_bytes 32 until @ be_bytes 32 after) sig True;
         k = after mod 65536 in
     if k = 0 then Ret (Keccak256 G form)
     else if k \<le> 114 then Ret (Keccak256 G (take (114 - k) form @ PaymasterSigMagic))
     else Panic)"
  using assms by (rule signing_form)

theorem signing_form_hash_witness:
  "KeccakPaymasterAndData sample_geth
     (PackPaymasterAndData 9 (be_bytes 32 1000 @ be_bytes 32 300) [0] True) = Panic"
  by (subst signing_form_hash) simp_all

text \<open>
  Normalising the recovery id: the signature keeps its length and its first 64 bytes, 0 and 1
  become 27 and 28, the result is always accepted as it is (it is not changed again), and recovery
  from it, which undoes the 27, gives what the original signature gives.
\<close>

theorem normalized_signature:
  "length (NormalizeECDSAV sig) = length sig \<and> take 64 (NormalizeECDSAV sig) = take 64 sig \<and>
   NormalizeECDSAV (NormalizeECDSAV sig) = NormalizeECDSAV sig \<and>
   recoverPubkey L h (NormalizeECDSAV sig) = recoverPubkey L h sig"
  by (simp add: recover_normalize)

text \<open>
  The validity window: with an encoder of two 32-byte words, the data the service puts into an
  operation is 64 bytes, it decodes to the hour from the time of the call and \<open>validAfter\<close> 0, and the
  hash of an operation carrying it is the plain hash of the signed form.
\<close>

theorem service_window:
  assumes "abi_window_ok L"
  shows "\<exists>d w'. EncodePaymasterSignedData L now w = (Ret d, w') \<and> length d = 64 \<and>
    result (DecodePaymasterWindow L now d) w' = Ret (Inr (word_of_int (fst (now (env w))) + 3600, 0)) \<and>
    (pm \<noteq> 0 \<and> sig \<noteq> [] \<longrightarrow>
       KeccakPaymasterAndData G (PackPaymasterAndData pm d sig True) =
         Ret (Keccak256 G (PackPaymasterAndData pm d sig True)))"
proof -
  let ?u = "word_of_int (fst (now (env w))) + 3600 :: u64"
  let ?d = "be_bytes 32 (unat ?u) @ be_bytes 32 0"
  let ?w' = "w\<lparr>env := snd (now (env w)), trace := trace w @ [Ev ''time.Now'' []]\<rparr>"
  have "encodePaymasterWindow L ?u 0 = Inr ?d"
    using window_encoded(1) [OF assms, of ?u 0] by simp
  then have e: "EncodePaymasterSignedData L now w = (Ret ?d, ?w')"
    by (simp add: EncodePaymasterSignedData_def DefaultValidityWindow_def bind_io_assoc bind_ext_apply ignore_err_def)
  have "AbiUnpack2 L ?d = Inr (int (unat ?u), int (unat (0 :: u64)))"
    using window_encoded(2) [OF assms, of ?u 0] by simp
  then have "result (DecodePaymasterWindow L now ?d) ?w' = Ret (Inr (?u, 0))"
    by (simp add: DecodePaymasterWindow_def result_def big_Uint64_def)
  moreover have "KeccakPaymasterAndData G (PackPaymasterAndData pm ?d sig True) =
      Ret (Keccak256 G (PackPaymasterAndData pm ?d sig True))" if "pm \<noteq> 0" "sig \<noteq> []"
    using that signing_form [of pm sig G "unat ?u" 0] by (simp add: Let_def)
  ultimately show ?thesis using e by (intro exI [of _ ?d] exI [of _ ?w']) simp
qed

lemma sample_lib_window [simp]: "abi_window_ok sample_lib"
proof -
  have "nat x < 256 ^ 32" if "0 \<le> x" "x < 2 ^ 256" for x
    using that by (simp add: nat_less_iff)
  then show ?thesis by (simp add: abi_window_ok_def sample_lib_def be.dec_enc)
qed

theorem service_window_witness:
  "\<exists>d w'. EncodePaymasterSignedData sample_lib (\<lambda>e. (1700000000, e)) \<lparr>env = (), trace = []\<rparr> = (Ret d, w') \<and>
     length d = 64 \<and>
     result (DecodePaymasterWindow sample_lib (\<lambda>e. (1700000000, e)) d) w' = Ret (Inr (1700003600, 0))"
  using service_window [OF sample_lib_window, of "\<lambda>e. (1700000000, e)" "\<lparr>env = (), trace = []\<rparr>" 9 "[0]" sample_geth]
  by auto

end
