(* ===== verification/AA_Send.thy ===== *)
theory AA_Send
  imports AA_UserOp
begin

text \<open>
  Account abstraction, the flow (\<open>chain/evmbase/aa/validate.go\<close>, \<open>sponsored.go\<close>): building an
  operation, the checks right before a broadcast, and the outer transaction. A Go function that
  writes through its \<open>*UserOperation\<close> returns the new operation next to its result.
\<close>

record PreflightReport =
  UserOpHash :: hash
  UserSigRecovered :: address
  PaymasterSigRecovered :: address
  VerifyingSigner :: address
  HasPMPlaceholder :: bool
  PaymasterDataLen :: nat
  UserSigLen :: nat
  Errors :: "string list"

definition report_OK :: "PreflightReport \<Rightarrow> bool" where
  "report_OK r \<longleftrightarrow> length (Errors r) = 0"

definition report_String :: "PreflightReport \<Rightarrow> string" where
  "report_String r = Join (Errors r) ''; ''"

definition add_error :: "string \<Rightarrow> PreflightReport \<Rightarrow> PreflightReport" where
  "add_error e r = r\<lparr>Errors := Errors r @ [e]\<rparr>"

definition EnsurePaymasterSigPlaceholder :: "UserOperation \<Rightarrow> UserOperation" where
  "EnsurePaymasterSigPlaceholder op =
     (if Paymaster op \<noteq> 0 \<and> length (PaymasterSignature op) = 0
      then op\<lparr>PaymasterSignature := paymasterSigPlaceholder\<rparr> else op)"

definition VerifyingSignerAddress :: "('k, 'x) aalib \<Rightarrow> aaConfig \<Rightarrow> address res" where
  "VerifyingSignerAddress L cfg = bind_res (LoadVerifyingKey L cfg) (\<lambda>key. Inr (PubkeyToAddress L key))"

section \<open>The checks before a broadcast\<close>

text \<open>The report after the checks on the operation and on the user's signature.\<close>

definition check_user ::
  "geth \<Rightarrow> ('k, 'x) aalib \<Rightarrow> UserOperation \<Rightarrow> byte list \<Rightarrow> PreflightReport \<Rightarrow> PreflightReport" where
  "check_user G L op userOpSig r0 =
     (let r1 = (if \<not> HasPMPlaceholder r0
                then add_error ''missing paymasterSignature placeholder; userOpHash will not match EntryPoint'' r0 else r0);
          r2 = (if PaymasterDataLen r1 \<noteq> 64
                then add_error (''paymasterData length='' @ FormatInt (int (PaymasterDataLen r1)) @ '' want 64'') r1 else r1) in
      if length userOpSig \<noteq> 65
      then add_error (''user signature length='' @ FormatInt (int (length userOpSig)) @ '' want 65'') r2
      else (case recoverPubkey L (hash_bytes (UserOpHash r2)) (NormalizeECDSAV userOpSig) of
          Inl err \<Rightarrow> add_error (''user signature invalid: '' @ Error err) r2
        | Inr pub \<Rightarrow>
            (let r3 = r2\<lparr>UserSigRecovered := pub\<rparr> in
             if pub \<noteq> Sender op
             then add_error (''user signature recovers '' @ AddressHex G pub @ '', want sender '' @
                    AddressHex G (Sender op) @ '' (userOpHash='' @ HashHex G (UserOpHash r3) @ '')'') r3
             else r3)))"

text \<open>The checks on the paymaster's key and signature, once the window and the key are known.\<close>

definition check_signer :: "geth \<Rightarrow> address \<Rightarrow> PreflightReport \<Rightarrow> PreflightReport" where
  "check_signer G localSigner r =
     (if VerifyingSigner r = 0 then r\<lparr>VerifyingSigner := localSigner\<rparr>
      else if localSigner \<noteq> VerifyingSigner r
      then add_error (''local paymaster signer '' @ AddressHex G localSigner @ '' != on-chain verifyingSigner '' @
             AddressHex G (VerifyingSigner r) @ '' (check PAYMASTER_SIGNER_KEY)'') r
      else r)"

definition check_paymaster_sig ::
  "geth \<Rightarrow> ('k, 'x) aalib \<Rightarrow> byte list \<Rightarrow> byte list \<Rightarrow> PreflightReport \<Rightarrow> PreflightReport" where
  "check_paymaster_sig G L pmDigest pmSig r =
     (case recoverPubkey L pmDigest pmSig of
        Inl err \<Rightarrow> add_error (''paymaster signature invalid: '' @ Error err) r
      | Inr pub \<Rightarrow>
          (let r' = r\<lparr>PaymasterSigRecovered := pub\<rparr> in
           if pub \<noteq> VerifyingSigner r'
           then add_error (''paymaster signature recovers '' @ AddressHex G pub @ '', want '' @
                  AddressHex G (VerifyingSigner r')) r'
           else r'))"

definition check_packed :: "geth \<Rightarrow> aaConfig \<Rightarrow> PackedUserOperation \<Rightarrow> PreflightReport \<Rightarrow> PreflightReport" where
  "check_packed G cfg packed r =
     (if length (p_PaymasterAndData packed) \<ge> 20
      then (let got = BytesToAddress G (take 20 (p_PaymasterAndData packed)) in
            if got \<noteq> cfg_Paymaster cfg
            then add_error (''packed paymaster '' @ AddressHex G got @ '' != config '' @ AddressHex G (cfg_Paymaster cfg)) r
            else r)
      else r)"

definition initial_report :: "('k, 'x) aalib \<Rightarrow> aaConfig \<Rightarrow> UserOperation \<Rightarrow> byte list \<Rightarrow> address \<Rightarrow> hash \<Rightarrow> PreflightReport" where
  "initial_report L cfg op userOpSig onChainVerifyingSigner h =
     \<lparr>UserOpHash = h, UserSigRecovered = 0, PaymasterSigRecovered = 0,
      VerifyingSigner = (if onChainVerifyingSigner \<noteq> 0 then onChainVerifyingSigner
        else (case VerifyingSignerAddress L cfg of Inl _ \<Rightarrow> 0 | Inr a \<Rightarrow> a)),
      HasPMPlaceholder = length (PaymasterSignature op) > 0, PaymasterDataLen = length (PaymasterData op),
      UserSigLen = length userOpSig, Errors = []\<rparr>"

text \<open>The second half of the checks, once the window is decoded: key, paymaster signature, packed form.\<close>

definition preflight_paymaster ::
  "geth \<Rightarrow> ('k, 'x) aalib \<Rightarrow> aaConfig \<Rightarrow> UserOperation \<Rightarrow> u64 \<Rightarrow> u64 \<Rightarrow> PreflightReport \<Rightarrow> PreflightReport go" where
  "preflight_paymaster G L cfg op until after r1 =
     (case LoadVerifyingKey L cfg of
        Inl err \<Rightarrow> Ret (add_error (''paymaster signer key: '' @ Error err) r1)
      | Inr verifyKey \<Rightarrow>
          (let r2 = check_signer G (PubkeyToAddress L verifyKey) r1 in
           case SignPaymaster G L (UserOpHash r2) until after (FromECDSA L verifyKey) of
             Inl err \<Rightarrow> Ret (add_error (''sign paymaster: '' @ Error err) r2)
           | Inr pmSig \<Rightarrow>
               (let r3 = check_paymaster_sig G L (HashPaymasterData G L (UserOpHash r2) until after) pmSig r2 in
                bind_go (PackUserOp op False) (\<lambda>packed. Ret (check_packed G cfg packed r3)))))"

definition PreflightSponsoredSend ::
  "geth \<Rightarrow> ('k, 'x) aalib \<Rightarrow> ('w \<Rightarrow> int \<times> 'w) \<Rightarrow> aaConfig \<Rightarrow> UserOperation \<Rightarrow> byte list \<Rightarrow> address \<Rightarrow>
   ('w, PreflightReport \<times> UserOperation) io" where
  "PreflightSponsoredSend G L now cfg op0 userOpSig onChainVerifyingSigner =
     (let op = EnsurePaymasterSigPlaceholder op0 in
      bind_io (lift_go (GetUserOpHash G L op)) (\<lambda>h.
      let r1 = check_user G L op userOpSig (initial_report L cfg op userOpSig onChainVerifyingSigner h) in
      bind_io (DecodePaymasterWindow L now (PaymasterData op)) (\<lambda>win. case win of
          Inl err \<Rightarrow> ret_io (add_error (''paymaster window: '' @ Error err) r1, op)
        | Inr (until, after) \<Rightarrow>
            bind_io (lift_go (preflight_paymaster G L cfg op until after r1)) (\<lambda>report. ret_io (report, op)))))"

section \<open>Building and finalizing\<close>

definition BuildTransferUserOp ::
  "('k, 'x) aalib \<Rightarrow> ('w \<Rightarrow> int \<times> 'w) \<Rightarrow> aaConfig \<Rightarrow> address \<Rightarrow> address \<Rightarrow> address \<Rightarrow> int \<Rightarrow> int \<Rightarrow> u64 \<Rightarrow>
   string \<Rightarrow> int \<Rightarrow> int \<Rightarrow> ('w, UserOperation res) io" where
  "BuildTransferUserOp L now cfg from to token amount entryPointNonce authNonce requestID maxFee maxPriorityFee =
     (case EncodeExecuteTokenTransferCall L token to amount of
        Inl err \<Rightarrow> ret_io (Inl err)
      | Inr callData \<Rightarrow>
          bind_io (EncodePaymasterSignedData L now) (\<lambda>paymasterData. ret_io (Inr
            \<lparr>Sender = from, Nonce = Some entryPointNonce, InitCode = InitCodeEIP7702Marker, CallData = callData,
             VerificationGasLimit = Some DefaultVerificationGas, CallGasLimit = Some DefaultCallGas,
             PreVerificationGas = Some DefaultPreVerificationGas, MaxFeePerGas = Some maxFee,
             MaxPriorityFeePerGas = Some maxPriorityFee, Paymaster = cfg_Paymaster cfg,
             PaymasterData = paymasterData, PaymasterSignature = paymasterSigPlaceholder, Signature = [],
             EntryPoint = cfg_EntryPoint cfg, ChainID = Some (cfg_ChainID cfg), AuthNonce = authNonce,
             Delegate = cfg_Delegate cfg, RequestID = requestID\<rparr>)))"

text \<open>The operation after the paymaster's signature, and its outer transaction.\<close>

definition FinalizeAndSignSend ::
  "geth \<Rightarrow> ('k, 'x) aalib \<Rightarrow> ('w \<Rightarrow> int \<times> 'w) \<Rightarrow> aaConfig \<Rightarrow> UserOperation \<Rightarrow> byte list \<Rightarrow> byte list \<Rightarrow> u64 \<Rightarrow>
   int \<Rightarrow> int \<Rightarrow> u64 \<Rightarrow> ('w, 'x res \<times> UserOperation) io" where
  "FinalizeAndSignSend G L now cfg op0 userOpSig authSig sponsorNonce gasTipCap gasFeeCap gasLimit =
     (let op = (EnsurePaymasterSigPlaceholder op0)\<lparr>Signature := NormalizeECDSAV userOpSig\<rparr> in
      bind_io (DecodePaymasterWindow L now (PaymasterData op)) (\<lambda>win. case win of
          Inl err \<Rightarrow> ret_io (Inl err, op)
        | Inr (until, after) \<Rightarrow>
            bind_io (lift_go (GetUserOpHash G L op)) (\<lambda>h.
            case LoadVerifyingKey L cfg of
              Inl err \<Rightarrow> ret_io (Inl err, op)
            | Inr verifyKey \<Rightarrow>
                (case SignPaymaster G L h until after (FromECDSA L verifyKey) of
                   Inl err \<Rightarrow> ret_io (Inl err, op)
                 | Inr pmSig \<Rightarrow>
                     (let op' = AttachPaymasterSignature op pmSig in
                      bind_io (lift_go (PackUserOp op' False)) (\<lambda>packed.
                      case EncodeHandleOps L packed (SponsorAddress cfg) of
                        Inl err \<Rightarrow> ret_io (Inl err, op')
                      | Inr handleOpsData \<Rightarrow>
                          (let auth = AuthFromSignature L (cfg_ChainID cfg) (cfg_Delegate cfg) (AuthNonce op') authSig in
                           bind_io (lift_go (BuildSetCodeTransaction L cfg sponsorNonce gasTipCap gasFeeCap gasLimit
                                      handleOpsData auth))
                             (\<lambda>tx. ret_io (tx, op')))))))))"

section \<open>Lemmas\<close>

lemma add_error_simps [simp]:
  "Errors (add_error e r) = Errors r @ [e]" "\<not> report_OK (add_error e r)"
  "UserOpHash (add_error e r) = UserOpHash r" "VerifyingSigner (add_error e r) = VerifyingSigner r"
  by (simp_all add: add_error_def report_OK_def)

text \<open>Each check keeps the errors found so far: an accepted report passed every check.\<close>

lemma check_user_ok:
  assumes "report_OK (check_user G L op sig r)"
  shows "report_OK r" "HasPMPlaceholder r" "PaymasterDataLen r = 64" "length sig = 65"
    "recoverPubkey L (hash_bytes (UserOpHash r)) (NormalizeECDSAV sig) = Inr (Sender op)"
  using assms
  by (auto simp: check_user_def Let_def report_OK_def add_error_def split: if_splits sum.splits)

lemma check_user_frame [simp]:
  "UserOpHash (check_user G L op sig r) = UserOpHash r"
  "VerifyingSigner (check_user G L op sig r) = VerifyingSigner r"
  by (auto simp: check_user_def Let_def split: sum.splits)

lemma check_signer_ok:
  assumes "report_OK (check_signer G a r)"
  shows "report_OK r" "VerifyingSigner (check_signer G a r) = a" "VerifyingSigner r \<in> {0, a}"
  using assms by (auto simp: check_signer_def report_OK_def split: if_splits)

lemma check_paymaster_sig_ok:
  assumes "report_OK (check_paymaster_sig G L d s r)"
  shows "report_OK r" "recoverPubkey L d s = Inr (VerifyingSigner r)"
  using assms by (auto simp: check_paymaster_sig_def Let_def report_OK_def split: if_splits sum.splits)

lemma check_packed_ok:
  assumes "report_OK (check_packed G cfg p r)"
  shows "report_OK r"
    "20 \<le> length (p_PaymasterAndData p) \<Longrightarrow> BytesToAddress G (take 20 (p_PaymasterAndData p)) = cfg_Paymaster cfg"
  using assms by (auto simp: check_packed_def Let_def split: if_splits)

lemma ensure_idem [simp]:
  "EnsurePaymasterSigPlaceholder (EnsurePaymasterSigPlaceholder op) = EnsurePaymasterSigPlaceholder op"
  by (simp add: EnsurePaymasterSigPlaceholder_def paymasterSigPlaceholder_def)

lemma ensure_nonempty:
  "Paymaster op \<noteq> 0 \<Longrightarrow> PaymasterSignature (EnsurePaymasterSigPlaceholder op) \<noteq> []"
  by (simp add: EnsurePaymasterSigPlaceholder_def paymasterSigPlaceholder_def)

lemma ensure_frame [simp]:
  "Paymaster (EnsurePaymasterSigPlaceholder op) = Paymaster op"
  "PaymasterData (EnsurePaymasterSigPlaceholder op) = PaymasterData op"
  "Sender (EnsurePaymasterSigPlaceholder op) = Sender op"
  "AuthNonce (EnsurePaymasterSigPlaceholder op) = AuthNonce op"
  "PaymasterSignature op \<noteq> [] \<Longrightarrow> EnsurePaymasterSigPlaceholder op = op"
  by (simp_all add: EnsurePaymasterSigPlaceholder_def)

lemma LoadVerifyingKey_signer:
  "LoadVerifyingKey L cfg = Inr k \<Longrightarrow> VerifyingSignerAddress L cfg = Inr (PubkeyToAddress L k)"
  by (simp add: VerifyingSignerAddress_def)

lemma PackUserOp_paymaster:
  "PackUserOp op b = Ret p \<Longrightarrow>
   p_PaymasterAndData p = PackPaymasterAndData (Paymaster op) (PaymasterData op) (PaymasterSignature op) b"
  by (auto simp: PackUserOp_def Let_def bind_go_Ret_iff)

lemma PackUserOp_fields:
  "PackUserOp op b = Ret p \<Longrightarrow> p_Sender p = Sender op \<and> p_CallData p = CallData op \<and> p_Signature p = Signature op"
  by (auto simp: PackUserOp_def Let_def bind_go_Ret_iff)

text \<open>The steps behind a finalized transaction.\<close>

lemma BuildSetCode_ok:
  assumes "BuildSetCodeTransaction L cfg nonce tip fee gas data auth = Ret (Inr tx)"
  obtains sk t f where "LoadSponsorKey L cfg = Inr sk" "uint256_FromBig L tip = (t, False)"
    "uint256_FromBig L fee = (f, False)"
    "SignNewTx L sk (cfg_ChainID cfg)
       \<lparr>sc_ChainID = fst (uint256_FromBig L (cfg_ChainID cfg)), sc_Nonce = nonce, sc_GasTipCap = t, sc_GasFeeCap = f,
        sc_Gas = gas, sc_To = cfg_EntryPoint cfg, sc_Value = 0, sc_Data = data, sc_AuthList = [auth]\<rparr> = Inr tx"
  using assms that
  by (auto simp: BuildSetCodeTransaction_def MustFromBig_def bind_go_Ret_iff split: sum.splits prod.splits if_splits)

lemma finalize_steps:
  assumes "FinalizeAndSignSend G L now cfg op us as nonce tip fee gas w = (Ret (Inr tx, op'), w')"
  shows "\<exists>until after h k pmSig packed data.
    result (DecodePaymasterWindow L now (PaymasterData op)) w = Ret (Inr (until, after)) \<and>
    GetUserOpHash G L ((EnsurePaymasterSigPlaceholder op)\<lparr>Signature := NormalizeECDSAV us\<rparr>) = Ret h \<and>
    LoadVerifyingKey L cfg = Inr k \<and> SignPaymaster G L h until after (FromECDSA L k) = Inr pmSig \<and>
    op' = AttachPaymasterSignature ((EnsurePaymasterSigPlaceholder op)\<lparr>Signature := NormalizeECDSAV us\<rparr>) pmSig \<and>
    PackUserOp op' False = Ret packed \<and> EncodeHandleOps L packed (SponsorAddress cfg) = Inr data \<and>
    BuildSetCodeTransaction L cfg nonce tip fee gas data
      (AuthFromSignature L (cfg_ChainID cfg) (cfg_Delegate cfg) (AuthNonce op') as) = Ret (Inr tx)"
  using assms unfolding FinalizeAndSignSend_def Let_def
  by (auto simp: run_iff result_def split: prod.splits)

text \<open>
  What the documentation of \<open>crypto\<close> says of signatures: a key reads back from its bytes, and a
  signature of a digest has 65 bytes, a recovery id of 0 or 1, and recovers the signer.
\<close>

definition crypto_ok :: "('k, 'x) aalib \<Rightarrow> bool" where
  "crypto_ok L \<longleftrightarrow>
     (\<forall>k. ToECDSA L (FromECDSA L k) = Inr k) \<and>
     (\<forall>h k. length h = 32 \<longrightarrow> (\<exists>sig. Sign L h k = Inr sig \<and> length sig = 65 \<and> sig ! 64 < 2 \<and>
        SigToPub L h sig = Inr (PubkeyToAddress L k)))"

lemma sign_recover:
  assumes "crypto_ok L" "length h = 32" "Sign L h k = Inr sig"
  shows "length sig = 65" "recoverPubkey L h sig = Inr (PubkeyToAddress L k)"
proof -
  from assms obtain s where s: "Sign L h k = Inr s" "length s = 65" "s ! 64 < 2"
    "SigToPub L h s = Inr (PubkeyToAddress L k)"
    unfolding crypto_ok_def by blast
  have "\<not> 27 \<le> s ! 64"
    using order_less_le_trans [OF s(3), of 27] by (auto simp: not_le)
  then show "length sig = 65" "recoverPubkey L h sig = Inr (PubkeyToAddress L k)"
    using s assms(3) by (simp_all add: recoverPubkey_def)
qed

lemma SignPaymaster_ok:
  assumes "crypto_ok L"
  obtains sig where "SignPaymaster G L h until after (FromECDSA L k) = Inr sig" "length sig = 65"
    "recoverPubkey L (HashPaymasterData G L h until after) sig = Inr (PubkeyToAddress L k)"
proof -
  have len: "length (HashPaymasterData G L h until after) = 32" by (simp add: HashPaymasterData_def)
  with assms obtain s where s: "Sign L (HashPaymasterData G L h until after) k = Inr s"
    unfolding crypto_ok_def by blast
  have "SignPaymaster G L h until after (FromECDSA L k) = Inr (NormalizeECDSAV s)"
    using assms s by (simp add: SignPaymaster_def Let_def crypto_ok_def)
  then show thesis using sign_recover [OF assms len s] by (intro that [of "NormalizeECDSAV s"]) (simp_all add: recover_normalize)
qed

lemma take_packed_paymaster:
  "pm \<noteq> 0 \<Longrightarrow> take 20 (PackPaymasterAndData pm pd sig b) = addr_bytes pm"
  "pm \<noteq> 0 \<Longrightarrow> 20 \<le> length (PackPaymasterAndData pm pd sig b)"
  by (auto simp: PackPaymasterAndData_def Let_def)

text \<open>What an accepted report says, half by half.\<close>

lemma preflight_paymaster_ok:
  assumes "geth_ok G" "preflight_paymaster G L cfg op until after r1 = Ret r" "report_OK r"
  shows "report_OK r1" "UserOpHash r = UserOpHash r1" "Paymaster op \<noteq> 0 \<Longrightarrow> Paymaster op = cfg_Paymaster cfg"
    "\<exists>k pmSig. LoadVerifyingKey L cfg = Inr k \<and> VerifyingSigner r1 \<in> {0, PubkeyToAddress L k} \<and>
       SignPaymaster G L (UserOpHash r1) until after (FromECDSA L k) = Inr pmSig \<and>
       recoverPubkey L (HashPaymasterData G L (UserOpHash r1) until after) pmSig = Inr (PubkeyToAddress L k)"
proof -
  have fr: "UserOpHash (check_signer G a x) = UserOpHash x"
    "UserOpHash (check_paymaster_sig G L d s x) = UserOpHash x" "UserOpHash (check_packed G cfg p x) = UserOpHash x"
    for a d s p x
    by (auto simp: check_signer_def check_paymaster_sig_def check_packed_def Let_def split: sum.splits)
  from assms(2,3) obtain k pmSig packed where
    k: "LoadVerifyingKey L cfg = Inr k"
    and s: "SignPaymaster G L (UserOpHash r1) until after (FromECDSA L k) = Inr pmSig"
    and p: "PackUserOp op False = Ret packed"
    and r: "r = check_packed G cfg packed (check_paymaster_sig G L (HashPaymasterData G L (UserOpHash r1) until after) pmSig
          (check_signer G (PubkeyToAddress L k) r1))"
    by (cases "PackUserOp op False") (auto simp: preflight_paymaster_def Let_def fr split: sum.splits)
  note ok4 = check_packed_ok [OF assms(3) [unfolded r]]
  note ok3 = check_paymaster_sig_ok [OF ok4(1)]
  note ok2 = check_signer_ok [OF ok3(1)]
  show "report_OK r1" by (rule ok2(1))
  show "UserOpHash r = UserOpHash r1" by (simp add: r fr)
  show "Paymaster op = cfg_Paymaster cfg" if "Paymaster op \<noteq> 0"
    using ok4(2) that geth_okD(4) [OF assms(1)]
    by (simp add: PackUserOp_paymaster [OF p] take_packed_paymaster)
  show "\<exists>k pmSig. LoadVerifyingKey L cfg = Inr k \<and> VerifyingSigner r1 \<in> {0, PubkeyToAddress L k} \<and>
       SignPaymaster G L (UserOpHash r1) until after (FromECDSA L k) = Inr pmSig \<and>
       recoverPubkey L (HashPaymasterData G L (UserOpHash r1) until after) pmSig = Inr (PubkeyToAddress L k)"
    using k s ok2(2,3) ok3(2) by (intro exI [of _ k] exI [of _ pmSig]) simp
qed

lemma preflight_run:
  assumes "PreflightSponsoredSend G L now cfg op sig onChain w = (Ret (r, op'), w')" "report_OK r"
  shows "\<exists>h until after. GetUserOpHash G L (EnsurePaymasterSigPlaceholder op) = Ret h \<and>
    op' = EnsurePaymasterSigPlaceholder op \<and>
    preflight_paymaster G L cfg op' until after
      (check_user G L op' sig (initial_report L cfg op' sig onChain h)) = Ret r"
proof (cases "GetUserOpHash G L (EnsurePaymasterSigPlaceholder op)")
  case (Ret h)
  let ?op = "EnsurePaymasterSigPlaceholder op"
  obtain d w1 where d: "DecodePaymasterWindow L now (PaymasterData op) w = (d, w1)" by fastforce
  show ?thesis
  proof (cases d)
    case win: (Ret win)
    show ?thesis
    proof (cases win)
      case (Inl e)
      then show ?thesis using assms Ret d win
        by (auto simp: PreflightSponsoredSend_def Let_def bind_io_apply)
    next
      case (Inr ua)
      obtain until after where ua: "ua = (until, after)" by fastforce
      let ?p = "preflight_paymaster G L cfg ?op until after (check_user G L ?op sig (initial_report L cfg ?op sig onChain h))"
      have "bind_io (lift_go ?p) (\<lambda>report. ret_io (report, ?op)) w1 = (Ret (r, op'), w')"
        using assms(1) Ret d win Inr ua by (simp add: PreflightSponsoredSend_def Let_def bind_io_apply)
      then show ?thesis using Ret by (cases ?p) auto
    qed
  next
    case Panic
    then show ?thesis using assms Ret d by (auto simp: PreflightSponsoredSend_def Let_def bind_io_apply)
  qed
next
  case Panic
  then show ?thesis using assms by (simp add: PreflightSponsoredSend_def Let_def)
qed

text \<open>What \<open>BuildTransferUserOp\<close> builds.\<close>

lemma built_op:
  assumes "BuildTransferUserOp L now cfg from to token amount n authNonce rid fee tip w0 = (Ret (Inr op), w1)"
    and "abi_window_ok L"
  shows "\<exists>u. Sender op = from \<and> Paymaster op = cfg_Paymaster cfg \<and>
    PaymasterSignature op = paymasterSigPlaceholder \<and>
    PaymasterData op = be_bytes 32 (unat (u :: u64)) @ be_bytes 32 (unat (0 :: u64))"
  using assms(1) window_encoded(1) [OF assms(2)]
  by (auto simp: BuildTransferUserOp_def EncodePaymasterSignedData_def DefaultValidityWindow_def
      bind_io_assoc bind_ext_apply ignore_err_def split: sum.splits)

lemma pack_either:
  "PackUserOp op True = Ret p \<Longrightarrow> \<exists>q. PackUserOp op False = Ret q"
  by (auto simp: PackUserOp_def Let_def bind_go_Ret_iff)

lemma sample_lib_crypto [simp]: "crypto_ok sample_lib"
  by (simp add: crypto_ok_def sample_lib_def nth_append)

definition sample_aa :: aaConfig where
  "sample_aa =
     \<lparr>Enabled = True, cfg_EntryPoint = 8, cfg_Delegate = 7, cfg_Paymaster = 9, SponsorAddress = 6,
      SponsorPrivateKey = ''0x06'', VerifyingPrivateKey = '' 0x04 '', cfg_ChainID = 56\<rparr>"

lemma sample_keys [simp]:
  "LoadSponsorKey sample_lib sample_aa = Inr 6" "LoadVerifyingKey sample_lib sample_aa = Inr 4"
  by (simp_all add: LoadSponsorKey_def LoadVerifyingKey_def sample_aa_def sample_lib_def TrimSpace_def
      is_space_def TrimPrefix_def HasPrefix_def hex_decode_def digit_val_def crop_address_def be_nat_def
      of_digits_def Let_def)

text \<open>The checks accept an operation with a plain window that its sender signed.\<close>

lemma preflight_accepts:
  fixes u :: u64
  assumes "geth_ok G" "crypto_ok L" "abi_window_ok L"
    and op: "Sender op = PubkeyToAddress L userKey" "Paymaster op = cfg_Paymaster cfg"
      "PaymasterSignature op \<noteq> []" "PaymasterData op = be_bytes 32 (unat u) @ be_bytes 32 (unat (0 :: u64))"
    and pm: "cfg_Paymaster cfg \<noteq> 0"
    and key: "LoadVerifyingKey L cfg = Inr k" "onChain \<in> {0, PubkeyToAddress L k}" "PubkeyToAddress L k \<noteq> 0"
    and hash: "GetUserOpHash G L op = Ret h"
    and sig: "Sign L (hash_bytes h) userKey = Inr userOpSig"
  shows "\<exists>report. PreflightSponsoredSend G L now cfg op userOpSig onChain w = (Ret (report, op), w) \<and> report_OK report"
proof -
  have ens: "EnsurePaymasterSigPlaceholder op = op"
    by (rule ensure_frame) (rule op)
  have win: "DecodePaymasterWindow L now (PaymasterData op) w = (Ret (Inr (u, 0)), w)"
    using window_encoded(2) [OF assms(3), of u 0] by (simp add: DecodePaymasterWindow_def op big_Uint64_def)
  let ?r0 = "initial_report L cfg op userOpSig onChain h"
  have r0: "UserOpHash ?r0 = h" "VerifyingSigner ?r0 = PubkeyToAddress L k" "report_OK ?r0"
      "HasPMPlaceholder ?r0" "PaymasterDataLen ?r0 = 64"
    using key op by (auto simp: initial_report_def VerifyingSignerAddress_def report_OK_def)
  let ?r1 = "check_user G L op userOpSig ?r0"
  have "length userOpSig = 65" "recoverPubkey L (hash_bytes h) userOpSig = Inr (Sender op)"
    using sign_recover [OF assms(2) _ sig] by (simp_all add: op)
  then have r1: "report_OK ?r1"
    using r0 by (simp add: check_user_def recover_normalize report_OK_def Let_def)
  obtain pmSig where s: "SignPaymaster G L h u 0 (FromECDSA L k) = Inr pmSig"
    "recoverPubkey L (HashPaymasterData G L h u 0) pmSig = Inr (PubkeyToAddress L k)"
    using SignPaymaster_ok [OF assms(2)] by metis
  obtain packed where p: "PackUserOp op False = Ret packed"
    using hash pack_either by (auto simp: GetUserOpHash_def bind_go_Ret_iff)
  have pk: "BytesToAddress G (take 20 (p_PaymasterAndData packed)) = cfg_Paymaster cfg"
    using pm geth_okD(4) [OF assms(1)] by (simp add: PackUserOp_paymaster [OF p] op take_packed_paymaster)
  have sg: "check_signer G (PubkeyToAddress L k) ?r1 = ?r1"
    using r0 key by (simp add: check_signer_def)
  have "report_OK (check_packed G cfg packed (check_paymaster_sig G L (HashPaymasterData G L h u 0) pmSig ?r1))"
    using s pk r0 r1 by (simp add: check_paymaster_sig_def check_packed_def Let_def report_OK_def)
  then obtain report where "preflight_paymaster G L cfg op u 0 ?r1 = Ret report" "report_OK report"
    using key s p sg r0 by (simp add: preflight_paymaster_def Let_def)
  then show ?thesis
    using ens hash win by (simp add: PreflightSponsoredSend_def Let_def bind_io_apply)
qed

lemma sample_hash: "\<exists>h. GetUserOpHash sample_geth sample_lib sample_op = Ret h"
proof -
  have "PackUserOp sample_op True = Ret
    \<lparr>p_Sender = 5, p_Nonce = 1, p_InitCode = InitCodeEIP7702Marker, p_CallData = [1, 2],
     p_AccountGasLimits = be_bytes 32 (10 * 2 ^ 128 + 20), p_PreVerificationGas = 30,
     p_GasFees = be_bytes 32 (4 * 2 ^ 128 + 40),
     p_PaymasterAndData = PackPaymasterAndData 9 (be_bytes 32 0 @ be_bytes 32 0) [0] True, p_Signature = []\<rparr>"
    by (simp add: PackUserOp_def sample_op_def deref_def PackUint128s_def FillBytes_def be_bytes_zeros
        replicate_add [symmetric])
  then show ?thesis
    by (simp add: GetUserOpHash_def signing_form domainSeparator_def sample_op_def deref_def Let_def)
qed

text \<open>The signature that the sample key 5 makes.\<close>

definition sample_sig :: "byte list" where
  "sample_sig = addr_bytes 5 @ replicate 45 0"

lemma sample_op_fields:
  "Sender sample_op = PubkeyToAddress sample_lib 5" "Paymaster sample_op = cfg_Paymaster sample_aa"
  "PaymasterSignature sample_op \<noteq> []"
  "PaymasterData sample_op = be_bytes 32 (unat (0 :: u64)) @ be_bytes 32 (unat (0 :: u64))"
  "cfg_Paymaster sample_aa \<noteq> 0" "PubkeyToAddress sample_lib 4 \<noteq> 0"
  "Sign sample_lib h 5 = Inr sample_sig"
  by (simp_all add: sample_op_def sample_aa_def sample_lib_def sample_sig_def be_bytes_zeros
      replicate_add [symmetric])

lemma sample_preflight:
  "\<exists>report. PreflightSponsoredSend sample_geth sample_lib now sample_aa sample_op sample_sig 0 w =
     (Ret (report, sample_op), w) \<and> report_OK report"
proof -
  obtain h where "GetUserOpHash sample_geth sample_lib sample_op = Ret h" using sample_hash by blast
  then show ?thesis
    by (intro preflight_accepts [where k = 4 and userKey = 5 and u = 0 and h = h])
       (simp_all only: sample_geth_ok sample_lib_crypto sample_lib_window sample_op_fields sample_keys
          insert_iff simp_thms)
qed

text \<open>The signature of an operation without an error in its report recovers its sender.\<close>

lemma preflight_recovers:
  assumes "geth_ok G"
    and "PreflightSponsoredSend G L now cfg op userOpSig onChain w = (Ret (report, op'), w')"
    and "report_OK report"
  shows "op' = EnsurePaymasterSigPlaceholder op \<and> GetUserOpHash G L op' = Ret (UserOpHash report) \<and>
    length userOpSig = 65 \<and> recoverPubkey L (hash_bytes (UserOpHash report)) userOpSig = Inr (Sender op)"
proof -
  let ?op = "EnsurePaymasterSigPlaceholder op"
  obtain h until after where h: "GetUserOpHash G L ?op = Ret h" and op': "op' = ?op"
    and p: "preflight_paymaster G L cfg ?op until after
      (check_user G L ?op userOpSig (initial_report L cfg ?op userOpSig onChain h)) = Ret report"
    using preflight_run [OF assms(2,3)] by metis
  note ok = preflight_paymaster_ok [OF assms(1) p assms(3)]
  from ok(1) show ?thesis
    using check_user_ok [OF ok(1)] ok h op' by (auto simp: initial_report_def recover_normalize split: if_splits)
qed

section \<open>Properties\<close>



text \<open>
  Completeness: an operation the service itself built, signed by the sender's key, passes the
  checks, provided the configured key is the paymaster's on-chain signer. The checks do not refuse
  what the service produces.
\<close>

theorem preflight_accepts_own:
  assumes "geth_ok G" "crypto_ok L" "abi_window_ok L"
    and build: "BuildTransferUserOp L now cfg (PubkeyToAddress L userKey) to token amount n authNonce rid fee tip w0 =
      (Ret (Inr op), w1)"
    and pm: "cfg_Paymaster cfg \<noteq> 0"
    and key: "LoadVerifyingKey L cfg = Inr k" "onChain \<in> {0, PubkeyToAddress L k}" "PubkeyToAddress L k \<noteq> 0"
    and hash: "GetUserOpHash G L op = Ret h"
    and sig: "Sign L (hash_bytes h) userKey = Inr userOpSig"
  shows "\<exists>report. result (PreflightSponsoredSend G L now cfg op userOpSig onChain) w = Ret (report, op) \<and> report_OK report"
proof -
  obtain u :: u64 where op: "Sender op = PubkeyToAddress L userKey" "Paymaster op = cfg_Paymaster cfg"
    "PaymasterSignature op = paymasterSigPlaceholder" "PaymasterData op = be_bytes 32 (unat u) @ be_bytes 32 (unat (0 :: u64))"
    using built_op [OF build assms(3)] by blast
  then have "PaymasterSignature op \<noteq> []" by (simp add: paymasterSigPlaceholder_def)
  from preflight_accepts [OF assms(1-3) op(1,2) this op(4) pm key hash sig, of now w]
  obtain report where "PreflightSponsoredSend G L now cfg op userOpSig onChain w = (Ret (report, op), w)"
    "report_OK report" by blast
  then show ?thesis by (intro exI [of _ report]) (simp add: result_def)
qed

theorem preflight_accepts_own_witness:
  "\<exists>op h report. fst (BuildTransferUserOp sample_lib (\<lambda>e. (1700000000, e)) sample_aa 5 1 2 100 0 3 [] 40 4
       \<lparr>env = (), trace = []\<rparr>) = Ret (Inr op) \<and> GetUserOpHash sample_geth sample_lib op = Ret h \<and>
     result (PreflightSponsoredSend sample_geth sample_lib (\<lambda>e. (1700000000, e)) sample_aa op sample_sig 0)
       \<lparr>env = (), trace = []\<rparr> = Ret (report, op) \<and> report_OK report"
proof -
  let ?now = "\<lambda>e :: unit. (1700000000, e)" and ?w = "\<lparr>env = (), trace = []\<rparr> :: unit world"
  let ?w1 = "\<lparr>env = (), trace = [Ev ''time.Now'' []]\<rparr> :: unit world"
  let ?d = "be_bytes 32 (unat (1700003600 :: u64)) @ be_bytes 32 (unat (0 :: u64))"
  let ?op = "sample_op\<lparr>Nonce := Some 0, InitCode := InitCodeEIP7702Marker,
      CallData := concat (map abi_word [AAddress 2, AAddress 1, AUint256 100]),
      VerificationGasLimit := Some DefaultVerificationGas, CallGasLimit := Some DefaultCallGas,
      PreVerificationGas := Some DefaultPreVerificationGas, PaymasterData := ?d\<rparr>"
  have "encodePaymasterWindow sample_lib 1700003600 0 = Inr ?d"
    by (rule window_encoded) simp
  then have e: "EncodePaymasterSignedData sample_lib ?now ?w = (Ret ?d, ?w1)"
    by (simp add: EncodePaymasterSignedData_def DefaultValidityWindow_def bind_io_assoc bind_ext_apply ignore_err_def)
  have "EncodeExecuteTokenTransferCall sample_lib 2 1 100 = Inr (CallData ?op)"
    by (simp add: EncodeExecuteTokenTransferCall_def sample_lib_def)
  then have b: "BuildTransferUserOp sample_lib ?now sample_aa (PubkeyToAddress sample_lib 5) 1 2 100 0 3 [] 40 4 ?w =
      (Ret (Inr ?op), ?w1)"
    using e sample_op_fields(1)
    by (simp add: BuildTransferUserOp_def bind_io_apply sample_op_def sample_aa_def paymasterSigPlaceholder_def)
  have "PackUserOp ?op True = Ret
    \<lparr>p_Sender = 5, p_Nonce = 0, p_InitCode = InitCodeEIP7702Marker, p_CallData = CallData ?op,
     p_AccountGasLimits = be_bytes 32 (150000 * 2 ^ 128 + 120000), p_PreVerificationGas = 50000,
     p_GasFees = be_bytes 32 (4 * 2 ^ 128 + 40),
     p_PaymasterAndData = PackPaymasterAndData 9 ?d [0] True, p_Signature = []\<rparr>"
    by (simp add: PackUserOp_def sample_op_def deref_def PackUint128s_def FillBytes_def InitCodeEIP7702Marker_def
        DefaultVerificationGas_def DefaultCallGas_def DefaultPreVerificationGas_def)
  then have "\<exists>h. GetUserOpHash sample_geth sample_lib ?op = Ret h"
    using signing_form [of 9 "[0]" sample_geth "unat (1700003600 :: u64)" "unat (0 :: u64)"]
    by (simp add: GetUserOpHash_def domainSeparator_def sample_op_def deref_def Let_def)
  then obtain h where h: "GetUserOpHash sample_geth sample_lib ?op = Ret h" by blast
  obtain report where "result (PreflightSponsoredSend sample_geth sample_lib ?now sample_aa ?op sample_sig 0) ?w =
      Ret (report, ?op)" "report_OK report"
    using preflight_accepts_own [OF sample_geth_ok sample_lib_crypto sample_lib_window b sample_op_fields(5)
        sample_keys(2) _ sample_op_fields(6) h sample_op_fields(7), of 0 ?w] by auto
  then show ?thesis using b h
    by (intro exI [of _ ?op] exI [of _ h] exI [of _ report]) (simp add: sample_lib_def)
qed

text \<open>Neither the user's signature nor that of the paymaster changes the hash of a completed operation.\<close>

lemma finalized_hash:
  assumes "Paymaster op \<noteq> 0" "pmSig \<noteq> []"
    and h: "GetUserOpHash G L ((EnsurePaymasterSigPlaceholder op)\<lparr>Signature := sg\<rparr>) = Ret h"
  shows "GetUserOpHash G L (EnsurePaymasterSigPlaceholder op) = Ret h"
    "GetUserOpHash G L (AttachPaymasterSignature ((EnsurePaymasterSigPlaceholder op)\<lparr>Signature := sg\<rparr>) pmSig) = Ret h"
proof -
  let ?op0 = "EnsurePaymasterSigPlaceholder op" and ?op1 = "(EnsurePaymasterSigPlaceholder op)\<lparr>Signature := sg\<rparr>"
  have e: "PaymasterSignature ?op0 \<noteq> []" using assms(1) by (rule ensure_nonempty)
  have "GetUserOpHash G L (AttachPaymasterSignature ?op0 (PaymasterSignature ?op0)\<lparr>Signature := sg\<rparr>) = GetUserOpHash G L ?op0"
    by (rule hash_stable [OF e e])
  then show "GetUserOpHash G L ?op0 = Ret h" using h by (simp add: AttachPaymasterSignature_def)
  have "GetUserOpHash G L (AttachPaymasterSignature ?op1 pmSig\<lparr>Signature := sg\<rparr>) = GetUserOpHash G L ?op1"
    by (rule hash_stable) (use e assms(2) in simp_all)
  moreover have "AttachPaymasterSignature ?op1 pmSig\<lparr>Signature := sg\<rparr> = AttachPaymasterSignature ?op1 pmSig"
    by (cases ?op0) (simp add: AttachPaymasterSignature_def)
  ultimately show "GetUserOpHash G L (AttachPaymasterSignature ?op1 pmSig) = Ret h" using h by simp
qed

text \<open>
  C4. What is broadcast: from an operation with a paymaster, a finalized transaction calls the entry
  point with the operation packed on-chain, from the sponsor's nonce at the given prices; the
  operation carries the user's normalized signature and a 65-byte paymaster signature that recovers
  the configured signer, and its hash is the one the user was asked to sign. Finalizing the result
  again (as a resubmission does) starts from that same hash.
\<close>

theorem finalized_transaction:
  assumes "crypto_ok L" "Paymaster op \<noteq> 0"
    and "FinalizeAndSignSend G L now cfg op userSig authSig nonce tip fee gas w = (Ret (Inr tx, op'), w')"
  shows "\<exists>h k until after packed data sk t f.
    GetUserOpHash G L (EnsurePaymasterSigPlaceholder op) = Ret h \<and> GetUserOpHash G L op' = Ret h \<and>
    Signature op' = NormalizeECDSAV userSig \<and> length (PaymasterSignature op') = 65 \<and>
    LoadVerifyingKey L cfg = Inr k \<and>
    recoverPubkey L (HashPaymasterData G L h until after) (PaymasterSignature op') = Inr (PubkeyToAddress L k) \<and>
    PackUserOp op' False = Ret packed \<and> EncodeHandleOps L packed (SponsorAddress cfg) = Inr data \<and>
    LoadSponsorKey L cfg = Inr sk \<and> uint256_FromBig L tip = (t, False) \<and> uint256_FromBig L fee = (f, False) \<and>
    SignNewTx L sk (cfg_ChainID cfg)
      \<lparr>sc_ChainID = fst (uint256_FromBig L (cfg_ChainID cfg)), sc_Nonce = nonce, sc_GasTipCap = t,
       sc_GasFeeCap = f, sc_Gas = gas, sc_To = cfg_EntryPoint cfg, sc_Value = 0, sc_Data = data,
       sc_AuthList = [AuthFromSignature L (cfg_ChainID cfg) (cfg_Delegate cfg) (AuthNonce op) authSig]\<rparr> = Inr tx"
proof -
  let ?op1 = "(EnsurePaymasterSigPlaceholder op)\<lparr>Signature := NormalizeECDSAV userSig\<rparr>"
  from finalize_steps [OF assms(3)] obtain until after h k pmSig packed data where
    h: "GetUserOpHash G L ?op1 = Ret h" and k: "LoadVerifyingKey L cfg = Inr k"
    and s: "SignPaymaster G L h until after (FromECDSA L k) = Inr pmSig"
    and op': "op' = AttachPaymasterSignature ?op1 pmSig"
    and p: "PackUserOp op' False = Ret packed" "EncodeHandleOps L packed (SponsorAddress cfg) = Inr data"
    and b: "BuildSetCodeTransaction L cfg nonce tip fee gas data
      (AuthFromSignature L (cfg_ChainID cfg) (cfg_Delegate cfg) (AuthNonce op') authSig) = Ret (Inr tx)"
    by blast
  have sig: "length pmSig = 65"
    "recoverPubkey L (HashPaymasterData G L h until after) pmSig = Inr (PubkeyToAddress L k)"
    using SignPaymaster_ok [OF assms(1), of G h until after k] s by auto
  then have "pmSig \<noteq> []" by auto
  from finalized_hash [OF assms(2) this h] have hash: "GetUserOpHash G L (EnsurePaymasterSigPlaceholder op) = Ret h"
    "GetUserOpHash G L op' = Ret h" unfolding op' .
  have an: "AuthNonce op' = AuthNonce op" "Signature op' = NormalizeECDSAV userSig" "PaymasterSignature op' = pmSig"
    by (simp_all add: op' AttachPaymasterSignature_def)
  from b obtain sk t f where tx: "LoadSponsorKey L cfg = Inr sk" "uint256_FromBig L tip = (t, False)"
    "uint256_FromBig L fee = (f, False)"
    "SignNewTx L sk (cfg_ChainID cfg)
      \<lparr>sc_ChainID = fst (uint256_FromBig L (cfg_ChainID cfg)), sc_Nonce = nonce, sc_GasTipCap = t,
       sc_GasFeeCap = f, sc_Gas = gas, sc_To = cfg_EntryPoint cfg, sc_Value = 0, sc_Data = data,
       sc_AuthList = [AuthFromSignature L (cfg_ChainID cfg) (cfg_Delegate cfg) (AuthNonce op') authSig]\<rparr> = Inr tx"
    by (rule BuildSetCode_ok)
  show ?thesis
    by (rule exI [of _ h], rule exI [of _ k], rule exI [of _ until], rule exI [of _ after],
        rule exI [of _ packed], rule exI [of _ data], rule exI [of _ sk], rule exI [of _ t],
        rule exI [of _ f]) (use tx in \<open>simp add: hash an sig k p\<close>)
qed

lemma sample_finalize:
  assumes "tip < 2 ^ 256" "fee < 2 ^ 256"
  shows "\<exists>tx op'. FinalizeAndSignSend sample_geth sample_lib now sample_aa sample_op sample_sig [] n tip fee gas w =
     (Ret (Inr tx, op'), w) \<and> Paymaster op' = 9 \<and> PaymasterData op' = PaymasterData sample_op \<and>
     AuthNonce op' = 3 \<and> Sender op' = 5"
proof -
  obtain h0 where "GetUserOpHash sample_geth sample_lib sample_op = Ret h0" using sample_hash by blast
  then obtain h where h: "GetUserOpHash sample_geth sample_lib (sample_op\<lparr>Signature := NormalizeECDSAV sample_sig\<rparr>) = Ret h"
    using hash_stable [of sample_op "PaymasterSignature sample_op" sample_geth sample_lib "NormalizeECDSAV sample_sig"]
      sample_op_fields(3) by (auto simp: AttachPaymasterSignature_def)
  have ens: "EnsurePaymasterSigPlaceholder sample_op = sample_op"
    by (rule ensure_frame) (rule sample_op_fields)
  have win: "DecodePaymasterWindow sample_lib now (PaymasterData sample_op) v = (Ret (Inr (0, 0)), v)" for v
    using window_encoded(2) [OF sample_lib_window, of 0 0] sample_op_fields(4)
    by (simp add: DecodePaymasterWindow_def big_Uint64_def)
  obtain pmSig where s: "SignPaymaster sample_geth sample_lib h 0 0 (FromECDSA sample_lib 4) = Inr pmSig"
    using SignPaymaster_ok [OF sample_lib_crypto] by metis
  let ?op = "AttachPaymasterSignature (sample_op\<lparr>Signature := NormalizeECDSAV sample_sig\<rparr>) pmSig"
  obtain packed where p: "PackUserOp ?op False = Ret packed"
    by (simp add: PackUserOp_def AttachPaymasterSignature_def sample_op_def deref_def PackUint128s_def FillBytes_def Let_def)
  obtain data where d: "EncodeHandleOps sample_lib packed (SponsorAddress sample_aa) = Inr data"
    by (simp add: EncodeHandleOps_def sample_lib_def)
  obtain tx where t: "BuildSetCodeTransaction sample_lib sample_aa n tip fee gas data
      (AuthFromSignature sample_lib (cfg_ChainID sample_aa) (cfg_Delegate sample_aa) (AuthNonce ?op) []) = Ret (Inr tx)"
    using assms by (simp add: BuildSetCodeTransaction_def MustFromBig_def) (simp add: sample_lib_def)
  have "FinalizeAndSignSend sample_geth sample_lib now sample_aa sample_op sample_sig [] n tip fee gas w =
      (Ret (Inr tx, ?op), w)"
    using h win s p d t by (simp add: FinalizeAndSignSend_def Let_def ens bind_io_apply)
  then show ?thesis by (fastforce simp: AttachPaymasterSignature_def sample_op_def)
qed

theorem finalized_transaction_witness:
  "\<exists>tx op' h. FinalizeAndSignSend sample_geth sample_lib (\<lambda>e. (0, e)) sample_aa sample_op sample_sig [] 12 4 40 1500000
     \<lparr>env = (), trace = []\<rparr> = (Ret (Inr tx, op'), \<lparr>env = (), trace = []\<rparr>) \<and>
     GetUserOpHash sample_geth sample_lib op' = Ret h \<and> length (PaymasterSignature op') = 65"
proof -
  obtain tx op' where r: "FinalizeAndSignSend sample_geth sample_lib (\<lambda>e. (0, e)) sample_aa sample_op sample_sig [] 12 4 40
      1500000 \<lparr>env = (), trace = []\<rparr> = (Ret (Inr tx, op'), \<lparr>env = (), trace = []\<rparr>)"
    using sample_finalize [of 4 40 "\<lambda>e. (0, e)" 12 1500000 "\<lparr>env = (), trace = []\<rparr>"] by auto
  have "Paymaster sample_op \<noteq> 0" by (simp add: sample_op_def)
  from finalized_transaction [OF sample_lib_crypto this r] r show ?thesis by blast
qed

end
