(* ===== verification/Retry.thy ===== *)
theory Retry
  imports Go_Encoding
begin

text \<open>
  The retry helper (\<open>common/retry/operation.go\<close>, \<open>common/retry/strategies.go\<close>). The operation, the
  context's \<open>Err\<close>, \<open>time.Sleep\<close> and the random source are external. A duration is an
  \<open>int64\<close> of nanoseconds. \<open>Duration\<close> adds in \<open>float64\<close>; the model adds exactly, which is the
  same value whenever \<open>Min + 2 ^ attempt * 10 ^ 9\<close> is below \<open>2 ^ 53\<close> (104 days) or \<open>Min\<close> is 0, as
  it is for \<open>Exponential ()\<close>, since \<open>2 ^ attempt * 10 ^ 9\<close> is a \<open>float64\<close> or \<open>+Inf\<close>, above any \<open>Max\<close>.
\<close>

section \<open>Strategies\<close>

record ExponentialStrategy =
  Min :: int
  Max :: int
  MaxJitter :: int

datatype Strategy = ExponentialS ExponentialStrategy | FixedS int

definition Exponential :: Strategy where
  "Exponential = ExponentialS \<lparr>Min = 0, Max = 10 * 10 ^ 9, MaxJitter = 250 * 10 ^ 6\<rparr>"

definition Fixed :: "int \<Rightarrow> Strategy" where
  "Fixed dur = FixedS dur"

definition exponential_value :: "ExponentialStrategy \<Rightarrow> int \<Rightarrow> int \<Rightarrow> int" where
  "exponential_value e attempt jitter =
     (if attempt < 0 then wrap64 (Min e + jitter)
      else (let dur = Min e + 2 ^ nat attempt * 10 ^ 9 in
            wrap64 ((if dur > Max e then Max e else dur) + jitter)))"

definition Exponential_Duration ::
  "(int \<Rightarrow> 'w \<Rightarrow> int \<times> 'w) \<Rightarrow> ExponentialStrategy \<Rightarrow> int \<Rightarrow> ('w, int) io" where
  "Exponential_Duration Int63n e attempt =
     bind_io (if MaxJitter e > 0
              then ext (Ev ''rand.Int63n'' [FormatInt (MaxJitter e)]) (Int63n (MaxJitter e))
              else ret_io 0)
       (\<lambda>jitter. ret_io (exponential_value e attempt jitter))"

fun Duration :: "(int \<Rightarrow> 'w \<Rightarrow> int \<times> 'w) \<Rightarrow> Strategy \<Rightarrow> int \<Rightarrow> ('w, int) io" where
  "Duration Int63n (ExponentialS e) attempt = Exponential_Duration Int63n e attempt"
| "Duration Int63n (FixedS dur) attempt = ret_io dur"

section \<open>The loop\<close>

text \<open>The errors of \<open>Do\<close>: a bad argument, the context's error, or \<open>ErrFailedPermanently\<close>.\<close>

datatype retry_error =
    TooFewAttempts int
  | ContextError goerror
  | ErrFailedPermanently (attempts: int) (LastErr: "goerror option")

fun retry_Error :: "retry_error \<Rightarrow> string" where
  "retry_Error (TooFewAttempts n) =
     ''need at least 1 attempt to run op, but have '' @ FormatInt n @ '' max attempts''"
| "retry_Error (ContextError e) = Error e"
| "retry_Error (ErrFailedPermanently n e) =
     ''operation failed permanently after '' @ FormatInt n @ '' attempts: '' @
     (case e of None \<Rightarrow> ''<nil>'' | Some err \<Rightarrow> Error err)"

text \<open>\<open>do_loop k i err\<close>: the rounds \<open>i\<close> to \<open>maxAttempts - 1\<close>, \<open>k\<close> of them; \<open>err\<close> is the last error.\<close>

primrec do_loop ::
  "('w \<Rightarrow> goerror option \<times> 'w) \<Rightarrow> (int \<Rightarrow> 'w \<Rightarrow> unit \<times> 'w) \<Rightarrow> (int \<Rightarrow> 'w \<Rightarrow> int \<times> 'w) \<Rightarrow>
   int \<Rightarrow> Strategy \<Rightarrow> ('w, 'a res) io \<Rightarrow> nat \<Rightarrow> int \<Rightarrow> goerror option \<Rightarrow> ('w, retry_error + 'a) io" where
  "do_loop ctxErr sleep Int63n maxAttempts strategy op 0 i err =
     ret_io (Inl (ErrFailedPermanently maxAttempts err))"
| "do_loop ctxErr sleep Int63n maxAttempts strategy op (Suc k) i err =
     bind_io (ext (Ev ''ctx.Err'' []) ctxErr) (\<lambda>c. case c of
         Some e \<Rightarrow> ret_io (Inl (ContextError e))
       | None \<Rightarrow>
           bind_io op (\<lambda>r. case r of
               Inr ret \<Rightarrow> ret_io (Inr ret)
             | Inl e \<Rightarrow>
                 bind_io (if i \<noteq> maxAttempts - 1
                          then bind_io (Duration Int63n strategy i) (\<lambda>dur.
                                 ext (Ev ''time.Sleep'' [FormatInt dur]) (sleep dur))
                          else ret_io ())
                   (\<lambda>_. do_loop ctxErr sleep Int63n maxAttempts strategy op k (i + 1) (Some e))))"

definition Do ::
  "('w \<Rightarrow> goerror option \<times> 'w) \<Rightarrow> (int \<Rightarrow> 'w \<Rightarrow> unit \<times> 'w) \<Rightarrow> (int \<Rightarrow> 'w \<Rightarrow> int \<times> 'w) \<Rightarrow>
   int \<Rightarrow> Strategy \<Rightarrow> ('w, 'a res) io \<Rightarrow> ('w, retry_error + 'a) io" where
  "Do ctxErr sleep Int63n maxAttempts strategy op =
     (if maxAttempts < 1 then ret_io (Inl (TooFewAttempts maxAttempts))
      else do_loop ctxErr sleep Int63n maxAttempts strategy op (nat maxAttempts) 0 None)"

definition Do2 ::
  "('w \<Rightarrow> goerror option \<times> 'w) \<Rightarrow> (int \<Rightarrow> 'w \<Rightarrow> unit \<times> 'w) \<Rightarrow> (int \<Rightarrow> 'w \<Rightarrow> int \<times> 'w) \<Rightarrow>
   int \<Rightarrow> Strategy \<Rightarrow> ('w, ('a \<times> 'b) res) io \<Rightarrow> ('w, retry_error + 'a \<times> 'b) io" where
  "Do2 ctxErr sleep Int63n maxAttempts strategy op = Do ctxErr sleep Int63n maxAttempts strategy op"

section \<open>The delay\<close>

lemma exponential_value_eq:
  assumes "0 \<le> Min e" "0 \<le> jitter" "int64_range (Max e + jitter)" "Min e \<le> Max e"
  shows "exponential_value e attempt jitter =
    (if attempt < 0 then Min e else min (Min e + 2 ^ nat attempt * 10 ^ 9) (Max e)) + jitter"
proof -
  let ?d = "Min e + 2 ^ nat attempt * 10 ^ 9"
  have r: "int64_range (x + jitter)" if "0 \<le> x" "x \<le> Max e" for x
    using that assms by (auto simp: int64_range_def)
  have "0 \<le> 2 ^ nat attempt * (10 ^ 9 :: int)" by simp
  then have "0 \<le> min ?d (Max e)" using assms by linarith
  moreover have "(if ?d > Max e then Max e else ?d) = min ?d (Max e)" by (simp add: min_def)
  ultimately show ?thesis
    using r [of "Min e"] r [of "min ?d (Max e)"] assms
    unfolding exponential_value_def Let_def by (simp only: wrap64_id split: if_split) simp
qed

section \<open>The rounds\<close>

text \<open>What a run of \<open>k\<close> rounds may return, given the events it made.\<close>

fun outcome ::
  "('w \<Rightarrow> goerror option \<times> 'w) \<Rightarrow> ('w \<Rightarrow> 'a res \<times> 'w) \<Rightarrow> int \<Rightarrow> nat \<Rightarrow> goerror option \<Rightarrow> event list \<Rightarrow>
   (retry_error + 'a) \<Rightarrow> bool" where
  "outcome ctxErr f maxAttempts k err es (Inr v) =
     (count_ev ''op'' es = Suc (count_ev ''time.Sleep'' es) \<and> (\<exists>e1 e2. f e1 = (Inr v, e2)))"
| "outcome ctxErr f maxAttempts k err es (Inl (ErrFailedPermanently n e)) =
     (n = maxAttempts \<and> count_ev ''op'' es = k \<and> count_ev ''time.Sleep'' es = k - 1 \<and>
      (k = 0 \<and> e = err \<or> (\<exists>e1 e2 x. f e1 = (Inl x, e2) \<and> e = Some x)))"
| "outcome ctxErr f maxAttempts k err es (Inl (ContextError c)) = (\<exists>e1 e2. ctxErr e1 = (Some c, e2))"
| "outcome ctxErr f maxAttempts k err es (Inl (TooFewAttempts n)) = False"

lemma outcome_Suc:
  assumes "outcome ctxErr f m k (Some x) es r" "f e1 = (Inl x, e2)" "count_ev ''op'' es \<le> k"
    "count_ev ''op'' as = 1" "count_ev ''time.Sleep'' as = (if k = 0 then 0 else 1)"
  shows "outcome ctxErr f m (Suc k) err (as @ es) r"
proof (cases r)
  case (Inl e)
  then show ?thesis using assms by (cases e) (auto split: if_splits)
next
  case (Inr v)
  then show ?thesis using assms by (auto split: if_splits)
qed

text \<open>The delay between two rounds.\<close>

lemma Duration_events:
  obtains d w1 es where "Duration Int63n strategy i w = (Ret d, w1)" "trace w1 = trace w @ es"
    "count_ev ''op'' es = 0" "count_ev ''time.Sleep'' es = 0"
proof (cases strategy)
  case (ExponentialS e)
  show thesis
  proof (cases "0 < MaxJitter e")
    case True
    show thesis
      by (rule that [of _ _ "[Ev ''rand.Int63n'' [FormatInt (MaxJitter e)]]"])
         (use ExponentialS True in \<open>simp add: Exponential_Duration_def bind_ext_apply\<close>)+
  next
    case False
    then show thesis
      using ExponentialS by (intro that [of _ _ "[]"]) (simp_all add: Exponential_Duration_def)
  qed
next
  case (FixedS d)
  then show thesis by (intro that [of d w "[]"]) simp_all
qed

lemma sleep_events:
  obtains es w' where "(if b
      then bind_io (Duration Int63n strategy i) (\<lambda>dur. ext (Ev ''time.Sleep'' [FormatInt dur]) (sleep dur))
      else ret_io ()) w = (Ret (), w')"
    and "trace w' = trace w @ es" and "count_ev ''op'' es = 0"
    and "count_ev ''time.Sleep'' es = (if b then 1 else 0)"
proof (cases b)
  case True
  obtain d w1 es1 where d: "Duration Int63n strategy i w = (Ret d, w1)" "trace w1 = trace w @ es1"
    "count_ev ''op'' es1 = 0" "count_ev ''time.Sleep'' es1 = 0"
    by (rule Duration_events)
  show thesis
    by (rule that [of _ "es1 @ [Ev ''time.Sleep'' [FormatInt d]]"])
       (use True d in \<open>simp add: bind_io_apply ext_apply\<close>)+
next
  case False
  then show thesis by (intro that [of w "[]"]) simp_all
qed

text \<open>
  One round: the context ends the loop, or the operation returns a value, or it fails and the loop goes on
  after a sleep, unless it was the last round.
\<close>

lemma do_loop_round:
  assumes "int (Suc k) = maxAttempts - i"
  obtains (ended) c e1 e2 where "ctxErr e1 = (Some c, e2)"
      "do_loop ctxErr sleep Int63n maxAttempts strategy (ext (Ev ''op'' []) f) (Suc k) i err w =
        (Ret (Inl (ContextError c)), w\<lparr>env := e2, trace := trace w @ [Ev ''ctx.Err'' []]\<rparr>)"
  | (returned) v e1 e2 where "f e1 = (Inr v, e2)"
      "do_loop ctxErr sleep Int63n maxAttempts strategy (ext (Ev ''op'' []) f) (Suc k) i err w =
        (Ret (Inr v), w\<lparr>env := e2, trace := trace w @ [Ev ''ctx.Err'' [], Ev ''op'' []]\<rparr>)"
  | (failed) x e1 e2 es w3 where "f e1 = (Inl x, e2)" "trace w3 = trace w @ es" "count_ev ''op'' es = 1"
      "count_ev ''time.Sleep'' es = (if k = 0 then 0 else 1)"
      "do_loop ctxErr sleep Int63n maxAttempts strategy (ext (Ev ''op'' []) f) (Suc k) i err w =
        do_loop ctxErr sleep Int63n maxAttempts strategy (ext (Ev ''op'' []) f) k (i + 1) (Some x) w3"
proof -
  obtain c e1 where c: "ctxErr (env w) = (c, e1)" by fastforce
  obtain o1 e2 where o1: "f e1 = (o1, e2)" by fastforce
  let ?w2 = "w\<lparr>env := e2, trace := trace w @ [Ev ''ctx.Err'' [], Ev ''op'' []]\<rparr>"
  show ?thesis
  proof (cases c)
    case (Some e)
    then show ?thesis using c by (intro ended [of "env w" e e1]) (simp_all add: bind_ext_apply)
  next
    case None
    show ?thesis
    proof (cases o1)
      case (Inr v)
      then show ?thesis using c o1 None by (intro returned [of e1 v e2]) (simp_all add: bind_ext_apply)
    next
      case (Inl x)
      obtain es w3 where s: "(if i \<noteq> maxAttempts - 1
          then bind_io (Duration Int63n strategy i) (\<lambda>dur. ext (Ev ''time.Sleep'' [FormatInt dur]) (sleep dur))
          else ret_io ()) ?w2 = (Ret (), w3)"
        "trace w3 = trace ?w2 @ es" "count_ev ''op'' es = 0"
        "count_ev ''time.Sleep'' es = (if i \<noteq> maxAttempts - 1 then 1 else 0)"
        by (rule sleep_events)
      have "do_loop ctxErr sleep Int63n maxAttempts strategy (ext (Ev ''op'' []) f) (Suc k) i err w =
          do_loop ctxErr sleep Int63n maxAttempts strategy (ext (Ev ''op'' []) f) k (i + 1) (Some x) w3"
        using c o1 None Inl s(1)
        by (simp add: bind_ext_apply bind_io_apply [of "if _ then _ else _"] del: if_split)
      moreover have "i \<noteq> maxAttempts - 1 \<longleftrightarrow> k \<noteq> 0" using assms by auto
      ultimately show ?thesis
        by (intro failed [of e1 x e2 w3 "[Ev ''ctx.Err'' [], Ev ''op'' []] @ es"]) (use o1 Inl s in simp_all)
    qed
  qed
qed

lemma do_loop_rounds:
  assumes "int k = maxAttempts - i"
  obtains r w' es where
    "do_loop ctxErr sleep Int63n maxAttempts strategy (ext (Ev ''op'' []) f) k i err w = (Ret r, w')"
    "trace w' = trace w @ es" "count_ev ''op'' es \<le> k" "outcome ctxErr f maxAttempts k err es r"
  using assms
proof (induction k arbitrary: i err w thesis)
  case 0
  show ?case by (rule "0.prems"(1) [of _ _ "[]"]) simp+
next
  case (Suc k)
  show ?case
  proof (rule do_loop_round [where ctxErr = ctxErr and sleep = sleep and Int63n = Int63n and strategy = strategy and f = f
        and err = err and w = w, OF Suc.prems(2)], goal_cases)
    case (1 c e1 e2)
    then show ?case by (intro Suc.prems(1) [OF 1(2), of "[Ev ''ctx.Err'' []]"]) auto
  next
    case (2 v e1 e2)
    then show ?case by (intro Suc.prems(1) [OF 2(2), of "[Ev ''ctx.Err'' [], Ev ''op'' []]"]) auto
  next
    case (3 x e1 e2 es w3)
    have "int k = maxAttempts - (i + 1)" using Suc.prems(2) by simp
    then obtain r w' es' where
      ih: "do_loop ctxErr sleep Int63n maxAttempts strategy (ext (Ev ''op'' []) f) k (i + 1) (Some x) w3 = (Ret r, w')"
      "trace w' = trace w3 @ es'" "count_ev ''op'' es' \<le> k" "outcome ctxErr f maxAttempts k (Some x) es' r"
      using Suc.IH by blast
    have "outcome ctxErr f maxAttempts (Suc k) err (es @ es') r" by (rule outcome_Suc [OF ih(4) 3(1) ih(3) 3(3,4)])
    then show ?case by (intro Suc.prems(1) [of r w' "es @ es'"]) (use 3 ih in simp_all)
  qed
qed

section \<open>Properties\<close>


text \<open>
  With the strategy \<open>Exponential\<close> and a random source that keeps its contract, every delay
  lies between 0 and 10.25 seconds, is at least \<open>2 ^ attempt\<close> seconds for the first four attempts
  and at least ten from then on; nothing overflows, whatever the attempt.
\<close>

theorem exponential_delay:
  assumes "\<And>n e. 0 < n \<Longrightarrow> 0 \<le> fst (Int63n n e) \<and> fst (Int63n n e) < n"
  shows "\<exists>dur w'. Duration Int63n Exponential attempt w = (Ret dur, w') \<and> 0 \<le> dur \<and>
    dur < 10250000000 \<and> (0 \<le> attempt \<and> attempt \<le> 3 \<longrightarrow> 2 ^ nat attempt * 1000000000 \<le> dur) \<and>
    (3 < attempt \<longrightarrow> 10000000000 \<le> dur)"
proof -
  let ?e = "\<lparr>Min = 0, Max = 10 * 10 ^ 9, MaxJitter = 250 * 10 ^ 6\<rparr> :: ExponentialStrategy"
  let ?j = "fst (Int63n 250000000 (env w))"
  have j: "0 \<le> ?j" "?j < 250000000" using assms by simp_all
  have v: "exponential_value ?e attempt ?j =
    (if attempt < 0 then 0 else min (2 ^ nat attempt * 1000000000) 10000000000) + ?j"
    using j exponential_value_eq [of ?e ?j attempt] by (simp add: int64_range_def)
  have up: "2 ^ nat attempt \<le> (8 :: int)" if "attempt \<le> 3"
    using power_increasing [of "nat attempt" 3 "2 :: int"] that by simp
  have lo: "16 \<le> (2 :: int) ^ nat attempt" if "3 < attempt"
    using power_increasing [of 4 "nat attempt" "2 :: int"] that by simp
  have d: "Duration Int63n Exponential attempt w =
    (Ret (exponential_value ?e attempt ?j),
     w\<lparr>env := snd (Int63n 250000000 (env w)), trace := trace w @ [Ev ''rand.Int63n'' [FormatInt 250000000]]\<rparr>)"
    by (simp add: Exponential_def Exponential_Duration_def bind_ext_apply)
  have "0 < (2 :: int) ^ nat attempt" by simp
  then show ?thesis unfolding d v using j up lo by (auto simp: min_def)
qed

theorem exponential_delay_witness:
  "\<exists>dur w'. Duration (\<lambda>n e. (n - 1, e)) Exponential 2 \<lparr>env = (), trace = []\<rparr> = (Ret dur, w') \<and>
     4000000000 \<le> dur \<and> dur < 10250000000"
  using exponential_delay [of "\<lambda>n e. (n - 1, e)" 2 "\<lparr>env = (), trace = []\<rparr>"] by auto

end
