(* ===== verification/Evm_Client.thy ===== *)
theory Evm_Client
  imports Evm_Types Retry
begin

text \<open>
  The JSON-RPC client of the EVM chains (\<open>chain/evmbase/ethclient.go\<close>). The node is the interface
  \<open>RPC\<close>: one field per result type a call is decoded into, giving the decoded value and the error.
  Timeouts of the contexts are part of the node's answer. The locale \<open>eth_client\<close> is what the
  adaptors rely on: which calls a method of the client makes.
\<close>

section \<open>The RPC interface\<close>

datatype rpc_arg =
    StrArg string | BoolArg bool | HashArg hash | AddrArg address
  | CallArg "address option" "byte list" "address option"

fun arg_text :: "rpc_arg \<Rightarrow> string" where
  "arg_text (StrArg s) = s"
| "arg_text (BoolArg b) = (if b then ''true'' else ''false'')"
| "arg_text (HashArg h) = EncodeToString (hash_bytes h)"
| "arg_text (AddrArg a) = EncodeToString (addr_bytes a)"
| "arg_text (CallArg to data from) = EncodeToString data"

text \<open>
  A batch call gives its own error and, per element, the decoded value and the element's error.
  \<open>into\<close> is a call that decodes into an existing value.
\<close>

record 'w RPC =
  call_header :: "string \<Rightarrow> rpc_arg list \<Rightarrow> 'w \<Rightarrow> (Header option \<times> goerror option) \<times> 'w"
  call_header_into :: "string \<Rightarrow> rpc_arg list \<Rightarrow> 'w \<Rightarrow> (Header \<times> goerror option) \<times> 'w"
  call_block :: "string \<Rightarrow> rpc_arg list \<Rightarrow> 'w \<Rightarrow> (RpcBlock option \<times> goerror option) \<times> 'w"
  call_uint64 :: "string \<Rightarrow> rpc_arg list \<Rightarrow> 'w \<Rightarrow> (u64 \<times> goerror option) \<times> 'w"
  call_big :: "string \<Rightarrow> rpc_arg list \<Rightarrow> 'w \<Rightarrow> (int \<times> goerror option) \<times> 'w"
  call_hash :: "string \<Rightarrow> rpc_arg list \<Rightarrow> 'w \<Rightarrow> (hash \<times> goerror option) \<times> 'w"
  call_tx :: "string \<Rightarrow> rpc_arg list \<Rightarrow> 'w \<Rightarrow> (Transaction option \<times> goerror option) \<times> 'w"
  call_receipt :: "string \<Rightarrow> rpc_arg list \<Rightarrow> 'w \<Rightarrow> (Receipt option \<times> goerror option) \<times> 'w"
  call_receipts :: "string \<Rightarrow> rpc_arg list \<Rightarrow> 'w \<Rightarrow> (Receipt option list \<times> goerror option) \<times> 'w"
  call_bytes :: "string \<Rightarrow> rpc_arg list \<Rightarrow> 'w \<Rightarrow> (byte list \<times> goerror option) \<times> 'w"
  batch_headers :: "(string \<times> rpc_arg list) list \<Rightarrow> 'w \<Rightarrow> (goerror option \<times> (nat \<Rightarrow> Header \<times> goerror option)) \<times> 'w"
  batch_blocks :: "(string \<times> rpc_arg list) list \<Rightarrow> 'w \<Rightarrow> (goerror option \<times> (nat \<Rightarrow> RpcBlock \<times> goerror option)) \<times> 'w"
  rpc_Close :: "'w \<Rightarrow> unit \<times> 'w"

definition CallContext ::
  "('w RPC \<Rightarrow> string \<Rightarrow> rpc_arg list \<Rightarrow> 'w \<Rightarrow> 'a \<times> 'w) \<Rightarrow> 'w RPC \<Rightarrow> string \<Rightarrow> rpc_arg list \<Rightarrow> ('w, 'a) io" where
  "CallContext call r m args = ext (Ev m (map arg_text args)) (call r m args)"

definition BatchCallContext ::
  "('w RPC \<Rightarrow> (string \<times> rpc_arg list) list \<Rightarrow> 'w \<Rightarrow> 'a \<times> 'w) \<Rightarrow> 'w RPC \<Rightarrow> (string \<times> rpc_arg list) list \<Rightarrow> ('w, 'a) io" where
  "BatchCallContext call r elems = ext (Ev ''batch'' (map fst elems)) (call r elems)"

definition toBlockNumArg :: "geth \<Rightarrow> int option \<Rightarrow> string" where
  "toBlockNumArg G number = (case number of
      None \<Rightarrow> ''latest''
    | Some n \<Rightarrow> if n \<ge> 0 then EncodeBig G n else BlockNumberString G (wrap64 n))"

text \<open>\<open>ethereum.FilterQuery\<close>, and the JSON object \<open>toFilterArg\<close> makes of it.\<close>

record FilterQuery =
  fq_BlockHash :: "hash option"
  fq_FromBlock :: "int option"
  fq_ToBlock :: "int option"
  fq_Addresses :: "address list"
  fq_Topics :: "hash list list"

datatype filter_arg = FAddresses "address list" | FTopics "hash list list" | FHash hash | FText string

definition toFilterArg :: "geth \<Rightarrow> FilterQuery \<Rightarrow> (string \<rightharpoonup> filter_arg) res" where
  "toFilterArg G q =
     (let arg = [''address'' \<mapsto> FAddresses (fq_Addresses q), ''topics'' \<mapsto> FTopics (fq_Topics q)] in
      case fq_BlockHash q of
        Some h \<Rightarrow>
          if fq_FromBlock q \<noteq> None \<or> fq_ToBlock q \<noteq> None
          then Inl (Errorf ''cannot specify both BlockHash and FromBlock/ToBlock'')
          else Inr (arg(''blockHash'' \<mapsto> FHash h))
      | None \<Rightarrow>
          Inr (arg(''fromBlock'' \<mapsto> FText (case fq_FromBlock q of None \<Rightarrow> ''0x0''
                                       | Some b \<Rightarrow> toBlockNumArg G (Some b)),
                   ''toBlock'' \<mapsto> FText (toBlockNumArg G (fq_ToBlock q)))))"

section \<open>Single calls\<close>

text \<open>\<open>(value, err)\<close> to a result, and the same for a pointer that may be nil.\<close>

definition plain_res :: "'a \<times> goerror option \<Rightarrow> 'a res" where
  "plain_res p = (case p of (x, None) \<Rightarrow> Inr x | (x, Some e) \<Rightarrow> Inl e)"

definition found_res :: "'a option \<times> goerror option \<Rightarrow> 'a res" where
  "found_res p = (case p of
      (x, Some e) \<Rightarrow> Inl e
    | (None, None) \<Rightarrow> Inl NotFound
    | (Some x, None) \<Rightarrow> Inr x)"

definition clnt_BlockHeaderByNumber :: "geth \<Rightarrow> 'w RPC \<Rightarrow> int option \<Rightarrow> ('w, Header res) io" where
  "clnt_BlockHeaderByNumber G r number =
     bind_io (CallContext call_header r ''eth_getBlockByNumber'' [StrArg (toBlockNumArg G number), BoolArg False])
       (\<lambda>p. ret_io (found_res p))"

definition clnt_BlockHeaderByHash :: "'w RPC \<Rightarrow> hash \<Rightarrow> ('w, Header res) io" where
  "clnt_BlockHeaderByHash r h =
     bind_io (CallContext call_header r ''eth_getBlockByHash'' [HashArg h, BoolArg False]) (\<lambda>p.
       ret_io (bind_res (found_res p) (\<lambda>header.
         if hdr_Hash header \<noteq> h then Inl (Errorf ''header mismatch'') else Inr header)))"

definition clnt_BlockByNumber :: "geth \<Rightarrow> 'w RPC \<Rightarrow> int option \<Rightarrow> ('w, RpcBlock res) io" where
  "clnt_BlockByNumber G r number =
     bind_io (CallContext call_block r ''eth_getBlockByNumber'' [StrArg (toBlockNumArg G number), BoolArg True])
       (\<lambda>p. ret_io (found_res p))"

definition clnt_BlockByHash :: "'w RPC \<Rightarrow> hash \<Rightarrow> ('w, RpcBlock res) io" where
  "clnt_BlockByHash r h =
     bind_io (CallContext call_block r ''eth_getBlockByHash'' [HashArg h, BoolArg True])
       (\<lambda>p. ret_io (found_res p))"

definition clnt_TxCountByAddress :: "'w RPC \<Rightarrow> address \<Rightarrow> ('w, u64 res) io" where
  "clnt_TxCountByAddress r a =
     bind_io (CallContext call_uint64 r ''eth_getTransactionCount'' [AddrArg a, StrArg ''latest''])
       (\<lambda>p. ret_io (plain_res p))"

definition clnt_SuggestGasPrice :: "'w RPC \<Rightarrow> ('w, int res) io" where
  "clnt_SuggestGasPrice r =
     bind_io (CallContext call_big r ''eth_gasPrice'' []) (\<lambda>p. ret_io (plain_res p))"

definition clnt_SuggestGasTipCap :: "'w RPC \<Rightarrow> ('w, int res) io" where
  "clnt_SuggestGasTipCap r =
     bind_io (CallContext call_big r ''eth_maxPriorityFeePerGas'' []) (\<lambda>p. ret_io (plain_res p))"

definition clnt_SendRawTransaction :: "'w RPC \<Rightarrow> string \<Rightarrow> ('w, hash res) io" where
  "clnt_SendRawTransaction r rawTx =
     bind_io (CallContext call_hash r ''eth_sendRawTransaction'' [StrArg rawTx]) (\<lambda>p. ret_io (plain_res p))"

definition clnt_TxByHash :: "'w RPC \<Rightarrow> hash \<Rightarrow> ('w, Transaction res) io" where
  "clnt_TxByHash r h =
     bind_io (CallContext call_tx r ''eth_getTransactionByHash'' [HashArg h]) (\<lambda>p. ret_io (found_res p))"

definition clnt_TxReceiptByHash :: "'w RPC \<Rightarrow> hash \<Rightarrow> ('w, Receipt res) io" where
  "clnt_TxReceiptByHash r h =
     bind_io (CallContext call_receipt r ''eth_getTransactionReceipt'' [HashArg h]) (\<lambda>p. ret_io (found_res p))"

text \<open>\<open>hexutil.Bytes.String()\<close> is \<open>0x\<close> followed by the hex of the bytes.\<close>

definition clnt_EthGetCode :: "'w RPC \<Rightarrow> address \<Rightarrow> ('w, string res) io" where
  "clnt_EthGetCode r a =
     bind_io (CallContext call_bytes r ''eth_getCode'' [AddrArg a, StrArg ''latest'']) (\<lambda>p.
       ret_io (bind_res (plain_res p) (\<lambda>bytes.
         Inr (if ''0x'' @ EncodeToString bytes = ''0x'' then ''eoa'' else ''contract''))))"

definition prefix_err :: "string \<Rightarrow> 'a res \<Rightarrow> 'a res" where
  "prefix_err p r = (case r of Inl e \<Rightarrow> Inl (wrap_err p e) | Inr x \<Rightarrow> Inr x)"

definition clnt_GetBalance :: "'w RPC \<Rightarrow> address \<Rightarrow> ('w, int res) io" where
  "clnt_GetBalance r a =
     bind_io (CallContext call_big r ''eth_getBalance'' [AddrArg a, StrArg ''latest'']) (\<lambda>p.
       ret_io (prefix_err ''get balance failed: '' (plain_res p)))"

definition clnt_GetTransactionAccount :: "'w RPC \<Rightarrow> address \<Rightarrow> ('w, int res) io" where
  "clnt_GetTransactionAccount r a =
     bind_io (CallContext call_big r ''eth_getTransactionCount'' [AddrArg a, StrArg ''pending'']) (\<lambda>p.
       ret_io (prefix_err ''get transaction count failed: '' (plain_res p)))"

text \<open>The sender is part of the call's argument only when it is not the zero address.\<close>

definition clnt_CallContract :: "'w RPC \<Rightarrow> CallMsg \<Rightarrow> ('w, byte list res) io" where
  "clnt_CallContract r msg =
     bind_io (CallContext call_bytes r ''eth_call''
        [CallArg (cm_To msg) (cm_Data msg) (if cm_From msg \<noteq> 0 then Some (cm_From msg) else None), StrArg ''latest''])
       (\<lambda>p. ret_io (prefix_err ''eth_call failed: '' (plain_res p)))"

definition clnt_Close :: "'w RPC \<Rightarrow> ('w, unit) io" where
  "clnt_Close r = ext (Ev ''rpc.Close'' []) (rpc_Close r)"

section \<open>Ranges of blocks\<close>

definition ZkFairSepoliaChainId :: u64 where "ZkFairSepoliaChainId = 43851"
definition ZkFairChainId :: u64 where "ZkFairChainId = 42766"

text \<open>
  \<open>new(big.Int).Sub(end, start).Uint64() + 1\<close>, in 64 bits: the absolute value of the difference, so
  an end below the start is not refused.
\<close>

definition range_count :: "int \<Rightarrow> int \<Rightarrow> u64" where
  "range_count startHeight endHeight = big_Uint64 (endHeight - startHeight) + 1"

text \<open>
  \<open>make\<close> panics on a length above what the runtime can allocate (\<open>maxLen\<close>); the heights of the
  elements are \<open>start + i\<close>.
\<close>

definition range_elems :: "geth \<Rightarrow> int \<Rightarrow> bool \<Rightarrow> nat \<Rightarrow> (string \<times> rpc_arg list) list" where
  "range_elems G startHeight full count =
     map (\<lambda>i. (''eth_getBlockByNumber'', [StrArg (toBlockNumArg G (Some (startHeight + int i))), BoolArg full]))
       [0..<count]"

text \<open>The slots one ZkFair group fills: from \<open>start\<close> to the \<open>end\<close> the code computes.\<close>

definition zk_group_end :: "nat \<Rightarrow> nat \<Rightarrow> nat" where
  "zk_group_end count start = (let e = start + 100 - 1 in if e > count then count - 1 else e)"

definition zk_groups :: "nat \<Rightarrow> nat list list" where
  "zk_groups count = map (\<lambda>g. [100 * g ..< Suc (zk_group_end count (100 * g))]) [0 ..< (count + 99) div 100]"

text \<open>
  The ZkFair branch: one goroutine per group, each filling its own slots. \<open>schedule\<close> is the order
  in which the calls of all groups happen. A slot past the end of the slice panics (and ends the
  process: no deferred function of the handler sees it). An element's error is stored, and never
  read. For an empty range the code would wait forever for a group that does not exist; the model
  panics there too.
\<close>

definition zk_fetch :: "geth \<Rightarrow> 'w RPC \<Rightarrow> int \<Rightarrow> nat \<Rightarrow> nat list \<Rightarrow> ('w, nat \<rightharpoonup> Header) io" where
  "zk_fetch G r startHeight count schedule =
     for_io schedule (\<lambda>j elems.
       if j < count
       then bind_io (CallContext call_header_into r ''eth_getBlockByNumber''
               [StrArg (toBlockNumArg G (Some (startHeight + int j))), BoolArg False])
             (\<lambda>(header, err). ret_io (elems(j \<mapsto> header)))
       else panic_io) Map.empty"

definition clnt_BlockHeadersByRange ::
  "geth \<Rightarrow> nat \<Rightarrow> (nat list list \<Rightarrow> nat list) \<Rightarrow> 'w RPC \<Rightarrow> int \<Rightarrow> int \<Rightarrow> u64 \<Rightarrow> ('w, Header list res) io" where
  "clnt_BlockHeadersByRange G maxLen schedule r startHeight endHeight chainId =
     (if startHeight = endHeight
      then bind_io (clnt_BlockHeaderByNumber G r (Some startHeight)) (\<lambda>h.
             ret_io (bind_res h (\<lambda>header. Inr [header])))
      else
        (let count = unat (range_count startHeight endHeight) in
         if count > maxLen then panic_io
         else if chainId = ZkFairSepoliaChainId \<or> chainId = ZkFairChainId
         then if count = 0 then panic_io else bind_io (zk_fetch G r startHeight count (schedule (zk_groups count))) (\<lambda>elems.
                ret_io (if \<exists>i \<in> set [0..<count]. elems i = None
                        then Inl (Errorf ''unable to transform rpc response <nil> into types.Header'')
                        else Inr (map (\<lambda>i. the (elems i)) [0..<count])))
         else bind_io (BatchCallContext batch_headers r (range_elems G startHeight False count)) (\<lambda>(err, elems).
                ret_io (case err of
                    Some e \<Rightarrow> Inl e
                  | None \<Rightarrow> Inr (map (\<lambda>i. fst (elems i)) [0..<count])))))"

text \<open>
  The blocks before the first element with an error; that error if it is the first one. (The test
  for a nil \<open>Result\<close> never fires: every element's result is the address of its slot.)
\<close>

fun ok_prefix :: "('a \<times> goerror option) list \<Rightarrow> 'a list \<Rightarrow> 'a list res" where
  "ok_prefix [] blocks = Inr blocks"
| "ok_prefix ((b, None) # rest) blocks = ok_prefix rest (blocks @ [b])"
| "ok_prefix ((b, Some e) # rest) blocks = (if blocks = [] then Inl e else Inr blocks)"

definition clnt_BlocksByRange ::
  "geth \<Rightarrow> nat \<Rightarrow> 'w RPC \<Rightarrow> int \<Rightarrow> int \<Rightarrow> u64 \<Rightarrow> ('w, RpcBlock list res) io" where
  "clnt_BlocksByRange G maxLen r startHeight endHeight chainId =
     (if startHeight = endHeight
      then bind_io (clnt_BlockByNumber G r (Some startHeight)) (\<lambda>b.
             ret_io (bind_res b (\<lambda>block. Inr [block])))
      else
        (let count = unat (range_count startHeight endHeight) in
         if count > maxLen then panic_io
         else bind_io (BatchCallContext batch_blocks r (range_elems G startHeight True count)) (\<lambda>(err, elems).
                ret_io (case err of
                    Some e \<Rightarrow> Inl e
                  | None \<Rightarrow> ok_prefix (map elems [0..<count]) []))))"

text \<open>
  All receipts of a block in one call; failing that, the block's transactions one by one, skipping
  those without a hash or a receipt.
\<close>

definition receipts_one_by_one :: "geth \<Rightarrow> 'w RPC \<Rightarrow> EvmTransactionList list \<Rightarrow> ('w, Receipt option list) io" where
  "receipts_one_by_one G r txs =
     for_io txs (\<lambda>txItem out.
       if etl_Hash txItem = [] then ret_io out
       else bind_io (clnt_TxReceiptByHash r (HexToHash G (etl_Hash txItem))) (\<lambda>receipt.
              ret_io (case receipt of Inl e \<Rightarrow> out | Inr rc \<Rightarrow> out @ [Some rc]))) []"

definition clnt_BlockReceiptsByNumber :: "geth \<Rightarrow> 'w RPC \<Rightarrow> int option \<Rightarrow> ('w, Receipt option list res) io" where
  "clnt_BlockReceiptsByNumber G r number =
     bind_io (CallContext call_receipts r ''eth_getBlockReceipts'' [StrArg (toBlockNumArg G number)])
       (\<lambda>(receipts, err).
          if err = None \<and> receipts \<noteq> [] then ret_io (Inr receipts)
          else bind_io (clnt_BlockByNumber G r number) (\<lambda>block. case block of
                 Inl blockErr \<Rightarrow> ret_io (Inl (case err of Some e \<Rightarrow> e | None \<Rightarrow> blockErr))
               | Inr b \<Rightarrow> bind_io (receipts_one_by_one G r (rb_Transactions b)) (\<lambda>out. ret_io (Inr out))))"

section \<open>The client\<close>

definition clnt :: "geth \<Rightarrow> nat \<Rightarrow> (nat list list \<Rightarrow> nat list) \<Rightarrow> 'w RPC \<Rightarrow> 'w EthClient" where
  "clnt G maxLen schedule r =
     \<lparr>BlockHeaderByNumber = clnt_BlockHeaderByNumber G r,
      BlockHeaderByHash = clnt_BlockHeaderByHash r,
      BlockHeadersByRange = clnt_BlockHeadersByRange G maxLen schedule r,
      BlocksByRange = clnt_BlocksByRange G maxLen r,
      BlockByNumber = clnt_BlockByNumber G r,
      BlockByHash = clnt_BlockByHash r,
      TxCountByAddress = clnt_TxCountByAddress r,
      SuggestGasPrice = clnt_SuggestGasPrice r,
      SuggestGasTipCap = clnt_SuggestGasTipCap r,
      SendRawTransaction = clnt_SendRawTransaction r,
      TxByHash = clnt_TxByHash r,
      TxReceiptByHash = clnt_TxReceiptByHash r,
      BlockReceiptsByNumber = clnt_BlockReceiptsByNumber G r,
      EthGetCode = clnt_EthGetCode r,
      GetBalance = clnt_GetBalance r,
      GetTransactionAccount = clnt_GetTransactionAccount r,
      eth_CallContract = clnt_CallContract r,
      eth_Close = clnt_Close r\<rparr>"

text \<open>
  \<open>IsURLAvailable\<close>: \<open>parse\<close> gives the host (with the port, if the URL has one), whether there is a
  port, and the scheme. Without a port and with a scheme whose default port is unknown the answer is
  yes, unasked.
\<close>

record parsed_url =
  Host :: string
  HasPort :: bool
  Scheme :: string

definition IsURLAvailable ::
  "(string \<Rightarrow> parsed_url option) \<Rightarrow> (string \<Rightarrow> 'w \<Rightarrow> bool \<times> 'w) \<Rightarrow> string \<Rightarrow> ('w, bool) io" where
  "IsURLAvailable parse dial addr =
     (case parse addr of
        None \<Rightarrow> ret_io False
      | Some u \<Rightarrow>
          if HasPort u then ext (Ev ''net.DialTimeout'' [Host u]) (dial (Host u))
          else if Scheme u = ''http'' \<or> Scheme u = ''ws''
          then ext (Ev ''net.DialTimeout'' [Host u @ '':80'']) (dial (Host u @ '':80''))
          else if Scheme u = ''https'' \<or> Scheme u = ''wss''
          then ext (Ev ''net.DialTimeout'' [Host u @ '':443'']) (dial (Host u @ '':443''))
          else ret_io True)"

record 'w dialer =
  parse_url :: "string \<Rightarrow> parsed_url option"
  net_dial :: "string \<Rightarrow> 'w \<Rightarrow> bool \<times> 'w"
  rpc_DialContext :: "string \<Rightarrow> 'w \<Rightarrow> 'w RPC res \<times> 'w"
  ctx_Err :: "'w \<Rightarrow> goerror option \<times> 'w"
  time_Sleep :: "int \<Rightarrow> 'w \<Rightarrow> unit \<times> 'w"
  rand_Int63n :: "int \<Rightarrow> 'w \<Rightarrow> int \<times> 'w"

definition DialEthClient ::
  "geth \<Rightarrow> nat \<Rightarrow> (nat list list \<Rightarrow> nat list) \<Rightarrow> 'w dialer \<Rightarrow> string \<Rightarrow> ('w, retry_error + 'w EthClient) io" where
  "DialEthClient G maxLen schedule dl rpcUrl =
     bind_io (Do (ctx_Err dl) (time_Sleep dl) (rand_Int63n dl) 5 Exponential
        (bind_io (IsURLAvailable (parse_url dl) (net_dial dl) rpcUrl) (\<lambda>ok.
           if \<not> ok then ret_io (Inl (Errorf (''address unavailable ('' @ rpcUrl @ '')'')))
           else bind_io (ext (Ev ''rpc.DialContext'' [rpcUrl]) (rpc_DialContext dl rpcUrl)) (\<lambda>client.
                  ret_io (prefix_err (''failed to dial address ('' @ rpcUrl @ ''): '') client)))))
       (\<lambda>rpcClient. ret_io (map_sum id (clnt G maxLen schedule) rpcClient))"

section \<open>Which calls the client makes\<close>

text \<open>
  The laws of the interface: only \<open>SendRawTransaction\<close> sends a transaction, and it sends the one it
  is given, once, and returns.
\<close>

locale eth_client =
  fixes C :: "'w EthClient"
  assumes quiet: "emits no_send (BlockHeaderByNumber C n)" "emits no_send (BlockHeaderByHash C h)"
      "emits no_send (BlockHeadersByRange C s e c)" "emits no_send (BlocksByRange C s e c)"
      "emits no_send (BlockByNumber C n)" "emits no_send (BlockByHash C h)"
      "emits no_send (TxCountByAddress C a)" "emits no_send (SuggestGasPrice C)"
      "emits no_send (SuggestGasTipCap C)" "emits no_send (TxByHash C h)"
      "emits no_send (TxReceiptByHash C h)" "emits no_send (BlockReceiptsByNumber C n)"
      "emits no_send (EthGetCode C a)" "emits no_send (GetBalance C a)"
      "emits no_send (GetTransactionAccount C a)" "emits no_send (eth_CallContract C m)"
      "emits no_send (eth_Close C)"
    and sends: "\<exists>r w'. SendRawTransaction C raw w = (Ret r, w') \<and>
      trace w' = trace w @ [Ev ''eth_sendRawTransaction'' [raw]]"
begin

lemma send_count:
  "count_ev ''eth_sendRawTransaction'' (new_events (SendRawTransaction C raw) w) = 1"
  using sends [of raw w] by (auto simp: new_events_def final_def)

lemma send_returns: "\<exists>r. result (SendRawTransaction C raw) w = Ret r"
  using sends [of raw w] by (auto simp: result_def)

lemma quiet_count:
  assumes "emits no_send m"
  shows "count_ev ''eth_sendRawTransaction'' (new_events m w) = 0"
  by (rule emits_count_zero) (rule emits_mono [OF assms], simp add: no_send_def)

end

lemmas clnt_call_defs = clnt_BlockHeaderByNumber_def clnt_BlockHeaderByHash_def
  clnt_BlockByNumber_def clnt_BlockByHash_def clnt_TxCountByAddress_def clnt_SuggestGasPrice_def
  clnt_SuggestGasTipCap_def clnt_TxByHash_def clnt_TxReceiptByHash_def clnt_EthGetCode_def
  clnt_GetBalance_def clnt_GetTransactionAccount_def clnt_CallContract_def clnt_Close_def

lemma emits_call: "m \<notin> broadcast_names \<Longrightarrow> emits no_send (CallContext call r m args)"
  by (simp add: CallContext_def emits_ext no_send_def)

lemma emits_batch: "emits no_send (BatchCallContext call r elems)"
  by (simp add: BatchCallContext_def emits_ext no_send_def)

lemma emits_BlockHeaderByNumber: "emits no_send (clnt_BlockHeaderByNumber G r n)"
  and emits_BlockByNumber: "emits no_send (clnt_BlockByNumber G r n)"
  and emits_TxReceiptByHash: "emits no_send (clnt_TxReceiptByHash r h)"
  by (simp_all add: clnt_call_defs emits_bind emits_call)

lemma emits_zk_fetch: "emits no_send (zk_fetch G r s c sched)"
  unfolding zk_fetch_def by (intro emits_intros emits_call) simp_all

interpretation eth_clnt: eth_client "clnt G maxLen schedule r" for G maxLen schedule r
proof
  fix n h s e c a m raw w
  show "emits no_send (BlockHeadersByRange (clnt G maxLen schedule r) s e c)"
    unfolding clnt_def EthClient.simps clnt_BlockHeadersByRange_def Let_def
    by (intro emits_intros emits_BlockHeaderByNumber emits_batch emits_zk_fetch)
  show "emits no_send (BlocksByRange (clnt G maxLen schedule r) s e c)"
    unfolding clnt_def EthClient.simps clnt_BlocksByRange_def Let_def
    by (intro emits_intros emits_BlockByNumber emits_batch)
  show "emits no_send (BlockReceiptsByNumber (clnt G maxLen schedule r) n)"
    unfolding clnt_def EthClient.simps clnt_BlockReceiptsByNumber_def receipts_one_by_one_def
    by (intro emits_intros emits_BlockByNumber emits_TxReceiptByHash emits_call) simp_all
  show "\<exists>x w'. SendRawTransaction (clnt G maxLen schedule r) raw w = (Ret x, w') \<and>
      trace w' = trace w @ [Ev ''eth_sendRawTransaction'' [raw]]"
    by (simp add: clnt_def clnt_SendRawTransaction_def CallContext_def bind_ext_apply)
qed (simp_all add: clnt_def clnt_call_defs emits_bind emits_call emits_ext no_send_def)

section \<open>Ranges\<close>

lemma range_count_le:
  assumes "s \<le> e" "e - s < 2 ^ 64 - 1"
  shows "unat (range_count s e) = nat (e - s) + 1"
proof -
  have "nat (e - s) + 1 < 2 ^ 64" using assms by (simp add: nat_less_iff)
  moreover have "range_count s e = word_of_nat (nat (e - s) + 1)"
    using assms unfolding range_count_def big_Uint64_def by (simp only: of_nat_add of_nat_1) simp
  ultimately show ?thesis by (simp only: unat_of_nat) simp
qed

lemma range_count_make:
  assumes "s < e" "nat (e - s) + 1 \<le> maxLen" "maxLen < 2 ^ 63"
  shows "unat (range_count s e) = nat (e - s) + 1"
proof -
  have "nat (e - s) < 2 ^ 63" using assms by linarith
  then have "e - s < 2 ^ 63" using assms by (simp add: nat_less_iff)
  then show ?thesis using assms by (intro range_count_le) simp_all
qed

lemma ok_prefix_Inr:
  "ok_prefix ps acc = Inr bs \<Longrightarrow>
   \<exists>k \<le> length ps. bs = acc @ map fst (take k ps) \<and> (\<forall>i < k. snd (ps ! i) = None) \<and>
     (k < length ps \<longrightarrow> snd (ps ! k) \<noteq> None)"
proof (induction ps acc arbitrary: bs rule: ok_prefix.induct)
  case (2 b rest blocks)
  then obtain k where k: "k \<le> length rest" "bs = (blocks @ [b]) @ map fst (take k rest)"
    "\<forall>i < k. snd (rest ! i) = None" "k < length rest \<longrightarrow> snd (rest ! k) \<noteq> None" by auto
  then show ?case by (intro exI [of _ "Suc k"]) (auto simp: nth_Cons split: nat.splits)
next
  case (3 b e rest blocks)
  then show ?case by (intro exI [of _ 0]) (auto split: if_splits)
qed simp

lemma ok_prefix_total: "\<exists>r. ok_prefix ps acc = r \<and> (r = Inr [] \<longrightarrow> ps = [] \<and> acc = [])"
  by (induction ps acc rule: ok_prefix.induct) auto

lemma ok_prefix_Inl: "ok_prefix ps [] = Inl e \<longleftrightarrow> ps \<noteq> [] \<and> snd (hd ps) = Some e"
proof -
  have *: "acc \<noteq> [] \<Longrightarrow> ok_prefix qs acc \<noteq> Inl e" for qs acc
    by (induction qs acc rule: ok_prefix.induct) auto
  show ?thesis
  proof (cases ps)
    case (Cons p ps')
    then show ?thesis using * by (cases p; cases "snd p") auto
  qed simp
qed

lemma bind_res_case: "bind_res m f = (case m of Inl e \<Rightarrow> Inl e | Inr x \<Rightarrow> f x)"
  by (cases m) auto

text \<open>
  C21. A range of blocks with their transactions: one batch call asks for every height from the
  start to the end, both included. An error of the first element is the answer; otherwise the
  answer is the blocks before the first element with an error: consecutive from the start, none of
  them an element that failed, and all of them when none failed.
\<close>

theorem blocks_by_range:
  assumes "s < e" "nat (e - s) + 1 \<le> maxLen" "maxLen < 2 ^ 63"
    and "batch_blocks r (range_elems G s True (nat (e - s) + 1)) (env w) = ((None, el), env')"
  shows "\<exists>k. k \<le> nat (e - s) + 1 \<and> (\<forall>i < k. snd (el i) = None) \<and>
    (k \<le> nat (e - s) \<longrightarrow> snd (el k) \<noteq> None) \<and>
    result (BlocksByRange (clnt G maxLen schedule r) s e c) w =
      Ret (if k = 0 then Inl (the (snd (el 0))) else Inr (map (\<lambda>i. fst (el i)) [0..<k]))"
proof -
  let ?n = "nat (e - s) + 1"
  have n: "unat (range_count s e) = ?n" using assms(1-3) by (rule range_count_make)
  have run: "result (BlocksByRange (clnt G maxLen schedule r) s e c) w = Ret (ok_prefix (map el [0..<?n]) [])"
    using assms n by (simp add: clnt_def clnt_BlocksByRange_def BatchCallContext_def bind_ext_apply result_def)
  show ?thesis
  proof (cases "ok_prefix (map el [0..<?n]) []")
    case (Inl err)
    then have "snd (el 0) = Some err" by (simp add: ok_prefix_Inl hd_map del: upt_Suc)
    with run Inl show ?thesis by (intro exI [of _ 0]) simp
  next
    case (Inr bs)
    then obtain k where k: "k \<le> ?n" "bs = map fst (take k (map el [0..<?n]))"
      "\<forall>i < k. snd (map el [0..<?n] ! i) = None" "k < ?n \<longrightarrow> snd (map el [0..<?n] ! k) \<noteq> None"
      using ok_prefix_Inr [OF Inr] by auto
    have "k \<noteq> 0"
    proof
      assume "k = 0"
      then have "snd (el 0) \<noteq> None" using k(4) by (simp del: upt_Suc)
      then have "\<exists>x. ok_prefix (map el [0..<?n]) [] = Inl x" by (auto simp: ok_prefix_Inl hd_map simp del: upt_Suc)
      with Inr show False by simp
    qed
    moreover have "bs = map (\<lambda>i. fst (el i)) [0..<k]"
      using k(1,2) by (simp add: take_map comp_def del: upt_Suc)
    ultimately show ?thesis using k run Inr by (intro exI [of _ k]) (simp del: upt_Suc)
  qed
qed

definition sample_block :: RpcBlock where
  "sample_block = \<lparr>rb_Hash = 7, rb_ParentHash = 6, rb_Number = ''0x5'', rb_Transactions = [], rb_BaseFee = [], rb_Timestamp = ''0x9''\<rparr>"

definition sample_header :: Header where
  "sample_header = \<lparr>hdr_Number = Some 5, hdr_ParentHash = 6, hdr_Time = 9, hdr_BaseFee = Some 50, hdr_Hash = 7\<rparr>"

text \<open>A node that knows one block and header, fails every batch element from the third on, and answers no
  other call.\<close>

definition sample_rpc :: "unit RPC" where
  "sample_rpc =
     (let fail = Errorf ''unavailable'' in
      \<lparr>call_header = \<lambda>m a e. ((Some sample_header, None), e), call_header_into = \<lambda>m a e. ((sample_header, None), e),
       call_block = \<lambda>m a e. ((Some sample_block, None), e), call_uint64 = \<lambda>m a e. ((0, Some fail), e),
       call_big = \<lambda>m a e. ((1000, None), e), call_hash = \<lambda>m a e. ((7, None), e),
       call_tx = \<lambda>m a e. ((None, None), e), call_receipt = \<lambda>m a e. ((None, None), e),
       call_receipts = \<lambda>m a e. (([], Some fail), e), call_bytes = \<lambda>m a e. (([], None), e),
       batch_headers = \<lambda>b e. ((None, \<lambda>i. (sample_header, if i < 2 then None else Some fail)), e),
       batch_blocks = \<lambda>b e. ((None, \<lambda>i. (sample_block, if i < 2 then None else Some fail)), e),
       rpc_Close = \<lambda>e. ((), e)\<rparr>)"

theorem blocks_by_range_witness:
  "result (BlocksByRange (clnt sample_geth 1000 concat sample_rpc) 10 14 56) \<lparr>env = (), trace = []\<rparr> =
     Ret (Inr [sample_block, sample_block])"
proof -
  let ?el = "\<lambda>i :: nat. (sample_block, if i < 2 then None else Some (Errorf ''unavailable''))"
  have "batch_blocks sample_rpc (range_elems sample_geth 10 True (nat (14 - 10) + 1)) () = ((None, ?el), ())"
    by (simp add: sample_rpc_def Let_def)
  with blocks_by_range [of 10 14 1000 sample_rpc sample_geth "\<lparr>env = (), trace = []\<rparr>" ?el "()" concat 56]
  obtain k where k: "k \<le> 5" "\<forall>i < k. snd (?el i) = None" "k \<le> 4 \<longrightarrow> snd (?el k) \<noteq> None"
    "result (BlocksByRange (clnt sample_geth 1000 concat sample_rpc) 10 14 56) \<lparr>env = (), trace = []\<rparr> =
      Ret (if k = 0 then Inl (the (snd (?el 0))) else Inr (map (\<lambda>i. fst (?el i)) [0..<k]))"
    by auto
  have "\<not> k > 2" using k(2) by (auto dest: spec [of _ 2])
  moreover have "\<not> k < 2" using k(3) by (auto split: if_splits)
  ultimately have "k = 2" by simp
  with k(4) show ?thesis by (simp add: upt_rec numeral_2_eq_2)
qed

text \<open>
  A range of headers on a chain other than ZkFair: one header per height, in order, the one the
  node gave for that height, whether or not the element carries an error.
\<close>

theorem headers_by_range:
  assumes "s < e" "nat (e - s) + 1 \<le> maxLen" "maxLen < 2 ^ 63"
    and "c \<noteq> ZkFairSepoliaChainId" "c \<noteq> ZkFairChainId"
    and "batch_headers r (range_elems G s False (nat (e - s) + 1)) (env w) = ((err, el), env')"
  shows "result (BlockHeadersByRange (clnt G maxLen schedule r) s e c) w =
    Ret (case err of Some x \<Rightarrow> Inl x | None \<Rightarrow> Inr (map (\<lambda>i. fst (el i)) [0..<nat (e - s) + 1]))"
proof -
  have n: "unat (range_count s e) = nat (e - s) + 1" using assms(1-3) by (rule range_count_make)
  then show ?thesis using assms
    by (simp add: clnt_def clnt_BlockHeadersByRange_def BatchCallContext_def bind_ext_apply result_def
        split: option.split)
qed

theorem headers_by_range_witness:
  "result (BlockHeadersByRange (clnt sample_geth 1000 concat sample_rpc) 10 12 56) \<lparr>env = (), trace = []\<rparr> =
     Ret (Inr [sample_header, sample_header, sample_header])"
proof -
  have "batch_headers sample_rpc (range_elems sample_geth 10 False (nat (12 - 10) + 1)) () =
    ((None, \<lambda>i. (sample_header, if i < 2 then None else Some (Errorf ''unavailable''))), ())"
    by (simp add: sample_rpc_def Let_def)
  with headers_by_range [of 10 12 1000 56 sample_rpc sample_geth "\<lparr>env = (), trace = []\<rparr>"]
  show ?thesis by (simp add: ZkFairSepoliaChainId_def ZkFairChainId_def upt_rec)
qed

text \<open>
  On the ZkFair chains a range of 99 headers modulo 100 (99, 199, ...) panics, in whatever
  order the groups run: the last group's end is the length of the slice.
\<close>

theorem zkfair_range_panics:
  assumes "s < e" "nat (e - s) + 1 \<le> maxLen" "maxLen < 2 ^ 63" "(nat (e - s) + 1) mod 100 = 99"
    and "c = ZkFairSepoliaChainId \<or> c = ZkFairChainId" "\<And>gs. set (schedule gs) = set (concat gs)"
  shows "result (BlockHeadersByRange (clnt G maxLen schedule r) s e c) w = Panic"
proof -
  let ?n = "nat (e - s) + 1" and ?g = "(nat (e - s) + 1) div 100"
  have n: "unat (range_count s e) = ?n" using assms(1-3) by (rule range_count_make)
  have m: "?n = 100 * ?g + 99" using assms(4) by (metis mult_div_mod_eq)
  then have "?g < (?n + 99) div 100" by linarith
  moreover have "zk_group_end ?n (100 * ?g) = ?n" using m by (simp add: zk_group_end_def)
  ultimately have "?n \<in> set (concat (zk_groups ?n))"
    using m unfolding zk_groups_def by (auto intro!: bexI [of _ ?g])
  then have "?n \<in> set (schedule (zk_groups ?n))" by (simp add: assms(6))
  then have "fst (zk_fetch G r s ?n (schedule (zk_groups ?n)) w) = Panic"
    unfolding zk_fetch_def by (rule for_io_panic) simp
  then show ?thesis using assms(1,2,5) n
    by (cases "zk_fetch G r s ?n (schedule (zk_groups ?n)) w")
       (simp add: clnt_def clnt_BlockHeadersByRange_def Let_def result_def bind_io_apply)
qed

theorem zkfair_range_panics_witness:
  "result (BlockHeadersByRange (clnt sample_geth 1000 concat sample_rpc) 1 99 42766) \<lparr>env = (), trace = []\<rparr> = Panic"
  by (rule zkfair_range_panics) (simp_all add: ZkFairChainId_def)

end
