(* ===== verification/Evm_Gas.thy ===== *)
theory Evm_Gas
  imports Evm_Client
begin

text \<open>
  The gas policy (\<open>chain/evmbase/gas.go\<close>) and the resubmission policy
  (\<open>chain/evmbase/send_retry.go\<close>). \<open>big.Int.Div\<close> by a positive constant is the \<open>div\<close> of \<open>int\<close>.
\<close>

definition defaultGasTipCap :: int where "defaultGasTipCap = 1000000000"
definition defaultGasFeeCap :: int where "defaultGasFeeCap = 3000000000"

definition tip_fallback :: "int \<Rightarrow> int" where
  "tip_fallback gasPrice = (let tip = gasPrice div 10 in if tip \<le> 0 then 1 else tip)"

definition resolve_tip :: "int \<Rightarrow> int res \<Rightarrow> int" where
  "resolve_tip gasPrice suggested = (case suggested of
      Inl tipErr \<Rightarrow> tip_fallback gasPrice
    | Inr tip \<Rightarrow> if tip \<le> 0 then tip_fallback gasPrice else tip)"

definition resolve_fee :: "int \<Rightarrow> int \<Rightarrow> Header res \<Rightarrow> int" where
  "resolve_fee gasPrice tip header =
     (let fee = (case header of
          Inl headerErr \<Rightarrow> gasPrice * 12 div 10
        | Inr h \<Rightarrow> (case hdr_BaseFee h of
              Some baseFee \<Rightarrow> if baseFee > 0 then baseFee * 2 + tip else gasPrice * 12 div 10
            | None \<Rightarrow> gasPrice * 12 div 10))
      in if fee < tip then tip else fee)"

definition ResolveEip1559GasFees :: "'w EthClient \<Rightarrow> ('w, (int \<times> int) res) io" where
  "ResolveEip1559GasFees client =
     bind_io (SuggestGasPrice client) (\<lambda>suggested. case suggested of
         Inl err \<Rightarrow> ret_io (Inl err)
       | Inr price \<Rightarrow>
           (let gasPrice = (if price \<le> 0 then defaultGasFeeCap else price) in
            bind_io (SuggestGasTipCap client) (\<lambda>tipRes.
              let gasTipCap = resolve_tip gasPrice tipRes in
              bind_io (BlockHeaderByNumber client None) (\<lambda>header.
                ret_io (Inr (gasTipCap, resolve_fee gasPrice gasTipCap header))))))"

definition DefaultEip1559GasFees :: "int \<times> int" where
  "DefaultEip1559GasFees = (defaultGasTipCap, defaultGasFeeCap)"

text \<open>\<open>IsRetryableSendError nil\<close> is false.\<close>

definition IsRetryableSendError :: "goerror option \<Rightarrow> bool" where
  "IsRetryableSendError err = (case err of
      None \<Rightarrow> False
    | Some e \<Rightarrow>
        (let msg = ToLower (Error e) in
         Contains msg ''replacement transaction underpriced'' \<or>
         Contains msg ''nonce too low'' \<or>
         Contains msg ''already known''))"

definition BumpEip1559GasFees :: "int \<Rightarrow> int \<Rightarrow> int \<Rightarrow> int \<times> int" where
  "BumpEip1559GasFees gasTipCap gasFeeCap attempt =
     (let multiplier = 120 + attempt * 20;
          tip = gasTipCap * multiplier div 100;
          fee = gasFeeCap * multiplier div 100;
          tip = (if tip \<le> 0 then 1 else tip);
          fee = (if fee < tip then tip else fee)
      in (tip, fee))"

section \<open>Valid fee pairs\<close>

text \<open>What the network requires of a dynamic-fee transaction: a positive tip, not above the fee cap.\<close>

definition fees_ok :: "int \<times> int \<Rightarrow> bool" where
  "fees_ok p \<longleftrightarrow> 1 \<le> fst p \<and> fst p \<le> snd p"

lemma resolve_tip_pos: "1 \<le> resolve_tip gp s"
  by (auto simp: resolve_tip_def tip_fallback_def Let_def split: sum.splits)

lemma resolve_fee_ge: "tip \<le> resolve_fee gp tip h"
  by (simp add: resolve_fee_def Let_def)

lemma default_fees_ok [simp]: "fees_ok DefaultEip1559GasFees"
  by (simp add: fees_ok_def DefaultEip1559GasFees_def defaultGasTipCap_def defaultGasFeeCap_def)

lemma bump_fees_ok: "fees_ok (BumpEip1559GasFees tip fee n)"
  by (auto simp: fees_ok_def BumpEip1559GasFees_def Let_def)

lemma resolve_fees_ok:
  "ResolveEip1559GasFees client w = (Ret (Inr p), w') \<Longrightarrow> fees_ok p"
  unfolding ResolveEip1559GasFees_def
  by (auto simp: bind_io_def Let_def fees_ok_def resolve_tip_pos resolve_fee_ge
      split: prod.splits go.splits sum.splits)

context eth_client
begin

lemma quiet_Resolve: "emits no_send (ResolveEip1559GasFees C)"
  unfolding ResolveEip1559GasFees_def Let_def by (intro emits_intros quiet)

end

lemma scale_mono: "0 \<le> a \<Longrightarrow> 100 \<le> m \<Longrightarrow> a \<le> a * m div (100 :: int)"
proof -
  assume "0 \<le> a" "100 \<le> m"
  then have "a * 100 \<le> a * m" by (intro mult_left_mono) auto
  then have "a * 100 div 100 \<le> a * m div 100" by (intro zdiv_mono1) auto
  then show ?thesis by simp
qed

section \<open>Properties\<close>

text \<open>
  C26. Whatever the node answers, fees that \<open>ResolveEip1559GasFees\<close> returns are a valid pair: the
  tip is at least 1 and at most the fee cap. The only error is the one of the gas price.
\<close>

theorem resolved_fees:
  "case result (ResolveEip1559GasFees (clnt G maxLen schedule r)) w of
     Ret (Inr (tip, fee)) \<Rightarrow> 1 \<le> tip \<and> tip \<le> fee
   | Ret (Inl e) \<Rightarrow> snd (fst (call_big r ''eth_gasPrice'' [] (env w))) = Some e
   | Panic \<Rightarrow> False"
proof -
  let ?p = "fst (call_big r ''eth_gasPrice'' [] (env w))"
  show ?thesis
  proof (cases "snd ?p")
    case (Some e)
    then have "plain_res ?p = Inl e" by (cases ?p) (simp add: plain_res_def)
    then show ?thesis using Some
      by (simp add: result_def ResolveEip1559GasFees_def clnt_def clnt_SuggestGasPrice_def
          CallContext_def bind_io_assoc bind_ext_apply)
  next
    case None
    then obtain x where "plain_res ?p = Inr x" by (cases ?p) (auto simp: plain_res_def)
    then show ?thesis
      by (simp add: result_def ResolveEip1559GasFees_def clnt_def clnt_SuggestGasPrice_def
          clnt_SuggestGasTipCap_def clnt_BlockHeaderByNumber_def Let_def
          CallContext_def bind_io_assoc bind_ext_apply resolve_tip_pos resolve_fee_ge)
  qed
qed



text \<open>
  A send error is retried exactly when its text contains one of the three conflict messages,
  in any case and at any place; without an error nothing is retried.
\<close>

theorem retryable_iff:
  "IsRetryableSendError err \<longleftrightarrow>
     (\<exists>e a m b. err = Some e \<and> Error e = a @ m @ b \<and>
       ToLower m \<in> {''replacement transaction underpriced'', ''nonce too low'', ''already known''})"
proof -
  have *: "Contains (ToLower s) t \<longleftrightarrow> (\<exists>a m b. s = a @ m @ b \<and> ToLower m = t)" for s t
  proof
    assume "Contains (ToLower s) t"
    then obtain a b where "ToLower s = a @ t @ b" by (auto simp: Contains_iff)
    then show "\<exists>a m b. s = a @ m @ b \<and> ToLower m = t"
      unfolding ToLower_def
      by (auto simp: map_eq_append_conv append_eq_map_conv)
  next
    assume "\<exists>a m b. s = a @ m @ b \<and> ToLower m = t"
    then show "Contains (ToLower s) t" using Contains_append by auto
  qed
  let ?ts = "{''replacement transaction underpriced'', ''nonce too low'', ''already known''}"
  have "IsRetryableSendError err \<longleftrightarrow> (\<exists>e. err = Some e \<and> (\<exists>t \<in> ?ts. Contains (ToLower (Error e)) t))"
    by (cases err) (simp_all add: IsRetryableSendError_def Let_def)
  then show ?thesis unfolding * by blast
qed

end
