(* ===== verification/Handlers.thy ===== *)
theory Handlers
  imports Walletapi
begin

text \<open>
  What the chains' handlers share: the contract of a \<open>SendTransaction\<close> handler (the locale
  \<open>batch_send\<close>), which broadcasts the transactions of a request one by one, in order, and reports one
  result for each. Each chain whose handler has this shape interprets the locale.
\<close>

text \<open>A list of computations that all return: the list of their results.\<close>

lemma map_io_returns:
  assumes "\<And>x w. x \<in> set xs \<Longrightarrow> \<exists>y w'. f x w = (Ret y, w')"
  obtains ys w' where "map_io f xs w = (Ret ys, w')" "length ys = length xs"
  using assms
proof (induction xs arbitrary: w thesis)
  case (Cons x xs)
  obtain y w1 where y: "f x w = (Ret y, w1)" using Cons.prems(2) by force
  obtain ys w2 where ys: "map_io f xs w1 = (Ret ys, w2)" "length ys = length xs"
    using Cons.IH Cons.prems(2) by (metis list.set_intros(2))
  show ?case by (rule Cons.prems(1) [of "y # ys" w2]) (use y ys in \<open>simp_all add: bind_io_apply\<close>)
qed simp

text \<open>The calls of a loop are those of its items, one after the other.\<close>

lemma map_io_trace:
  assumes "map_io f xs w = (Ret ys, w')"
    and "\<And>x v y v'. x \<in> set xs \<Longrightarrow> f x v = (Ret y, v') \<Longrightarrow> trace v' = trace v @ g x"
  shows "trace w' = trace w @ concat (map g xs)"
  using assms
proof (induction xs arbitrary: w ys)
  case (Cons x xs)
  then obtain y w1 zs where "f x w = (Ret y, w1)" "map_io f xs w1 = (Ret zs, w')"
    by (auto simp: bind_io_Ret_iff)
  with Cons.IH [of w1 zs] Cons.prems(2) show ?case by simp
qed simp

locale batch_send =
  fixes handler :: "SendTransactionsRequest \<Rightarrow> ('w, SendTransactionResponse reply) io"
    and item :: "RawTransaction \<Rightarrow> ('w, RawTransactionReturn) io"
    and calls :: "RawTransaction \<Rightarrow> event list"
    and msg :: string
  assumes loop: "handler req = bind_io (map_io item (str_RawTx req))
      (\<lambda>rs. ret_io (okReply \<lparr>Code = SUCCESS, Msg = msg, TxnRet = rs\<rparr>))"
    and item_run: "\<exists>r w'. item t w = (Ret r, w') \<and> trace w' = trace w @ calls t"
begin

lemma handler_run:
  "\<exists>rs w'. handler req w = (Ret (okReply \<lparr>Code = SUCCESS, Msg = msg, TxnRet = rs\<rparr>), w') \<and>
     length rs = length (str_RawTx req) \<and> trace w' = trace w @ concat (map calls (str_RawTx req)) \<and>
     (\<forall>i < length rs. \<exists>w1 w2. item (str_RawTx req ! i) w1 = (Ret (rs ! i), w2))"
proof -
  obtain rs w' where m: "map_io item (str_RawTx req) w = (Ret rs, w')" "length rs = length (str_RawTx req)"
    using map_io_returns [of "str_RawTx req" item w] item_run by metis
  have "trace w' = trace w @ concat (map calls (str_RawTx req))"
    using m(1) by (rule map_io_trace) (metis item_run prod.inject go.inject)
  with m map_io_nth [OF m(1)] show ?thesis
    by (intro exI [of _ rs] exI [of _ w']) (simp add: loop bind_io_apply)
qed

text \<open>The handler never fails as a whole.\<close>

lemma handler_returns: "result (handler req) w \<noteq> Panic"
  using handler_run [of req w] by (auto simp: result_def)

end

end
