(* ===== verification/Evm_Adaptor.thy ===== *)
theory Evm_Adaptor
  imports Evm_Gas Handlers Dispatcher
begin

text \<open>
  The handlers that \<open>chain/ethereum/ethereum.go\<close> and \<open>chain/bnbchain/bnb.go\<close> write in the same words,
  and what they rest on: the transaction builders (\<open>chain/evmbase/transaction.go\<close>) and the explorer
  client (\<open>chain/evmbase/erc20data.go\<close>). A handler of this theory takes the parts in which the two
  packages differ as arguments.

  Signing and serialising a transaction (\<open>core/types\<close>), base64 and the JSON codec of the request are
  the record \<open>txlib\<close>; \<open>'x\<close> is the type of signed transactions. The block explorer is the record
  \<open>explorer\<close>.
\<close>

section \<open>Transactions\<close>

record LegacyTx =
  lt_Nonce :: u64
  lt_GasPrice :: int
  lt_Gas :: u64
  lt_To :: "address option"
  lt_Value :: int
  lt_Data :: "byte list"

record 'x txlib =
  SigningHash :: "DynamicFeeTx \<Rightarrow> int \<Rightarrow> hash"      \<comment> \<open>\<open>LatestSignerForChainID(c).Hash(NewTx(d))\<close>\<close>
  WithSignature :: "DynamicFeeTx \<Rightarrow> int \<Rightarrow> byte list \<Rightarrow> 'x res"
  legacy_SigningHash :: "LegacyTx \<Rightarrow> int \<Rightarrow> hash"
  legacy_WithSignature :: "LegacyTx \<Rightarrow> int \<Rightarrow> byte list \<Rightarrow> 'x res"
  tx_MarshalBinary :: "'x \<Rightarrow> byte list res"
  rlp_EncodeToBytes :: "'x \<Rightarrow> byte list res"
  signed_Hash :: "'x \<Rightarrow> hash"
  types_Sender :: "int \<Rightarrow> 'x \<Rightarrow> address res"        \<comment> \<open>with the latest signer of the chain id\<close>
  base64_Decode :: "string \<Rightarrow> byte list res"
  json_Unmarshal_tx :: "byte list \<Rightarrow> Eip1559DynamicFeeTx res"

definition BuildErc20Data :: "geth \<Rightarrow> address \<Rightarrow> int \<Rightarrow> byte list" where
  "BuildErc20Data G toAddress amount =
     (let methodId = take 4 (hash_bytes (Keccak256 G (map (\<lambda>c. word_of_nat (of_char c)) ''transfer(address,uint256)'')));
          dataAddress = LeftPadBytes G (addr_bytes toAddress) 32;
          dataAmount = LeftPadBytes G (big_Bytes amount) 32 in
      methodId @ dataAddress @ dataAmount)"

definition BuildErc721Data :: "geth \<Rightarrow> address \<Rightarrow> address \<Rightarrow> int \<Rightarrow> byte list" where
  "BuildErc721Data G fromAddress toAddress tokenId =
     (let methodId = take 4 (hash_bytes (Keccak256 G
            (map (\<lambda>c. word_of_nat (of_char c)) ''safeTransferFrom(address,address,uint256)'')));
          dataFromAddress = LeftPadBytes G (addr_bytes fromAddress) 32;
          dataToAddress = LeftPadBytes G (addr_bytes toAddress) 32;
          dataTokenId = LeftPadBytes G (big_Bytes tokenId) 32 in
      methodId @ dataFromAddress @ dataToAddress @ dataTokenId)"

definition CreateLegacyUnSignTx :: "geth \<Rightarrow> 'x txlib \<Rightarrow> LegacyTx \<Rightarrow> int \<Rightarrow> string" where
  "CreateLegacyUnSignTx G T txData chainId = HashHex G (legacy_SigningHash T txData chainId)"

definition CreateEip1559UnSignTx :: "geth \<Rightarrow> 'x txlib \<Rightarrow> DynamicFeeTx \<Rightarrow> int \<Rightarrow> string res" where
  "CreateEip1559UnSignTx G T txData chainId = Inr (HashHex G (SigningHash T txData chainId))"

definition CreateLegacySignedTx ::
  "geth \<Rightarrow> 'x txlib \<Rightarrow> LegacyTx \<Rightarrow> byte list \<Rightarrow> int \<Rightarrow> (string \<times> string) res" where
  "CreateLegacySignedTx G T txData signature chainId =
     (case legacy_WithSignature T txData chainId signature of
        Inl err \<Rightarrow> Inl (Errorf ''tx with signature fail'')
      | Inr signedTx \<Rightarrow>
          (case rlp_EncodeToBytes T signedTx of
             Inl err \<Rightarrow> Inl (Errorf ''encode tx to byte fail'')
           | Inr signedTxData \<Rightarrow>
               Inr (''0x'' @ EncodeToString signedTxData, HashHex G (signed_Hash T signedTx))))"

text \<open>The signer is the chain id it was made for.\<close>

definition CreateEip1559SignedTx ::
  "geth \<Rightarrow> 'x txlib \<Rightarrow> DynamicFeeTx \<Rightarrow> byte list \<Rightarrow> int \<Rightarrow> (int \<times> 'x \<times> string \<times> string) res" where
  "CreateEip1559SignedTx G T txData signature chainId =
     (case WithSignature T txData chainId signature of
        Inl err \<Rightarrow> Inl (Errorf ''tx with signature fail'')
      | Inr signedTx \<Rightarrow>
          (case tx_MarshalBinary T signedTx of
             Inl err \<Rightarrow> Inl (Errorf ''encode tx to byte fail'')
           | Inr signedTxData \<Rightarrow>
               Inr (chainId, signedTx, ''0x'' @ EncodeToString signedTxData, HashHex G (signed_Hash T signedTx))))"

section \<open>The explorer client\<close>

record AccountTxRequest =
  atr_Page :: u64
  atr_Limit :: u64
  atr_Action :: string
  atr_Address :: string

record AccountTxResponse =
  atx_TxId :: string
  atx_From :: string
  atx_To :: string
  atx_Amount :: string
  atx_TxFee :: string

record ExplorerBalanceRequest =
  ebr_ChainShortName :: string
  ebr_ExplorerName :: string
  ebr_Account :: "string list"
  ebr_Symbol :: "string list"
  ebr_ContractAddress :: "string list"
  ebr_ProtocolType :: "string list"
  ebr_Page :: "string list"
  ebr_Limit :: "string list"

text \<open>A balance is \<open>None\<close> when the response's \<open>Balance\<close>, or the number in it, is nil.\<close>

record 'w explorer =
  exp_GetTxByAddress :: "AccountTxRequest \<Rightarrow> 'w \<Rightarrow> AccountTxResponse list res \<times> 'w"
  exp_GetAccountBalance :: "ExplorerBalanceRequest \<Rightarrow> 'w \<Rightarrow> int option res \<times> 'w"

definition ed_GetTxByAddress ::
  "'w explorer \<Rightarrow> u64 \<Rightarrow> u64 \<Rightarrow> string \<Rightarrow> string \<Rightarrow> ('w, AccountTxResponse list res) io" where
  "ed_GetTxByAddress ed page pagesize addr action =
     ext (Ev ''explorer.GetTxByAddress'' [addr, action])
       (exp_GetTxByAddress ed \<lparr>atr_Page = page, atr_Limit = pagesize, atr_Action = action, atr_Address = addr\<rparr>)"

definition ed_GetBalanceByAddress :: "'w explorer \<Rightarrow> string \<Rightarrow> string \<Rightarrow> ('w, int option res) io" where
  "ed_GetBalanceByAddress ed contractAddr addr =
     ext (Ev ''explorer.GetAccountBalance'' [addr])
       (exp_GetAccountBalance ed
         \<lparr>ebr_ChainShortName = ''ETH'', ebr_ExplorerName = ''etherescan'', ebr_Account = [addr],
          ebr_Symbol = [''ETH''], ebr_ContractAddress = [contractAddr], ebr_ProtocolType = [''''],
          ebr_Page = [''1''], ebr_Limit = [''10'']\<rparr>)"

text \<open>The parts of the outside world a constructor of an EVM adaptor uses.\<close>

record 'w evm_env =
  ev_dialer :: "'w dialer"
  ev_maxLen :: nat
  ev_schedule :: "nat list list \<Rightarrow> nat list"
  ev_new_explorer :: "string \<Rightarrow> string \<Rightarrow> 'w \<Rightarrow> 'w explorer res \<times> 'w"  \<comment> \<open>\<open>etherscan.NewChainExplorerAdaptor\<close>\<close>

definition NewEthDataClient :: "'w evm_env \<Rightarrow> string \<Rightarrow> string \<Rightarrow> ('w, 'w explorer res) io" where
  "NewEthDataClient V baseUrl apiKey = ext (Ev ''etherscan.New'' [baseUrl]) (ev_new_explorer V apiKey baseUrl)"

section \<open>Addresses\<close>

definition convert_one :: "geth \<Rightarrow> PublicKey \<Rightarrow> Addresses" where
  "convert_one G publicKeyItem =
     (let mk = (\<lambda>a. \<lparr>ad_Address = a, ad_PublicKey = pk_PublicKey publicKeyItem, ad_Type = pk_Type publicKeyItem\<rparr>) in
      case hex_decode (TrimPrefix (pk_PublicKey publicKeyItem) ''0x'') of
        Inl err \<Rightarrow> mk []
      | Inr publicKeyBytes \<Rightarrow>
          (case ParsePubKey G publicKeyBytes of
             Inl err \<Rightarrow> mk []
           | Inr addressCommon \<Rightarrow> mk (AddressHex G addressCommon)))"

definition evm_ConvertAddresses :: "geth \<Rightarrow> ConvertAddressesRequest \<Rightarrow> ('w, ConvertAddressesResponse reply) io" where
  "evm_ConvertAddresses G req =
     ret_io (okReply \<lparr>Code = SUCCESS, Msg = ''success'',
       cvr_Address = map (convert_one G) (car_PublicKey req)\<rparr>)"

text \<open>The pattern \<open>^[0-9a-fA-F]{40}$\<close>.\<close>

definition hex40 :: "string \<Rightarrow> bool" where
  "hex40 s \<longleftrightarrow> length s = 40 \<and> list_all (\<lambda>c. digit_val c \<noteq> None) s"

text \<open>The slice \<open>addr[2:]\<close> panics on an address of fewer than two characters.\<close>

definition valid_one :: "string \<Rightarrow> AddressesValid go" where
  "valid_one addr =
     bind_go (slice addr 2 (int (length addr))) (\<lambda>rest.
       let ok = hex40 rest in
       Ret \<lparr>av_Address = addr, av_Type = [],
            av_Valid = (if length addr \<noteq> 42 \<or> \<not> HasPrefix addr ''0x'' \<or> \<not> ok then False else True)\<rparr>)"

definition evm_ValidAddresses :: "ValidAddressesRequest \<Rightarrow> ('w, ValidAddressesResponse reply) io" where
  "evm_ValidAddresses req =
     bind_io (map_io (\<lambda>a. lift_go (valid_one (ad_Address a))) (var_Addresses req)) (\<lambda>vs.
       ret_io (okReply \<lparr>Code = SUCCESS, Msg = ''success'', AddressValid = vs\<rparr>))"

section \<open>Queries\<close>

text \<open>
  \<open>SetString\<close> with its result ignored: \<open>bad s\<close> is the value a failed call leaves, which the
  documentation of \<open>math/big\<close> calls undefined.
\<close>

definition set_string :: "(string \<Rightarrow> int) \<Rightarrow> string \<Rightarrow> int" where
  "set_string bad s = (case big_SetString 10 s of Some n \<Rightarrow> n | None \<Rightarrow> bad s)"

definition evm_GetLastestBlock :: "geth \<Rightarrow> 'w EthClient \<Rightarrow> chain_request \<Rightarrow> ('w, LastestBlockResponse reply) io" where
  "evm_GetLastestBlock G C req =
     bind_io (BlockHeaderByNumber C None) (\<lambda>h. case h of
         Inl err \<Rightarrow> ret_io (errReply err)
       | Inr latest \<Rightarrow>
           (case hdr_Number latest of
              None \<Rightarrow> panic_io
            | Some n \<Rightarrow> ret_io (okReply
                \<lparr>Code = SUCCESS, Msg = ''get lastest block success'', lb_Height = big_Uint64 n,
                 lb_Hash = HashHex G (hdr_Hash latest), lb_ParentHash = HashHex G (hdr_ParentHash latest),
                 lb_Timestamp = hdr_Time latest\<rparr>)))"

definition evm_tx_item :: "u32 \<Rightarrow> AccountTxResponse \<Rightarrow> TransactionList" where
  "evm_tx_item txType t = zero_TransactionList
     \<lparr>TxHash := atx_TxId t, To := [\<lparr>ta_Address = atx_To t, ta_Amount = atx_Amount t\<rparr>],
      From := [\<lparr>fa_Address = atx_From t, fa_Amount = atx_Amount t\<rparr>], Fee := atx_TxFee t, Status := 1,
      TxType := txType\<rparr>"

definition evm_GetTransactionByAddress ::
  "'w explorer \<Rightarrow> TransactionByAddressRequest \<Rightarrow> ('w, TransactionByAddressResponse reply) io" where
  "evm_GetTransactionByAddress ed req =
     (let isToken = (tar_ContractAddress req \<noteq> ''0x00'' \<and> tar_ContractAddress req \<noteq> []);
          txType = (if isToken then 1 else 0) in
      bind_io (ed_GetTxByAddress ed (tar_Page req) (tar_PageSize req) (tar_Address req)
                 (if isToken then ''tokentx'' else ''txlist''))
        (\<lambda>resp. case resp of
           Inl err \<Rightarrow> ret_io (bothReply \<lparr>Code = ERROR, Msg = ''get tx list fail'', tap_Transaction = []\<rparr> err)
         | Inr txs \<Rightarrow> ret_io (okReply
             \<lparr>Code = SUCCESS, Msg = ''get tx list by address success'', tap_Transaction = map (evm_tx_item txType) txs\<rparr>)))"

text \<open>The answer is an error even where the balance is known.\<close>

definition evm_GetAccountBalance :: "'w explorer \<Rightarrow> AccountBalanceRequest \<Rightarrow> ('w, AccountBalanceResponse reply) io" where
  "evm_GetAccountBalance ed req =
     bind_io (ed_GetBalanceByAddress ed (abr_ContractAddress req) (abr_Address req)) (\<lambda>r. case r of
         Inl err \<Rightarrow> ret_io (okReply (balance_rsp ERROR ''get token balance fail'' ''0''))
       | Inr balance \<Rightarrow>
           (let balanceStr = (case balance of None \<Rightarrow> ''0'' | Some b \<Rightarrow> FormatInt b) in
            ret_io (okReply (balance_rsp ERROR ''get token balance fail'' balanceStr))))"

definition evm_CallContract :: "geth \<Rightarrow> 'w EthClient \<Rightarrow> CallContractRequest \<Rightarrow> ('w, CallContractResponse reply) io" where
  "evm_CallContract G C request =
     (if ccr_ContractAddress request = []
      then ret_io (okReply (call_rsp ERROR ''contract_address is required''))
      else
        (let toAddr = HexToAddress G (ccr_ContractAddress request);
             dataHex = TrimPrefix (ccr_Data request) ''0x'' in
         case hex_decode dataHex of
           Inl err \<Rightarrow> ret_io (okReply (call_rsp ERROR (''invalid call data: '' @ Error err)))
         | Inr data \<Rightarrow>
             bind_io (eth_CallContract C
                 \<lparr>cm_From = (if ccr_From request \<noteq> [] then HexToAddress G (ccr_From request) else 0),
                  cm_To = Some toAddr, cm_Data = data\<rparr>)
               (\<lambda>res. case res of
                  Inl err \<Rightarrow> ret_io (okReply (call_rsp ERROR (Error err)))
                | Inr out \<Rightarrow> ret_io (okReply
                    \<lparr>Code = SUCCESS, Msg = ''success'', Result = ''0x'' @ EncodeToString out\<rparr>))))"

definition evm_GetAddressApproveList :: "AddressApproveListRequest \<Rightarrow> ('w, AddressApproveListResponse reply) io" where
  "evm_GetAddressApproveList request =
     ret_io (okReply (approve_rsp SUCCESS ''don't support in this stage, support in the future''))"

text \<open>The JSON of the zero \<open>Eip1559DynamicFeeTx\<close>; its \<open>signature\<close> is \<open>omitempty\<close>.\<close>

definition empty_tx_json :: string where
  "empty_tx_json =
     (let q = (\<lambda>k. quote k @ '':'' @ quote []) in
      ''{'' @ Join [q ''chain_id'', q ''from_address'', q ''to_address'', q ''amount'', q ''contract_address''] '','' @ ''}'')"

definition evm_BuildTransactionSchema :: "chain_request \<Rightarrow> ('w, TransactionSchemaResponse reply) io" where
  "evm_BuildTransactionSchema request =
     ret_io (okReply \<lparr>Code = SUCCESS, Msg = ''build transaction schema success'', Schema = empty_tx_json\<rparr>)"

section \<open>Building transactions\<close>

text \<open>
  \<open>build\<close> is the package's \<open>buildDynamicFeeTx\<close>. Its error is only logged: the code goes on and reads
  the chain id of a nil transaction, which panics.
\<close>

definition evm_BuildUnSignTransaction ::
  "geth \<Rightarrow> 'x txlib \<Rightarrow> (string \<Rightarrow> ('w, (DynamicFeeTx \<times> Eip1559DynamicFeeTx) res) io) \<Rightarrow>
   UnSignTransactionRequest \<Rightarrow> ('w, UnSignTransactionResponse reply) io" where
  "evm_BuildUnSignTransaction G T build request =
     bind_io (map_io (\<lambda>unsignedTxItem.
        bind_io (build (Base64Tx unsignedTxItem)) (\<lambda>r. case r of
            Inl err \<Rightarrow> panic_io
          | Inr (dFeeTx, _) \<Rightarrow>
              (case CreateEip1559UnSignTx G T dFeeTx (df_ChainID dFeeTx) of
                 Inl err \<Rightarrow> ret_io \<lparr>UnsignedTx = []\<rparr>
               | Inr rawTx \<Rightarrow> ret_io \<lparr>UnsignedTx = rawTx\<rparr>)))
        (utr_Base64Txn request))
       (\<lambda>txs. ret_io (okReply \<lparr>Code = SUCCESS, Msg = ''build unsign transaction success'', UnsignedTxn = txs\<rparr>))"

text \<open>
  The loop of \<open>BuildSignedTransaction\<close>. A signature that is not hex counts up to its first bad
  character. When the signed transaction cannot be made, the entry for it is set up and then
  \<open>types.Sender\<close> is called on a nil transaction, which panics; a sender that cannot be recovered, or is
  not the request's \<open>from_address\<close>, ends the whole request with an error.
\<close>

fun signed_loop ::
  "geth \<Rightarrow> 'x txlib \<Rightarrow> (string \<Rightarrow> ('w, (DynamicFeeTx \<times> Eip1559DynamicFeeTx) res) io) \<Rightarrow>
   Base64TransactionWithSignature list \<Rightarrow> SignedTxWithHash list \<Rightarrow> ('w, SignedTransactionResponse reply) io" where
  "signed_loop G T build [] acc =
     ret_io (okReply \<lparr>Code = SUCCESS, Msg = ''build signed transaction success'', SignedTxn = acc\<rparr>)"
| "signed_loop G T build (t # ts) acc =
     bind_io (build (bts_Base64Tx t)) (\<lambda>r. case r of
         Inl err \<Rightarrow> panic_io
       | Inr (dFeeTx, dynamicFeeTx) \<Rightarrow>
           (let sig = fst (DecodeString (bts_Signature t)) in
            case CreateEip1559SignedTx G T dFeeTx sig (df_ChainID dFeeTx) of
              Inl err \<Rightarrow> panic_io
            | Inr (signer, signedTx, rawTx, txHash) \<Rightarrow>
                (case types_Sender T signer signedTx of
                   Inl err \<Rightarrow> ret_io (errReply (wrap_err ''recover sender failed: '' err))
                 | Inr sender \<Rightarrow>
                     if AddressHex G sender \<noteq> e1_FromAddress dynamicFeeTx
                     then ret_io (errReply (Errorf (''sender address mismatch: expected '' @
                            e1_FromAddress dynamicFeeTx @ '', got '' @ AddressHex G sender)))
                     else signed_loop G T build ts
                            (acc @ [\<lparr>stx_SignedTx = rawTx, stx_TxHash = txHash, stx_IsSuccess = True\<rparr>]))))"

definition evm_BuildSignedTransaction ::
  "geth \<Rightarrow> 'x txlib \<Rightarrow> (string \<Rightarrow> ('w, (DynamicFeeTx \<times> Eip1559DynamicFeeTx) res) io) \<Rightarrow>
   SignedTransactionRequest \<Rightarrow> ('w, SignedTransactionResponse reply) io" where
  "evm_BuildSignedTransaction G T build request = signed_loop G T build (sgr_TxnWithSignature request) []"

text \<open>The part of \<open>buildDynamicFeeTx\<close> up to the node's calls: what is sent where.\<close>

definition NativeTokenGasLimit :: u64 where "NativeTokenGasLimit = 21000"
definition Erc20TokenGasLimit :: u64 where "Erc20TokenGasLimit = 120000"

record tx_plan =
  pl_ChainID :: int
  pl_To :: address
  pl_Value :: int
  pl_Data :: "byte list"
  pl_Gas :: u64

definition plan_tx :: "geth \<Rightarrow> 'x txlib \<Rightarrow> string \<Rightarrow> (tx_plan \<times> Eip1559DynamicFeeTx) res" where
  "plan_tx G T base64Tx =
     bind_res (base64_Decode T base64Tx) (\<lambda>txReqJsonByte.
     bind_res (json_Unmarshal_tx T txReqJsonByte) (\<lambda>dynamicFeeTx.
     case big_SetString 10 (e1_ChainId dynamicFeeTx) of
       None \<Rightarrow> Inl (Errorf (''invalid chain ID: '' @ e1_ChainId dynamicFeeTx))
     | Some chainID \<Rightarrow>
         (case big_SetString 10 (e1_Amount dynamicFeeTx) of
            None \<Rightarrow> Inl (Errorf (''invalid amount: '' @ e1_Amount dynamicFeeTx))
          | Some amount \<Rightarrow>
              (let toAddress = HexToAddress G (e1_ToAddress dynamicFeeTx) in
               if IsEthTransfer dynamicFeeTx
               then Inr (\<lparr>pl_ChainID = chainID, pl_To = toAddress, pl_Value = amount, pl_Data = [],
                          pl_Gas = NativeTokenGasLimit\<rparr>, dynamicFeeTx)
               else Inr (\<lparr>pl_ChainID = chainID, pl_To = HexToAddress G (e1_ContractAddress dynamicFeeTx), pl_Value = 0,
                          pl_Data = BuildErc20Data G toAddress amount, pl_Gas = Erc20TokenGasLimit\<rparr>, dynamicFeeTx)))))"

definition planned :: "tx_plan \<Rightarrow> int \<Rightarrow> int \<Rightarrow> int \<Rightarrow> DynamicFeeTx" where
  "planned p txNonce gasTipCap gasFeeCap =
     \<lparr>df_ChainID = pl_ChainID p, df_Nonce = big_Uint64 txNonce, df_GasTipCap = gasTipCap, df_GasFeeCap = gasFeeCap,
      df_Gas = pl_Gas p, df_To = pl_To p, df_Value = pl_Value p, df_Data = pl_Data p\<rparr>"

section \<open>Lemmas\<close>

text \<open>The hex form of an amount's 32 bytes, and the amount they read back as.\<close>

lemma pad_amount:
  assumes "geth_ok G" "0 \<le> x" "x < 2 ^ 256"
  shows "LeftPadBytes G (big_Bytes x) 32 = be_bytes 32 (nat x)"
proof -
  have "nat x < 256 ^ 32" using assms by (simp add: nat_less_iff)
  then show ?thesis using assms by (simp add: geth_okD(7) big_Bytes_def left_pad_nat_Bytes)
qed

lemma length_BuildErc20Data:
  assumes "geth_ok G" "0 \<le> x" "x < 2 ^ 256"
  shows "length (BuildErc20Data G a x) = 68"
  unfolding BuildErc20Data_def Let_def pad_amount [OF assms]
  using assms(1) by (simp add: geth_okD(7) left_pad_def)

lemma CreateEip1559SignedTx_Inr:
  "CreateEip1559SignedTx G T d sig c = Inr (sg, x, raw, h) \<longleftrightarrow>
     WithSignature T d c sig = Inr x \<and> sg = c \<and> h = HashHex G (signed_Hash T x) \<and>
     (\<exists>bs. tx_MarshalBinary T x = Inr bs \<and> raw = ''0x'' @ EncodeToString bs)"
  by (auto simp: CreateEip1559SignedTx_def split: sum.splits)

text \<open>Everything a request builds is of the request's chain, sender and destination.\<close>

lemma signed_loop_ok:
  assumes "signed_loop G T build ts acc w = (Ret (Some rsp, None), w')"
  shows "\<exists>out. SignedTxn rsp = acc @ out \<and> length out = length ts \<and>
    (\<forall>i < length ts. \<exists>w1 w2 d e x sig. build (bts_Base64Tx (ts ! i)) w1 = (Ret (Inr (d, e)), w2) \<and>
       WithSignature T d (df_ChainID d) sig = Inr x \<and>
       stx_IsSuccess (out ! i) \<and> stx_TxHash (out ! i) = HashHex G (signed_Hash T x) \<and>
       (\<exists>a. types_Sender T (df_ChainID d) x = Inr a \<and> AddressHex G a = e1_FromAddress e))"
  using assms
proof (induction ts arbitrary: acc w)
  case Nil
  then show ?case by (auto simp: okReply_def)
next
  case (Cons t ts)
  from Cons.prems obtain d e x w1 raw a where
    b: "build (bts_Base64Tx t) w = (Ret (Inr (d, e)), w1)"
    and x: "WithSignature T d (df_ChainID d) (fst (DecodeString (bts_Signature t))) = Inr x"
    and a: "types_Sender T (df_ChainID d) x = Inr a" "AddressHex G a = e1_FromAddress e"
    and r: "signed_loop G T build ts
      (acc @ [\<lparr>stx_SignedTx = raw, stx_TxHash = HashHex G (signed_Hash T x), stx_IsSuccess = True\<rparr>]) w1 = (Ret (Some rsp, None), w')"
    by (auto simp: run_iff Let_def CreateEip1559SignedTx_Inr errReply_def split: prod.splits if_splits)
  from Cons.IH [OF r] obtain out where out: "SignedTxn rsp =
      (acc @ [\<lparr>stx_SignedTx = raw, stx_TxHash = HashHex G (signed_Hash T x), stx_IsSuccess = True\<rparr>]) @ out"
    "length out = length ts"
    "\<forall>i < length ts. \<exists>w1 w2 d e x sig. build (bts_Base64Tx (ts ! i)) w1 = (Ret (Inr (d, e)), w2) \<and>
       WithSignature T d (df_ChainID d) sig = Inr x \<and>
       stx_IsSuccess (out ! i) \<and> stx_TxHash (out ! i) = HashHex G (signed_Hash T x) \<and>
       (\<exists>a. types_Sender T (df_ChainID d) x = Inr a \<and> AddressHex G a = e1_FromAddress e)"
    by blast
  let ?o = "\<lparr>stx_SignedTx = raw, stx_TxHash = HashHex G (signed_Hash T x), stx_IsSuccess = True\<rparr>"
  show ?case
  proof (intro exI [of _ "?o # out"] conjI allI impI)
    fix i assume "i < length (t # ts)"
    show "\<exists>w1 w2 d e x sig. build (bts_Base64Tx ((t # ts) ! i)) w1 = (Ret (Inr (d, e)), w2) \<and>
       WithSignature T d (df_ChainID d) sig = Inr x \<and>
       stx_IsSuccess ((?o # out) ! i) \<and> stx_TxHash ((?o # out) ! i) = HashHex G (signed_Hash T x) \<and>
       (\<exists>a. types_Sender T (df_ChainID d) x = Inr a \<and> AddressHex G a = e1_FromAddress e)"
    proof (cases i)
      case 0
      show ?thesis unfolding 0
        by (rule exI [of _ w], rule exI [of _ w1], rule exI [of _ d], rule exI [of _ e], rule exI [of _ x]) (use b x a in auto)
    next
      case (Suc j)
      then show ?thesis using out(3) \<open>i < length (t # ts)\<close> by simp
    qed
  qed (use out in auto)
qed

end
