(* ===== verification/Ethereum.thy ===== *)
theory Ethereum
  imports Evm_Adaptor
begin

text \<open>
  The Ethereum adaptor (\<open>chain/ethereum/ethereum.go\<close>): its own handlers, its adaptor value and its
  constructor. The handlers it shares word for word with the BNB adaptor are in \<open>Evm_Adaptor\<close>.
\<close>

text \<open>
  What the package uses beyond the client: \<open>hexutils.BytesToHex\<close> (a module that is not part of the
  repository) and the value a failed \<open>big.Int.SetString\<close> leaves, which the documentation calls undefined.
\<close>

record ethlib =
  hexutils_BytesToHex :: "byte list \<Rightarrow> string"
  undefined_SetString :: "string \<Rightarrow> int"

definition MaxFeePerGas :: int where "MaxFeePerGas = 105000000000"
definition MaxPriorityFeePerGas :: int where "MaxPriorityFeePerGas = 75000000000"

text \<open>One entry of the block; a transaction without a recipient is skipped. Both addresses are the sender's.\<close>

definition eth_block_tx :: "EvmTransactionList \<Rightarrow> TransactionList" where
  "eth_block_tx bockItem = zero_TransactionList
     \<lparr>TxHash := etl_Hash bockItem, Fee := etl_GasPrice bockItem, Status := 0,
      From := [\<lparr>fa_Address = etl_From bockItem, fa_Amount = etl_Value bockItem\<rparr>],
      To := [\<lparr>ta_Address = etl_From bockItem, ta_Amount = etl_Value bockItem\<rparr>]\<rparr>"

text \<open>
  An error of the node is remembered in \<open>isError\<close>, and then the nil block is read (for the log line
  and the loop), which panics: the branch that reports the error is never reached.
\<close>

definition eth_GetBlock :: "geth \<Rightarrow> ethlib \<Rightarrow> 'w EthClient \<Rightarrow> BlockRequest \<Rightarrow> ('w, BlockResponse reply) io" where
  "eth_GetBlock G H C req =
     bind_io (if br_IsBlockHash req then BlockByHash C (HexToHash G (br_HashHeight req))
              else BlockByNumber C (Some (set_string (undefined_SetString H) (br_HashHeight req))))
       (\<lambda>r. case r of
          Inl err \<Rightarrow> panic_io
        | Inr rpcBlock \<Rightarrow>
            (let transactionList = map eth_block_tx (filter (\<lambda>t. etl_To t \<noteq> []) (rb_Transactions rpcBlock)) in
             case TimestampUint64 G rpcBlock of
               Inl err \<Rightarrow> ret_io (okReply (block_rsp ERROR ''failed to decode block timestamp''))
             | Inr timestamp \<Rightarrow> ret_io (okReply
                 \<lparr>Code = SUCCESS, Msg = ''get block success'', bkr_Height = rb_Number rpcBlock,
                  bkr_Hash = HashHex G (rb_Hash rpcBlock), bkr_ParentHash = HashHex G (rb_ParentHash rpcBlock),
                  bkr_Timestamp = timestamp, bkr_Transactions = transactionList\<rparr>)))"

definition eth_GetBatchBlock :: "BatchBlockRequest \<Rightarrow> ('w, BatchBlockResponse reply) io" where
  "eth_GetBatchBlock req = ret_io (okReply (batch_rsp ERROR ''batch block query is not supported''))"

text \<open>The kind of a transaction and the contract it calls; calldata under four bytes panics.\<close>

definition eth_tx_kind :: "geth \<Rightarrow> ethlib \<Rightarrow> address \<Rightarrow> string \<Rightarrow> byte list \<Rightarrow> (u32 \<times> string) go" where
  "eth_tx_kind G H to code data =
     (if code = ''0x'' then Ret (1, [])
      else bind_go (slice data 0 4) (\<lambda>m.
             if hexutils_BytesToHex H m = ''0xa9059cbb'' then Ret (3, AddressHex G to)
             else Ret (2, AddressHex G to)))"

definition eth_GetTransactionByHash ::
  "geth \<Rightarrow> ethlib \<Rightarrow> 'w EthClient \<Rightarrow> TransactionByHashRequest \<Rightarrow> ('w, TransactionByHashResponse reply) io" where
  "eth_GetTransactionByHash G H C req =
     bind_io (TxByHash C (HexToHash G (thr_Hash req))) (\<lambda>t. case t of
         Inl err \<Rightarrow>
           if err = NotFound then ret_io (okReply (txhash_rsp ERROR ''Ethereum Tx NotFound''))
           else ret_io (okReply (txhash_rsp ERROR ''Ethereum Tx Fetch Error''))
       | Inr tx \<Rightarrow>
           bind_io (TxReceiptByHash C (HexToHash G (thr_Hash req))) (\<lambda>rc. case rc of
               Inl err \<Rightarrow> ret_io (okReply (txhash_rsp ERROR ''Get transaction receipt error''))
             | Inr receipt \<Rightarrow>
                 (case tx_To tx of
                    None \<Rightarrow> panic_io
                  | Some to \<Rightarrow>
                      bind_io (EthGetCode C to) (\<lambda>c. case c of
                          Inl err \<Rightarrow> ret_io (errReply err)
                        | Inr code \<Rightarrow>
                            bind_io (lift_go (eth_tx_kind G H to code (tx_Data tx))) (\<lambda>(txType, contractAddress).
                            let txStatus = (if rc_Status receipt = 1 then TxStatus_Success else TxStatus_Failed) in
                            case rc_EffectiveGasPrice receipt of
                              None \<Rightarrow> panic_io
                            | Some price \<Rightarrow>
                                (let fee = price * sint (rc_GasUsed receipt) in
                                 ret_io (okReply \<lparr>Code = SUCCESS, Msg = ''get transaction success'',
                                   thp_Transaction = Some (zero_TransactionList
                                     \<lparr>TxHash := HashHex G (tx_Hash tx), Fee := FormatInt fee,
                                      Status := status_code txStatus, ContractAddress := contractAddress,
                                      TxType := txType,
                                      From := [\<lparr>fa_Address = AddressHex G to, fa_Amount = FormatInt (tx_Value tx)\<rparr>],
                                      To := [\<lparr>ta_Address = AddressHex G to, ta_Amount = FormatInt (tx_Value tx)\<rparr>]\<rparr>)\<rparr>)))))))"

definition eth_send_one :: "geth \<Rightarrow> 'w EthClient \<Rightarrow> RawTransaction \<Rightarrow> ('w, RawTransactionReturn) io" where
  "eth_send_one G C txItem =
     bind_io (SendRawTransaction C (RawTx txItem)) (\<lambda>r. case r of
         Inl err \<Rightarrow> ret_io \<lparr>rtr_TxHash = [], rtr_IsSuccess = False, rtr_Message = ''this tx send failed''\<rparr>
       | Inr transaction \<Rightarrow>
           ret_io \<lparr>rtr_TxHash = HashHex G transaction, rtr_IsSuccess = True, rtr_Message = ''this tx send success''\<rparr>)"

definition eth_SendTransaction :: "geth \<Rightarrow> 'w EthClient \<Rightarrow> SendTransactionsRequest \<Rightarrow> ('w, SendTransactionResponse reply) io" where
  "eth_SendTransaction G C req =
     bind_io (map_io (eth_send_one G C) (str_RawTx req)) (\<lambda>rs.
       ret_io (okReply \<lparr>Code = SUCCESS, Msg = ''send tx success'', TxnRet = rs\<rparr>))"

definition eth_buildDynamicFeeTx ::
  "geth \<Rightarrow> 'x txlib \<Rightarrow> 'w EthClient \<Rightarrow> string \<Rightarrow> ('w, (DynamicFeeTx \<times> Eip1559DynamicFeeTx) res) io" where
  "eth_buildDynamicFeeTx G T C base64Tx =
     (case plan_tx G T base64Tx of
        Inl err \<Rightarrow> ret_io (Inl err)
      | Inr (p, dynamicFeeTx) \<Rightarrow>
          bind_io (GetTransactionAccount C (HexToAddress G (e1_FromAddress dynamicFeeTx))) (\<lambda>n. case n of
              Inl err \<Rightarrow> ret_io (Inl err)
            | Inr txNonce \<Rightarrow> ret_io (Inr (planned p txNonce MaxPriorityFeePerGas MaxFeePerGas, dynamicFeeTx))))"

definition eth_BuildSponsoredTransfer :: "SponsoredTransferRequest \<Rightarrow> ('w, SponsoredTransferBuildResponse reply) io" where
  "eth_BuildSponsoredTransfer request = ret_io (okReply (sponsor_rsp ERROR ''unsupported chain''))"

definition eth_SendSponsoredTransfer :: "SponsoredTransferSendRequest \<Rightarrow> ('w, SendTransactionResponse reply) io" where
  "eth_SendSponsoredTransfer request = ret_io (okReply (send_rsp ERROR ''unsupported chain''))"

definition eth_adaptor ::
  "geth \<Rightarrow> ethlib \<Rightarrow> 'x txlib \<Rightarrow> 'w EthClient \<Rightarrow> 'w explorer \<Rightarrow> 'w IChainAdaptor" where
  "eth_adaptor G H T C ed =
     \<lparr>ConvertAddresses = evm_ConvertAddresses G,
      ValidAddresses = evm_ValidAddresses,
      GetLastestBlock = evm_GetLastestBlock G C,
      GetBlock = eth_GetBlock G H C,
      GetBatchBlock = eth_GetBatchBlock,
      GetTransactionByHash = eth_GetTransactionByHash G H C,
      GetTransactionByAddress = evm_GetTransactionByAddress ed,
      GetAccountBalance = evm_GetAccountBalance ed,
      SendTransaction = eth_SendTransaction G C,
      BuildTransactionSchema = evm_BuildTransactionSchema,
      BuildUnSignTransaction = evm_BuildUnSignTransaction G T (eth_buildDynamicFeeTx G T C),
      BuildSignedTransaction = evm_BuildSignedTransaction G T (eth_buildDynamicFeeTx G T C),
      BuildSponsoredTransfer = eth_BuildSponsoredTransfer,
      SendSponsoredTransfer = eth_SendSponsoredTransfer,
      GetAddressApproveList = evm_GetAddressApproveList,
      CallContract = evm_CallContract G C\<rparr>"

definition eth_NewChainAdaptor ::
  "geth \<Rightarrow> ethlib \<Rightarrow> 'x txlib \<Rightarrow> 'w evm_env \<Rightarrow> Config \<Rightarrow> ('w, 'w IChainAdaptor res) io" where
  "eth_NewChainAdaptor G H T V cfg =
     bind_io (DialEthClient G (ev_maxLen V) (ev_schedule V) (ev_dialer V) (RpcUrl (Eth (cfg_WalletNode cfg)))) (\<lambda>c. case c of
         Inl err \<Rightarrow> ret_io (Inl (Errorf (retry_Error err)))
       | Inr ethClient \<Rightarrow>
           bind_io (NewEthDataClient V (DataApiUrl (Eth (cfg_WalletNode cfg))) (DataApiKey (Eth (cfg_WalletNode cfg))))
             (\<lambda>d. case d of
                Inl err \<Rightarrow> ret_io (Inl err)
              | Inr ed \<Rightarrow> ret_io (Inr (eth_adaptor G H T ethClient ed))))"

section \<open>Sending\<close>

context eth_client
begin

lemma eth_send_one_run:
  "\<exists>r w'. eth_send_one G C t w = (Ret r, w') \<and> trace w' = trace w @ [Ev ''eth_sendRawTransaction'' [RawTx t]]"
  using sends [of "RawTx t" w] by (auto simp: eth_send_one_def bind_io_apply split: sum.splits)

end

interpretation eth_send: batch_send
  "eth_SendTransaction G (clnt G maxLen schedule r)" "eth_send_one G (clnt G maxLen schedule r)"
  "\<lambda>t. [Ev ''eth_sendRawTransaction'' [RawTx t]]" "''send tx success''" for G maxLen schedule r
  by unfold_locales (simp_all add: eth_SendTransaction_def eth_clnt.eth_send_one_run)

section \<open>Properties\<close>

text \<open>
  \<open>SendTransaction\<close> never fails as a whole: it broadcasts every transaction of the request exactly
  once, in the order of the request and nothing else, and reports one result for each, successful
  exactly when the node gave a hash, which is then the result's.
\<close>

theorem eth_send_each_once:
  "\<exists>rs w'. eth_SendTransaction G (clnt G maxLen schedule r) req w =
       (Ret (okReply \<lparr>Code = SUCCESS, Msg = ''send tx success'', TxnRet = rs\<rparr>), w') \<and>
     length rs = length (str_RawTx req) \<and>
     trace w' = trace w @ map (\<lambda>t. Ev ''eth_sendRawTransaction'' [RawTx t]) (str_RawTx req) \<and>
     (\<forall>i < length rs. \<exists>env1. case fst (call_hash r ''eth_sendRawTransaction'' [StrArg (RawTx (str_RawTx req ! i))] env1) of
        (h, None) \<Rightarrow> rs ! i = \<lparr>rtr_TxHash = HashHex G h, rtr_IsSuccess = True, rtr_Message = ''this tx send success''\<rparr>
      | (h, Some e) \<Rightarrow> rs ! i = \<lparr>rtr_TxHash = [], rtr_IsSuccess = False, rtr_Message = ''this tx send failed''\<rparr>)"
proof -
  have item: "\<exists>env1. case fst (call_hash r ''eth_sendRawTransaction'' [StrArg (RawTx t)] env1) of
      (h, None) \<Rightarrow> y = \<lparr>rtr_TxHash = HashHex G h, rtr_IsSuccess = True, rtr_Message = ''this tx send success''\<rparr>
    | (h, Some e) \<Rightarrow> y = \<lparr>rtr_TxHash = [], rtr_IsSuccess = False, rtr_Message = ''this tx send failed''\<rparr>"
    if "eth_send_one G (clnt G maxLen schedule r) t v = (Ret y, v')" for t v y v'
    using that
    by (intro exI [of _ "env v"])
       (auto simp: eth_send_one_def clnt_def clnt_SendRawTransaction_def CallContext_def bind_io_assoc
         bind_ext_apply plain_res_def split: prod.splits option.splits)
  obtain rs w' where r: "eth_SendTransaction G (clnt G maxLen schedule r) req w =
       (Ret (okReply \<lparr>Code = SUCCESS, Msg = ''send tx success'', TxnRet = rs\<rparr>), w')"
    "length rs = length (str_RawTx req)"
    "trace w' = trace w @ concat (map (\<lambda>t. [Ev ''eth_sendRawTransaction'' [RawTx t]]) (str_RawTx req))"
    "\<forall>i < length rs. \<exists>w1 w2. eth_send_one G (clnt G maxLen schedule r) (str_RawTx req ! i) w1 = (Ret (rs ! i), w2)"
    using eth_send.handler_run [of G maxLen schedule r req w] by blast
  have "concat (map (\<lambda>t. [f t]) xs) = map f xs" for f :: "RawTransaction \<Rightarrow> event" and xs
    by (induction xs) simp_all
  with r item show ?thesis by metis
qed

theorem eth_send_each_once_witness:
  "\<exists>rs w'. eth_SendTransaction sample_geth (clnt sample_geth 10 concat sample_rpc)
       \<lparr>ConsumerToken = [], ChainId = [], Network = [], str_RawTx = [\<lparr>RawTx = ''0x01''\<rparr>, \<lparr>RawTx = ''0x02''\<rparr>]\<rparr>
       \<lparr>env = (), trace = []\<rparr> = (Ret (okReply \<lparr>Code = SUCCESS, Msg = ''send tx success'', TxnRet = rs\<rparr>), w') \<and>
     length rs = 2 \<and> trace w' = [Ev ''eth_sendRawTransaction'' [''0x01''], Ev ''eth_sendRawTransaction'' [''0x02'']]"
  using eth_send_each_once [of sample_geth 10 concat sample_rpc
      "\<lparr>ConsumerToken = [], ChainId = [], Network = [], str_RawTx = [\<lparr>RawTx = ''0x01''\<rparr>, \<lparr>RawTx = ''0x02''\<rparr>]\<rparr>"
      "\<lparr>env = (), trace = []\<rparr>"]
  by auto

text \<open>
  \<open>GetBlock\<close> answers an error of the node with a panic, whether the block is asked for by its
  hash or by its number.
\<close>

theorem eth_get_block_error_panics:
  assumes "result (if br_IsBlockHash req then BlockByHash C (HexToHash G (br_HashHeight req))
       else BlockByNumber C (Some (set_string (undefined_SetString H) (br_HashHeight req)))) w = Ret (Inl err)"
  shows "result (eth_GetBlock G H C req) w = Panic"
  using assms by (auto simp: eth_GetBlock_def result_def bind_io_apply split: prod.splits go.splits)

definition sample_ethlib :: ethlib where
  "sample_ethlib = \<lparr>hexutils_BytesToHex = EncodeToString, undefined_SetString = \<lambda>_. 0\<rparr>"

theorem eth_get_block_error_panics_witness:
  "result (eth_GetBlock sample_geth sample_ethlib (clnt sample_geth 10 concat (sample_rpc\<lparr>call_block := \<lambda>m a e. ((None, None), e)\<rparr>))
     \<lparr>ConsumerToken = [], ChainId = [], Network = [], br_HashHeight = ''7'', br_IsBlockHash = False\<rparr>)
     \<lparr>env = (), trace = []\<rparr> = Panic"
  by (rule eth_get_block_error_panics [where err = NotFound])
     (simp add: clnt_def clnt_BlockByNumber_def CallContext_def bind_ext_apply result_def found_res_def)

end
