(* ===== verification/Bnb.thy ===== *)
theory Bnb
  imports Evm_Adaptor
begin

text \<open>
  The BNB chain adaptor: its index of tracked contracts, the reading of ERC-20 transfers from calldata
  and from receipts, blocks with their transfers, and the handlers (\<open>chain/bnbchain/bnb.go\<close>,
  \<open>chain/bnbchain/bnb_receipt.go\<close>). Sponsored transfers and the adaptor value are in \<open>Bnb_AA\<close>.
\<close>

section \<open>State and constants\<close>

record 'w bnbChainAdaptor =
  bc_conf :: Config
  bc_ethClient :: "'w EthClient"
  bc_ethDataClient :: "'w explorer"
  contractAddrIndex :: "string set"
  entryPointAddress :: address

definition NativeTokenAddress :: string where
  "NativeTokenAddress = ''0xEeeeeEeeeEeEeeEeEeEeeEEEeeeeEeeeeeeeEEeE''"

definition erc20TransferMethod :: string where
  "erc20TransferMethod = ''a9059cbb''"

definition transferKindOuter :: string where "transferKindOuter = ''outer''"
definition transferKindReceiptERC20 :: string where "transferKindReceiptERC20 = ''receipt_erc20''"

definition text_bytes :: "string \<Rightarrow> byte list" where
  "text_bytes s = map (\<lambda>c. word_of_nat (of_char c)) s"

definition transferEventTopic :: "geth \<Rightarrow> hash" where
  "transferEventTopic G = Keccak256 G (text_bytes ''Transfer(address,address,uint256)'')"

definition handleOpsSelector :: "geth \<Rightarrow> byte list" where
  "handleOpsSelector G = take 4 (hash_bytes (Keccak256 G (text_bytes
     ''handleOps((address,uint256,bytes,bytes,bytes32,uint256,bytes32,bytes,bytes)[],address)'')))"

record erc20TransferLog =
  tl_Contract :: string
  tl_From :: string
  tl_To :: string
  tl_Amount :: string
  tl_LogIndex :: u32

record userOpERC20Transfer =
  uo_Contract :: string
  uo_From :: string
  uo_To :: string
  uo_Amount :: string

section \<open>The contract index\<close>

definition normalizeAddress :: "geth \<Rightarrow> string \<Rightarrow> string" where
  "normalizeAddress G addr =
     (if addr = [] then []
      else if IsHexAddress G addr then ToLower (AddressHex G (HexToAddress G addr))
      else ToLower addr)"

primrec newContractAddrIndex_loop :: "geth \<Rightarrow> string list \<Rightarrow> string set \<Rightarrow> string set" where
  "newContractAddrIndex_loop G [] idx = idx"
| "newContractAddrIndex_loop G (addr # rest) idx =
     (let normalized = normalizeAddress G addr in
      newContractAddrIndex_loop G rest (if normalized = [] then idx else insert normalized idx))"

definition newContractAddrIndex :: "geth \<Rightarrow> string list \<Rightarrow> string set" where
  "newContractAddrIndex G contractAddrs = newContractAddrIndex_loop G contractAddrs {}"

section \<open>ERC-20 transfers in calldata\<close>

definition shouldParseERC20Transfer :: "geth \<Rightarrow> string set \<Rightarrow> EvmTransactionList \<Rightarrow> bool" where
  "shouldParseERC20Transfer G idx blockItem =
     (let input = TrimPrefix (etl_Input blockItem) ''0x'' in
      if length input < 8 \<or> take 8 input \<noteq> erc20TransferMethod then False
      else if idx = {} then True
      else normalizeAddress G (etl_To blockItem) \<in> idx)"

definition parseERC20TransferData :: "geth \<Rightarrow> string \<Rightarrow> (string \<times> string) res" where
  "parseERC20TransferData G input =
     (let data = TrimPrefix input ''0x'' in
      if length data < 8 + 64 + 64
      then Inl (Errorf (''invalid ERC20 input length: '' @ FormatInt (int (length data))))
      else if take 8 data \<noteq> erc20TransferMethod
      then Inl (Errorf (''unsupported method: '' @ take 8 data))
      else
        (let toData = take 64 (drop 8 data);
             amountData = take 64 (drop (8 + 64) data);
             toAddress = AddressHex G (HexToAddress G (drop 24 toData)) in
         case big_SetString 16 amountData of
           None \<Rightarrow> Inl (Errorf (''invalid ERC20 amount: '' @ amountData))
         | Some amount \<Rightarrow> Inr (toAddress, FormatInt amount)))"

definition buildBlockTransaction ::
  "geth \<Rightarrow> string set \<Rightarrow> EvmTransactionList \<Rightarrow> string \<Rightarrow> u64 \<Rightarrow> TransactionList option" where
  "buildBlockTransaction G idx blockItem blockHash blockHeight =
     (if etl_To blockItem = [] then None
      else
        (let (txType, contractAddress, toAddress, amount) =
               (if shouldParseERC20Transfer G idx blockItem
                then (case parseERC20TransferData G (etl_Input blockItem) of
                        Inl err \<Rightarrow> (1, NativeTokenAddress, etl_To blockItem, etl_Value blockItem)
                      | Inr (parsedTo, parsedAmount) \<Rightarrow> (3, etl_To blockItem, parsedTo, parsedAmount))
                else (1, NativeTokenAddress, etl_To blockItem, etl_Value blockItem)) in
         Some (zero_TransactionList
           \<lparr>TxHash := etl_Hash blockItem, Fee := etl_GasPrice blockItem, Status := 0, TxType := txType,
            ContractAddress := contractAddress,
            From := [\<lparr>fa_Address = etl_From blockItem, fa_Amount = amount\<rparr>],
            To := [\<lparr>ta_Address = toAddress, ta_Amount = amount\<rparr>],
            BlockHash := blockHash, BlockHeight := blockHeight\<rparr>)))"

section \<open>ERC-20 transfers in receipts\<close>

definition log_transfer :: "geth \<Rightarrow> string set \<Rightarrow> Log option \<Rightarrow> erc20TransferLog option" where
  "log_transfer G idx l = (case l of
      None \<Rightarrow> None
    | Some lg \<Rightarrow>
        if length (lg_Topics lg) \<noteq> 3 \<or> lg_Topics lg ! 0 \<noteq> transferEventTopic G then None
        else if idx \<noteq> {} \<and> normalizeAddress G (AddressHex G (lg_Address lg)) \<notin> idx then None
        else
          (let from = AddressHex G (HexToAddress G (HashHex G (lg_Topics lg ! 1)));
               to = AddressHex G (HexToAddress G (HashHex G (lg_Topics lg ! 2)));
               v = big_SetBytes (lg_Data lg) in
           if v \<le> 0 then None
           else Some \<lparr>tl_Contract = AddressHex G (lg_Address lg), tl_From = from, tl_To = to,
                      tl_Amount = FormatInt v, tl_LogIndex = ucast (lg_Index lg)\<rparr>))"

definition parseERC20TransfersFromReceipt :: "geth \<Rightarrow> string set \<Rightarrow> Log option list \<Rightarrow> erc20TransferLog list" where
  "parseERC20TransfersFromReceipt G idx logs = List.map_filter (log_transfer G idx) logs"

definition firstERC20TransferFromReceipt :: "geth \<Rightarrow> string set \<Rightarrow> Log option list \<Rightarrow> erc20TransferLog option" where
  "firstERC20TransferFromReceipt G idx logs =
     (case parseERC20TransfersFromReceipt G idx logs of [] \<Rightarrow> None | t # _ \<Rightarrow> Some t)"

definition transferDedupKey :: "geth \<Rightarrow> string \<Rightarrow> string \<Rightarrow> string \<Rightarrow> string \<Rightarrow> string \<Rightarrow> string" where
  "transferDedupKey G txHash contractAddress fromAddress toAddress amount =
     ToLower (TrimSpace txHash) @ ''|'' @ normalizeAddress G contractAddress @ ''|'' @
     normalizeAddress G fromAddress @ ''|'' @ normalizeAddress G toAddress @ ''|'' @ TrimSpace amount"

definition outerTransferKey :: "geth \<Rightarrow> TransactionList \<Rightarrow> string" where
  "outerTransferKey G tx =
     (let (from, amount) = (case From tx of [] \<Rightarrow> ([], []) | f # _ \<Rightarrow> (fa_Address f, fa_Amount f));
          (to, amount) = (case To tx of [] \<Rightarrow> ([], amount)
             | t # _ \<Rightarrow> (ta_Address t, if amount = [] then ta_Amount t else amount)) in
      transferDedupKey G (TxHash tx) (ContractAddress tx) from to amount)"

text \<open>A receipt without an effective gas price panics here.\<close>

definition receiptFeeString :: "Receipt \<Rightarrow> string go" where
  "receiptFeeString receipt = (case rc_EffectiveGasPrice receipt of
      None \<Rightarrow> Panic
    | Some price \<Rightarrow> Ret (FormatInt (int (unat (rc_GasUsed receipt)) * price)))"

definition receiptStatusValue :: "Receipt \<Rightarrow> u32" where
  "receiptStatusValue receipt = (if rc_Status receipt \<noteq> 1 then 0 else 1)"

section \<open>A block with its transfers\<close>

text \<open>The outer transactions and the keys of their transfers.\<close>

primrec outer_loop ::
  "geth \<Rightarrow> string set \<Rightarrow> string \<Rightarrow> u64 \<Rightarrow> EvmTransactionList list \<Rightarrow> TransactionList list \<times> string set \<Rightarrow>
   TransactionList list \<times> string set" where
  "outer_loop G idx blockHash height [] acc = acc"
| "outer_loop G idx blockHash height (blockItem # rest) acc =
     outer_loop G idx blockHash height rest
       (case buildBlockTransaction G idx blockItem blockHash height of
          None \<Rightarrow> acc
        | Some t \<Rightarrow>
            (let txItem = t\<lparr>TransferKind := transferKindOuter, LogIndex := 0\<rparr> in
             (fst acc @ [txItem], insert (outerTransferKey G txItem) (snd acc))))"

definition inner_tx :: "string \<Rightarrow> u64 \<Rightarrow> string \<Rightarrow> string \<Rightarrow> u32 \<Rightarrow> erc20TransferLog \<Rightarrow> TransactionList" where
  "inner_tx blockHash height txHash fee status transfer =
     \<lparr>TxHash = txHash, Fee = fee, Status = status, TxType = 3, ContractAddress = tl_Contract transfer,
      From = [\<lparr>fa_Address = tl_From transfer, fa_Amount = tl_Amount transfer\<rparr>],
      To = [\<lparr>ta_Address = tl_To transfer, ta_Amount = tl_Amount transfer\<rparr>],
      BlockHash = blockHash, BlockHeight = height, LogIndex = tl_LogIndex transfer,
      TransferKind = transferKindReceiptERC20\<rparr>"

text \<open>The transfers of one receipt; one whose key is known is skipped.\<close>

primrec transfers_loop ::
  "geth \<Rightarrow> (erc20TransferLog \<Rightarrow> TransactionList) \<Rightarrow> string \<Rightarrow> erc20TransferLog list \<Rightarrow>
   TransactionList list \<times> string set \<Rightarrow> TransactionList list \<times> string set" where
  "transfers_loop G mk txHash [] acc = acc"
| "transfers_loop G mk txHash (transfer # rest) acc =
     (let key = transferDedupKey G txHash (tl_Contract transfer) (tl_From transfer) (tl_To transfer) (tl_Amount transfer) in
      transfers_loop G mk txHash rest
        (if key \<in> snd acc then acc else (fst acc @ [mk transfer], insert key (snd acc))))"

primrec receipts_loop ::
  "geth \<Rightarrow> string set \<Rightarrow> string \<Rightarrow> u64 \<Rightarrow> Receipt option list \<Rightarrow> TransactionList list \<times> string set \<Rightarrow>
   (TransactionList list \<times> string set) go" where
  "receipts_loop G idx blockHash height [] acc = Ret acc"
| "receipts_loop G idx blockHash height (r # rest) acc =
     (case r of
        None \<Rightarrow> receipts_loop G idx blockHash height rest acc
      | Some receipt \<Rightarrow>
          if rc_Status receipt \<noteq> 1 then receipts_loop G idx blockHash height rest acc
          else
            (let transfers = parseERC20TransfersFromReceipt G idx (rc_Logs receipt) in
             bind_go (receiptFeeString receipt) (\<lambda>fee.
             let status = receiptStatusValue receipt; txHash = HashHex G (rc_TxHash receipt) in
             receipts_loop G idx blockHash height rest
               (transfers_loop G (inner_tx blockHash height txHash fee status) txHash transfers acc))))"

text \<open>
  The block number is decoded twice, with the same result, so the second error is not possible. A
  failure to fetch the receipts leaves the outer transactions.
\<close>

definition buildBlockWithTransactions ::
  "geth \<Rightarrow> string set \<Rightarrow> 'w EthClient \<Rightarrow> RpcBlock \<Rightarrow> ('w, BlockWithTransactions res) io" where
  "buildBlockWithTransactions G idx C rpcBlock =
     (case NumberUint64 G rpcBlock of
        Inl err \<Rightarrow> ret_io (Inl (wrap_err ''failed to decode block number: '' err))
      | Inr blockHeight \<Rightarrow>
          (let blockHash = HashHex G (rb_Hash rpcBlock);
               outer = outer_loop G idx blockHash blockHeight (rb_Transactions rpcBlock) ([], {}) in
           bind_io (BlockReceiptsByNumber C (Some (int (unat blockHeight)))) (\<lambda>receipts.
           bind_io (lift_go (case receipts of
                Inl err \<Rightarrow> Ret outer
              | Inr rs \<Rightarrow> receipts_loop G idx blockHash blockHeight rs outer)) (\<lambda>(transactionList, keys).
             ret_io (case TimestampUint64 G rpcBlock of
                Inl err \<Rightarrow> Inl (wrap_err ''failed to decode block timestamp: '' err)
              | Inr timestamp \<Rightarrow> Inr
                  \<lparr>bwt_Height = rb_Number rpcBlock, bwt_Hash = blockHash,
                   bwt_ParentHash = HashHex G (rb_ParentHash rpcBlock), bwt_Timestamp = timestamp,
                   bwt_Transactions = transactionList\<rparr>)))))"

section \<open>Handlers\<close>

definition bnb_GetBlock ::
  "geth \<Rightarrow> (string \<Rightarrow> int) \<Rightarrow> 'w bnbChainAdaptor \<Rightarrow> BlockRequest \<Rightarrow> ('w, BlockResponse reply) io" where
  "bnb_GetBlock G bad c req =
     bind_io (if br_IsBlockHash req then BlockByHash (bc_ethClient c) (HexToHash G (br_HashHeight req))
              else BlockByNumber (bc_ethClient c) (Some (set_string bad (br_HashHeight req))))
       (\<lambda>r. case r of
          Inl err \<Rightarrow> ret_io (okReply (block_rsp ERROR ''get block failed''))
        | Inr rpcBlock \<Rightarrow>
            bind_io (buildBlockWithTransactions G (contractAddrIndex c) (bc_ethClient c) rpcBlock) (\<lambda>b. case b of
                Inl err \<Rightarrow> ret_io (okReply (block_rsp ERROR (Error err)))
              | Inr blk \<Rightarrow> ret_io (okReply
                  \<lparr>Code = SUCCESS, Msg = ''get block success'', bkr_Height = bwt_Height blk, bkr_Hash = bwt_Hash blk,
                   bkr_ParentHash = bwt_ParentHash blk, bkr_Timestamp = bwt_Timestamp blk,
                   bkr_Transactions = bwt_Transactions blk\<rparr>)))"

text \<open>The blocks in order; the first one that cannot be built ends the loop.\<close>

fun build_blocks ::
  "geth \<Rightarrow> string set \<Rightarrow> 'w EthClient \<Rightarrow> RpcBlock list \<Rightarrow> BlockWithTransactions list \<Rightarrow>
   ('w, BlockWithTransactions list res) io" where
  "build_blocks G idx C [] acc = ret_io (Inr acc)"
| "build_blocks G idx C (b # bs) acc =
     bind_io (buildBlockWithTransactions G idx C b) (\<lambda>r. case r of
         Inl err \<Rightarrow> ret_io (Inl err)
       | Inr blk \<Rightarrow> build_blocks G idx C bs (acc @ [blk]))"

text \<open>\<open>String\<close> of a nil \<open>*big.Int\<close> is \<open><nil>\<close>.\<close>

definition header_info :: "geth \<Rightarrow> Header \<Rightarrow> BlockHeaderInfo" where
  "header_info G header =
     \<lparr>bhi_Height = (case hdr_Number header of None \<Rightarrow> ''<nil>'' | Some n \<Rightarrow> FormatInt n),
      bhi_Hash = HashHex G (hdr_Hash header), bhi_ParentHash = HashHex G (hdr_ParentHash header),
      bhi_Timestamp = hdr_Time header\<rparr>"

definition bnb_GetBatchBlock :: "geth \<Rightarrow> 'w bnbChainAdaptor \<Rightarrow> BatchBlockRequest \<Rightarrow> ('w, BatchBlockResponse reply) io" where
  "bnb_GetBatchBlock G c req =
     (case big_SetString 10 (bbr_NextHeight req) of
        None \<Rightarrow> ret_io (okReply (batch_rsp ERROR ''invalid next height''))
      | Some startHeight \<Rightarrow>
     (case big_SetString 10 (bbr_EndHeight req) of
        None \<Rightarrow> ret_io (okReply (batch_rsp ERROR ''invalid end height''))
      | Some endHeight \<Rightarrow>
          if startHeight > endHeight
          then ret_io (okReply (batch_rsp ERROR ''next height is greater than end height''))
          else if bbr_WithTransactions req
          then bind_io (BlocksByRange (bc_ethClient c) startHeight endHeight 56) (\<lambda>r. case r of
                   Inl err \<Rightarrow> ret_io (okReply (batch_rsp ERROR ''get batch blocks with transactions failed''))
                 | Inr blocks \<Rightarrow>
                     bind_io (build_blocks G (contractAddrIndex c) (bc_ethClient c) blocks []) (\<lambda>b. case b of
                         Inl err \<Rightarrow> ret_io (okReply (batch_rsp ERROR ''failed to build batch block with transactions''))
                       | Inr blockInfos \<Rightarrow> ret_io (okReply
                           \<lparr>Code = SUCCESS, Msg = ''get batch block success'', bbp_Headers = [], bbp_Blocks = blockInfos\<rparr>)))
          else bind_io (BlockHeadersByRange (bc_ethClient c) startHeight endHeight 56) (\<lambda>r. case r of
                   Inl err \<Rightarrow> ret_io (okReply (batch_rsp ERROR ''get batch block headers failed''))
                 | Inr headers \<Rightarrow> ret_io (okReply
                     \<lparr>Code = SUCCESS, Msg = ''get batch block success'',
                      bbp_Headers = map (header_info G) headers, bbp_Blocks = []\<rparr>))))"

definition tryParseUserOpERC20Transfer ::
  "geth \<Rightarrow> 'w bnbChainAdaptor \<Rightarrow> EvmTransactionList \<Rightarrow> ('w, userOpERC20Transfer option) io" where
  "tryParseUserOpERC20Transfer G c blockItem =
     (if entryPointAddress c = 0 then ret_io None
      else if normalizeAddress G (etl_To blockItem) \<noteq> normalizeAddress G (AddressHex G (entryPointAddress c))
      then ret_io None
      else
        (let input = TrimPrefix (etl_Input blockItem) ''0x'' in
         if length input < 8 \<or> \<not> EqualFold (take 8 input) (EncodeToString (handleOpsSelector G)) then ret_io None
         else bind_io (TxReceiptByHash (bc_ethClient c) (HexToHash G (etl_Hash blockItem))) (\<lambda>r. case r of
                Inl err \<Rightarrow> ret_io None
              | Inr receipt \<Rightarrow>
                  (case firstERC20TransferFromReceipt G (contractAddrIndex c) (rc_Logs receipt) of
                     None \<Rightarrow> ret_io None
                   | Some transfer \<Rightarrow> ret_io (Some
                       \<lparr>uo_Contract = tl_Contract transfer, uo_From = tl_From transfer, uo_To = tl_To transfer,
                        uo_Amount = tl_Amount transfer\<rparr>)))))"

definition txToFrom :: "geth \<Rightarrow> Transaction \<Rightarrow> string" where
  "txToFrom G tx = (case tx_Sender tx of Inl err \<Rightarrow> [] | Inr from \<Rightarrow> AddressHex G from)"

text \<open>What the classification of a transaction finds: its kind, contract, sender, recipient and amount.\<close>

record tx_info =
  ti_Type :: u32
  ti_Contract :: string
  ti_From :: string
  ti_To :: string
  ti_Amount :: string

definition classify_tx ::
  "geth \<Rightarrow> 'w bnbChainAdaptor \<Rightarrow> Transaction \<Rightarrow> Receipt \<Rightarrow> ('w, tx_info res) io" where
  "classify_tx G c tx receipt =
     (let amount = FormatInt (tx_Value tx); fromAddress = txToFrom G tx in
      case tx_To tx of
        None \<Rightarrow> ret_io (Inr \<lparr>ti_Type = 0, ti_Contract = [], ti_From = fromAddress,
                            ti_To = AddressHex G (rc_ContractAddress receipt), ti_Amount = amount\<rparr>)
      | Some to \<Rightarrow>
          bind_io (EthGetCode (bc_ethClient c) to) (\<lambda>r. case r of
              Inl err \<Rightarrow> ret_io (Inl err)
            | Inr code \<Rightarrow>
                if code = ''0x''
                then ret_io (Inr \<lparr>ti_Type = 1, ti_Contract = [], ti_From = fromAddress, ti_To = AddressHex G to,
                                  ti_Amount = amount\<rparr>)
                else
                  (let contractAddress = AddressHex G to;
                       blockItem = \<lparr>etl_From = fromAddress, etl_To = AddressHex G to, etl_Hash = HashHex G (tx_Hash tx),
                                    etl_Value = [], etl_Input = EncodeToString (tx_Data tx), etl_GasPrice = []\<rparr> in
                   if shouldParseERC20Transfer G (contractAddrIndex c) blockItem
                   then (case parseERC20TransferData G (etl_Input blockItem) of
                           Inl err \<Rightarrow> ret_io (Inr \<lparr>ti_Type = 2, ti_Contract = contractAddress, ti_From = fromAddress,
                                                  ti_To = AddressHex G to, ti_Amount = amount\<rparr>)
                         | Inr (toAddress, parsed) \<Rightarrow>
                             ret_io (Inr \<lparr>ti_Type = 3, ti_Contract = contractAddress, ti_From = fromAddress,
                                          ti_To = toAddress, ti_Amount = parsed\<rparr>))
                   else bind_io (tryParseUserOpERC20Transfer G c blockItem) (\<lambda>u. ret_io (Inr (case u of
                           Some transfer \<Rightarrow> \<lparr>ti_Type = 3, ti_Contract = uo_Contract transfer, ti_From = uo_From transfer,
                                             ti_To = uo_To transfer, ti_Amount = uo_Amount transfer\<rparr>
                         | None \<Rightarrow> \<lparr>ti_Type = 2, ti_Contract = contractAddress, ti_From = fromAddress,
                                    ti_To = AddressHex G to, ti_Amount = amount\<rparr>))))))"

text \<open>A receipt without a gas price or a block number panics.\<close>

definition bnb_GetTransactionByHash ::
  "geth \<Rightarrow> 'w bnbChainAdaptor \<Rightarrow> TransactionByHashRequest \<Rightarrow> ('w, TransactionByHashResponse reply) io" where
  "bnb_GetTransactionByHash G c req =
     bind_io (TxByHash (bc_ethClient c) (HexToHash G (thr_Hash req))) (\<lambda>t. case t of
         Inl err \<Rightarrow>
           if err = NotFound then ret_io (okReply (txhash_rsp ERROR ''Ethereum Tx NotFound''))
           else ret_io (okReply (txhash_rsp ERROR ''Ethereum Tx Fetch Error''))
       | Inr tx \<Rightarrow>
           bind_io (TxReceiptByHash (bc_ethClient c) (HexToHash G (thr_Hash req))) (\<lambda>rc. case rc of
               Inl err \<Rightarrow> ret_io (okReply (txhash_rsp ERROR ''Get transaction receipt error''))
             | Inr receipt \<Rightarrow>
                 bind_io (classify_tx G c tx receipt) (\<lambda>i. case i of
                     Inl err \<Rightarrow> ret_io (errReply err)
                   | Inr info \<Rightarrow>
                       (let txStatus = (if rc_Status receipt = 1 then TxStatus_Success else TxStatus_Failed) in
                        case (rc_EffectiveGasPrice receipt, rc_BlockNumber receipt) of
                          (Some price, Some n) \<Rightarrow> ret_io (okReply
                            \<lparr>Code = SUCCESS, Msg = ''get transaction success'',
                             thp_Transaction = Some (zero_TransactionList
                               \<lparr>TxHash := HashHex G (tx_Hash tx), Fee := FormatInt (price * sint (rc_GasUsed receipt)),
                                Status := status_code txStatus, ContractAddress := ti_Contract info, TxType := ti_Type info,
                                From := [\<lparr>fa_Address = ti_From info, fa_Amount = ti_Amount info\<rparr>],
                                To := [\<lparr>ta_Address = ti_To info, ta_Amount = ti_Amount info\<rparr>],
                                BlockHash := HashHex G (rc_BlockHash receipt), BlockHeight := big_Uint64 n\<rparr>)\<rparr>)
                        | _ \<Rightarrow> panic_io))))"

definition bnb_send_one :: "geth \<Rightarrow> 'w EthClient \<Rightarrow> RawTransaction \<Rightarrow> ('w, RawTransactionReturn) io" where
  "bnb_send_one G C txItem =
     bind_io (SendRawTransaction C (RawTx txItem)) (\<lambda>r. case r of
         Inl err \<Rightarrow> ret_io \<lparr>rtr_TxHash = [], rtr_IsSuccess = False, rtr_Message = Error err\<rparr>
       | Inr transaction \<Rightarrow>
           ret_io \<lparr>rtr_TxHash = HashHex G transaction, rtr_IsSuccess = True, rtr_Message = ''this tx send success''\<rparr>)"

definition bnb_SendTransaction :: "geth \<Rightarrow> 'w EthClient \<Rightarrow> SendTransactionsRequest \<Rightarrow> ('w, SendTransactionResponse reply) io" where
  "bnb_SendTransaction G C req =
     bind_io (map_io (bnb_send_one G C) (str_RawTx req)) (\<lambda>rs.
       ret_io (okReply \<lparr>Code = SUCCESS, Msg = ''send tx success'', TxnRet = rs\<rparr>))"

definition bnb_buildDynamicFeeTx ::
  "geth \<Rightarrow> 'x txlib \<Rightarrow> 'w EthClient \<Rightarrow> string \<Rightarrow> ('w, (DynamicFeeTx \<times> Eip1559DynamicFeeTx) res) io" where
  "bnb_buildDynamicFeeTx G T C base64Tx =
     (case plan_tx G T base64Tx of
        Inl err \<Rightarrow> ret_io (Inl err)
      | Inr (p, dynamicFeeTx) \<Rightarrow>
          bind_io (GetTransactionAccount C (HexToAddress G (e1_FromAddress dynamicFeeTx))) (\<lambda>n. case n of
              Inl err \<Rightarrow> ret_io (Inl err)
            | Inr txNonce \<Rightarrow>
                bind_io (ResolveEip1559GasFees C) (\<lambda>fees.
                  let (gasTipCap, gasFeeCap) = (case fees of Inl err \<Rightarrow> DefaultEip1559GasFees | Inr p \<Rightarrow> p) in
                  ret_io (Inr (planned p txNonce gasTipCap gasFeeCap, dynamicFeeTx)))))"

section \<open>ERC-20 calldata\<close>

text \<open>The selector of \<open>transfer(address,uint256)\<close>, as the Keccak hash gives it.\<close>

definition transfer_selector_ok :: "geth \<Rightarrow> bool" where
  "transfer_selector_ok G \<longleftrightarrow>
     take 4 (hash_bytes (Keccak256 G (text_bytes ''transfer(address,uint256)''))) = [0xa9, 0x05, 0x9c, 0xbb]"

lemma take_EncodeToString: "take (2 * n) (EncodeToString bs) = EncodeToString (take n bs)"
proof (induction bs arbitrary: n)
  case (Cons b bs)
  then show ?case by (cases n) (simp_all add: hex_byte_def)
qed simp

lemma drop_EncodeToString: "drop (2 * n) (EncodeToString bs) = EncodeToString (drop n bs)"
proof (induction bs arbitrary: n)
  case (Cons b bs)
  then show ?case by (cases n) (simp_all add: hex_byte_def)
qed simp

lemma hex_slice:
  "take (2 * n) (drop (2 * m) (EncodeToString bs)) = EncodeToString (take n (drop m bs))"
  by (simp add: take_EncodeToString drop_EncodeToString)

lemma selector_hex: "EncodeToString [0xa9, 0x05, 0x9c, 0xbb] = erc20TransferMethod"
  by (simp add: EncodeToString_def hex_byte_def erc20TransferMethod_def digit_char_def char_of_def bit_Suc_0_iff)

lemma big_SetString_hex:
  assumes "bs \<noteq> []" shows "big_SetString 16 (EncodeToString bs) = Some (int (be_nat bs))"
proof -
  obtain b r where "bs = b # r" using assms by (cases bs) auto
  moreover have "digit_char (unat b div 16) \<noteq> CHR ''-''" "digit_char (unat b div 16) \<noteq> CHR ''+''"
    using byte_div_16 [of b] by simp_all
  ultimately show ?thesis using read_nat_EncodeToString [OF assms] by (simp add: hex_byte_def)
qed

text \<open>The calldata of a transfer, cut into selector, padded recipient and padded amount.\<close>

lemma erc20_data_parts:
  assumes "geth_ok G" "transfer_selector_ok G" "0 \<le> x" "x < 2 ^ 256"
  shows "BuildErc20Data G a x = [0xa9, 0x05, 0x9c, 0xbb] @ (replicate 12 0 @ addr_bytes a) @ be_bytes 32 (nat x)"
proof -
  have "LeftPadBytes G (addr_bytes a) 32 = replicate 12 0 @ addr_bytes a"
    using assms(1) by (simp add: geth_okD(7) left_pad_def)
  then show ?thesis using assms(2) pad_amount [OF assms(1,3,4)]
    by (simp add: BuildErc20Data_def transfer_selector_ok_def text_bytes_def Let_def)
qed

lemma be_nat_be_bytes_256:
  assumes "0 \<le> x" "x < 2 ^ 256" shows "int (be_nat (be_bytes 32 (nat x))) = x"
proof -
  have "nat x < 256 ^ 32" using assms by (simp add: nat_less_iff)
  then show ?thesis using assms by (simp add: be.dec_enc)
qed

lemma parse_erc20_data:
  assumes "geth_ok G" "transfer_selector_ok G" "0 \<le> x" "x < 2 ^ 256"
  shows "parseERC20TransferData G (EncodeToString (BuildErc20Data G a x)) = Inr (AddressHex G a, FormatInt x)"
proof -
  let ?d = "EncodeToString (BuildErc20Data G a x)"
  note parts = erc20_data_parts [OF assms, of a]
  have "length ?d = 136" using assms by (simp add: length_BuildErc20Data)
  moreover have "take 8 ?d = erc20TransferMethod"
    using take_EncodeToString [of 4 "BuildErc20Data G a x"] by (simp add: parts selector_hex del: EncodeToString_simps)
  moreover have "drop 24 (take 64 (drop 8 ?d)) = EncodeToString (addr_bytes a)"
    using hex_slice [of 32 4 "BuildErc20Data G a x"] drop_EncodeToString [of 12 "replicate 12 0 @ addr_bytes a"]
    by (simp add: parts del: EncodeToString_simps)
  moreover have "take 64 (drop 72 ?d) = EncodeToString (be_bytes 32 (nat x))"
    using hex_slice [of 32 36 "BuildErc20Data G a x"] by (simp add: parts del: EncodeToString_simps)
  moreover have "big_SetString 16 (EncodeToString (be_bytes 32 (nat x))) = Some x"
    using be_nat_be_bytes_256 [OF assms(3,4)] by (subst big_SetString_hex) (auto simp flip: length_0_conv)
  ultimately show ?thesis using assms(1)
    by (simp add: parseERC20TransferData_def Let_def geth_okD(3))
qed

section \<open>The contract index\<close>

lemma index_loop: "newContractAddrIndex_loop G addrs idx = idx \<union> (normalizeAddress G ` set addrs - {[]})"
  by (induction addrs arbitrary: idx) (auto simp: Let_def)

section \<open>Blocks\<close>

definition outer_tx :: "geth \<Rightarrow> string set \<Rightarrow> string \<Rightarrow> u64 \<Rightarrow> EvmTransactionList \<Rightarrow> TransactionList option" where
  "outer_tx G idx blockHash height item =
     map_option (\<lambda>t. t\<lparr>TransferKind := transferKindOuter, LogIndex := 0\<rparr>) (buildBlockTransaction G idx item blockHash height)"

lemma outer_loop_eq:
  "outer_loop G idx bh h items acc =
     (fst acc @ List.map_filter (outer_tx G idx bh h) items,
      snd acc \<union> outerTransferKey G ` set (List.map_filter (outer_tx G idx bh h) items))"
  by (induction items arbitrary: acc)
     (auto simp: List.map_filter_simps outer_tx_def Let_def split: option.split)

text \<open>What a loop that adds transfers under their keys has done: \<open>out\<close> is what it appended.\<close>

definition added :: "geth \<Rightarrow> TransactionList list \<times> string set \<Rightarrow> TransactionList list \<Rightarrow> TransactionList list \<times> string set \<Rightarrow> bool" where
  "added G acc out acc' \<longleftrightarrow> acc' = (fst acc @ out, snd acc \<union> outerTransferKey G ` set out) \<and>
     distinct (map (outerTransferKey G) out) \<and> outerTransferKey G ` set out \<inter> snd acc = {}"

lemma added_Nil [simp]: "added G acc [] acc' \<longleftrightarrow> acc' = acc"
  by (cases acc) (auto simp: added_def)

lemma added_trans: "added G a xs b \<Longrightarrow> added G b ys c \<Longrightarrow> added G a (xs @ ys) c"
  by (auto simp: added_def)

lemma added_one: "outerTransferKey G t \<notin> snd acc \<Longrightarrow> added G acc [t] (fst acc @ [t], insert (outerTransferKey G t) (snd acc))"
  by (auto simp: added_def)

text \<open>The key of an inner transfer is the key under which it was looked up.\<close>

lemma inner_key:
  "tl_Amount tr \<noteq> [] \<Longrightarrow> outerTransferKey G (inner_tx bh h txHash fee st tr) =
     transferDedupKey G txHash (tl_Contract tr) (tl_From tr) (tl_To tr) (tl_Amount tr)"
  by (simp add: outerTransferKey_def inner_tx_def)

lemma log_transfer_amount: "log_transfer G idx l = Some tr \<Longrightarrow> tl_Amount tr \<noteq> []"
  by (auto simp: log_transfer_def Let_def split: option.splits if_splits)

lemma transfers_loop_added:
  assumes "\<And>tr. tr \<in> set trs \<Longrightarrow> tl_Amount tr \<noteq> []"
  shows "\<exists>out. added G acc out (transfers_loop G (inner_tx bh h txHash fee st) txHash trs acc) \<and>
    set out \<subseteq> inner_tx bh h txHash fee st ` set trs \<and>
    (\<forall>tr \<in> set trs. outerTransferKey G (inner_tx bh h txHash fee st tr) \<in> snd acc \<union> outerTransferKey G ` set out)"
  using assms
proof (induction trs arbitrary: acc)
  case (Cons tr trs)
  let ?t = "inner_tx bh h txHash fee st tr"
  let ?k = "transferDedupKey G txHash (tl_Contract tr) (tl_From tr) (tl_To tr) (tl_Amount tr)"
  have k: "outerTransferKey G ?t = ?k" using Cons.prems by (intro inner_key) simp
  show ?case
  proof (cases "?k \<in> snd acc")
    case True
    then show ?thesis using Cons.IH [of acc] Cons.prems k by (fastforce simp: Let_def)
  next
    case False
    let ?acc = "(fst acc @ [?t], insert ?k (snd acc))"
    obtain out where out: "added G ?acc out (transfers_loop G (inner_tx bh h txHash fee st) txHash trs ?acc)"
      "set out \<subseteq> inner_tx bh h txHash fee st ` set trs"
      "\<forall>tr \<in> set trs. outerTransferKey G (inner_tx bh h txHash fee st tr) \<in> snd ?acc \<union> outerTransferKey G ` set out"
      using Cons.IH [of ?acc] Cons.prems by auto
    have "added G acc [?t] ?acc" using False added_one [of G ?t acc] k by simp
    from added_trans [OF this out(1)] out False k show ?thesis
      by (intro exI [of _ "[?t] @ out"]) (auto simp: Let_def)
  qed
qed (auto intro!: exI [of _ "[]"])

text \<open>A transfer of a successful receipt of the block, as the block's entry.\<close>

definition receipt_transfer :: "geth \<Rightarrow> string set \<Rightarrow> string \<Rightarrow> u64 \<Rightarrow> Receipt option list \<Rightarrow> TransactionList \<Rightarrow> bool" where
  "receipt_transfer G idx bh h rs t \<longleftrightarrow>
     (\<exists>r \<in> set rs. \<exists>receipt price. r = Some receipt \<and> rc_Status receipt = 1 \<and> rc_EffectiveGasPrice receipt = Some price \<and>
       (\<exists>l \<in> set (rc_Logs receipt). \<exists>tr. log_transfer G idx l = Some tr \<and>
          t = inner_tx bh h (HashHex G (rc_TxHash receipt)) (FormatInt (int (unat (rc_GasUsed receipt)) * price)) 1 tr))"

lemma receipt_transfer_Cons:
  "receipt_transfer G idx bh h (r # rs) t \<longleftrightarrow> receipt_transfer G idx bh h [r] t \<or> receipt_transfer G idx bh h rs t"
  unfolding receipt_transfer_def by simp

text \<open>One receipt: its transfers are added, none of another one; a receipt without success adds none.\<close>

lemma receipt_step_added:
  assumes "receipts_loop G idx bh h (r # rs) acc = Ret acc'"
  obtains out acc1 where "receipts_loop G idx bh h rs acc1 = Ret acc'" "added G acc out acc1"
    "\<And>t. t \<in> set out \<Longrightarrow> receipt_transfer G idx bh h [r] t"
    "\<And>t. receipt_transfer G idx bh h [r] t \<Longrightarrow> outerTransferKey G t \<in> snd acc1"
proof (cases "\<exists>receipt. r = Some receipt \<and> rc_Status receipt = 1")
  case False
  then show ?thesis using assms
    by (intro that [of acc "[]"]) (auto simp: receipt_transfer_def split: option.splits)
next
  case True
  then obtain receipt where r: "r = Some receipt" "rc_Status receipt = 1" by blast
  then obtain price where price: "rc_EffectiveGasPrice receipt = Some price"
    using assms by (cases "rc_EffectiveGasPrice receipt") (auto simp: receiptFeeString_def Let_def)
  let ?f = "inner_tx bh h (HashHex G (rc_TxHash receipt)) (FormatInt (int (unat (rc_GasUsed receipt)) * price)) 1"
  let ?trs = "parseERC20TransfersFromReceipt G idx (rc_Logs receipt)"
  let ?acc = "transfers_loop G ?f (HashHex G (rc_TxHash receipt)) ?trs acc"
  have trs: "set ?trs = {tr. \<exists>l \<in> set (rc_Logs receipt). log_transfer G idx l = Some tr}"
    by (force simp: parseERC20TransfersFromReceipt_def List.map_filter_def)
  then have "\<And>tr. tr \<in> set ?trs \<Longrightarrow> tl_Amount tr \<noteq> []" by (auto dest: log_transfer_amount)
  from transfers_loop_added [of ?trs, OF this] obtain out where o: "added G acc out ?acc" "set out \<subseteq> ?f ` set ?trs"
    "\<forall>tr \<in> set ?trs. outerTransferKey G (?f tr) \<in> snd acc \<union> outerTransferKey G ` set out"
    by blast
  have this_one: "receipt_transfer G idx bh h [r] t \<longleftrightarrow> t \<in> ?f ` set ?trs" for t
    by (auto simp: receipt_transfer_def r price trs)
  show ?thesis
  proof (rule that)
    show "receipts_loop G idx bh h rs ?acc = Ret acc'"
      using assms r price by (simp add: receiptFeeString_def receiptStatusValue_def Let_def)
    show "added G acc out ?acc" by (fact o(1))
    show "receipt_transfer G idx bh h [r] t" if "t \<in> set out" for t using that o(2) this_one by blast
    show "outerTransferKey G t \<in> snd ?acc" if "receipt_transfer G idx bh h [r] t" for t
      using that o(1,3) this_one by (auto simp: added_def)
  qed
qed

lemma receipts_loop_added:
  assumes "receipts_loop G idx bh h rs acc = Ret acc'"
  shows "\<exists>out. added G acc out acc' \<and> (\<forall>t \<in> set out. receipt_transfer G idx bh h rs t) \<and>
    (\<forall>t. receipt_transfer G idx bh h rs t \<longrightarrow> outerTransferKey G t \<in> snd acc')"
  using assms
proof (induction rs arbitrary: acc)
  case Nil
  then show ?case by (auto simp: receipt_transfer_def intro!: exI [of _ "[]"])
next
  case (Cons r rs)
  obtain out1 acc1 where s: "receipts_loop G idx bh h rs acc1 = Ret acc'" "added G acc out1 acc1"
    "\<And>t. t \<in> set out1 \<Longrightarrow> receipt_transfer G idx bh h [r] t"
    "\<And>t. receipt_transfer G idx bh h [r] t \<Longrightarrow> outerTransferKey G t \<in> snd acc1"
    by (rule receipt_step_added [OF Cons.prems]) blast
  obtain out2 where o: "added G acc1 out2 acc'" "\<forall>t \<in> set out2. receipt_transfer G idx bh h rs t"
    "\<forall>t. receipt_transfer G idx bh h rs t \<longrightarrow> outerTransferKey G t \<in> snd acc'"
    using Cons.IH [OF s(1)] by blast
  have "added G acc (out1 @ out2) acc'" "snd acc1 \<subseteq> snd acc'"
    using added_trans [OF s(2) o(1)] o(1) by (auto simp: added_def)
  then show ?case
    unfolding receipt_transfer_Cons [of G idx bh h r rs] using s(3,4) o(2,3)
    by (intro exI [of _ "out1 @ out2"]) (auto simp only: set_append Un_iff)
qed

lemma receipts_loop_total:
  assumes "\<forall>receipt. Some receipt \<in> set rs \<longrightarrow> rc_EffectiveGasPrice receipt \<noteq> None"
  shows "\<exists>acc'. receipts_loop G idx bh h rs acc = Ret acc'"
  using assms by (induction rs arbitrary: acc) (auto simp: Let_def receiptFeeString_def split: option.split)

text \<open>The transactions of a block that is built: the outer ones, then what the receipts add.\<close>

lemma block_built:
  assumes "NumberUint64 G b = Inr h"
    and "BlockReceiptsByNumber C (Some (int (unat h))) w = (Ret (Inr rs), w1)"
    and "buildBlockWithTransactions G idx C b w = (Ret (Inr blk), w2)"
  obtains acc' where "receipts_loop G idx (HashHex G (rb_Hash b)) h rs
      (outer_loop G idx (HashHex G (rb_Hash b)) h (rb_Transactions b) ([], {})) = Ret acc'"
    "bwt_Transactions blk = fst acc'"
  using assms
  by (auto simp: buildBlockWithTransactions_def Let_def bind_io_apply lift_go_def split: go.splits sum.splits prod.splits)

section \<open>Properties\<close>

text \<open>
  C15. The transactions of a block: first the block's own transactions with a recipient, in order;
  then ERC-20 transfers of successful receipts to tracked contracts. No two of those have the same
  key (transaction, contract, sender, recipient, amount), none has the key of one of the block's own
  transactions, and every transfer of a successful receipt is there under its key.
\<close>

theorem block_transfers:
  assumes "NumberUint64 G b = Inr h"
    and "BlockReceiptsByNumber C (Some (int (unat h))) w = (Ret (Inr rs), w1)"
    and "buildBlockWithTransactions G idx C b w = (Ret (Inr blk), w2)"
  shows "\<exists>outers inners. bwt_Transactions blk = outers @ inners \<and>
    outers = List.map_filter (outer_tx G idx (HashHex G (rb_Hash b)) h) (rb_Transactions b) \<and>
    (\<forall>t \<in> set inners. receipt_transfer G idx (HashHex G (rb_Hash b)) h rs t) \<and>
    distinct (map (outerTransferKey G) inners) \<and>
    outerTransferKey G ` set inners \<inter> outerTransferKey G ` set outers = {} \<and>
    (\<forall>t. receipt_transfer G idx (HashHex G (rb_Hash b)) h rs t \<longrightarrow>
       outerTransferKey G t \<in> outerTransferKey G ` set (bwt_Transactions blk))"
proof -
  let ?outers = "List.map_filter (outer_tx G idx (HashHex G (rb_Hash b)) h) (rb_Transactions b)"
  let ?acc = "(?outers, outerTransferKey G ` set ?outers)"
  obtain acc' where l: "receipts_loop G idx (HashHex G (rb_Hash b)) h rs ?acc = Ret acc'" "bwt_Transactions blk = fst acc'"
    using block_built [OF assms] by (auto simp: outer_loop_eq)
  obtain inners where i: "added G ?acc inners acc'" "\<forall>t \<in> set inners. receipt_transfer G idx (HashHex G (rb_Hash b)) h rs t"
    "\<forall>t. receipt_transfer G idx (HashHex G (rb_Hash b)) h rs t \<longrightarrow> outerTransferKey G t \<in> snd acc'"
    using receipts_loop_added [OF l(1)] by blast
  have a: "acc' = (?outers @ inners, outerTransferKey G ` set ?outers \<union> outerTransferKey G ` set inners)"
    "distinct (map (outerTransferKey G) inners)" "outerTransferKey G ` set inners \<inter> outerTransferKey G ` set ?outers = {}"
    using i(1) by (auto simp: added_def)
  show ?thesis
    by (intro exI [of _ ?outers] exI [of _ inners]) (use a i(2,3) l(2) in \<open>simp add: image_Un\<close>)
qed


text \<open>A node whose block holds one plain transaction, and a receipt with two equal transfers of a token.\<close>

definition token_log :: Log where
  "token_log = \<lparr>lg_Address = 77, lg_Topics = [transferEventTopic sample_geth, 5, 6], lg_Data = [1], lg_Index = 3\<rparr>"

definition token_receipt :: Receipt where
  "token_receipt = \<lparr>rc_Status = 1, rc_Logs = [Some token_log, None, Some token_log], rc_TxHash = 9, rc_ContractAddress = 0,
     rc_GasUsed = 2, rc_EffectiveGasPrice = Some 3, rc_BlockHash = 7, rc_BlockNumber = Some 5\<rparr>"

definition token_block :: RpcBlock where
  "token_block = sample_block\<lparr>rb_Transactions :=
     [\<lparr>etl_From = ''a'', etl_To = ''b'', etl_Hash = ''c'', etl_Value = ''d'', etl_Input = [], etl_GasPrice = ''e''\<rparr>]\<rparr>"

definition token_rpc :: "unit RPC" where
  "token_rpc = sample_rpc\<lparr>call_receipts := \<lambda>m a e. (([Some token_receipt], None), e)\<rparr>"

lemma sample_DecodeUint64 [simp]:
  "DecodeUint64 sample_geth ''0x5'' = Inr 5" "DecodeUint64 sample_geth ''0x9'' = Inr 9"
  by (simp_all add: sample_geth_def strip0x_def HasPrefix_def read_nat_def digit_val_def of_digits_def)

theorem block_transfers_witness:
  "\<exists>blk w2 t. buildBlockWithTransactions sample_geth {} (clnt sample_geth 10 concat token_rpc) token_block
       \<lparr>env = (), trace = []\<rparr> = (Ret (Inr blk), w2) \<and> TransferKind t = transferKindReceiptERC20 \<and>
     outerTransferKey sample_geth t \<in> outerTransferKey sample_geth ` set (bwt_Transactions blk)"
proof -
  let ?C = "clnt sample_geth 10 concat token_rpc" and ?w = "\<lparr>env = (), trace = []\<rparr> :: unit world"
  have h: "NumberUint64 sample_geth token_block = Inr 5"
    by (simp add: NumberUint64_def token_block_def sample_block_def)
  obtain w1 where r: "BlockReceiptsByNumber ?C (Some (int (unat (5 :: u64)))) ?w = (Ret (Inr [Some token_receipt]), w1)"
    by (simp add: clnt_def clnt_BlockReceiptsByNumber_def CallContext_def bind_ext_apply token_rpc_def)
  have "\<forall>receipt. Some receipt \<in> set [Some token_receipt] \<longrightarrow> rc_EffectiveGasPrice receipt \<noteq> None"
    by (simp add: token_receipt_def)
  then obtain ts keys where "receipts_loop sample_geth {} (HashHex sample_geth (rb_Hash token_block)) 5 [Some token_receipt]
      (outer_loop sample_geth {} (HashHex sample_geth (rb_Hash token_block)) 5 (rb_Transactions token_block) ([], {})) = Ret (ts, keys)"
    using receipts_loop_total by (metis prod.exhaust)
  moreover have "TimestampUint64 sample_geth token_block = Inr 9"
    by (simp add: TimestampUint64_def token_block_def sample_block_def)
  ultimately obtain blk w2 where b: "buildBlockWithTransactions sample_geth {} ?C token_block ?w = (Ret (Inr blk), w2)"
    using r h by (simp add: buildBlockWithTransactions_def Let_def bind_io_apply lift_go_def
        del: receipts_loop.simps outer_loop.simps)
  let ?t = "inner_tx (HashHex sample_geth (rb_Hash token_block)) 5 (HashHex sample_geth 9) (FormatInt 6) 1
      \<lparr>tl_Contract = AddressHex sample_geth 77, tl_From = AddressHex sample_geth 5, tl_To = AddressHex sample_geth 6,
        tl_Amount = FormatInt 1, tl_LogIndex = 3\<rparr>"
  have "log_transfer sample_geth {} (Some token_log) = Some
      \<lparr>tl_Contract = AddressHex sample_geth 77, tl_From = AddressHex sample_geth 5, tl_To = AddressHex sample_geth 6,
        tl_Amount = FormatInt 1, tl_LogIndex = 3\<rparr>"
    by (simp add: log_transfer_def token_log_def Let_def geth_okD(6) [OF sample_geth_ok] big_SetBytes_def be_nat_def of_digits_def)
  then have "receipt_transfer sample_geth {} (HashHex sample_geth (rb_Hash token_block)) 5 [Some token_receipt] ?t"
    by (auto simp: receipt_transfer_def token_receipt_def)
  with block_transfers [OF h r b] have "outerTransferKey sample_geth ?t \<in> outerTransferKey sample_geth ` set (bwt_Transactions blk)"
    by blast
  moreover have "TransferKind ?t = transferKindReceiptERC20" by (simp add: inner_tx_def)
  ultimately show ?thesis using b by blast
qed

end
