(* ===== verification/Bnb_Props.thy ===== *)
theory Bnb_Props
  imports Bnb
begin

text \<open>
  Properties of the BNB adaptor's parsing and handlers: the calldata round trip, tracked contracts,
  the kind of a transaction, ranges of blocks, signed transactions, and its interpretation of
  \<open>batch_send\<close>. The block's transfers are a property of \<open>Bnb\<close>.
\<close>

section \<open>Sending\<close>

context eth_client
begin

lemma bnb_send_one_run:
  "\<exists>r w'. bnb_send_one G C t w = (Ret r, w') \<and> trace w' = trace w @ [Ev ''eth_sendRawTransaction'' [RawTx t]]"
  using sends [of "RawTx t" w] by (auto simp: bnb_send_one_def bind_io_apply split: sum.splits)

end

interpretation bnb_send: batch_send
  "bnb_SendTransaction G (clnt G maxLen schedule r)" "bnb_send_one G (clnt G maxLen schedule r)"
  "\<lambda>t. [Ev ''eth_sendRawTransaction'' [RawTx t]]" "''send tx success''" for G maxLen schedule r
  by unfold_locales (simp_all add: bnb_SendTransaction_def eth_clnt.bnb_send_one_run)

section \<open>Properties\<close>

text \<open>
  C28. Reading back the calldata of an ERC-20 transfer that the service builds gives the recipient and
  the amount, for every address and every 256-bit amount, with and without a leading \<open>0x\<close>.
\<close>

theorem erc20_calldata_roundtrip:
  assumes "geth_ok G" "transfer_selector_ok G" "0 \<le> x" "x < 2 ^ 256"
  shows "parseERC20TransferData G (EncodeToString (BuildErc20Data G a x)) = Inr (AddressHex G a, FormatInt x) \<and>
    parseERC20TransferData G (''0x'' @ EncodeToString (BuildErc20Data G a x)) = Inr (AddressHex G a, FormatInt x)"
proof -
  have "parseERC20TransferData G (''0x'' @ EncodeToString bs) = parseERC20TransferData G (EncodeToString bs)" for bs
    unfolding parseERC20TransferData_def TrimPrefix_append TrimPrefix_EncodeToString by simp
  then show ?thesis using parse_erc20_data [OF assms] by simp
qed

definition selector_geth :: geth where
  "selector_geth = sample_geth\<lparr>Keccak256 := \<lambda>_. word_of_nat (be_nat ([0xa9, 0x05, 0x9c, 0xbb] @ replicate 28 0))\<rparr>"

lemma selector_geth_ok [simp]: "geth_ok selector_geth" "transfer_selector_ok selector_geth"
proof -
  show "geth_ok selector_geth" using sample_geth_ok by (simp add: selector_geth_def geth_ok_def)
  let ?bs = "[0xa9, 0x05, 0x9c, 0xbb] @ replicate 28 0 :: byte list"
  have l: "length ?bs = 32" by simp
  then have "be_nat ?bs < 256 ^ 32" using be.dec_bound [of ?bs] by simp
  then have "hash_bytes (word_of_nat (be_nat ?bs)) = ?bs"
    using be.enc_dec [of ?bs] l by (simp add: hash_bytes_def unat_of_nat del: append_Cons append_Nil)
  then show "transfer_selector_ok selector_geth"
    by (simp add: transfer_selector_ok_def selector_geth_def)
qed

theorem erc20_calldata_roundtrip_witness:
  "parseERC20TransferData selector_geth (EncodeToString (BuildErc20Data selector_geth 5 1000)) =
     Inr (AddressHex selector_geth 5, FormatInt 1000)"
  using erc20_calldata_roundtrip [of selector_geth 1000 5] by simp

text \<open>What the documentation of \<open>Address.Hex\<close> says beyond \<open>geth_ok\<close>: addresses differ in more than case.\<close>

definition hex_case_ok :: "geth \<Rightarrow> bool" where
  "hex_case_ok G \<longleftrightarrow> (\<forall>a b. ToLower (AddressHex G a) = ToLower (AddressHex G b) \<longrightarrow> a = b) \<and>
     (\<forall>a. AddressHex G a \<noteq> []) \<and> \<not> IsHexAddress G []"

lemma normalize_eq_iff:
  assumes "hex_case_ok G" "IsHexAddress G a" "IsHexAddress G b"
  shows "normalizeAddress G a = normalizeAddress G b \<longleftrightarrow> HexToAddress G a = HexToAddress G b"
proof -
  have "a \<noteq> []" "b \<noteq> []" using assms by (auto simp: hex_case_ok_def)
  then show ?thesis using assms by (auto simp: normalizeAddress_def hex_case_ok_def)
qed

lemma normalize_nonempty: "hex_case_ok G \<Longrightarrow> IsHexAddress G a \<Longrightarrow> normalizeAddress G a \<noteq> []"
  by (auto simp: normalizeAddress_def hex_case_ok_def)

text \<open>
  Which calls are read as ERC-20 transfers: exactly those with the selector of \<open>transfer\<close>, and,
  when contracts are configured, those to one of them, however the configured and the called
  address are spelled: two spellings of the same 20 bytes are the same contract.
\<close>

theorem tracked_contracts:
  assumes "hex_case_ok G" "\<And>a. a \<in> set addrs \<Longrightarrow> IsHexAddress G a" "IsHexAddress G (etl_To item)"
  shows "shouldParseERC20Transfer G (newContractAddrIndex G addrs) item \<longleftrightarrow>
    HasPrefix (TrimPrefix (etl_Input item) ''0x'') erc20TransferMethod \<and>
    (addrs = [] \<or> HexToAddress G (etl_To item) \<in> HexToAddress G ` set addrs)"
proof -
  let ?idx = "newContractAddrIndex G addrs"
  have idx: "?idx = normalizeAddress G ` set addrs"
    using assms(1,2) normalize_nonempty by (fastforce simp: newContractAddrIndex_def index_loop)
  have "normalizeAddress G (etl_To item) \<in> ?idx \<longleftrightarrow> HexToAddress G (etl_To item) \<in> HexToAddress G ` set addrs"
    using assms normalize_eq_iff [OF assms(1,3)] unfolding idx by (auto simp: image_iff)
  moreover have "length erc20TransferMethod = 8" by (simp add: erc20TransferMethod_def)
  ultimately show ?thesis
    unfolding idx by (auto simp: shouldParseERC20Transfer_def Let_def HasPrefix_def)
qed

lemma sample_hex_case_ok [simp]: "hex_case_ok sample_geth"
proof -
  have "a = b" if "EncodeToString (addr_bytes a) = EncodeToString (addr_bytes b)" for a b :: address
    using that by (metis Decode_Encode addr_bytes_inject fst_conv)
  moreover have "ToLower (''0x'' @ EncodeToString bs) = ''0x'' @ EncodeToString bs" for bs
    by (simp only: ToLower_append ToLower_EncodeToString) (simp add: ToLower_def lower_char_def)
  ultimately show ?thesis
    by (simp add: hex_case_ok_def sample_geth_def strip0x_def HasPrefix_def)
qed

definition transfer_item :: "string \<Rightarrow> EvmTransactionList" where
  "transfer_item to = \<lparr>etl_From = [], etl_To = to, etl_Hash = [], etl_Value = [], etl_Input = ''0xa9059cbb'', etl_GasPrice = []\<rparr>"

text \<open>An address configured with its prefix and called without it.\<close>

theorem tracked_contracts_witness:
  "shouldParseERC20Transfer sample_geth (newContractAddrIndex sample_geth [AddressHex sample_geth 5])
     (transfer_item (EncodeToString (addr_bytes 5)))"
proof -
  have "IsHexAddress sample_geth (EncodeToString (addr_bytes 5))"
    by (simp add: sample_geth_def)
  with tracked_contracts [of sample_geth "[AddressHex sample_geth 5]" "transfer_item (EncodeToString (addr_bytes 5))"]
  show ?thesis
    by (simp add: geth_okD [OF sample_geth_ok] transfer_item_def TrimPrefix_def HasPrefix_def erc20TransferMethod_def)
qed

text \<open>The client's answer for the code of an address is never \<open>0x\<close>.\<close>

lemma code_never_0x:
  "EthGetCode (clnt G maxLen schedule r) a w = (Ret (Inr code), w') \<Longrightarrow> code \<noteq> ''0x''"
  by (auto simp: clnt_def clnt_EthGetCode_def run_iff bind_res_Inr_iff split: if_splits)

lemma classify_never_native:
  assumes "bc_ethClient c = clnt G maxLen schedule r"
    and "classify_tx G c tx receipt w = (Ret (Inr info), w')"
  shows "ti_Type info \<noteq> 1"
  using assms
  by (auto simp: classify_tx_def Let_def run_iff dest: code_never_0x
      split: option.splits sum.splits if_splits prod.splits)

text \<open>
  \<open>GetTransactionByHash\<close> never reports a native transfer (kind 1): the client answers \<open>eoa\<close> or
  \<open>contract\<close> where the handler looks for \<open>0x\<close>, so a payment to an account without code is reported
  as a contract call.
\<close>

theorem never_native:
  assumes "bc_ethClient c = clnt G maxLen schedule r"
    and "bnb_GetTransactionByHash G c req w = (Ret (Some rsp, e), w')" "thp_Transaction rsp = Some t"
  shows "TxType t \<noteq> 1"
proof -
  obtain tx receipt info w1 w2 where "classify_tx G c tx receipt w1 = (Ret (Inr info), w2)" "TxType t = ti_Type info"
    using assms(2,3)
    by (auto simp: bnb_GetTransactionByHash_def Let_def run_iff okReply_def errReply_def
        split: if_splits option.splits)
  then show ?thesis using classify_never_native [OF assms(1)] by simp
qed


definition sample_etx :: Transaction where
  "sample_etx = \<lparr>tx_Hash = 9, tx_To = Some 5, tx_Value = 12, tx_Data = [], tx_Sender = Inr 4\<rparr>"

definition plain_rpc :: "unit RPC" where
  "plain_rpc = sample_rpc\<lparr>call_tx := \<lambda>m a e. ((Some sample_etx, None), e),
     call_receipt := \<lambda>m a e. ((Some (token_receipt\<lparr>rc_Logs := []\<rparr>), None), e)\<rparr>"

definition sample_bnb :: "unit RPC \<Rightarrow> unit bnbChainAdaptor" where
  "sample_bnb r = \<lparr>bc_conf = sample_config [], bc_ethClient = clnt sample_geth 1000 concat r,
     bc_ethDataClient = \<lparr>exp_GetTxByAddress = \<lambda>q w. (Inr [], w), exp_GetAccountBalance = \<lambda>q w. (Inr None, w)\<rparr>,
     contractAddrIndex = {}, entryPointAddress = 0\<rparr>"

theorem never_native_witness:
  "\<exists>rsp e w' t. bnb_GetTransactionByHash sample_geth (sample_bnb plain_rpc)
      \<lparr>ConsumerToken = [], ChainId = [], Network = [], thr_Hash = ''0x09''\<rparr> \<lparr>env = (), trace = []\<rparr> = (Ret (Some rsp, e), w') \<and>
     thp_Transaction rsp = Some t \<and> TxType t \<noteq> 1"
proof -
  let ?req = "\<lparr>ConsumerToken = [], ChainId = [], Network = [], thr_Hash = ''0x09''\<rparr>"
  obtain rsp e w' t where r: "bnb_GetTransactionByHash sample_geth (sample_bnb plain_rpc) ?req \<lparr>env = (), trace = []\<rparr> =
      (Ret (Some rsp, e), w')" "thp_Transaction rsp = Some t"
    by (simp add: bnb_GetTransactionByHash_def sample_bnb_def clnt_def clnt_TxByHash_def clnt_TxReceiptByHash_def
        clnt_EthGetCode_def CallContext_def bind_ext_apply bind_io_assoc plain_rpc_def sample_rpc_def found_res_def plain_res_def
        classify_tx_def sample_etx_def Let_def shouldParseERC20Transfer_def tryParseUserOpERC20Transfer_def
        token_receipt_def okReply_def TrimPrefix_def HasPrefix_def)
  have "bc_ethClient (sample_bnb plain_rpc) = clnt sample_geth 1000 concat plain_rpc" by (simp add: sample_bnb_def)
  from never_native [OF this r] r show ?thesis by blast
qed

text \<open>The blocks of a batch, one reply entry for each, in order.\<close>

definition block_entry :: "geth \<Rightarrow> RpcBlock \<Rightarrow> BlockWithTransactions \<Rightarrow> bool" where
  "block_entry G b i \<longleftrightarrow> bwt_Height i = rb_Number b \<and> bwt_Hash i = HashHex G (rb_Hash b) \<and>
     bwt_ParentHash i = HashHex G (rb_ParentHash b) \<and> TimestampUint64 G b = Inr (bwt_Timestamp i)"

lemma block_entry_built:
  "buildBlockWithTransactions G idx C b w = (Ret (Inr blk), w') \<Longrightarrow> block_entry G b blk"
  by (cases "NumberUint64 G b"; cases "TimestampUint64 G b")
     (auto simp: buildBlockWithTransactions_def Let_def run_iff block_entry_def split_beta)

lemma build_blocks_entries:
  "build_blocks G idx C bs acc w = (Ret (Inr infos), w') \<Longrightarrow>
     \<exists>out. infos = acc @ out \<and> list_all2 (block_entry G) bs out"
proof (induction bs arbitrary: acc w)
  case (Cons b bs)
  then obtain blk w1 where b: "buildBlockWithTransactions G idx C b w = (Ret (Inr blk), w1)"
    and r: "build_blocks G idx C bs (acc @ [blk]) w1 = (Ret (Inr infos), w')"
    by (auto simp: run_iff)
  from Cons.IH [OF r] obtain out where "infos = (acc @ [blk]) @ out" "list_all2 (block_entry G) bs out" by blast
  with block_entry_built [OF b] show ?case by (intro exI [of _ "blk # out"]) simp
qed simp

text \<open>
  C29. A range of blocks: heights that are not numbers, or in the wrong order, are refused without a
  call. An accepted range answers, with transactions, one entry for each block the client returned
  for it, in order, and without, the headers the client returned, in order; nothing is returned
  with an error.
\<close>

theorem batch_reply:
  assumes "bnb_GetBatchBlock G c req w = (Ret (Some rsp, err), w')"
  shows "err = None \<and> (case (big_SetString 10 (bbr_NextHeight req), big_SetString 10 (bbr_EndHeight req)) of
      (Some s, Some e) \<Rightarrow>
        if s > e then Code rsp = ERROR \<and> w' = w
        else if Code rsp \<noteq> SUCCESS then bbp_Headers rsp = [] \<and> bbp_Blocks rsp = []
        else if bbr_WithTransactions req
        then bbp_Headers rsp = [] \<and> (\<exists>blocks w1. BlocksByRange (bc_ethClient c) s e 56 w = (Ret (Inr blocks), w1) \<and>
          list_all2 (block_entry G) blocks (bbp_Blocks rsp))
        else bbp_Blocks rsp = [] \<and> (\<exists>headers. BlockHeadersByRange (bc_ethClient c) s e 56 w = (Ret (Inr headers), w') \<and>
          bbp_Headers rsp = map (header_info G) headers)
    | _ \<Rightarrow> Code rsp = ERROR \<and> w' = w)"
proof (cases "big_SetString 10 (bbr_NextHeight req)")
  case None
  then show ?thesis using assms by (auto simp: bnb_GetBatchBlock_def okReply_def)
next
  case (Some s)
  note s = this
  show ?thesis
  proof (cases "big_SetString 10 (bbr_EndHeight req)")
    case None
    then show ?thesis using assms s by (auto simp: bnb_GetBatchBlock_def okReply_def)
  next
    case (Some e)
    show ?thesis
    proof (cases "bbr_WithTransactions req")
      case True
      then show ?thesis using assms s Some
        by (auto simp: bnb_GetBatchBlock_def okReply_def run_iff dest!: build_blocks_entries)
    next
      case False
      then show ?thesis using assms s Some
        by (auto simp: bnb_GetBatchBlock_def okReply_def run_iff)
    qed
  qed
qed


theorem batch_reply_witness:
  "\<exists>rsp w'. bnb_GetBatchBlock sample_geth (sample_bnb sample_rpc)
      \<lparr>ConsumerToken = [], ChainId = [], Network = [], bbr_NextHeight = FormatInt 10, bbr_EndHeight = FormatInt 12,
       bbr_WithTransactions = False\<rparr> \<lparr>env = (), trace = []\<rparr> = (Ret (Some rsp, None), w') \<and>
     Code rsp = SUCCESS \<and> bbp_Blocks rsp = []"
proof -
  let ?req = "\<lparr>ConsumerToken = [], ChainId = [], Network = [], bbr_NextHeight = FormatInt 10, bbr_EndHeight = FormatInt 12,
       bbr_WithTransactions = False\<rparr>"
  have n: "range_count 10 12 = 3" by (simp add: range_count_def big_Uint64_def)
  obtain rsp err w' where r: "bnb_GetBatchBlock sample_geth (sample_bnb sample_rpc) ?req \<lparr>env = (), trace = []\<rparr> =
      (Ret (Some rsp, err), w')" "Code rsp = SUCCESS"
    using n by (simp add: bnb_GetBatchBlock_def sample_bnb_def clnt_def clnt_BlockHeadersByRange_def BatchCallContext_def
        bind_io_apply ext_apply sample_rpc_def Let_def okReply_def ZkFairSepoliaChainId_def ZkFairChainId_def)
  from batch_reply [OF r(1)] r show ?thesis by (auto split: if_splits)
qed

lemma bnb_build_ok:
  assumes "bnb_buildDynamicFeeTx G T C b64 w = (Ret (Inr (d, e)), w')"
  shows "\<exists>p nonce tip fee. plan_tx G T b64 = Inr (p, e) \<and> d = planned p nonce tip fee \<and> fees_ok (tip, fee)"
proof -
  from assms obtain p w1 nonce w2 fees where f: "plan_tx G T b64 = Inr (p, e)"
    "ResolveEip1559GasFees C w2 = (Ret fees, w')"
    "d = (case (case fees of Inl err \<Rightarrow> DefaultEip1559GasFees | Inr p \<Rightarrow> p) of (tip, fee) \<Rightarrow> planned p nonce tip fee)"
    by (auto simp: bnb_buildDynamicFeeTx_def run_iff Let_def split_beta)
  let ?p = "case fees of Inl err \<Rightarrow> DefaultEip1559GasFees | Inr p \<Rightarrow> p"
  have "fees_ok ?p" using f(2) by (cases fees) (auto dest: resolve_fees_ok)
  then show ?thesis using f(1,3) by (cases ?p) auto
qed

text \<open>
  C13. A request to build signed transactions that succeeds gives one entry for each of its
  transactions, in order. Each is the transaction that was asked for (chain, recipient, value and
  calldata of the decoded request) with a valid fee pair, and the sender recovered from its signature
  is the request's \<open>from_address\<close>.
\<close>

theorem signed_by_sender:
  assumes "evm_BuildSignedTransaction G T (bnb_buildDynamicFeeTx G T C) req w = (Ret (Some rsp, None), w')"
  shows "length (SignedTxn rsp) = length (sgr_TxnWithSignature req) \<and>
    (\<forall>i < length (sgr_TxnWithSignature req). \<exists>p e nonce tip fee sig x a.
       plan_tx G T (bts_Base64Tx (sgr_TxnWithSignature req ! i)) = Inr (p, e) \<and> fees_ok (tip, fee) \<and>
       WithSignature T (planned p nonce tip fee) (pl_ChainID p) sig = Inr x \<and>
       types_Sender T (pl_ChainID p) x = Inr a \<and> AddressHex G a = e1_FromAddress e \<and>
       stx_IsSuccess (SignedTxn rsp ! i) \<and> stx_TxHash (SignedTxn rsp ! i) = HashHex G (signed_Hash T x))"
proof -
  let ?ts = "sgr_TxnWithSignature req" and ?build = "bnb_buildDynamicFeeTx G T C"
  from assms have "signed_loop G T ?build ?ts [] w = (Ret (Some rsp, None), w')"
    by (simp add: evm_BuildSignedTransaction_def)
  from signed_loop_ok [OF this] have out: "length (SignedTxn rsp) = length ?ts"
    "\<forall>i < length ?ts. \<exists>w1 w2 d e x sig. ?build (bts_Base64Tx (?ts ! i)) w1 = (Ret (Inr (d, e)), w2) \<and>
       WithSignature T d (df_ChainID d) sig = Inr x \<and>
       stx_IsSuccess (SignedTxn rsp ! i) \<and> stx_TxHash (SignedTxn rsp ! i) = HashHex G (signed_Hash T x) \<and>
       (\<exists>a. types_Sender T (df_ChainID d) x = Inr a \<and> AddressHex G a = e1_FromAddress e)"
    by auto
  have "df_ChainID (planned p nonce tip fee) = pl_ChainID p" for p nonce tip fee by (simp add: planned_def)
  with out(2) show ?thesis using out(1) bnb_build_ok by metis
qed


definition sample_txlib :: "DynamicFeeTx txlib" where
  "sample_txlib =
     \<lparr>SigningHash = \<lambda>d c. 1, WithSignature = \<lambda>d c sig. Inr d, legacy_SigningHash = \<lambda>d c. 2,
      legacy_WithSignature = \<lambda>d c sig. Inl NotFound, tx_MarshalBinary = \<lambda>d. Inr (df_Data d), rlp_EncodeToBytes = \<lambda>d. Inr [],
      signed_Hash = \<lambda>d. 3, types_Sender = \<lambda>c d. Inr 4, base64_Decode = \<lambda>s. Inr [],
      json_Unmarshal_tx = \<lambda>bs. Inr \<lparr>e1_ChainId = FormatInt 56, e1_FromAddress = AddressHex sample_geth 4,
        e1_ToAddress = AddressHex sample_geth 5, e1_Amount = FormatInt 7, e1_ContractAddress = [], e1_Signature = []\<rparr>\<rparr>"

theorem signed_by_sender_witness:
  "\<exists>rsp w'. evm_BuildSignedTransaction sample_geth sample_txlib
      (bnb_buildDynamicFeeTx sample_geth sample_txlib (clnt sample_geth 1000 concat sample_rpc))
      \<lparr>ConsumerToken = [], ChainId = [], Network = [], sgr_TxnWithSignature = [\<lparr>bts_Base64Tx = [], bts_Signature = [], bts_PublicKey = []\<rparr>]\<rparr>
      \<lparr>env = (), trace = []\<rparr> = (Ret (Some rsp, None), w') \<and> length (SignedTxn rsp) = 1"
proof -
  let ?req = "\<lparr>ConsumerToken = [], ChainId = [], Network = [], sgr_TxnWithSignature = [\<lparr>bts_Base64Tx = [], bts_Signature = [], bts_PublicKey = []\<rparr>]\<rparr>"
  have plan: "plan_tx sample_geth sample_txlib [] = Inr (\<lparr>pl_ChainID = 56, pl_To = HexToAddress sample_geth (AddressHex sample_geth 5),
      pl_Value = 7, pl_Data = [], pl_Gas = NativeTokenGasLimit\<rparr>,
    \<lparr>e1_ChainId = FormatInt 56, e1_FromAddress = AddressHex sample_geth 4, e1_ToAddress = AddressHex sample_geth 5,
     e1_Amount = FormatInt 7, e1_ContractAddress = [], e1_Signature = []\<rparr>)"
    by (simp add: plan_tx_def sample_txlib_def IsEthTransfer_def Let_def)
  obtain d w1 where "bnb_buildDynamicFeeTx sample_geth sample_txlib (clnt sample_geth 1000 concat sample_rpc) [] \<lparr>env = (), trace = []\<rparr> =
      (Ret (Inr (d, \<lparr>e1_ChainId = FormatInt 56, e1_FromAddress = AddressHex sample_geth 4, e1_ToAddress = AddressHex sample_geth 5,
     e1_Amount = FormatInt 7, e1_ContractAddress = [], e1_Signature = []\<rparr>)), w1)"
    by (simp add: bnb_buildDynamicFeeTx_def plan clnt_def clnt_GetTransactionAccount_def ResolveEip1559GasFees_def
        clnt_SuggestGasPrice_def clnt_SuggestGasTipCap_def clnt_BlockHeaderByNumber_def CallContext_def bind_io_apply
        ext_apply sample_rpc_def plain_res_def found_res_def prefix_err_def Let_def split_beta)
  then obtain rsp w' where r: "evm_BuildSignedTransaction sample_geth sample_txlib
      (bnb_buildDynamicFeeTx sample_geth sample_txlib (clnt sample_geth 1000 concat sample_rpc)) ?req
      \<lparr>env = (), trace = []\<rparr> = (Ret (Some rsp, None), w')"
    by (simp add: evm_BuildSignedTransaction_def bind_io_apply CreateEip1559SignedTx_def sample_txlib_def okReply_def Let_def)
  from signed_by_sender [OF r] r show ?thesis by simp
qed

end
