(* ===== verification/Bnb_AA.thy ===== *)
theory Bnb_AA
  imports Bnb AA_Send
begin

text \<open>
  Sponsored transfers on the BNB chain (\<open>chain/bnbchain/bnb_aa.go\<close>), and the adaptor value and
  constructor of the package (\<open>chain/bnbchain/bnb.go\<close>). The mutex around a send orders sends of one
  process; a run of the model is one such send.
\<close>

section \<open>Configuration and contract reads\<close>

definition bnb_aaConfig :: "geth \<Rightarrow> 'w bnbChainAdaptor \<Rightarrow> aaConfig res" where
  "bnb_aaConfig G c =
     (let aaConf = AA (BNB (cfg_WalletNode (bc_conf c)));
          chainID = (if aac_ChainIDNumeric aaConf = [] then 56 else BigIntChainID (aac_ChainIDNumeric aaConf)) in
      bind_res (ParseConfiguredAddress G ''entry_point'' (aac_EntryPoint aaConf)) (\<lambda>entryPoint.
      bind_res (ParseConfiguredAddress G ''delegate'' (aac_Delegate aaConf)) (\<lambda>delegate.
      bind_res (ParseConfiguredAddress G ''paymaster'' (aac_Paymaster aaConf)) (\<lambda>paymaster.
      bind_res (ParseConfiguredAddress G ''sponsor_address'' (aac_SponsorAddress aaConf)) (\<lambda>sponsorAddress.
      Inr \<lparr>Enabled = aac_Enabled aaConf, cfg_EntryPoint = entryPoint, cfg_Delegate = delegate,
           cfg_Paymaster = paymaster, SponsorAddress = sponsorAddress,
           SponsorPrivateKey = aac_SponsorPrivateKey aaConf, VerifyingPrivateKey = aac_VerifyingPrivateKey aaConf,
           cfg_ChainID = chainID\<rparr>)))))"

definition entryPointNonce ::
  "('k, 'x) aalib \<Rightarrow> 'w EthClient \<Rightarrow> address \<Rightarrow> address \<Rightarrow> ('w, int res) io" where
  "entryPointNonce L C sender entryPoint =
     (case EncodeGetNonce L sender 0 of
        Inl err \<Rightarrow> ret_io (Inl err)
      | Inr data \<Rightarrow>
          bind_io (eth_CallContract C \<lparr>cm_From = 0, cm_To = Some entryPoint, cm_Data = data\<rparr>) (\<lambda>r. ret_io (case r of
              Inl err \<Rightarrow> Inl err
            | Inr out \<Rightarrow>
                if length out < 32 then Inl (Errorf ''invalid getNonce response'')
                else Inr (big_SetBytes (drop (length out - 32) out)))))"

definition paymasterVerifyingSigner ::
  "geth \<Rightarrow> ('k, 'x) aalib \<Rightarrow> 'w EthClient \<Rightarrow> address \<Rightarrow> ('w, address res) io" where
  "paymasterVerifyingSigner G L C paymaster =
     (case EncodePaymasterVerifyingSigner L of
        Inl err \<Rightarrow> ret_io (Inl err)
      | Inr data \<Rightarrow>
          bind_io (eth_CallContract C \<lparr>cm_From = 0, cm_To = Some paymaster, cm_Data = data\<rparr>) (\<lambda>r. ret_io (case r of
              Inl err \<Rightarrow> Inl err
            | Inr out \<Rightarrow>
                if length out < 32 then Inl (Errorf ''invalid verifyingSigner response'')
                else Inr (BytesToAddress G (drop (length out - 20) out)))))"

text \<open>\<open>ResolveEip1559GasFees\<close>, and the defaults when it fails.\<close>

definition resolved_or_default :: "'w EthClient \<Rightarrow> ('w, int \<times> int) io" where
  "resolved_or_default C =
     bind_io (ResolveEip1559GasFees C) (\<lambda>fees. ret_io (case fees of Inl err \<Rightarrow> DefaultEip1559GasFees | Inr p \<Rightarrow> p))"

section \<open>Building\<close>

definition bnb_BuildSponsoredTransfer ::
  "geth \<Rightarrow> ('k, 'x) aalib \<Rightarrow> ('w \<Rightarrow> int \<times> 'w) \<Rightarrow> 'w bnbChainAdaptor \<Rightarrow> SponsoredTransferRequest \<Rightarrow>
   ('w, SponsoredTransferBuildResponse reply) io" where
  "bnb_BuildSponsoredTransfer G L now c request =
     (let fail = (\<lambda>m. ret_io (okReply (sponsor_rsp ERROR m))); C = bc_ethClient c in
      case bnb_aaConfig G c of
        Inl err \<Rightarrow> fail (Error err)
      | Inr cfg \<Rightarrow>
     (if \<not> Enabled cfg then fail ''AA not enabled''
      else
        (let from = HexToAddress G (spr_FromAddress request);
             to = HexToAddress G (spr_ToAddress request);
             token = HexToAddress G (spr_TokenAddress request) in
         case big_SetString 10 (spr_Amount request) of
           None \<Rightarrow> fail ''invalid amount''
         | Some amount \<Rightarrow>
             bind_io (GetTransactionAccount C from) (\<lambda>a. case a of
                 Inl err \<Rightarrow> fail (Error err)
               | Inr authNonceBig \<Rightarrow>
             (let authNonce = big_Uint64 authNonceBig in
              bind_io (entryPointNonce L C from (cfg_EntryPoint cfg)) (\<lambda>n. case n of
                  Inl err \<Rightarrow> fail (Error err)
                | Inr entryNonce \<Rightarrow>
              bind_io (resolved_or_default C) (\<lambda>(gasTipCap, gasFeeCap).
              bind_io (BuildTransferUserOp L now cfg from to token amount entryNonce authNonce (spr_RequestId request)
                         gasFeeCap gasTipCap) (\<lambda>b. case b of
                  Inl err \<Rightarrow> fail (Error err)
                | Inr op \<Rightarrow>
              bind_io (lift_go (GetUserOpHash G L op)) (\<lambda>userOpHash.
              let authDigest = AuthDigest L (fst (uint256_FromBig L (cfg_ChainID cfg))) (cfg_Delegate cfg) authNonce in
              case UserOpToJSON L op of
                Inl err \<Rightarrow> fail (Error err)
              | Inr opJSON \<Rightarrow> ret_io (okReply
                  \<lparr>Code = SUCCESS, Msg = ''success'', spb_UserOpHash = HashHex G userOpHash,
                   spb_AuthDigest = HashHex G authDigest, spb_UserOpJson = opJSON\<rparr>))))))))))"

section \<open>Sending\<close>

definition outerGasLimit :: u64 where "outerGasLimit = 1500000"
definition maxSendAttempts :: int where "maxSendAttempts = 3"

text \<open>
  What a send checks before it broadcasts: a message for the caller, or the configuration, the
  operation and the two signatures.
\<close>

definition sponsored_checks ::
  "geth \<Rightarrow> ('k, 'x) aalib \<Rightarrow> ('w \<Rightarrow> int \<times> 'w) \<Rightarrow> 'w bnbChainAdaptor \<Rightarrow> SponsoredTransferSendRequest \<Rightarrow>
   ('w, string + (aaConfig \<times> UserOperation \<times> byte list \<times> byte list)) io" where
  "sponsored_checks G L now c request =
     (let C = bc_ethClient c in
      case bnb_aaConfig G c of
        Inl err \<Rightarrow> ret_io (Inl (Error err))
      | Inr cfg \<Rightarrow>
      if \<not> Enabled cfg then ret_io (Inl ''AA not enabled'')
      else (case UserOpFromJSON L (sps_UserOpJson request) of
        Inl err \<Rightarrow> ret_io (Inl (Error err))
      | Inr op0 \<Rightarrow>
     (let op1 = EnsurePaymasterSigPlaceholder (ApplyConfigToUserOp op0 cfg) in
      case ParseSignatureHex (sps_UserOpSignature request) of
        Inl err \<Rightarrow> ret_io (Inl (Error err))
      | Inr userOpSig \<Rightarrow>
     (case ParseSignatureHex (sps_AuthSignature request) of
        Inl err \<Rightarrow> ret_io (Inl (Error err))
      | Inr authSig \<Rightarrow>
          bind_io (paymasterVerifyingSigner G L C (cfg_Paymaster cfg)) (\<lambda>s.
          bind_io (PreflightSponsoredSend G L now cfg op1 userOpSig (case s of Inl err \<Rightarrow> 0 | Inr a \<Rightarrow> a)) (\<lambda>(report, op).
            if \<not> report_OK report then ret_io (Inl (report_String report))
            else bind_io (GetTransactionAccount C (Sender op)) (\<lambda>a. case a of
                Inl err \<Rightarrow> ret_io (Inl (Error err))
              | Inr authNonceBig \<Rightarrow>
                  if big_Uint64 authNonceBig \<noteq> AuthNonce op
                  then ret_io (Inl (''stale auth nonce: expected '' @ FormatUint (AuthNonce op) @ '' got '' @
                         FormatUint (big_Uint64 authNonceBig) @ '', rebuild sponsored transfer''))
                  else ret_io (Inr (cfg, op, userOpSig, authSig)))))))))"

text \<open>The answer of a send that ended with a hash, or with an error.\<close>

definition sponsored_reply :: "geth \<Rightarrow> hash res \<Rightarrow> SendTransactionResponse reply" where
  "sponsored_reply G out = (case out of
      Inl err \<Rightarrow> okReply (send_rsp ERROR (Error err))
    | Inr h \<Rightarrow> okReply \<lparr>Code = SUCCESS, Msg = ''success'',
        TxnRet = [\<lparr>rtr_TxHash = HashHex G h, rtr_IsSuccess = True, rtr_Message = ''sponsored transfer sent''\<rparr>]\<rparr>)"

text \<open>
  The attempts: \<open>attempts\<close> are the values of the loop's counter still to come. Finalizing changes the
  operation, and the next attempt starts from the changed one. Past the last attempt the loop has
  always been left with an error, so the fallback text is not reached.
\<close>

fun send_attempts ::
  "geth \<Rightarrow> ('k, 'x) aalib \<Rightarrow> ('w \<Rightarrow> int \<times> 'w) \<Rightarrow> 'w EthClient \<Rightarrow> aaConfig \<Rightarrow> byte list \<Rightarrow> byte list \<Rightarrow>
   nat list \<Rightarrow> int \<times> int \<Rightarrow> UserOperation \<Rightarrow> ('w, hash res) io" where
  "send_attempts G L now C cfg userOpSig authSig [] fees op = ret_io (Inl (Errorf ''send sponsored transfer failed''))"
| "send_attempts G L now C cfg userOpSig authSig (attempt # rest) fees0 op =
     (let fees = (if attempt > 0 then BumpEip1559GasFees (fst fees0) (snd fees0) (int attempt) else fees0) in
      bind_io (GetTransactionAccount C (SponsorAddress cfg)) (\<lambda>n. case n of
          Inl err \<Rightarrow> ret_io (Inl err)
        | Inr sponsorNonceBig \<Rightarrow>
      bind_io (FinalizeAndSignSend G L now cfg op userOpSig authSig (big_Uint64 sponsorNonceBig) (fst fees) (snd fees)
                 outerGasLimit) (\<lambda>(tx, op'). case tx of
          Inl err \<Rightarrow> ret_io (Inl err)
        | Inr signedTx \<Rightarrow>
      (case RawTxHex L signedTx of
          Inl err \<Rightarrow> ret_io (Inl err)
        | Inr rawTx \<Rightarrow>
      bind_io (SendRawTransaction C rawTx) (\<lambda>h. case h of
          Inr hash \<Rightarrow> ret_io (Inr hash)
        | Inl err \<Rightarrow>
            if \<not> IsRetryableSendError (Some err) \<or> int attempt = maxSendAttempts - 1 then ret_io (Inl err)
            else send_attempts G L now C cfg userOpSig authSig rest fees op')))))"

definition bnb_SendSponsoredTransfer ::
  "geth \<Rightarrow> ('k, 'x) aalib \<Rightarrow> ('w \<Rightarrow> int \<times> 'w) \<Rightarrow> 'w bnbChainAdaptor \<Rightarrow> SponsoredTransferSendRequest \<Rightarrow>
   ('w, SendTransactionResponse reply) io" where
  "bnb_SendSponsoredTransfer G L now c request =
     bind_io (sponsored_checks G L now c request) (\<lambda>ok. case ok of
         Inl msg \<Rightarrow> ret_io (okReply (send_rsp ERROR msg))
       | Inr (cfg, op, userOpSig, authSig) \<Rightarrow>
           bind_io (resolved_or_default (bc_ethClient c)) (\<lambda>fees.
           bind_io (send_attempts G L now (bc_ethClient c) cfg userOpSig authSig [0..<nat maxSendAttempts] fees op) (\<lambda>out.
             ret_io (sponsored_reply G out))))"


section \<open>The adaptor\<close>

text \<open>
  The handlers that the package writes in the same words as the Ethereum one, on its own client. The
  undefined value of a failed \<open>SetString\<close> is \<open>bad\<close>.
\<close>

definition bnb_ConvertAddresses :: "geth \<Rightarrow> ConvertAddressesRequest \<Rightarrow> ('w, ConvertAddressesResponse reply) io" where
  "bnb_ConvertAddresses G req = evm_ConvertAddresses G req"

definition bnb_ValidAddresses :: "ValidAddressesRequest \<Rightarrow> ('w, ValidAddressesResponse reply) io" where
  "bnb_ValidAddresses req = evm_ValidAddresses req"

definition bnb_GetLastestBlock :: "geth \<Rightarrow> 'w bnbChainAdaptor \<Rightarrow> chain_request \<Rightarrow> ('w, LastestBlockResponse reply) io" where
  "bnb_GetLastestBlock G c req = evm_GetLastestBlock G (bc_ethClient c) req"

definition bnb_GetTransactionByAddress ::
  "'w bnbChainAdaptor \<Rightarrow> TransactionByAddressRequest \<Rightarrow> ('w, TransactionByAddressResponse reply) io" where
  "bnb_GetTransactionByAddress c req = evm_GetTransactionByAddress (bc_ethDataClient c) req"

definition bnb_GetAccountBalance :: "'w bnbChainAdaptor \<Rightarrow> AccountBalanceRequest \<Rightarrow> ('w, AccountBalanceResponse reply) io" where
  "bnb_GetAccountBalance c req = evm_GetAccountBalance (bc_ethDataClient c) req"

definition bnb_BuildTransactionSchema :: "chain_request \<Rightarrow> ('w, TransactionSchemaResponse reply) io" where
  "bnb_BuildTransactionSchema request = evm_BuildTransactionSchema request"

definition bnb_BuildUnSignTransaction ::
  "geth \<Rightarrow> 'x txlib \<Rightarrow> 'w bnbChainAdaptor \<Rightarrow> UnSignTransactionRequest \<Rightarrow> ('w, UnSignTransactionResponse reply) io" where
  "bnb_BuildUnSignTransaction G T c request =
     evm_BuildUnSignTransaction G T (bnb_buildDynamicFeeTx G T (bc_ethClient c)) request"

definition bnb_BuildSignedTransaction ::
  "geth \<Rightarrow> 'x txlib \<Rightarrow> 'w bnbChainAdaptor \<Rightarrow> SignedTransactionRequest \<Rightarrow> ('w, SignedTransactionResponse reply) io" where
  "bnb_BuildSignedTransaction G T c request =
     evm_BuildSignedTransaction G T (bnb_buildDynamicFeeTx G T (bc_ethClient c)) request"

definition bnb_GetAddressApproveList :: "AddressApproveListRequest \<Rightarrow> ('w, AddressApproveListResponse reply) io" where
  "bnb_GetAddressApproveList request = evm_GetAddressApproveList request"

definition bnb_CallContract :: "geth \<Rightarrow> 'w bnbChainAdaptor \<Rightarrow> CallContractRequest \<Rightarrow> ('w, CallContractResponse reply) io" where
  "bnb_CallContract G c request = evm_CallContract G (bc_ethClient c) request"

definition bnb_adaptor ::
  "geth \<Rightarrow> ('k, 'y) aalib \<Rightarrow> 'x txlib \<Rightarrow> (string \<Rightarrow> int) \<Rightarrow> ('w \<Rightarrow> int \<times> 'w) \<Rightarrow> 'w bnbChainAdaptor \<Rightarrow> 'w IChainAdaptor" where
  "bnb_adaptor G L T bad now c =
     \<lparr>ConvertAddresses = bnb_ConvertAddresses G,
      ValidAddresses = bnb_ValidAddresses,
      GetLastestBlock = bnb_GetLastestBlock G c,
      GetBlock = bnb_GetBlock G bad c,
      GetBatchBlock = bnb_GetBatchBlock G c,
      GetTransactionByHash = bnb_GetTransactionByHash G c,
      GetTransactionByAddress = bnb_GetTransactionByAddress c,
      GetAccountBalance = bnb_GetAccountBalance c,
      SendTransaction = bnb_SendTransaction G (bc_ethClient c),
      BuildTransactionSchema = bnb_BuildTransactionSchema,
      BuildUnSignTransaction = bnb_BuildUnSignTransaction G T c,
      BuildSignedTransaction = bnb_BuildSignedTransaction G T c,
      BuildSponsoredTransfer = bnb_BuildSponsoredTransfer G L now c,
      SendSponsoredTransfer = bnb_SendSponsoredTransfer G L now c,
      GetAddressApproveList = bnb_GetAddressApproveList,
      CallContract = bnb_CallContract G c\<rparr>"

definition bnb_NewChainAdaptor ::
  "geth \<Rightarrow> 'w evm_env \<Rightarrow> Config \<Rightarrow> ('w, 'w bnbChainAdaptor res) io" where
  "bnb_NewChainAdaptor G V cfg =
     (let node = BNB (cfg_WalletNode cfg) in
      bind_io (DialEthClient G (ev_maxLen V) (ev_schedule V) (ev_dialer V) (RpcUrl node)) (\<lambda>d. case d of
         Inl err \<Rightarrow> ret_io (Inl (Errorf (retry_Error err)))
       | Inr ethClient \<Rightarrow>
           bind_io (NewEthDataClient V (DataApiUrl node) (DataApiKey node)) (\<lambda>e. case e of
               Inl err \<Rightarrow> ret_io (Inl err)
             | Inr ethDataClient \<Rightarrow> ret_io (Inr
                 \<lparr>bc_conf = cfg, bc_ethClient = ethClient, bc_ethDataClient = ethDataClient,
                  contractAddrIndex = newContractAddrIndex G (ContractAddr node),
                  entryPointAddress = HexToAddress G (aac_EntryPoint (AA node))\<rparr>))))"

section \<open>How often a computation broadcasts\<close>

text \<open>At most \<open>k\<close> broadcasts, all of them by the EVM client, however the computation ends.\<close>

definition sends_evm :: "nat \<Rightarrow> event list \<Rightarrow> bool" where
  "sends_evm k es \<longleftrightarrow> length (broadcasts es) \<le> k \<and> list_all (\<lambda>ev. ev_name ev = ''eth_sendRawTransaction'') (broadcasts es)"

definition sends_at_most :: "nat \<Rightarrow> ('w, 'a) io \<Rightarrow> bool" where
  "sends_at_most k m \<longleftrightarrow> (\<forall>w. \<exists>es. trace (snd (m w)) = trace w @ es \<and> sends_evm k es)"

lemma sends_evm_append: "sends_evm j es \<Longrightarrow> sends_evm k fs \<Longrightarrow> sends_evm (j + k) (es @ fs)"
  by (simp add: sends_evm_def)

lemma sends_quiet: "emits no_send m \<Longrightarrow> sends_at_most k m"
proof -
  have "list_all no_send es \<Longrightarrow> sends_evm k es" for es
    by (simp add: sends_evm_def broadcasts_quiet)
  then show "emits no_send m \<Longrightarrow> sends_at_most k m"
    unfolding emits_def sends_at_most_def by metis
qed

lemma sends_bind:
  assumes m: "sends_at_most j m" and f: "\<And>x. sends_at_most k (f x)"
  shows "sends_at_most (j + k) (bind_io m f)"
  unfolding sends_at_most_def
proof
  fix w
  obtain r w1 where mw: "m w = (r, w1)" by (cases "m w")
  from m mw obtain es where es: "trace w1 = trace w @ es" "sends_evm j es"
    unfolding sends_at_most_def by (metis snd_conv)
  show "\<exists>es. trace (snd (bind_io m f w)) = trace w @ es \<and> sends_evm (j + k) es"
  proof (cases r)
    case (Ret x)
    from f [of x] obtain fs where "trace (snd (f x w1)) = trace w1 @ fs" "sends_evm k fs"
      unfolding sends_at_most_def by metis
    with es Ret mw show ?thesis
      by (auto simp: bind_io_def intro!: exI [of _ "es @ fs"] sends_evm_append)
  next
    case Panic
    with es mw show ?thesis by (auto simp: bind_io_def sends_evm_def)
  qed
qed

lemma sends_quiet_bind: "emits no_send m \<Longrightarrow> (\<And>x. sends_at_most k (f x)) \<Longrightarrow> sends_at_most k (bind_io m f)"
  using sends_bind [OF sends_quiet [of m 0], of k f] by simp

lemma sends_broadcasts: "sends_at_most k m \<Longrightarrow> sends_evm k (new_events m w)"
  unfolding sends_at_most_def new_events_def final_def by (metis append_eq_conv_conj)

lemma sends_count: "sends_at_most k m \<Longrightarrow> count_ev ''eth_sendRawTransaction'' (new_events m w) \<le> k"
  using sends_broadcasts [of k m w] broadcasts_count [of "new_events m w"] by (simp add: sends_evm_def)

lemma sends_call_count:
  assumes "n \<in> broadcast_names" and "sends_at_most k m"
  shows "count_ev n (new_events m w) \<le> k"
proof -
  have "count_ev n es \<le> length (broadcasts es)" for es
    using assms(1) by (induction es) (auto simp: broadcasts_def no_send_def)
  then show ?thesis using sends_broadcasts [OF assms(2), of w] le_trans unfolding sends_evm_def by blast
qed

lemma quiet_DecodeWindow: "emits no_send (DecodePaymasterWindow L now d)"
  unfolding DecodePaymasterWindow_def DefaultValidityWindow_def
  by (intro emits_intros) (simp add: no_send_def)

lemma quiet_Finalize: "emits no_send (FinalizeAndSignSend G L now cfg op us as n tip fee gas)"
  unfolding FinalizeAndSignSend_def Let_def by (intro emits_intros quiet_DecodeWindow)

lemma quiet_Preflight: "emits no_send (PreflightSponsoredSend G L now cfg op us a)"
  unfolding PreflightSponsoredSend_def Let_def by (intro emits_intros quiet_DecodeWindow)

end
