(* ===== verification/Bnb_Sponsor.thy ===== *)
theory Bnb_Sponsor
  imports Bnb_AA
begin

text \<open>
  The sponsored send of the BNB adaptor: an abstract sender (\<open>sponsor_run\<close>), the refinement of the
  attempts of \<open>Bnb_AA\<close> to it, and what guards a broadcast.
\<close>

section \<open>The abstract sender\<close>

text \<open>
  What the attempts promise: \<open>sponsor_run n sends out\<close> holds when at most \<open>n\<close> transactions are
  broadcast, each answered as in \<open>sends\<close>, and the outcome is \<open>out\<close>. Only a retryable refusal is
  followed by another broadcast; an accepted transaction ends the run with its hash; a run may stop
  with an error before any broadcast.
\<close>

inductive sponsor_run :: "nat \<Rightarrow> (string \<times> hash res) list \<Rightarrow> hash res \<Rightarrow> bool" where
  stopped: "sponsor_run n [] (Inl e)"
| accepted: "sponsor_run (Suc n) [(raw, Inr h)] (Inr h)"
| refused: "\<not> IsRetryableSendError (Some e) \<or> n = 0 \<Longrightarrow> sponsor_run (Suc n) [(raw, Inl e)] (Inl e)"
| retried: "IsRetryableSendError (Some e) \<Longrightarrow> sponsor_run n sends out \<Longrightarrow> sponsor_run (Suc n) ((raw, Inl e) # sends) out"

inductive_cases sponsor_run_ConsE: "sponsor_run n (s # sends) out"
inductive_simps sponsor_run_Nil: "sponsor_run n [] out"

lemma sponsor_run_length: "sponsor_run n sends out \<Longrightarrow> length sends \<le> n"
  by (induction rule: sponsor_run.induct) auto

lemma sponsor_run_retries:
  "sponsor_run n sends out \<Longrightarrow> Suc i < length sends \<Longrightarrow>
     \<exists>e. snd (sends ! i) = Inl e \<and> IsRetryableSendError (Some e)"
proof (induction arbitrary: i rule: sponsor_run.induct)
  case (retried e n sends out raw)
  then show ?case by (cases i) auto
qed auto

lemma sponsor_run_success:
  "sponsor_run n sends out \<Longrightarrow> out = Inr h \<Longrightarrow> sends \<noteq> [] \<and> snd (last sends) = Inr h"
  by (induction rule: sponsor_run.induct) auto

section \<open>The attempts refine it\<close>

context eth_client
begin

lemma send_attempts_at_most: "sends_at_most (length as) (send_attempts G L now C cfg us sg as fees op)"
proof (induction as arbitrary: fees op)
  case Nil
  show ?case unfolding send_attempts.simps by (rule sends_quiet) (rule emits_ret)
next
  case (Cons a as)
  have send: "sends_at_most 1 (SendRawTransaction C raw)" for raw
    unfolding sends_at_most_def
  proof
    fix w
    obtain r w' where "SendRawTransaction C raw w = (Ret r, w')" "trace w' = trace w @ [Ev ''eth_sendRawTransaction'' [raw]]"
      using sends [of raw w] by blast
    then show "\<exists>es. trace (snd (SendRawTransaction C raw w)) = trace w @ es \<and> sends_evm 1 es"
      by (intro exI [of _ "[Ev ''eth_sendRawTransaction'' [raw]]"]) (simp add: sends_evm_def)
  qed
  have ret: "sends_at_most k (ret_io x)" for k and x :: "hash res" by (rule sends_quiet) (rule emits_ret)
  have bind: "(\<And>x. sends_at_most k (f x)) \<Longrightarrow> sends_at_most (Suc k) (bind_io (SendRawTransaction C raw) f)"
    for raw k and f :: "hash res \<Rightarrow> ('w, hash res) io"
    using sends_bind [OF send] by fastforce
  show ?case
    unfolding send_attempts.simps Let_def
    by (intro sends_quiet_bind quiet quiet_Finalize)
       (auto intro!: sends_quiet_bind quiet_Finalize bind ret Cons split: sum.split prod.split)
qed

lemma quiet_signer: "emits no_send (paymasterVerifyingSigner G L C pm)"
  unfolding paymasterVerifyingSigner_def by (intro emits_intros quiet)

lemma quiet_resolved: "emits no_send (resolved_or_default C)"
  unfolding resolved_or_default_def by (intro emits_intros quiet_Resolve)

lemma quiet_checks:
  assumes "bc_ethClient c = C" shows "emits no_send (sponsored_checks G L now c request)"
  unfolding sponsored_checks_def Let_def assms by (intro emits_intros quiet quiet_signer quiet_Preflight)

text \<open>One attempt: it ends before the broadcast, or it broadcasts once and then accepts, gives up or goes on.\<close>

lemma attempt_run:
  assumes "send_attempts G L now C cfg us sg (a # rest) fees op w = (Ret out, w')"
  obtains (quit) es e where "trace w' = trace w @ es" "broadcasts es = []" "out = Inl e"
  | (broadcast) es raw h w3 fees' op' where "trace w3 = trace w @ es" "broadcasts es = [Ev ''eth_sendRawTransaction'' [raw]]"
      "(case h of Inr hash \<Rightarrow> ret_io (Inr hash)
        | Inl err \<Rightarrow> if \<not> IsRetryableSendError (Some err) \<or> int a = maxSendAttempts - 1 then ret_io (Inl err)
            else send_attempts G L now C cfg us sg rest fees' op') w3 = (Ret out, w')"
proof -
  let ?fees = "if a > 0 then BumpEip1559GasFees (fst fees) (snd fees) (int a) else fees"
  obtain n w1 where n: "GetTransactionAccount C (SponsorAddress cfg) w = (Ret n, w1)"
    using assms by (auto simp: Let_def run_iff)
  obtain es1 where es1: "trace w1 = trace w @ es1" "broadcasts es1 = []" using emits_step [OF quiet(15) n] .
  show ?thesis
  proof (cases n)
    case (Inl e)
    then show ?thesis using assms n es1 by (intro quit [of es1 e]) (auto simp: Let_def run_iff)
  next
    case (Inr nonce)
    obtain tx op' w2 where p: "FinalizeAndSignSend G L now cfg op us sg (big_Uint64 nonce) (fst ?fees) (snd ?fees) outerGasLimit w1 =
        (Ret (tx, op'), w2)"
      using assms n Inr by (auto simp: Let_def run_iff)
    obtain es2 where es2: "trace w2 = trace w1 @ es2" "broadcasts es2 = []" using emits_step [OF quiet_Finalize p] .
    let ?cont = "\<lambda>h. case h of Inr hash \<Rightarrow> ret_io (Inr hash)
        | Inl err \<Rightarrow> if \<not> IsRetryableSendError (Some err) \<or> int a = maxSendAttempts - 1 then ret_io (Inl err)
            else send_attempts G L now C cfg us sg rest ?fees op'"
    have run: "(case tx of Inl err \<Rightarrow> ret_io (Inl err) | Inr signedTx \<Rightarrow>
        (case RawTxHex L signedTx of Inl err \<Rightarrow> ret_io (Inl err) | Inr rawTx \<Rightarrow>
          bind_io (SendRawTransaction C rawTx) ?cont)) w2 = (Ret out, w')"
      using assms n p by (simp add: Let_def bind_io_apply Inr cong: sum.case_cong)
    show ?thesis
    proof (cases "\<exists>t raw. tx = Inr t \<and> RawTxHex L t = Inr raw")
      case False
      then have "\<exists>e. out = Inl e \<and> w' = w2" using run by (auto split: sum.splits)
      then show ?thesis using es1 es2 quit [of "es1 @ es2"] by auto
    next
      case True
      then obtain t raw where t: "tx = Inr t" "RawTxHex L t = Inr raw" by blast
      obtain h w3 where h: "SendRawTransaction C raw w2 = (Ret h, w3)" "trace w3 = trace w2 @ [Ev ''eth_sendRawTransaction'' [raw]]"
        using sends [of raw w2] by blast
      have "bind_io (SendRawTransaction C raw) ?cont w2 = (Ret out, w')" using run by (simp only: t sum.case)
      then have "?cont h w3 = (Ret out, w')" by (simp only: bind_io_apply h prod.case go.case)
      then show ?thesis
        by (intro broadcast [where es = "es1 @ es2 @ [Ev ''eth_sendRawTransaction'' [raw]]" and h = h]) (use es1 es2 h(2) in simp_all)
    qed
  qed
qed

lemma attempts_refine:
  assumes "send_attempts G L now C cfg us sg [a..<3] fees op w = (Ret out, w')"
  shows "\<exists>es sends. trace w' = trace w @ es \<and> sponsor_run (3 - a) sends out \<and>
    broadcasts es = map (\<lambda>(raw, r). Ev ''eth_sendRawTransaction'' [raw]) sends"
  using assms
proof (induction "3 - a" arbitrary: a fees op w)
  case 0
  then show ?case by (auto intro!: exI [of _ "[]"] stopped)
next
  case (Suc k)
  then have a: "[a..<3] = a # [Suc a..<3]" "k = 3 - Suc a" "a < 3" by (auto simp: upt_conv_Cons)
  show ?case
  proof (rule attempt_run [OF Suc.prems [unfolded a(1)]], goal_cases)
    case (1 es e)
    then show ?case by (intro exI [of _ es] exI [of _ "[]"]) (auto simp: stopped)
  next
    case (2 es raw h w3 fees' op')
    show ?case
    proof (cases "\<exists>e. h = Inl e \<and> IsRetryableSendError (Some e) \<and> a \<noteq> 2")
      case False
      then have "w' = w3" "sponsor_run (3 - a) [(raw, h)] out"
        using 2(3) a(2) unfolding Suc(2) [symmetric]
        by (auto simp: maxSendAttempts_def intro: accepted refused split: sum.splits if_splits)
      then show ?thesis using 2 by (intro exI [of _ es] exI [of _ "[(raw, h)]"]) simp
    next
      case True
      then obtain e where e: "h = Inl e" "IsRetryableSendError (Some e)" "a \<noteq> 2" by blast
      then have "send_attempts G L now C cfg us sg [Suc a..<3] fees' op' w3 = (Ret out, w')"
        using 2(3) by (simp add: maxSendAttempts_def split: if_splits)
      from Suc.hyps(1) [OF a(2) this] obtain es3 sends where rest: "trace w' = trace w3 @ es3"
        "sponsor_run (3 - Suc a) sends out" "broadcasts es3 = map (\<lambda>(raw, r). Ev ''eth_sendRawTransaction'' [raw]) sends"
        by blast
      have "sponsor_run (3 - a) ((raw, h) # sends) out"
        using retried [OF e(2) rest(2)] e(1) a(2) Suc(2) by simp
      then show ?thesis using 2 rest by (intro exI [of _ "es @ es3"] exI [of _ "(raw, h) # sends"]) simp
    qed
  qed
qed

end


section \<open>Properties\<close>

lemma checks_passed:
  assumes "sponsored_checks G L now c request w = (Ret (Inr (cfg, op, us, sg)), w3)"
  shows "\<exists>op0 s w1 report w2 n. bnb_aaConfig G c = Inr cfg \<and> Enabled cfg \<and>
       UserOpFromJSON L (sps_UserOpJson request) = Inr op0 \<and> ParseSignatureHex (sps_UserOpSignature request) = Inr us \<and>
       PreflightSponsoredSend G L now cfg (EnsurePaymasterSigPlaceholder (ApplyConfigToUserOp op0 cfg)) us s w1 =
         (Ret (report, op), w2) \<and> report_OK report \<and>
       GetTransactionAccount (bc_ethClient c) (Sender op) w2 = (Ret (Inr n), w3) \<and> big_Uint64 n = AuthNonce op"
  using assms unfolding sponsored_checks_def Let_def
  by (auto simp: run_iff split: if_splits prod.splits) blast

text \<open>However a sponsored send ends, it has broadcast three times at most.\<close>

lemma sponsored_at_most:
  assumes "bc_ethClient c = clnt G maxLen schedule r"
  shows "sends_at_most 3 (bnb_SendSponsoredTransfer G L now c request)"
proof -
  let ?C = "clnt G maxLen schedule r"
  note quiet = eth_clnt.quiet_checks [OF assms, of G L now request]
  have "sends_at_most 3 (send_attempts G L now ?C cfg us sg [0..<nat maxSendAttempts] fees op)" for cfg us sg fees op
    using eth_clnt.send_attempts_at_most [of "[0..<nat maxSendAttempts]"] by (simp add: maxSendAttempts_def del: upt.simps)
  then have tail: "sends_at_most 3 (bind_io (send_attempts G L now ?C cfg us sg [0..<nat maxSendAttempts] fees op)
      (\<lambda>out. ret_io (sponsored_reply G out)))" for cfg us sg fees op
    using sends_bind [OF _ sends_quiet [OF emits_ret, where k = 0]] by fastforce
  show ?thesis
    unfolding bnb_SendSponsoredTransfer_def assms
  proof (rule sends_quiet_bind [OF quiet])
    fix ok :: "string + (aaConfig \<times> UserOperation \<times> byte list \<times> byte list)"
    show "sends_at_most 3 (case ok of
         Inl msg \<Rightarrow> ret_io (okReply (send_rsp ERROR msg))
       | Inr (cfg, op, userOpSig, authSig) \<Rightarrow>
           bind_io (resolved_or_default ?C) (\<lambda>fees.
           bind_io (send_attempts G L now ?C cfg userOpSig authSig [0..<nat maxSendAttempts] fees op) (\<lambda>out.
             ret_io (sponsored_reply G out))))"
    proof (cases ok)
      case (Inl msg)
      then show ?thesis by (simp only: sum.case) (rule sends_quiet [OF emits_ret])
    next
      case (Inr p)
      then show ?thesis
        by (cases p) (simp only: sum.case prod.case, intro sends_quiet_bind eth_clnt.quiet_resolved tail)
    qed
  qed
qed

text \<open>It has broadcast none unless its checks have passed.\<close>

lemma unchecked_silent:
  assumes "bc_ethClient c = clnt G maxLen schedule r"
    and "count_ev ''eth_sendRawTransaction'' (new_events (bnb_SendSponsoredTransfer G L now c request) w) \<noteq> 0"
  obtains cfg op us sg w3 where "sponsored_checks G L now c request w = (Ret (Inr (cfg, op, us, sg)), w3)"
proof (cases "\<exists>p w3. sponsored_checks G L now c request w = (Ret (Inr p), w3)")
  case True
  then show ?thesis using that by (metis prod_cases4)
next
  case False
  obtain x w1 where x: "sponsored_checks G L now c request w = (x, w1)" by fastforce
  then have "snd (bnb_SendSponsoredTransfer G L now c request w) = w1"
    using False by (auto simp: bnb_SendSponsoredTransfer_def bind_io_apply split: go.split sum.split)
  moreover obtain es where "trace w1 = trace w @ es" "broadcasts es = []"
    using emits_step [OF eth_clnt.quiet_checks [OF assms(1)] x] .
  ultimately have "count_ev ''eth_sendRawTransaction'' (new_events (bnb_SendSponsoredTransfer G L now c request) w) = 0"
    using broadcasts_count by (metis (no_types) append_eq_conv_conj final_def le_zero_eq list.size(3) new_events_def)
  with assms(2) show ?thesis by blast
qed

text \<open>So what it broadcasts was signed by the operation's sender.\<close>

lemma sponsored_send_signed:
  assumes "geth_ok G" and "bc_ethClient c = clnt G maxLen schedule r"
    and "count_ev ''eth_sendRawTransaction'' (new_events (bnb_SendSponsoredTransfer G L now c request) w) \<noteq> 0"
  shows "\<exists>cfg op0 op us h. bnb_aaConfig G c = Inr cfg \<and> Enabled cfg \<and> UserOpFromJSON L (sps_UserOpJson request) = Inr op0 \<and>
       op = EnsurePaymasterSigPlaceholder (ApplyConfigToUserOp op0 cfg) \<and> ParseSignatureHex (sps_UserOpSignature request) = Inr us \<and>
       GetUserOpHash G L op = Ret h \<and> recoverPubkey L (hash_bytes h) us = Inr (Sender op)"
proof -
  obtain cfg op us sg w3 where checks: "sponsored_checks G L now c request w = (Ret (Inr (cfg, op, us, sg)), w3)"
    using unchecked_silent [OF assms(2,3)] .
  obtain op0 s w1 report w2 where c: "bnb_aaConfig G c = Inr cfg" "Enabled cfg" "UserOpFromJSON L (sps_UserOpJson request) = Inr op0"
      "ParseSignatureHex (sps_UserOpSignature request) = Inr us"
    and p: "PreflightSponsoredSend G L now cfg (EnsurePaymasterSigPlaceholder (ApplyConfigToUserOp op0 cfg)) us s w1 =
         (Ret (report, op), w2)" "report_OK report"
    using checks_passed [OF checks] by blast
  have "op = EnsurePaymasterSigPlaceholder (ApplyConfigToUserOp op0 cfg) \<and> GetUserOpHash G L op = Ret (UserOpHash report) \<and>
      recoverPubkey L (hash_bytes (UserOpHash report)) us = Inr (Sender op)"
    using preflight_recovers [OF assms(1) p] by auto
  with c show ?thesis by blast
qed




section \<open>A concrete send\<close>

text \<open>The configuration of \<open>sample_aa\<close>, and a node whose nonces are 3 and whose prices are 3.\<close>

definition sample_AAConfig :: AAConfig where
  "sample_AAConfig =
     \<lparr>aac_Enabled = True, aac_EntryPoint = AddressHex sample_geth 8, aac_Delegate = AddressHex sample_geth 7,
      aac_Paymaster = AddressHex sample_geth 9, aac_SponsorAddress = AddressHex sample_geth 6,
      aac_SponsorPrivateKey = ''0x06'', aac_VerifyingPrivateKey = '' 0x04 '', aac_ChainIDNumeric = []\<rparr>"

definition aa_bnb :: "unit bnbChainAdaptor" where
  "aa_bnb =
     (let conf = sample_config [\<lparr>ch_ChainName = ''BNB'', ch_ChainId = ''DappLinkBnbChain'', ch_Network = ''mainnet''\<rparr>];
         wn = cfg_WalletNode conf in
      \<lparr>bc_conf = conf\<lparr>cfg_WalletNode := wn\<lparr>BNB := (BNB wn)\<lparr>AA := sample_AAConfig\<rparr>\<rparr>\<rparr>,
       bc_ethClient = clnt sample_geth 1000 concat (sample_rpc\<lparr>call_big := \<lambda>m a e. ((3, None), e)\<rparr>),
       bc_ethDataClient = \<lparr>exp_GetTxByAddress = \<lambda>q w. (Inr [], w), exp_GetAccountBalance = \<lambda>q w. (Inr None, w)\<rparr>,
       contractAddrIndex = {}, entryPointAddress = 8\<rparr>)"

lemma parse_sample_address [simp]:
  "ParseConfiguredAddress sample_geth field (AddressHex sample_geth a) = Inr a"
proof -
  have h: "AddressHex sample_geth a = ''0x'' @ EncodeToString (addr_bytes a)" by (simp add: sample_geth_def)
  have "TrimSpace (AddressHex sample_geth a) = AddressHex sample_geth a"
  proof (rule TrimSpace_id)
    fix ch assume "ch \<in> set (AddressHex sample_geth a)"
    then have "ch = CHR ''0'' \<or> ch = CHR ''x'' \<or> (\<exists>d < 16. ch = digit_char d)"
      using EncodeToString_chars unfolding h by fastforce
    then show "\<not> is_space ch" by (auto simp: is_space_def dest: digit_char_not_space [unfolded is_space_def])
  qed
  moreover have "AddressHex sample_geth a \<noteq> []" by (simp add: h)
  ultimately show ?thesis by (simp add: ParseConfiguredAddress_def geth_okD [OF sample_geth_ok])
qed

lemma aa_bnb_config: "bnb_aaConfig sample_geth aa_bnb = Inr sample_aa"
  by (simp add: bnb_aaConfig_def aa_bnb_def sample_AAConfig_def sample_aa_def Let_def)

definition send_request :: SponsoredTransferSendRequest where
  "send_request = \<lparr>ConsumerToken = ''secret'', ChainId = ''DappLinkBnbChain'', Network = [], sps_UserOpJson = [], sps_AuthSignature = [],
     sps_UserOpSignature = EncodeToString sample_sig\<rparr>"

lemma aa_bnb_calls:
  "\<exists>w'. GetTransactionAccount (bc_ethClient aa_bnb) a w = (Ret (Inr 3), w')"
  "\<exists>w'. paymasterVerifyingSigner sample_geth sample_lib (bc_ethClient aa_bnb) 9 w = (Ret (Inl (Errorf ''invalid verifyingSigner response'')), w')"
  "\<exists>w'. SendRawTransaction (bc_ethClient aa_bnb) raw w = (Ret (Inr 7), w') \<and> trace w' = trace w @ [Ev ''eth_sendRawTransaction'' [raw]]"
  "\<exists>tip fee w'. resolved_or_default (bc_ethClient aa_bnb) w = (Ret (tip, fee), w') \<and> tip < 2 ^ 256 \<and> fee < 2 ^ 256"
  by (simp_all add: aa_bnb_def Let_def clnt_def clnt_GetTransactionAccount_def clnt_CallContract_def clnt_SendRawTransaction_def
      CallContext_def bind_io_apply ext_apply sample_rpc_def plain_res_def prefix_err_def paymasterVerifyingSigner_def
      EncodePaymasterVerifyingSigner_def sample_lib_def resolved_or_default_def ResolveEip1559GasFees_def
      clnt_SuggestGasPrice_def clnt_SuggestGasTipCap_def clnt_BlockHeaderByNumber_def found_res_def sample_header_def
      resolve_tip_def resolve_fee_def)

lemma send_request_fields:
  "EnsurePaymasterSigPlaceholder (ApplyConfigToUserOp sample_op sample_aa) = sample_op"
  "ParseSignatureHex (EncodeToString sample_sig) = Inr sample_sig" "ParseSignatureHex [] = Inr []"
  "UserOpFromJSON sample_lib s = Inr sample_op" "Enabled sample_aa" "cfg_Paymaster sample_aa = 9"
proof -
  show "EnsurePaymasterSigPlaceholder (ApplyConfigToUserOp sample_op sample_aa) = sample_op"
    using sample_op_fields(3) by (simp add: ApplyConfigToUserOp_def) (simp add: sample_op_def sample_aa_def)
  show "ParseSignatureHex (EncodeToString sample_sig) = Inr sample_sig" "ParseSignatureHex [] = Inr []"
    by (simp_all add: ParseSignatureHex_def) (simp add: TrimPrefix_def HasPrefix_def hex_decode_def)
qed (simp_all add: UserOpFromJSON_def sample_lib_def sample_aa_def)

lemma aa_bnb_checks:
  "\<exists>w'. sponsored_checks sample_geth sample_lib now aa_bnb send_request w = (Ret (Inr (sample_aa, sample_op, sample_sig, [])), w')"
proof -
  obtain w1 where s: "paymasterVerifyingSigner sample_geth sample_lib (bc_ethClient aa_bnb) 9 w =
      (Ret (Inl (Errorf ''invalid verifyingSigner response'')), w1)" using aa_bnb_calls(2) by blast
  obtain report where r: "PreflightSponsoredSend sample_geth sample_lib now sample_aa sample_op sample_sig 0 w1 =
      (Ret (report, sample_op), w1)" "report_OK report" using sample_preflight by blast
  obtain w2 where n: "GetTransactionAccount (bc_ethClient aa_bnb) (Sender sample_op) w1 = (Ret (Inr 3), w2)"
    using aa_bnb_calls(1) by blast
  have "AuthNonce sample_op = 3" "big_Uint64 3 = 3"
    by (simp_all add: sample_op_def big_Uint64_def)
  then show ?thesis
    using s r n by (simp add: sponsored_checks_def aa_bnb_config send_request_def send_request_fields bind_io_apply Let_def)
qed

lemma aa_bnb_run:
  "\<exists>w' es raw. bnb_SendSponsoredTransfer sample_geth sample_lib now aa_bnb send_request w =
     (Ret (sponsored_reply sample_geth (Inr 7)), w') \<and> trace w' = es @ [Ev ''eth_sendRawTransaction'' [raw]]"
proof -
  obtain w1 where c: "sponsored_checks sample_geth sample_lib now aa_bnb send_request w =
      (Ret (Inr (sample_aa, sample_op, sample_sig, [])), w1)" using aa_bnb_checks by blast
  obtain tip fee w2 where f: "resolved_or_default (bc_ethClient aa_bnb) w1 = (Ret (tip, fee), w2)" "tip < 2 ^ 256" "fee < 2 ^ 256"
    using aa_bnb_calls(4) by blast
  obtain w3 where n: "GetTransactionAccount (bc_ethClient aa_bnb) (SponsorAddress sample_aa) w2 = (Ret (Inr 3), w3)"
    using aa_bnb_calls(1) by blast
  obtain tx op' where t: "FinalizeAndSignSend sample_geth sample_lib now sample_aa sample_op sample_sig [] (big_Uint64 3) tip fee
      outerGasLimit w3 = (Ret (Inr tx, op'), w3)" using sample_finalize [OF f(2,3)] by blast
  obtain raw where raw: "RawTxHex sample_lib tx = Inr raw" by (simp add: RawTxHex_def sample_lib_def)
  obtain w4 where s: "SendRawTransaction (bc_ethClient aa_bnb) raw w3 = (Ret (Inr 7), w4)"
    "trace w4 = trace w3 @ [Ev ''eth_sendRawTransaction'' [raw]]" using aa_bnb_calls(3) by blast
  have "[0..<nat maxSendAttempts] = [0, 1, 2]" by (simp add: maxSendAttempts_def upt_rec)
  then show ?thesis
    using c f(1) n t raw s by (simp add: bnb_SendSponsoredTransfer_def bind_io_apply)
qed

lemma aa_bnb_client:
  "bc_ethClient aa_bnb = clnt sample_geth 1000 concat (sample_rpc\<lparr>call_big := \<lambda>m a e. ((3, None), e)\<rparr>)"
  by (simp add: aa_bnb_def Let_def)



end
