(* ===== verification/Btc_Client.thy ===== *)
theory Btc_Client
  imports Handlers
begin

text \<open>
  What the Bitcoin adaptor calls: the data types (\<open>chain/bitcoin/types/types.go\<close>), the client of the
  public block explorer (\<open>chain/bitcoin/blockchain.go\<close>) and the node and explorer clients
  (\<open>chain/bitcoinbase\<close>). The HTTP library, the node's RPC library, the explorer library and the JSON
  decoders are parameters; a \<open>big.Int\<close> value is an \<open>int\<close>.
\<close>

section \<open>Types\<close>

record SpendingOutpointsItem =
  sp_N :: u64
  sp_TxIndex :: int

record PrevOut =
  po_Addr :: string
  po_N :: u64
  po_Script :: string
  po_SpendingOutpoints :: "SpendingOutpointsItem list"
  po_Spent :: bool
  po_TxIndex :: int
  po_Type :: u64
  po_Value :: int

record InputItem =
  in_Sequence :: int
  in_Witness :: string
  in_Script :: string
  in_Index :: u64
  in_PrevOut :: PrevOut

record OutItem =
  out_Type :: u64
  out_Spent :: bool
  out_Value :: int
  out_SpendingOutpoints :: "SpendingOutpointsItem list"
  out_N :: u64
  out_TxIndex :: int
  out_Script :: string
  out_Addr :: string

record TxsItem =
  txs_Hash :: string
  txs_Ver :: u64
  txs_VinSz :: u64
  txs_VoutSz :: u64
  txs_Size :: u64
  txs_Weight :: u64
  txs_Fee :: int
  txs_RelayedBy :: string
  txs_LockTime :: int
  txs_TxIndex :: u64
  txs_DoubleSpend :: bool
  txs_Time :: int
  txs_BlockIndex :: int
  txs_BlockHeight :: int
  txs_Inputs :: "InputItem list"
  txs_Out :: "OutItem list"
  txs_Result :: int
  txs_Balance :: int

record BtcTransaction =
  bt_Hash160 :: string
  bt_Address :: string
  bt_NTx :: u64
  bt_NUnredeemed :: int
  bt_TotalReceived :: int
  bt_TotalSent :: int
  bt_FinalBalance :: int
  bt_Txs :: "TxsItem list"

record BlockData =
  bd_Hash :: string
  bd_Confirmations :: u64
  bd_Size :: u64
  bd_StrippedSize :: u64
  bd_Weight :: u64
  bd_Height :: u64
  bd_Version :: u64
  bd_VersionHex :: string
  bd_Merkleroot :: string
  bd_Tx :: "string list"
  bd_Time :: u64
  bd_MedianTime :: u64
  bd_Nonce :: u64
  bd_Bits :: string
  bd_Difficulty :: u64
  bd_ChainWork :: string
  bd_NTx :: u64
  bd_PreviousBlockHash :: string
  bd_NextBlockHash :: string

record ScriptSig =
  ss_Asm :: string
  ss_Hex :: string

record Vin =
  vin_TxId :: string
  vin_Vout :: u64
  vin_ScriptSig :: ScriptSig
  vin_Sequence :: u64
  vin_TxInWitness :: "string list"

record ScriptPubKey =
  sk_Asm :: string
  sk_Hex :: string
  sk_Desc :: string
  sk_Address :: string
  sk_Type :: string

record Vout =
  vo_Value :: u64
  vo_N :: u64
  vo_ScriptPubKey :: ScriptPubKey

record RawTransactionData =
  rt_TxId :: string
  rt_Hash :: string
  rt_Version :: u64
  rt_Size :: u64
  rt_VSize :: u64
  rt_Weight :: u64
  rt_LockTime :: u64
  rt_Vin :: "Vin list"
  rt_Vout :: "Vout list"
  rt_Hex :: string
  rt_Blockhash :: string
  rt_Confirmations :: u64
  rt_BlockTime :: u64
  rt_Time :: u64

text \<open>The zero values, which a decoder starts from.\<close>

definition zero_BlockData :: BlockData where
  "zero_BlockData = \<lparr>bd_Hash = [], bd_Confirmations = 0, bd_Size = 0, bd_StrippedSize = 0, bd_Weight = 0,
     bd_Height = 0, bd_Version = 0, bd_VersionHex = [], bd_Merkleroot = [], bd_Tx = [], bd_Time = 0,
     bd_MedianTime = 0, bd_Nonce = 0, bd_Bits = [], bd_Difficulty = 0, bd_ChainWork = [], bd_NTx = 0,
     bd_PreviousBlockHash = [], bd_NextBlockHash = []\<rparr>"

definition zero_RawTransactionData :: RawTransactionData where
  "zero_RawTransactionData = \<lparr>rt_TxId = [], rt_Hash = [], rt_Version = 0, rt_Size = 0, rt_VSize = 0,
     rt_Weight = 0, rt_LockTime = 0, rt_Vin = [], rt_Vout = [], rt_Hex = [], rt_Blockhash = [],
     rt_Confirmations = 0, rt_BlockTime = 0, rt_Time = 0\<rparr>"

record AccountBalance =
  bal_FinalBalance :: int
  bal_NTx :: int
  bal_TotalReceived :: int

record UnspentOutput =
  uo_TxHashBigEndian :: string
  uo_TxHash :: string
  uo_TxOutputN :: u64
  uo_Script :: string
  uo_Value :: u64
  uo_ValueHex :: string
  uo_Confirmations :: u64
  uo_TxIndex :: u64

record UnspentOutputList =
  ul_Notice :: string
  ul_UnspentOutputs :: "UnspentOutput list"

section \<open>The public explorer\<close>

text \<open>
  A GET gives the library's error, or the status and the decoded body (the zero value when the body is
  not decoded). \<open>bc_url\<close> is the address the library makes of the host and the path.
\<close>

record 'w BcClient =
  bc_url :: "string \<Rightarrow> string"
  get_balance :: "string \<Rightarrow> 'w \<Rightarrow> (int \<times> (string \<rightharpoonup> AccountBalance)) res \<times> 'w"
  get_unspent :: "string \<Rightarrow> 'w \<Rightarrow> (int \<times> UnspentOutputList) res \<times> 'w"
  get_address :: "string \<Rightarrow> 'w \<Rightarrow> (int \<times> BtcTransaction) res \<times> 'w"
  get_tx :: "string \<Rightarrow> 'w \<Rightarrow> (int \<times> TxsItem) res \<times> 'w"

definition errBlockChainHTTPError :: string where
  "errBlockChainHTTPError = ''blockchain http error''"

text \<open>The hook after each response: a status of 400 or more is an error.\<close>

definition after_response :: "(string \<Rightarrow> string) \<Rightarrow> string \<Rightarrow> (int \<times> 'a) res \<Rightarrow> (int \<times> 'a) res" where
  "after_response url path r = bind_res r (\<lambda>(statusCode, body).
     if statusCode \<ge> 400
     then Inl (Errorf (FormatInt statusCode @ '' cannot GET '' @ url path @ '': '' @ errBlockChainHTTPError))
     else Inr (statusCode, body))"

definition bc_get ::
  "('w BcClient \<Rightarrow> string \<Rightarrow> 'w \<Rightarrow> (int \<times> 'a) res \<times> 'w) \<Rightarrow> 'w BcClient \<Rightarrow> string \<Rightarrow> ('w, (int \<times> 'a) res) io" where
  "bc_get get c path = bind_io (ext (Ev ''GET'' [path]) (get c path)) (\<lambda>r. ret_io (after_response (bc_url c) path r))"

text \<open>A client is made of the URL by the HTTP library (\<open>mk\<close>).\<close>

definition NewBlockChainClient :: "(string \<Rightarrow> 'w BcClient) \<Rightarrow> string \<Rightarrow> 'w BcClient res" where
  "NewBlockChainClient mk url =
     (if url = [] then Inl (Errorf ''blockchain URL cannot be empty'') else Inr (mk url))"

text \<open>An address that the answer does not hold is a nil balance, which is read: a panic.\<close>

definition bc_GetAccountBalance :: "'w BcClient \<Rightarrow> string \<Rightarrow> ('w, string res) io" where
  "bc_GetAccountBalance c address =
     bind_io (bc_get get_balance c (''/balance?active='' @ address)) (\<lambda>r. case r of
         Inl err \<Rightarrow> ret_io (Inl (wrap_err ''cannot get account balance: '' err))
       | Inr (status, accountBalance) \<Rightarrow>
           if status \<noteq> 200 then ret_io (Inl (Errorf ''get account balance fail''))
           else (case accountBalance address of
                   None \<Rightarrow> panic_io
                 | Some b \<Rightarrow> ret_io (Inr (FormatInt (bal_FinalBalance b)))))"

definition bc_GetAccountUtxo :: "'w BcClient \<Rightarrow> string \<Rightarrow> ('w, UnspentOutput list res) io" where
  "bc_GetAccountUtxo c address =
     bind_io (bc_get get_unspent c (''/unspent?active='' @ address)) (\<lambda>r. ret_io (case r of
         Inl err \<Rightarrow> Inl (wrap_err ''cannot utxo fail: '' err)
       | Inr (status, utxoUnspentList) \<Rightarrow>
           if status \<noteq> 200 then Inl (Errorf ''get account counter fail'')
           else Inr (ul_UnspentOutputs utxoUnspentList)))"

definition bc_GetTransactionsByAddress :: "'w BcClient \<Rightarrow> string \<Rightarrow> string \<Rightarrow> string \<Rightarrow> ('w, BtcTransaction res) io" where
  "bc_GetTransactionsByAddress c address pageSize page =
     bind_io (bc_get get_address c (''/rawaddr/'' @ address @ ''?limit='' @ pageSize @ ''&offset='' @ page)) (\<lambda>r. ret_io (case r of
         Inl err \<Rightarrow> Inl (wrap_err ''cannot utxo fail: '' err)
       | Inr (status, transactionList) \<Rightarrow>
           if status \<noteq> 200 then Inl (Errorf ''get account counter fail'') else Inr transactionList))"

definition bc_GetTransactionsByHash :: "'w BcClient \<Rightarrow> string \<Rightarrow> ('w, TxsItem res) io" where
  "bc_GetTransactionsByHash c txHash =
     bind_io (bc_get get_tx c (''/rawtx/'' @ txHash)) (\<lambda>r. ret_io (case r of
         Inl err \<Rightarrow> Inl (wrap_err ''cannot utxo fail: '' err)
       | Inr (status, transaction) \<Rightarrow>
           if status \<noteq> 200 then Inl (Errorf ''get account counter fail'') else Inr transaction))"

section \<open>The node and the data client\<close>

datatype json_arg = JStr string | JBool bool

fun json_text :: "json_arg \<Rightarrow> string" where
  "json_text (JStr s) = s"
| "json_text (JBool b) = (if b then ''true'' else ''false'')"

text \<open>
  \<open>'m\<close> is the type of decoded transactions; a transaction hash is represented by its text. The number
  of headers is an \<open>int32\<close>.
\<close>

record ('w, 'm) BaseClient =
  node_GetBlockChainInfo :: "'w \<Rightarrow> (32 word) res \<times> 'w"
  node_RawRequest :: "string \<Rightarrow> json_arg list \<Rightarrow> 'w \<Rightarrow> string res \<times> 'w"
  node_SendRawTransaction :: "'m \<Rightarrow> bool \<Rightarrow> 'w \<Rightarrow> string res \<times> 'w"
  compressed :: bool

record ConnConfig =
  cc_Host :: string
  cc_User :: string
  cc_Pass :: string
  HTTPPostMode :: bool
  DisableTLS :: bool

text \<open>\<open>new\<close> is \<open>rpcclient.New\<close>.\<close>

definition NewBaseClient ::
  "(ConnConfig \<Rightarrow> ('w, 'm) BaseClient res) \<Rightarrow> string \<Rightarrow> string \<Rightarrow> string \<Rightarrow> ('w, 'm) BaseClient res" where
  "NewBaseClient new rpcUrl rpcUser rpcPass =
     bind_res (new \<lparr>cc_Host = rpcUrl, cc_User = rpcUser, cc_Pass = rpcPass, HTTPPostMode = True, DisableTLS = True\<rparr>)
       (\<lambda>client. Inr (client\<lparr>compressed := True\<rparr>))"

text \<open>\<open>oklink.ChainExplorerAdaptor\<close>, with its requests' fields that the code sets; answers are texts.\<close>

record 'w oklink =
  okl_GetEstimateGasFee :: "string \<Rightarrow> 'w \<Rightarrow> string res \<times> 'w"
  okl_GetAccountBalance :: "string \<Rightarrow> string list \<Rightarrow> string list \<Rightarrow> 'w \<Rightarrow> string res \<times> 'w"
  okl_GetAccountUtxo :: "string \<Rightarrow> string \<Rightarrow> string \<Rightarrow> string \<Rightarrow> 'w \<Rightarrow> string list res \<times> 'w"
  okl_GetTxByAddress :: "string \<Rightarrow> u64 \<Rightarrow> u64 \<Rightarrow> 'w \<Rightarrow> string list res \<times> 'w"
  okl_GetTxByHash :: "string \<Rightarrow> string \<Rightarrow> 'w \<Rightarrow> string res \<times> 'w"

record 'w BaseDataClient =
  ChainShortName :: string
  ExplorerName :: string
  BaseDataCli :: "'w oklink"

definition NewBaseDataClient ::
  "(string \<Rightarrow> string \<Rightarrow> 'w oklink res) \<Rightarrow> string \<Rightarrow> string \<Rightarrow> string \<Rightarrow> string \<Rightarrow> 'w BaseDataClient res" where
  "NewBaseDataClient new baseUrl apiKey chainShortName explorerName =
     bind_res (new apiKey baseUrl) (\<lambda>ltcCli.
       Inr \<lparr>ChainShortName = chainShortName, ExplorerName = explorerName, BaseDataCli = ltcCli\<rparr>)"

definition bdc_GetFee :: "'w BaseDataClient \<Rightarrow> ('w, string res) io" where
  "bdc_GetFee bdc = ext (Ev ''oklink.GetEstimateGasFee'' []) (okl_GetEstimateGasFee (BaseDataCli bdc) (ChainShortName bdc))"

definition bdc_GetAccountBalance :: "'w BaseDataClient \<Rightarrow> string \<Rightarrow> ('w, string res) io" where
  "bdc_GetAccountBalance bdc address =
     ext (Ev ''oklink.GetAccountBalance'' [address])
       (okl_GetAccountBalance (BaseDataCli bdc) (ChainShortName bdc) [address] [''0x00''])"

definition bdc_GetAccountUtxoList :: "'w BaseDataClient \<Rightarrow> string \<Rightarrow> ('w, string list res) io" where
  "bdc_GetAccountUtxoList bdc address =
     ext (Ev ''oklink.GetAccountUtxo'' [address]) (okl_GetAccountUtxo (BaseDataCli bdc) (ChainShortName bdc) address [] [])"

definition bdc_GetTxListByAddress :: "'w BaseDataClient \<Rightarrow> string \<Rightarrow> u64 \<Rightarrow> u64 \<Rightarrow> ('w, string list res) io" where
  "bdc_GetTxListByAddress bdc address page pageSize =
     ext (Ev ''oklink.GetTxByAddress'' [address]) (okl_GetTxByAddress (BaseDataCli bdc) address page pageSize)"

definition bdc_GetTxByHash :: "'w BaseDataClient \<Rightarrow> string \<Rightarrow> ('w, string res) io" where
  "bdc_GetTxByHash bdc txId =
     ext (Ev ''oklink.GetTxByHash'' [txId]) (okl_GetTxByHash (BaseDataCli bdc) (ChainShortName bdc) txId)"

end
