(* ===== verification/Bitcoin.thy ===== *)
theory Bitcoin
  imports Btc_Client Dispatcher
begin

text \<open>
  The Bitcoin adaptor (\<open>chain/bitcoin/bitcoin.go\<close>). Keys, scripts, addresses and transactions of the
  \<open>btcsuite\<close> libraries, and the JSON decoders, are the record \<open>btclib\<close>; \<open>'k\<close> is the type of public
  keys and \<open>'m\<close> that of transactions.
\<close>

record ('k, 'm) btclib =
  btc_ParsePubKey :: "byte list \<Rightarrow> 'k res"
  Hash160 :: "'k \<Rightarrow> byte list"                      \<comment> \<open>of the compressed key\<close>
  SerializeSchnorr :: "'k \<Rightarrow> byte list"
  p2pkh_address :: "byte list \<Rightarrow> string res"        \<comment> \<open>\<open>NewAddressPubKeyHash\<close>, encoded\<close>
  p2wpkh_address :: "byte list \<Rightarrow> string res"       \<comment> \<open>\<open>NewAddressWitnessPubKeyHash\<close>, encoded\<close>
  witness_script :: "byte list \<Rightarrow> byte list res"    \<comment> \<open>\<open>PayToAddrScript\<close> of the witness address\<close>
  script_address :: "byte list \<Rightarrow> string res"       \<comment> \<open>\<open>NewAddressScriptHash\<close>, encoded\<close>
  p2tr_address :: "byte list \<Rightarrow> string res"         \<comment> \<open>\<open>NewAddressTaproot\<close>, encoded\<close>
  btc_DecodeAddress :: "string \<Rightarrow> bool res"         \<comment> \<open>whether it is of the main net\<close>
  tx_Deserialize :: "string \<Rightarrow> 'm res"
  tx_TxHash :: "'m \<Rightarrow> string"
  json_BlockData :: "string \<Rightarrow> BlockData \<times> goerror option"
  json_RawTransactionData :: "string \<Rightarrow> RawTransactionData \<times> goerror option"

record ('w, 'm) btcChainAdaptor =
  btcClient :: "('w, 'm) BaseClient"
  btcDataClient :: "'w BaseDataClient"
  thirdPartClient :: "'w BcClient"

section \<open>Addresses\<close>

definition address_or_empty :: "string res \<Rightarrow> string" where
  "address_or_empty r = (case r of Inl err \<Rightarrow> [] | Inr a \<Rightarrow> a)"

text \<open>
  The address of a key in a format; an unknown format gives none. A script that cannot be made is left
  empty, and its address is still made.
\<close>

definition btc_address :: "('k, 'm) btclib \<Rightarrow> string \<Rightarrow> 'k \<Rightarrow> string" where
  "btc_address B fmt pubKey =
     (let pubKeyHash = Hash160 B pubKey in
      if fmt = ''p2pkh'' then address_or_empty (p2pkh_address B pubKeyHash)
      else if fmt = ''p2wpkh'' then address_or_empty (p2wpkh_address B pubKeyHash)
      else if fmt = ''p2sh''
      then (let script = (case witness_script B pubKeyHash of Inl err \<Rightarrow> [] | Inr s \<Rightarrow> s) in
            address_or_empty (script_address B script))
      else if fmt = ''p2tr'' then address_or_empty (p2tr_address B (SerializeSchnorr B pubKey))
      else [])"

definition btc_convert_one :: "('k, 'm) btclib \<Rightarrow> string \<Rightarrow> PublicKey \<Rightarrow> Addresses" where
  "btc_convert_one B fmt publicKeyItem =
     (let mk = (\<lambda>a. \<lparr>ad_Address = a, ad_PublicKey = pk_PublicKey publicKeyItem, ad_Type = pk_Type publicKeyItem\<rparr>) in
      case hex_decode (TrimPrefix (pk_PublicKey publicKeyItem) ''0x'') of
        Inl err \<Rightarrow> mk []
      | Inr pubKeyBytes \<Rightarrow>
          (case btc_ParsePubKey B pubKeyBytes of
             Inl err \<Rightarrow> mk []
           | Inr pubKey \<Rightarrow> mk (btc_address B fmt pubKey)))"

definition btc_ConvertAddresses ::
  "('k, 'm) btclib \<Rightarrow> ConvertAddressesRequest \<Rightarrow> ('w, ConvertAddressesResponse reply) io" where
  "btc_ConvertAddresses B req =
     ret_io (okReply \<lparr>Code = SUCCESS, Msg = ''create address success'',
       cvr_Address = map (btc_convert_one B (car_AddressFormat req)) (car_PublicKey req)\<rparr>)"

text \<open>The loop computes a verdict for each address and appends none of them to the reply.\<close>

definition btc_valid_one :: "('k, 'm) btclib \<Rightarrow> string \<Rightarrow> AddressesValid" where
  "btc_valid_one B addr = \<lparr>av_Address = addr, av_Type = [],
     av_Valid = (case btc_DecodeAddress B addr of Inl err \<Rightarrow> False | Inr isForNet \<Rightarrow> isForNet)\<rparr>"

primrec btc_valid_loop :: "('k, 'm) btclib \<Rightarrow> Addresses list \<Rightarrow> AddressesValid list \<Rightarrow> AddressesValid list" where
  "btc_valid_loop B [] addressesValidList = addressesValidList"
| "btc_valid_loop B (addressItem # rest) addressesValidList =
     (let addrValid = btc_valid_one B (ad_Address addressItem) in
      btc_valid_loop B rest addressesValidList)"

definition btc_ValidAddresses ::
  "('k, 'm) btclib \<Rightarrow> ValidAddressesRequest \<Rightarrow> ('w, ValidAddressesResponse reply) io" where
  "btc_ValidAddresses B req =
     ret_io (okReply \<lparr>Code = SUCCESS, Msg = ''verify address success'',
       AddressValid = btc_valid_loop B (var_Addresses req) []\<rparr>)"

section \<open>Blocks\<close>

definition btc_GetLastestBlock :: "('w, 'm) BaseClient \<Rightarrow> chain_request \<Rightarrow> ('w, LastestBlockResponse reply) io" where
  "btc_GetLastestBlock C req =
     bind_io (ext (Ev ''getblockchaininfo'' []) (node_GetBlockChainInfo C)) (\<lambda>r. ret_io (case r of
         Inl err \<Rightarrow> errReply err
       | Inr headers \<Rightarrow> okReply ((latest_rsp SUCCESS ''Get lastest block success'')\<lparr>lb_Height := scast headers\<rparr>)))"

definition RawRequest :: "('w, 'm) BaseClient \<Rightarrow> string \<Rightarrow> json_arg list \<Rightarrow> ('w, string res) io" where
  "RawRequest C m params = ext (Ev m (map json_text params)) (node_RawRequest C m params)"

text \<open>What a failed request leaves to decode.\<close>

definition raw_or_nil :: "string res \<Rightarrow> string" where
  "raw_or_nil r = (case r of Inl err \<Rightarrow> [] | Inr s \<Rightarrow> s)"

definition btc_block_tx :: "RawTransactionData \<Rightarrow> TransactionList" where
  "btc_block_tx rawTx = zero_TransactionList
     \<lparr>TxHash := rt_Hash rawTx, Fee := FormatInt 0, Status := 0,
      From := map (\<lambda>vin. \<lparr>fa_Address = ss_Asm (vin_ScriptSig vin), fa_Amount = FormatInt 10\<rparr>) (rt_Vin rawTx),
      To := map (\<lambda>vout. \<lparr>ta_Address = sk_Address (vo_ScriptPubKey vout), ta_Amount = FormatInt (sint (vo_Value vout))\<rparr>)
              (rt_Vout rawTx)\<rparr>"

fun btc_block_loop ::
  "('k, 'm) btclib \<Rightarrow> ('w, 'm) BaseClient \<Rightarrow> string list \<Rightarrow> TransactionList list \<Rightarrow> ('w, TransactionList list res) io" where
  "btc_block_loop B C [] transactionList = ret_io (Inr transactionList)"
| "btc_block_loop B C (txid # rest) transactionList =
     bind_io (RawRequest C ''getrawtransaction'' [JStr txid, JBool True]) (\<lambda>tx.
       case json_RawTransactionData B (raw_or_nil tx) of
         (rawTx, Some err) \<Rightarrow> ret_io (Inl err)
       | (rawTx, None) \<Rightarrow> btc_block_loop B C rest (transactionList @ [btc_block_tx rawTx]))"

definition btc_GetBlock ::
  "('k, 'm) btclib \<Rightarrow> ('w, 'm) BaseClient \<Rightarrow> BlockRequest \<Rightarrow> ('w, BlockResponse reply) io" where
  "btc_GetBlock B C req =
     bind_io (RawRequest C ''getblock'' [JStr (br_HashHeight req)]) (\<lambda>block.
       let resultBlock = fst (json_BlockData B (raw_or_nil block)) in
       bind_io (btc_block_loop B C (bd_Tx resultBlock) []) (\<lambda>r. ret_io (case r of
           Inl err \<Rightarrow> errReply err
         | Inr transactionList \<Rightarrow> okReply ((block_rsp SUCCESS ''get block by number success'')
             \<lparr>bkr_Height := FormatUint (bd_Height resultBlock), bkr_Hash := br_HashHeight req,
              bkr_Transactions := transactionList\<rparr>))))"

definition btc_GetBatchBlock :: "BatchBlockRequest \<Rightarrow> ('w, BatchBlockResponse reply) io" where
  "btc_GetBatchBlock req = ret_io (okReply (batch_rsp ERROR ''batch block query is not supported''))"

section \<open>Transactions and balances\<close>

definition btc_inputs :: "TxsItem \<Rightarrow> FromAddress list" where
  "btc_inputs t = map (\<lambda>i. \<lparr>fa_Address = po_Addr (in_PrevOut i), fa_Amount = FormatInt (po_Value (in_PrevOut i))\<rparr>) (txs_Inputs t)"

definition btc_outputs :: "TxsItem \<Rightarrow> ToAddress list" where
  "btc_outputs t = map (\<lambda>out. \<lparr>ta_Address = out_Addr out, ta_Amount = FormatInt (out_Value out)\<rparr>) (txs_Out t)"

definition btc_tx_item :: "u32 \<Rightarrow> TxsItem \<Rightarrow> TransactionList" where
  "btc_tx_item direction t = zero_TransactionList
     \<lparr>TxHash := txs_Hash t, From := btc_inputs t, To := btc_outputs t, Fee := FormatInt (txs_Fee t),
      Status := status_code TxStatus_Success, TxType := direction\<rparr>"

definition btc_GetTransactionByHash ::
  "'w BcClient \<Rightarrow> TransactionByHashRequest \<Rightarrow> ('w, TransactionByHashResponse reply) io" where
  "btc_GetTransactionByHash c req =
     bind_io (bc_GetTransactionsByHash c (thr_Hash req)) (\<lambda>r. ret_io (case r of
         Inl err \<Rightarrow> bothReply (txhash_rsp ERROR ''get transaction list fail'') err
       | Inr txInfo \<Rightarrow> okReply \<lparr>Code = SUCCESS, Msg = ''get transaction by hash success'',
           thp_Transaction = Some (btc_tx_item 0 txInfo)\<rparr>))"

text \<open>The direction reads the first input's address: a transaction without inputs panics.\<close>

definition btc_direction :: "string \<Rightarrow> TxsItem \<Rightarrow> u32 go" where
  "btc_direction address t =
     bind_go (index (btc_inputs t) 0) (\<lambda>first. Ret (if EqualFold address (fa_Address first) then 0 else 1))"

definition btc_GetTransactionByAddress ::
  "'w BcClient \<Rightarrow> TransactionByAddressRequest \<Rightarrow> ('w, TransactionByAddressResponse reply) io" where
  "btc_GetTransactionByAddress c req =
     bind_io (bc_GetTransactionsByAddress c (tar_Address req) (FormatInt (sint (tar_Page req))) (FormatInt (sint (tar_PageSize req))))
       (\<lambda>r. case r of
          Inl err \<Rightarrow> ret_io (bothReply (txaddr_rsp ERROR ''get transaction list fail'') err)
        | Inr transaction \<Rightarrow>
            bind_io (map_io (\<lambda>t. bind_io (lift_go (btc_direction (tar_Address req) t)) (\<lambda>direction.
                       ret_io (btc_tx_item direction t))) (bt_Txs transaction)) (\<lambda>txList.
              ret_io (okReply \<lparr>Code = SUCCESS, Msg = ''get transaction list success'', tap_Transaction = txList\<rparr>)))"

definition btc_GetAccountBalance :: "'w BcClient \<Rightarrow> AccountBalanceRequest \<Rightarrow> ('w, AccountBalanceResponse reply) io" where
  "btc_GetAccountBalance c req =
     bind_io (bc_GetAccountBalance c (abr_Address req)) (\<lambda>r. ret_io (case r of
         Inl err \<Rightarrow> bothReply (balance_rsp ERROR ''get btc balance fail'' ''0'') err
       | Inr balance \<Rightarrow> okReply (balance_rsp SUCCESS ''get btc balance success'' balance)))"

section \<open>Sending\<close>

definition no_return :: RawTransactionReturn where
  "no_return = \<lparr>rtr_TxHash = [], rtr_IsSuccess = False, rtr_Message = []\<rparr>"

text \<open>The bytes decoded are those of the text itself, not of the hex it may hold.\<close>

definition btc_send_one ::
  "('k, 'm) btclib \<Rightarrow> ('w, 'm) BaseClient \<Rightarrow> RawTransaction \<Rightarrow> ('w, RawTransactionReturn) io" where
  "btc_send_one B C txItem =
     (case tx_Deserialize B (RawTx txItem) of
        Inl err \<Rightarrow> ret_io no_return
      | Inr msgTx \<Rightarrow>
          bind_io (ext (Ev ''sendrawtransaction'' [RawTx txItem]) (node_SendRawTransaction C msgTx True)) (\<lambda>r. ret_io (case r of
              Inl err \<Rightarrow> no_return
            | Inr txHash \<Rightarrow>
                if tx_TxHash B msgTx \<noteq> txHash then no_return
                else \<lparr>rtr_TxHash = txHash, rtr_IsSuccess = True, rtr_Message = ''send transaction success''\<rparr>)))"

definition btc_SendTransaction ::
  "('k, 'm) btclib \<Rightarrow> ('w, 'm) BaseClient \<Rightarrow> SendTransactionsRequest \<Rightarrow> ('w, SendTransactionResponse reply) io" where
  "btc_SendTransaction B C req =
     bind_io (map_io (btc_send_one B C) (str_RawTx req)) (\<lambda>rs.
       ret_io (okReply \<lparr>Code = SUCCESS, Msg = ''send tx success'', TxnRet = rs\<rparr>))"

section \<open>What Bitcoin does not support\<close>

definition btc_BuildTransactionSchema :: "chain_request \<Rightarrow> ('w, TransactionSchemaResponse reply) io" where
  "btc_BuildTransactionSchema request = ret_io (okReply (schema_rsp ERROR ''unsupported on Bitcoin''))"

definition btc_BuildUnSignTransaction :: "UnSignTransactionRequest \<Rightarrow> ('w, UnSignTransactionResponse reply) io" where
  "btc_BuildUnSignTransaction request = ret_io (okReply (unsign_rsp ERROR ''unsupported on Bitcoin''))"

definition btc_BuildSignedTransaction :: "SignedTransactionRequest \<Rightarrow> ('w, SignedTransactionResponse reply) io" where
  "btc_BuildSignedTransaction request = ret_io (okReply (signed_rsp ERROR ''unsupported on Bitcoin''))"

definition btc_GetAddressApproveList :: "AddressApproveListRequest \<Rightarrow> ('w, AddressApproveListResponse reply) io" where
  "btc_GetAddressApproveList request = ret_io (okReply (approve_rsp ERROR ''unsupported on Bitcoin''))"

definition btc_BuildSponsoredTransfer :: "SponsoredTransferRequest \<Rightarrow> ('w, SponsoredTransferBuildResponse reply) io" where
  "btc_BuildSponsoredTransfer request = ret_io (okReply (sponsor_rsp ERROR ''unsupported on Bitcoin''))"

definition btc_SendSponsoredTransfer :: "SponsoredTransferSendRequest \<Rightarrow> ('w, SendTransactionResponse reply) io" where
  "btc_SendSponsoredTransfer request = ret_io (okReply (send_rsp ERROR ''unsupported on Bitcoin''))"

definition btc_CallContract :: "CallContractRequest \<Rightarrow> ('w, CallContractResponse reply) io" where
  "btc_CallContract request = ret_io (okReply (call_rsp ERROR ''callContract not supported on Bitcoin''))"

section \<open>The adaptor\<close>

definition btc_adaptor :: "('k, 'm) btclib \<Rightarrow> ('w, 'm) btcChainAdaptor \<Rightarrow> 'w IChainAdaptor" where
  "btc_adaptor B c =
     \<lparr>ConvertAddresses = btc_ConvertAddresses B,
      ValidAddresses = btc_ValidAddresses B,
      GetLastestBlock = btc_GetLastestBlock (btcClient c),
      GetBlock = btc_GetBlock B (btcClient c),
      GetBatchBlock = btc_GetBatchBlock,
      GetTransactionByHash = btc_GetTransactionByHash (thirdPartClient c),
      GetTransactionByAddress = btc_GetTransactionByAddress (thirdPartClient c),
      GetAccountBalance = btc_GetAccountBalance (thirdPartClient c),
      SendTransaction = btc_SendTransaction B (btcClient c),
      BuildTransactionSchema = btc_BuildTransactionSchema,
      BuildUnSignTransaction = btc_BuildUnSignTransaction,
      BuildSignedTransaction = btc_BuildSignedTransaction,
      BuildSponsoredTransfer = btc_BuildSponsoredTransfer,
      SendSponsoredTransfer = btc_SendSponsoredTransfer,
      GetAddressApproveList = btc_GetAddressApproveList,
      CallContract = btc_CallContract\<rparr>"

definition btc_NewChainAdaptor ::
  "(ConnConfig \<Rightarrow> ('w, 'm) BaseClient res) \<Rightarrow> (string \<Rightarrow> string \<Rightarrow> 'w oklink res) \<Rightarrow> (string \<Rightarrow> 'w BcClient) \<Rightarrow>
   Config \<Rightarrow> ('w, 'm) btcChainAdaptor res" where
  "btc_NewChainAdaptor newRpc newOklink newHttp cfg =
     (let node = Btc (cfg_WalletNode cfg) in
      bind_res (NewBaseClient newRpc (RpcUrl node) (RpcUser node) (RpcPass node)) (\<lambda>baseClient.
      bind_res (NewBaseDataClient newOklink (DataApiUrl node) (DataApiKey node) ''BTC'' ''Bitcoin'') (\<lambda>baseDataClient.
      bind_res (NewBlockChainClient newHttp (TpApiUrl node)) (\<lambda>bcClient.
        Inr \<lparr>btcClient = baseClient, btcDataClient = baseDataClient, thirdPartClient = bcClient\<rparr>))))"

section \<open>Lemmas\<close>

lemma btc_valid_loop_eq: "btc_valid_loop B as acc = acc"
  by (induction as) (simp_all add: Let_def)

text \<open>What one broadcast calls: nothing, for a text that is not a transaction.\<close>

definition btc_send_calls :: "('k, 'm) btclib \<Rightarrow> RawTransaction \<Rightarrow> event list" where
  "btc_send_calls B t = (case tx_Deserialize B (RawTx t) of Inl err \<Rightarrow> [] | Inr m \<Rightarrow> [Ev ''sendrawtransaction'' [RawTx t]])"

lemma btc_send_one_run:
  "\<exists>r w'. btc_send_one B C t w = (Ret r, w') \<and> trace w' = trace w @ btc_send_calls B t"
  by (simp add: btc_send_one_def btc_send_calls_def bind_ext_apply split: sum.split)

interpretation btc_send: batch_send
  "btc_SendTransaction B C" "btc_send_one B C" "btc_send_calls B" "''send tx success''" for B C
  by unfold_locales (simp_all add: btc_SendTransaction_def btc_send_one_run)

lemma btc_send_one_cases:
  assumes "btc_send_one B C t w = (Ret r, w')"
  shows "r = no_return \<or> (\<exists>m env1. tx_Deserialize B (RawTx t) = Inr m \<and>
     fst (node_SendRawTransaction C m True env1) = Inr (tx_TxHash B m) \<and>
     r = \<lparr>rtr_TxHash = tx_TxHash B m, rtr_IsSuccess = True, rtr_Message = ''send transaction success''\<rparr>)"
  using assms by (fastforce simp: btc_send_one_def bind_ext_apply split: sum.splits if_splits)

lemma FormatUint_0 [simp]: "FormatUint 0 = ''0''"
  by code_simp

lemma concat_send_calls:
  "concat (map (btc_send_calls B) ts) =
     map (\<lambda>t. Ev ''sendrawtransaction'' [RawTx t]) (filter (\<lambda>t. \<not> isl (tx_Deserialize B (RawTx t))) ts)"
  by (induction ts) (auto simp: btc_send_calls_def split: sum.split)

text \<open>The history loop returns exactly when every transaction has an input.\<close>

definition btc_history_item :: "string \<Rightarrow> TxsItem \<Rightarrow> TransactionList" where
  "btc_history_item address t =
     btc_tx_item (if EqualFold address (po_Addr (in_PrevOut (hd (txs_Inputs t)))) then 0 else 1) t"

lemma btc_direction_cases:
  "btc_direction address t =
     (if txs_Inputs t = [] then Panic
      else Ret (if EqualFold address (po_Addr (in_PrevOut (hd (txs_Inputs t)))) then 0 else 1))"
  by (cases "txs_Inputs t") (simp_all add: btc_direction_def btc_inputs_def index_def)

lemma btc_history_loop:
  "map_io (\<lambda>t. bind_io (lift_go (btc_direction address t)) (\<lambda>direction. ret_io (btc_tx_item direction t))) ts w =
     (if \<exists>t \<in> set ts. txs_Inputs t = [] then Panic else Ret (map (btc_history_item address) ts), w)"
proof (induction ts)
  case (Cons t ts)
  then show ?case
    by (cases "txs_Inputs t = []") (simp_all add: bind_io_apply btc_history_item_def btc_direction_cases)
qed simp

lemma bc_history_run:
  assumes "fst (get_address c (''/rawaddr/'' @ a @ ''?limit='' @ limit @ ''&offset='' @ offset) (env w)) = Inr (200, h)"
  shows "\<exists>w'. bc_GetTransactionsByAddress c a limit offset w = (Ret (Inr h), w') \<and>
    trace w' = trace w @ [Ev ''GET'' [''/rawaddr/'' @ a @ ''?limit='' @ limit @ ''&offset='' @ offset]]"
  using assms
  by (simp add: bc_GetTransactionsByAddress_def bc_get_def bind_io_assoc bind_ext_apply after_response_def)

section \<open>Properties\<close>

text \<open>
  C30. A Bitcoin \<open>SendTransaction\<close> offers the node each text of the request that decodes to a
  transaction exactly once, in order, and no other; it answers one result for each text, and a result is
  a success only when the node's hash for that transaction is its own.
\<close>

theorem btc_send_each_once:
  "\<exists>rs w'. btc_SendTransaction B C req w =
       (Ret (okReply \<lparr>Code = SUCCESS, Msg = ''send tx success'', TxnRet = rs\<rparr>), w') \<and>
     length rs = length (str_RawTx req) \<and>
     trace w' = trace w @ map (\<lambda>t. Ev ''sendrawtransaction'' [RawTx t])
       (filter (\<lambda>t. \<not> isl (tx_Deserialize B (RawTx t))) (str_RawTx req)) \<and>
     (\<forall>i < length rs. rs ! i = no_return \<or> (\<exists>m env1. tx_Deserialize B (RawTx (str_RawTx req ! i)) = Inr m \<and>
        fst (node_SendRawTransaction C m True env1) = Inr (tx_TxHash B m) \<and>
        rs ! i = \<lparr>rtr_TxHash = tx_TxHash B m, rtr_IsSuccess = True, rtr_Message = ''send transaction success''\<rparr>))"
proof -
  obtain rs w' where r: "btc_SendTransaction B C req w =
       (Ret (okReply \<lparr>Code = SUCCESS, Msg = ''send tx success'', TxnRet = rs\<rparr>), w')"
    "length rs = length (str_RawTx req)"
    "trace w' = trace w @ concat (map (btc_send_calls B) (str_RawTx req))"
    "\<forall>i < length rs. \<exists>w1 w2. btc_send_one B C (str_RawTx req ! i) w1 = (Ret (rs ! i), w2)"
    using btc_send.handler_run [of B C req w] by blast
  with btc_send_one_cases show ?thesis unfolding concat_send_calls by metis
qed

definition sample_btclib :: "(nat, string) btclib" where
  "sample_btclib =
     \<lparr>btc_ParsePubKey = \<lambda>bs. Inr (length bs), Hash160 = \<lambda>k. [], SerializeSchnorr = \<lambda>k. [],
      p2pkh_address = \<lambda>h. Inr ''1'', p2wpkh_address = \<lambda>h. Inr ''bc1q'', witness_script = Inr,
      script_address = \<lambda>h. Inr ''3'', p2tr_address = \<lambda>h. Inr ''bc1p'', btc_DecodeAddress = \<lambda>a. Inr True,
      tx_Deserialize = \<lambda>s. if s = [] then Inl (Errorf ''EOF'') else Inr s, tx_TxHash = \<lambda>m. ''id'' @ m,
      json_BlockData = \<lambda>s. (zero_BlockData, Some (Errorf ''unexpected end of JSON input'')),
      json_RawTransactionData = \<lambda>s. (zero_RawTransactionData, None)\<rparr>"

definition sample_node :: "(unit, string) BaseClient" where
  "sample_node =
     \<lparr>node_GetBlockChainInfo = \<lambda>e. (Inr 7, e), node_RawRequest = \<lambda>m ps e. (Inl (Errorf ''connection refused''), e),
      node_SendRawTransaction = \<lambda>m hi e. (Inr (''id'' @ m), e), compressed = True\<rparr>"

theorem btc_send_each_once_witness:
  "\<exists>rs w'. btc_SendTransaction sample_btclib sample_node
       \<lparr>ConsumerToken = [], ChainId = [], Network = [], str_RawTx = [\<lparr>RawTx = ''a''\<rparr>, \<lparr>RawTx = []\<rparr>, \<lparr>RawTx = ''b''\<rparr>]\<rparr>
       \<lparr>env = (), trace = []\<rparr> = (Ret (okReply \<lparr>Code = SUCCESS, Msg = ''send tx success'', TxnRet = rs\<rparr>), w') \<and>
     length rs = 3 \<and> trace w' = [Ev ''sendrawtransaction'' [''a''], Ev ''sendrawtransaction'' [''b'']]"
  using btc_send_each_once [of sample_btclib sample_node
      "\<lparr>ConsumerToken = [], ChainId = [], Network = [], str_RawTx = [\<lparr>RawTx = ''a''\<rparr>, \<lparr>RawTx = []\<rparr>, \<lparr>RawTx = ''b''\<rparr>]\<rparr>"
      "\<lparr>env = (), trace = []\<rparr>"]
  by (auto simp: sample_btclib_def)

text \<open>
  \<open>GetBlock\<close> does not report a failure of the node: when the request for the block fails, the
  answer is a success with height 0 and no transactions, and no transaction is asked for. The hypothesis
  on the decoder is Go's: decoding no text leaves the value as it was.
\<close>

theorem btc_block_node_error:
  assumes fails: "fst (node_RawRequest C ''getblock'' [JStr (br_HashHeight req)] (env w)) = Inl err"
    and empty: "fst (json_BlockData B []) = zero_BlockData"
  shows "\<exists>w'. btc_GetBlock B C req w = (Ret (okReply ((block_rsp SUCCESS ''get block by number success'')
      \<lparr>bkr_Height := ''0'', bkr_Hash := br_HashHeight req, bkr_Transactions := []\<rparr>)), w') \<and>
    trace w' = trace w @ [Ev ''getblock'' [br_HashHeight req]]"
  using fails
  by (simp add: btc_GetBlock_def RawRequest_def bind_ext_apply raw_or_nil_def empty zero_BlockData_def FormatUint_0)

theorem btc_block_node_error_witness:
  "\<exists>w'. btc_GetBlock sample_btclib sample_node
       \<lparr>ConsumerToken = [], ChainId = [], Network = [], br_HashHeight = ''00ff'', br_IsBlockHash = True\<rparr>
       \<lparr>env = (), trace = []\<rparr> = (Ret (okReply ((block_rsp SUCCESS ''get block by number success'')
         \<lparr>bkr_Height := ''0'', bkr_Hash := ''00ff'', bkr_Transactions := []\<rparr>)), w') \<and>
     trace w' = [Ev ''getblock'' [''00ff'']]"
  using btc_block_node_error [of sample_node
      "\<lparr>ConsumerToken = [], ChainId = [], Network = [], br_HashHeight = ''00ff'', br_IsBlockHash = True\<rparr>"
      "\<lparr>env = (), trace = []\<rparr>" "Errorf ''connection refused''" sample_btclib]
  by (simp add: sample_node_def sample_btclib_def)

text \<open>
  C31. When the explorer answers the history of an address, \<open>GetTransactionByAddress\<close> panics exactly
  when some transaction has no input, and otherwise lists every transaction, outgoing when the address
  is that of its first input. The request's page is sent as the limit, and its page size as the offset.
\<close>

theorem btc_history:
  assumes "fst (get_address c (''/rawaddr/'' @ tar_Address req @ ''?limit='' @ FormatInt (sint (tar_Page req)) @
      ''&offset='' @ FormatInt (sint (tar_PageSize req))) (env w)) = Inr (200, h)"
  shows "\<exists>w'. btc_GetTransactionByAddress c req w =
      (if \<exists>t \<in> set (bt_Txs h). txs_Inputs t = [] then Panic
       else Ret (okReply \<lparr>Code = SUCCESS, Msg = ''get transaction list success'',
          tap_Transaction = map (btc_history_item (tar_Address req)) (bt_Txs h)\<rparr>), w') \<and>
    trace w' = trace w @ [Ev ''GET'' [''/rawaddr/'' @ tar_Address req @ ''?limit='' @
      FormatInt (sint (tar_Page req)) @ ''&offset='' @ FormatInt (sint (tar_PageSize req))]]"
  using bc_history_run [OF assms]
  by (force simp: btc_GetTransactionByAddress_def bind_io_run btc_history_loop bind_io_apply [of "map_io f xs" for f xs])

definition sample_txs :: TxsItem where
  "sample_txs = \<lparr>txs_Hash = ''f4'', txs_Ver = 1, txs_VinSz = 1, txs_VoutSz = 1, txs_Size = 0, txs_Weight = 0,
     txs_Fee = 100, txs_RelayedBy = [], txs_LockTime = 0, txs_TxIndex = 0, txs_DoubleSpend = False, txs_Time = 0,
     txs_BlockIndex = 0, txs_BlockHeight = 0,
     txs_Inputs = [\<lparr>in_Sequence = 0, in_Witness = [], in_Script = [], in_Index = 0,
       in_PrevOut = \<lparr>po_Addr = ''1A'', po_N = 0, po_Script = [], po_SpendingOutpoints = [], po_Spent = True,
         po_TxIndex = 0, po_Type = 0, po_Value = 500\<rparr>\<rparr>],
     txs_Out = [], txs_Result = 0, txs_Balance = 0\<rparr>"

lemma sample_txs_inputs: "txs_Inputs sample_txs \<noteq> []"
  by (simp add: sample_txs_def)

definition sample_history :: "unit BcClient" where
  "sample_history = \<lparr>bc_url = \<lambda>p. p, get_balance = \<lambda>p e. (Inr (200, Map.empty), e),
     get_unspent = \<lambda>p e. (Inr (200, \<lparr>ul_Notice = [], ul_UnspentOutputs = []\<rparr>), e),
     get_address = \<lambda>p e. (Inr (200, \<lparr>bt_Hash160 = [], bt_Address = ''1a'', bt_NTx = 1, bt_NUnredeemed = 0,
       bt_TotalReceived = 0, bt_TotalSent = 0, bt_FinalBalance = 0, bt_Txs = [sample_txs]\<rparr>), e),
     get_tx = \<lambda>p e. (Inr (200, sample_txs), e)\<rparr>"

lemma sample_history_item: "TxType (btc_history_item ''1a'' sample_txs) = 0"
  by code_simp

theorem btc_history_witness:
  "\<exists>w'. btc_GetTransactionByAddress sample_history
       \<lparr>ConsumerToken = [], ChainId = [], Network = [], tar_Address = ''1a'', tar_ContractAddress = [],
        tar_Page = 2, tar_PageSize = 50\<rparr> \<lparr>env = (), trace = []\<rparr> =
       (Ret (okReply \<lparr>Code = SUCCESS, Msg = ''get transaction list success'',
          tap_Transaction = [btc_history_item ''1a'' sample_txs]\<rparr>), w') \<and>
     TxType (btc_history_item ''1a'' sample_txs) = 0 \<and>
     trace w' = [Ev ''GET'' [''/rawaddr/1a?limit='' @ FormatInt 2 @ ''&offset='' @ FormatInt 50]]"
  unfolding sample_history_item
  using btc_history [of sample_history
      "\<lparr>ConsumerToken = [], ChainId = [], Network = [], tar_Address = ''1a'', tar_ContractAddress = [],
        tar_Page = 2, tar_PageSize = 50\<rparr>" "\<lparr>env = (), trace = []\<rparr>"
      "\<lparr>bt_Hash160 = [], bt_Address = ''1a'', bt_NTx = 1, bt_NUnredeemed = 0,
       bt_TotalReceived = 0, bt_TotalSent = 0, bt_FinalBalance = 0, bt_Txs = [sample_txs]\<rparr>"]
  by (simp add: sample_history_def sample_txs_inputs)

end
