(* ===== verification/Tron_Types.thy ===== *)
theory Tron_Types
  imports Handlers
begin

text \<open>
  The data of the Tron adaptor (\<open>chain/tron/types.go\<close>), its pure helpers (\<open>helpers.go\<close>,
  \<open>block_time.go\<close>, \<open>tron_broadcast.go\<close>, the parameter encoders of \<open>justlend.go\<close>) and the
  parser of block transactions (\<open>tron_parse.go\<close>). The base58, key and hash libraries are the record
  \<open>tronlib\<close>; the types of \<open>types.go\<close> nothing uses are left out.
\<close>

section \<open>Types\<close>

record ContractValue =
  cv_OwnerAddress :: string
  cv_ToAddress :: string
  cv_Amount :: int
  cv_ContractAddress :: string
  cv_Data :: string
  cv_AssetName :: string
  cv_CallValue :: int
  cv_CallTokenValue :: int
  cv_TokenID :: int

record TronParameter =
  tp_Value :: ContractValue
  tp_TypeURL :: string

record TronContract =
  tc_Parameter :: TronParameter
  tc_Type :: string
  tc_PermissionID :: int

record TxRawData =
  rd_Contract :: "TronContract list"
  rd_RefBlockBytes :: string
  rd_RefBlockHash :: string
  rd_Expiration :: int
  rd_FeeLimit :: int
  rd_Timestamp :: int

record TransactionRet =
  ContractRet :: string

record TronTransaction =
  tt_Ret :: "TransactionRet list"
  tt_Signature :: "string list"
  tt_TxID :: string
  tt_RawData :: TxRawData
  tt_RawDataHex :: string

record BlockHeaderRaw =
  bh_Number :: int
  bh_TxTrieRoot :: string
  bh_WitnessAddress :: string
  bh_ParentHash :: string
  bh_Version :: int
  bh_Timestamp :: int

record BlockHeader =
  hd_RawData :: BlockHeaderRaw
  WitnessSignature :: string

record TronBlock =
  tb_BlockID :: string
  tb_BlockHeader :: BlockHeader
  tb_Transactions :: "TronTransaction list"

record AccountResource =
  ar_LatestConsumeTimeForEnergy :: int
  ar_EnergyWindowSize :: int
  ar_AcquiredDelegatedFrozenV2BalanceForEnergy :: int
  ar_EnergyWindowOptimized :: bool

record AccountResourceResponse =
  FreeNetUsed :: int
  FreeNetLimit :: int
  NetUsed :: int
  NetLimit :: int
  EnergyUsed :: int
  EnergyLimit :: int

record TronKey =
  ky_Address :: string
  ky_Weight :: int

record Permission =
  pe_Type :: string
  pe_ID :: int
  pe_PermissionName :: string
  pe_Threshold :: int
  pe_Operations :: string
  pe_Keys :: "TronKey list"

record Asset =
  as_Key :: string
  as_Value :: int

record TronAccount =
  ac_Address :: string
  ac_Balance :: int
  ac_CreateTime :: int
  ac_LatestConsumeTime :: int
  ac_NetWindowSize :: int
  ac_NetWindowOptimized :: bool
  ac_AccountResource :: AccountResource
  ac_OwnerPermission :: Permission
  ac_ActivePermission :: "Permission list"
  ac_FrozenV2 :: "string list"                    \<comment> \<open>the field \<open>Type\<close> of each \<open>FrozenV2\<close>\<close>
  ac_AssetV2 :: "Asset list"
  ac_FreeAssetNetUsageV2 :: "Asset list"
  ac_AssetOptimized :: bool

record TxStructure =
  ts_TxKind :: string
  ts_ContractAddress :: string
  ts_FromAddress :: string
  ts_ToAddress :: string
  ts_Value :: int
  ts_DelegateBalance :: int
  ts_Resource :: string
  ts_EnergyAmount :: int
  ts_RentCallValue :: int

record BroadcastReturns =
  bc_Code :: string
  bc_Txid :: string
  bc_Message :: string
  bc_Error :: string
  bc_Result :: bool

section \<open>Helpers\<close>

text \<open>
  The two base58 packages (\<open>mr-tron\<close> and \<open>btcutil\<close>), SHA-256, the address functions of
  \<open>gotron-sdk\<close> (as the text of their result) and \<open>btcec\<close>'s keys.
\<close>

record 'k tronlib =
  base58_Decode :: "string \<Rightarrow> byte list res"
  base582_Decode :: "string \<Rightarrow> byte list"
  CheckEncode :: "byte list \<Rightarrow> byte \<Rightarrow> string"
  CheckDecode :: "string \<Rightarrow> (byte list \<times> byte) res"
  Sum256 :: "byte list \<Rightarrow> byte list"
  gotron_HexToAddress :: "string \<Rightarrow> string res"
  gotron_Base58ToAddress :: "string \<Rightarrow> bool res"    \<comment> \<open>whether it is valid\<close>
  gotron_PubkeyToAddress :: "'k \<Rightarrow> string"
  tron_ParsePubKey :: "byte list \<Rightarrow> 'k res"

text \<open>Documented of base58check: decoding an encoded payload gives it back with its version.\<close>

definition base58_ok :: "'k tronlib \<Rightarrow> bool" where
  "base58_ok T \<longleftrightarrow> (\<forall>bs v. CheckDecode T (CheckEncode T bs v) = Inr (bs, v))"

definition AddressPrefix :: string where
  "AddressPrefix = ''41''"

definition Base58ToHex :: "'k tronlib \<Rightarrow> string \<Rightarrow> string res" where
  "Base58ToHex T base58Addr =
     (case base58_Decode T base58Addr of
        Inl err \<Rightarrow> Inl (wrap_err ''failed to decode base58 address: '' err)
      | Inr dec \<Rightarrow>
          if length dec \<noteq> 25
          then Inl (Errorf (''invalid address length: expected 25, got '' @ FormatInt (int (length dec))))
          else if drop 21 dec \<noteq> take 4 (Sum256 T (Sum256 T (take 21 dec)))
          then Inl (Errorf ''invalid verification code'')
          else Inr (''0x'' @ EncodeToString (take 21 dec)))"

text \<open>\<open>strings.Repeat\<close> panics on a negative count.\<close>

definition PadLeftZero :: "string \<Rightarrow> int \<Rightarrow> string go" where
  "PadLeftZero hexStr len =
     (if len - int (length hexStr) < 0 then Panic
      else Ret (replicate (nat (len - int (length hexStr))) (CHR ''0'') @ hexStr))"

definition ParseTRC20TransferData :: "'k tronlib \<Rightarrow> string \<Rightarrow> (string \<times> int) res" where
  "ParseTRC20TransferData T data =
     (if length data < 136
      then Inl (Errorf (''invalid data length: expected at least 136, got '' @ FormatInt (int (length data))))
      else (case gotron_HexToAddress T (AddressPrefix @ take 40 (drop 32 data)) of
          Inl err \<Rightarrow> Inl (wrap_err ''failed to parse address: '' err)
        | Inr toAddress \<Rightarrow>
            (case big_SetString 16 (take 64 (drop 72 data)) of
               None \<Rightarrow> Inl (Errorf (''failed to parse amount from hex: '' @ take 64 (drop 72 data)))
             | Some value \<Rightarrow> Inr (toAddress, value))))"

text \<open>No bytes at all panic: the slice \<open>addrBytes[1:]\<close> is out of range.\<close>

definition HexToTronAddress :: "'k tronlib \<Rightarrow> string \<Rightarrow> string go" where
  "HexToTronAddress T hexAddr =
     (case hex_decode (TrimPrefix hexAddr ''0x'') of
        Inl err \<Rightarrow> Ret []
      | Inr [] \<Rightarrow> Panic
      | Inr (v # bs) \<Rightarrow> Ret (CheckEncode T bs v))"

definition TronAddressToHex :: "'k tronlib \<Rightarrow> string \<Rightarrow> string" where
  "TronAddressToHex T addr =
     (case CheckDecode T addr of
        Inl err \<Rightarrow> []
      | Inr (decoded, version) \<Rightarrow> ''0x'' @ EncodeToString (version # decoded))"

definition FormatTronAddress :: "'k tronlib \<Rightarrow> string \<Rightarrow> string" where
  "FormatTronAddress T address =
     (if HasPrefix address ''T'' then ''0x'' @ EncodeToString (base582_Decode T address)
      else if \<not> HasPrefix address ''0x'' then ''0x'' @ address
      else address)"

text \<open>Milliseconds are told from seconds by their size.\<close>

definition blockTimestampSeconds :: "int \<Rightarrow> u64" where
  "blockTimestampSeconds timestamp =
     (if timestamp \<le> 0 then 0
      else if timestamp > 1000000000000 then word_of_int (timestamp div 1000)
      else word_of_int timestamp)"

section \<open>Contract call parameters\<close>

definition encodeTronAddressABIParam :: "'k tronlib \<Rightarrow> string \<Rightarrow> string res go" where
  "encodeTronAddressABIParam T address =
     (case CheckDecode T address of
        Inl err \<Rightarrow> Ret (Inl (wrap_err (''invalid tron address '' @ address @ '': '') err))
      | Inr (decoded, version) \<Rightarrow>
          (let addrBytes = version # decoded in
           if length addrBytes \<noteq> 21 then Ret (Inl (Errorf (''invalid tron address length for '' @ address)))
           else bind_go (PadLeftZero (EncodeToString (tl addrBytes)) 64) (\<lambda>s. Ret (Inr s))))"

definition encodeUint256ABIParam :: "int \<Rightarrow> string" where
  "encodeUint256ABIParam value = fmt_064x (if value < 0 then 0 else value)"

definition justLendResourceTypeEnergy :: int where
  "justLendResourceTypeEnergy = 1"

definition encodeRentResourceParameter :: "'k tronlib \<Rightarrow> string \<Rightarrow> int \<Rightarrow> string res go" where
  "encodeRentResourceParameter T receiver trxAmountSun =
     bind_go (encodeTronAddressABIParam T receiver) (\<lambda>r. case r of
         Inl err \<Rightarrow> Ret (Inl err)
       | Inr receiverParam \<Rightarrow>
           Ret (Inr (receiverParam @ encodeUint256ABIParam trxAmountSun @ encodeUint256ABIParam justLendResourceTypeEnergy)))"

definition encodeGetRentInfoParameter :: "'k tronlib \<Rightarrow> string \<Rightarrow> string \<Rightarrow> string res go" where
  "encodeGetRentInfoParameter T renter receiver =
     bind_go (encodeTronAddressABIParam T renter) (\<lambda>r. case r of
         Inl err \<Rightarrow> Ret (Inl err)
       | Inr renterParam \<Rightarrow>
           bind_go (encodeTronAddressABIParam T receiver) (\<lambda>r. case r of
               Inl err \<Rightarrow> Ret (Inl err)
             | Inr receiverParam \<Rightarrow> Ret (Inr (renterParam @ receiverParam @ encodeUint256ABIParam justLendResourceTypeEnergy))))"

definition rentResourceMethodSelector :: string where
  "rentResourceMethodSelector = ''fd8527a1''"

definition returnResourceMethodSelector :: string where
  "returnResourceMethodSelector = ''af6f4896''"

definition buildJustLendRentCalldata :: "'k tronlib \<Rightarrow> string \<Rightarrow> int \<Rightarrow> string res go" where
  "buildJustLendRentCalldata T receiver trxAmountSun =
     bind_go (encodeRentResourceParameter T receiver trxAmountSun) (\<lambda>r. case r of
         Inl err \<Rightarrow> Ret (Inl err)
       | Inr parameter \<Rightarrow> Ret (Inr (rentResourceMethodSelector @ parameter)))"

definition buildJustLendReturnCalldata :: "'k tronlib \<Rightarrow> string \<Rightarrow> int \<Rightarrow> string res go" where
  "buildJustLendReturnCalldata T receiver trxAmountSun =
     bind_go (encodeRentResourceParameter T receiver trxAmountSun) (\<lambda>r. case r of
         Inl err \<Rightarrow> Ret (Inl err)
       | Inr parameter \<Rightarrow> Ret (Inr (returnResourceMethodSelector @ parameter)))"

section \<open>Signatures\<close>

definition tronSignatureHexLen :: nat where
  "tronSignatureHexLen = 130"

definition formatTronSignatureHex :: "string \<Rightarrow> string" where
  "formatTronSignatureHex signature0 =
     (let signature = TrimPrefix (TrimSpace signature0) ''0x'' in
      if length signature = tronSignatureHexLen - 2 then signature
      else if length signature > tronSignatureHexLen then take tronSignatureHexLen signature
      else signature)"

definition formatTronSignatures :: "string list \<Rightarrow> string list" where
  "formatTronSignatures signatures = map formatTronSignatureHex signatures"

definition verifyTronSignatureLength :: "string \<Rightarrow> bool" where
  "verifyTronSignatureLength signatureHex =
     (case hex_decode (formatTronSignatureHex signatureHex) of Inl err \<Rightarrow> False | Inr decoded \<Rightarrow> length decoded = 65)"

text \<open>The values a request body is made of.\<close>

datatype tval = TStr string | TInt int | TBool bool | TRaw string | TStrs "string list" | TTxRaw TxRawData

type_synonym body = "(string \<times> tval) list"

definition broadcastTransactionPayload :: "TronTransaction option \<Rightarrow> body" where
  "broadcastTransactionPayload signedTx = (case signedTx of
       None \<Rightarrow> []
     | Some tx \<Rightarrow>
         [(''visible'', TBool True)] @
         (if tt_TxID tx \<noteq> [] then [(''txID'', TStr (tt_TxID tx))] else []) @
         (if length (rd_Contract (tt_RawData tx)) > 0 then [(''raw_data'', TTxRaw (tt_RawData tx))] else []) @
         (if tt_RawDataHex tx \<noteq> [] then [(''raw_data_hex'', TStr (tt_RawDataHex tx))] else []) @
         (if length (tt_Signature tx) > 0 then [(''signature'', TStrs (formatTronSignatures (tt_Signature tx)))] else []))"

section \<open>Block transactions\<close>

definition transferKindTRX :: string where "transferKindTRX = ''outer_trx''"
definition transferKindTRC20 :: string where "transferKindTRC20 = ''receipt_trc20''"

definition contractRetStatus :: "TronTransaction \<Rightarrow> u32" where
  "contractRetStatus tx =
     (case tt_Ret tx of
        [] \<Rightarrow> status_code TxStatus_Pending
      | r # rs \<Rightarrow> if EqualFold (ContractRet r) ''SUCCESS'' then status_code TxStatus_Success
                  else status_code TxStatus_Failed)"

text \<open>The parties of a native transfer: an empty address gives none.\<close>

definition native_parties :: "'k tronlib \<Rightarrow> ContractValue \<Rightarrow> (FromAddress list \<times> ToAddress list) go" where
  "native_parties T v =
     bind_go (if cv_OwnerAddress v \<noteq> []
              then bind_go (HexToTronAddress T (cv_OwnerAddress v)) (\<lambda>a. Ret [\<lparr>fa_Address = a, fa_Amount = FormatInt (cv_Amount v)\<rparr>])
              else Ret []) (\<lambda>fromAddrs.
     bind_go (if cv_ToAddress v \<noteq> []
              then bind_go (HexToTronAddress T (cv_ToAddress v)) (\<lambda>a. Ret [\<lparr>ta_Address = a, ta_Amount = FormatInt (cv_Amount v)\<rparr>])
              else Ret []) (\<lambda>toAddrs.
       Ret (fromAddrs, toAddrs)))"

text \<open>The contract and the caller of a contract call, before its data are read.\<close>

definition call_parties :: "'k tronlib \<Rightarrow> ContractValue \<Rightarrow> (string \<times> FromAddress list) go" where
  "call_parties T v =
     bind_go (if cv_ContractAddress v \<noteq> [] then HexToTronAddress T (cv_ContractAddress v) else Ret []) (\<lambda>contractAddress.
     bind_go (if cv_OwnerAddress v \<noteq> []
              then bind_go (HexToTronAddress T (cv_OwnerAddress v)) (\<lambda>a. Ret [\<lparr>fa_Address = a, fa_Amount = []\<rparr>])
              else Ret []) (\<lambda>fromAddrs.
       Ret (contractAddress, fromAddrs)))"

definition is_transfer_data :: "string \<Rightarrow> bool" where
  "is_transfer_data data \<longleftrightarrow> length data \<ge> 136 \<and> HasPrefix data ''a9059cbb''"

text \<open>The recipient and the amount of a transfer's data; an unreadable amount is 0.\<close>

definition transfer_data :: "'k tronlib \<Rightarrow> string \<Rightarrow> (string \<times> string) go" where
  "transfer_data T data =
     bind_go (HexToTronAddress T (''41'' @ take 40 (drop 32 data))) (\<lambda>toAddr.
       Ret (toAddr, case big_SetString 16 (take 64 (drop 72 data)) of None \<Rightarrow> ''0'' | Some amountBig \<Rightarrow> FormatInt amountBig))"

definition set_amount :: "string \<Rightarrow> FromAddress list \<Rightarrow> FromAddress list" where
  "set_amount amount fromAddrs = (case fromAddrs of [] \<Rightarrow> [] | f # fs \<Rightarrow> f\<lparr>fa_Amount := amount\<rparr> # fs)"

definition parseSingleTransaction ::
  "'k tronlib \<Rightarrow> TronTransaction \<Rightarrow> string \<Rightarrow> u64 \<Rightarrow> u32 \<Rightarrow> TransactionList option go" where
  "parseSingleTransaction T tx blockHash blockHeight logIndex =
     (case rd_Contract (tt_RawData tx) of
        [] \<Rightarrow> Ret None
      | contract # others \<Rightarrow>
          (let v = tp_Value (tc_Parameter contract);
               item = (\<lambda>fromAddrs toAddrs contractAddress txType kind.
                 if fromAddrs = [] \<and> toAddrs = [] then None
                 else Some \<lparr>TxHash = tt_TxID tx, Fee = [], Status = contractRetStatus tx, TxType = txType,
                   ContractAddress = contractAddress, From = fromAddrs, To = toAddrs, BlockHash = blockHash,
                   BlockHeight = blockHeight, LogIndex = logIndex, TransferKind = kind\<rparr>) in
           if tc_Type contract = ''TransferContract''
           then bind_go (native_parties T v) (\<lambda>(fromAddrs, toAddrs).
                  Ret (item fromAddrs toAddrs [] 1 transferKindTRX))
           else if tc_Type contract = ''TriggerSmartContract''
           then bind_go (call_parties T v) (\<lambda>(contractAddress, fromAddrs).
                  if is_transfer_data (cv_Data v)
                  then bind_go (transfer_data T (cv_Data v)) (\<lambda>(toAddr, amount).
                         Ret (item (set_amount amount fromAddrs) [\<lparr>ta_Address = toAddr, ta_Amount = amount\<rparr>]
                                contractAddress 2 transferKindTRC20))
                  else Ret None)
           else Ret None))"

fun parse_loop ::
  "'k tronlib \<Rightarrow> string \<Rightarrow> u64 \<Rightarrow> nat \<Rightarrow> TronTransaction list \<Rightarrow> TransactionList list \<Rightarrow> TransactionList list go" where
  "parse_loop T blockHash blockHeight idx [] txList = Ret txList"
| "parse_loop T blockHash blockHeight idx (tx # rest) txList =
     bind_go (parseSingleTransaction T tx blockHash blockHeight (word_of_nat idx)) (\<lambda>parsed.
       parse_loop T blockHash blockHeight (Suc idx) rest
         (case parsed of None \<Rightarrow> txList | Some t \<Rightarrow> txList @ [t]))"

definition parseBlockTransactions :: "'k tronlib \<Rightarrow> TronBlock \<Rightarrow> TransactionList list go" where
  "parseBlockTransactions T block =
     (if tb_Transactions block = [] then Ret []
      else parse_loop T (tb_BlockID block) (word_of_int (bh_Number (hd_RawData (tb_BlockHeader block)))) 0
             (tb_Transactions block) [])"

section \<open>Lemmas\<close>

lemma PadLeftZero_short: "length s \<le> n \<Longrightarrow> PadLeftZero s (int n) = Ret (zero_pad n s)"
  by (simp add: PadLeftZero_def zero_pad_def nat_diff_distrib')

lemma HexToTronAddress_bytes:
  "HexToTronAddress T (EncodeToString (v # bs)) = Ret (CheckEncode T bs v)"
  by (simp add: HexToTronAddress_def del: EncodeToString_simps)

lemma HexToTronAddress_41: "HexToTronAddress T (''41'' @ EncodeToString bs) = Ret (CheckEncode T bs 0x41)"
proof -
  have "''41'' = EncodeToString [0x41]" by code_simp
  then have "''41'' @ EncodeToString bs = EncodeToString (0x41 # bs)" by simp
  then show ?thesis by (simp only: HexToTronAddress_bytes)
qed

text \<open>An address as a 32-byte parameter: 24 zeros, then its 20 bytes.\<close>

lemma encode_address_param:
  assumes "base58_ok T" "length bs = 20"
  shows "encodeTronAddressABIParam T (CheckEncode T bs v) = Ret (Inr (replicate 24 (CHR ''0'') @ EncodeToString bs))"
  using assms PadLeftZero_short [of "EncodeToString bs" 64]
  by (simp add: encodeTronAddressABIParam_def base58_ok_def zero_pad_def)

lemma encodeUint256_length: "x < 2 ^ 256 \<Longrightarrow> length (encodeUint256ABIParam x) = 64"
  by (simp add: encodeUint256ABIParam_def fmt_064x_length)

lemma formatTronSignatureHex_length: "length (formatTronSignatureHex s) \<le> tronSignatureHexLen"
  by (simp add: formatTronSignatureHex_def tronSignatureHexLen_def Let_def)

lemma big_SetString_zero_pad:
  assumes "2 \<le> b" "b \<le> 16" shows "big_SetString b (zero_pad n (show_nat b x)) = Some (int x)"
proof -
  obtain d r where "show_nat b x = digit_char d # r" "d < 16" using hd_show_nat [OF assms] .
  moreover have "CHR ''0'' = digit_char 0" by code_simp
  ultimately obtain e q where "zero_pad n (show_nat b x) = digit_char e # q" "e < 16"
    by (cases "n - length (show_nat b x)") (auto simp: zero_pad_def)
  then have "big_SetString b (zero_pad n (show_nat b x)) = map_option int (read_nat b (zero_pad n (show_nat b x)))"
    by simp
  with assms show ?thesis by simp
qed

lemma big_SetString_fmt_064x: "0 \<le> x \<Longrightarrow> big_SetString 16 (fmt_064x x) = Some x"
  using big_SetString_zero_pad [of 16 64 "nat x"] by (simp add: fmt_064x_def)

text \<open>What \<open>transfer_data\<close> reads behind 24 characters, an address and an amount.\<close>

lemma transfer_data_layout:
  assumes "length p = 32" "length bs = 20" "0 \<le> x" "x < 2 ^ 256"
  shows "transfer_data T (p @ EncodeToString bs @ fmt_064x x) = Ret (CheckEncode T bs 0x41, FormatInt x)"
  using assms HexToTronAddress_41 [of T bs]
  by (simp add: transfer_data_def fmt_064x_length big_SetString_fmt_064x)

end
