(* ===== verification/Tron_Client.thy ===== *)
theory Tron_Client
  imports Tron_Types Complex_Main "HOL-Library.Log_Nat"
begin

text \<open>
  The client of the Tron node (\<open>tronclient.go\<close>, \<open>tronclient_extra.go\<close>,
  \<open>trigger_smart_contract.go\<close>, \<open>tron_broadcast.go\<close>), the JustLend energy rental (\<open>justlend.go\<close>,
  \<open>justlend_energy.go\<close>) and the explorer client (\<open>trondata.go\<close>).

  The HTTP library is the record \<open>TronClient\<close>: for each kind of answer, what a request to a path
  with a body returns, which is the library's error, or the status, the text of the body and the value
  decoded from it (the zero value when it is not decoded). The library's own retries and its timeout are
  part of that answer.
\<close>

section \<open>float64\<close>

text \<open>
  The positive part of IEEE double precision on rational numbers: rounding to 53 significant bits, ties
  to even, with subnormals below \<open>2\<^sup>-\<^sup>1\<^sup>0\<^sup>2\<^sup>2\<close>. A value beyond the largest double stays what it is
  instead of becoming infinite, which the conversion to \<open>int64\<close> does not tell apart: like the
  processor's instruction it gives the least integer for either.
\<close>

definition pow2 :: "int \<Rightarrow> rat" where
  "pow2 e = (if 0 \<le> e then 2 ^ nat e else 1 / 2 ^ nat (- e))"

definition f64_exponent :: "rat \<Rightarrow> int" where
  "f64_exponent x =
     (let (p, q) = quotient_of x; e = int (floorlog 2 (nat p)) - int (floorlog 2 (nat q)) in
      max (- 1022) (if pow2 e \<le> x then e else e - 1))"

definition round_even :: "rat \<Rightarrow> int" where
  "round_even x =
     (let f = \<lfloor>x\<rfloor>; d = x - of_int f in
      if d < 1 / 2 then f else if d > 1 / 2 then f + 1 else if even f then f else f + 1)"

definition f64_round :: "rat \<Rightarrow> rat" where
  "f64_round x =
     (if x \<le> 0 then 0
      else (let s = pow2 (52 - f64_exponent x) in of_int (round_even (x * s)) / s))"

definition f64_to_int64 :: "rat \<Rightarrow> int" where
  "f64_to_int64 x = (if x < 2 ^ 63 then \<lfloor>x\<rfloor> else - (2 ^ 63))"

section \<open>Requests\<close>

text \<open>A status above 399 is an error for the library's \<open>IsError\<close>.\<close>

type_synonym ('w, 'a) post = "string \<Rightarrow> body \<Rightarrow> 'w \<Rightarrow> (int \<times> string \<times> 'a) res \<times> 'w"

record 'w TronClient =
  rpc_block :: "('w, TronBlock) post"
  rpc_account :: "('w, TronAccount) post"
  rpc_resource :: "('w, AccountResourceResponse) post"
  rpc_max_size :: "('w, int) post"
  rpc_transaction :: "('w, TronTransaction) post"
  rpc_trigger :: "('w, bool \<times> string \<times> TronTransaction) post"    \<comment> \<open>result, message, transaction\<close>
  rpc_constant :: "('w, string list) post"                            \<comment> \<open>\<open>constant_result\<close>\<close>
  rpc_broadcast :: "('w, BroadcastReturns) post"
  strx_get :: "'w \<Rightarrow> (int \<times> rat res \<times> rat res) res \<times> 'w"              \<comment> \<open>rent and stake price as \<open>float64\<close>\<close>

text \<open>\<open>new\<close> is the library's client for a URL and the API key header, if one is set.\<close>

definition DialTronClient :: "(string \<Rightarrow> string option \<Rightarrow> 'w TronClient) \<Rightarrow> string \<Rightarrow> string \<Rightarrow> string \<Rightarrow> 'w TronClient" where
  "DialTronClient new rpcURL rpcUser rpcPass =
     new rpcURL (if rpcUser \<noteq> [] \<and> rpcPass \<noteq> [] then Some rpcPass else None)"

fun tval_text :: "tval \<Rightarrow> string" where
  "tval_text (TStr s) = s"
| "tval_text (TInt i) = FormatInt i"
| "tval_text (TBool b) = (if b then ''true'' else ''false'')"
| "tval_text (TRaw s) = s"
| "tval_text (TStrs ss) = Join ss '',''"
| "tval_text (TTxRaw r) = Join (map tc_Type (rd_Contract r)) '',''"

definition request_event :: "string \<Rightarrow> body \<Rightarrow> event" where
  "request_event path b = Ev path (map (\<lambda>(k, v). k @ ''='' @ tval_text v) b)"

definition post_io :: "('w, 'a) post \<Rightarrow> string \<Rightarrow> body \<Rightarrow> ('w, (int \<times> string \<times> 'a) res) io" where
  "post_io f path b = ext (request_event path b) (f path b)"

text \<open>The decoded answer, or the error texts the methods share: \<open>failed\<close> for the request, \<open>status\<close> for the status.\<close>

definition answer :: "string \<Rightarrow> string \<Rightarrow> string \<Rightarrow> (int \<times> string \<times> 'a) res \<Rightarrow> 'a res" where
  "answer failed status sep r = (case r of
       Inl err \<Rightarrow> Inl (wrap_err failed err)
     | Inr (code, txt, v) \<Rightarrow>
         if code > 399 then Inl (Errorf (status @ FormatInt code @ sep @ txt)) else Inr v)"

definition api_call :: "('w, 'a) post \<Rightarrow> string \<Rightarrow> body \<Rightarrow> ('w, 'a res) io" where
  "api_call f path b = bind_io (post_io f path b) (\<lambda>r.
     ret_io (answer ''request failed: '' ''API request failed with status code: '' '', body: '' r))"

definition named_call :: "string \<Rightarrow> ('w, 'a) post \<Rightarrow> string \<Rightarrow> body \<Rightarrow> ('w, 'a res) io" where
  "named_call name f path b = bind_io (post_io f path b) (\<lambda>r.
     ret_io (answer (name @ '' failed: '') (name @ '' failed status '') '': '' r))"

definition map_err :: "(goerror \<Rightarrow> goerror) \<Rightarrow> ('w, 'a res) io \<Rightarrow> ('w, 'a res) io" where
  "map_err f m = bind_io m (\<lambda>r. ret_io (case r of Inl err \<Rightarrow> Inl (f err) | Inr v \<Rightarrow> Inr v))"

section \<open>Blocks, accounts, transactions\<close>

datatype id_or_num = IdInt int | IdStr string

fun id_text :: "id_or_num \<Rightarrow> string" where
  "id_text (IdInt v) = [CHR 0x22] @ FormatInt v @ [CHR 0x22]"
| "id_text (IdStr v) = [CHR 0x22] @ v @ [CHR 0x22]"

definition JsonRpcGetLatestBlock :: "'w TronClient \<Rightarrow> ('w, TronBlock res) io" where
  "JsonRpcGetLatestBlock c = api_call (rpc_block c) ''/walletsolidity/getblock'' []"

definition JsonRpcBlock :: "'w TronClient \<Rightarrow> id_or_num \<Rightarrow> ('w, TronBlock res) io" where
  "JsonRpcBlock c params =
     api_call (rpc_block c) ''/walletsolidity/getblock'' [(''id_or_num'', TRaw (id_text params)), (''detail'', TBool True)]"

definition JsonRpcBlockHeader :: "'w TronClient \<Rightarrow> id_or_num \<Rightarrow> ('w, TronBlock res) io" where
  "JsonRpcBlockHeader c params =
     api_call (rpc_block c) ''/wallet/getblock'' [(''id_or_num'', TRaw (id_text params)), (''detail'', TBool False)]"

definition JsonRpcGetBalance :: "'w TronClient \<Rightarrow> string list \<Rightarrow> ('w, TronAccount res) io" where
  "JsonRpcGetBalance c params =
     api_call (rpc_account c) ''/wallet/getaccount'' [(''address'', TStrs params), (''visible'', TBool True)]"

definition JsonRpcGetTransactionByHash :: "'w TronClient \<Rightarrow> string list \<Rightarrow> ('w, TronTransaction res) io" where
  "JsonRpcGetTransactionByHash c params =
     api_call (rpc_transaction c) ''/walletsolidity/gettransactionbyid'' [(''value'', TStrs params)]"

definition tron_GetLatestBlock :: "'w TronClient \<Rightarrow> ('w, TronBlock res) io" where
  "tron_GetLatestBlock c = map_err (wrap_err ''failed to get block by number: '') (JsonRpcGetLatestBlock c)"

definition GetBlockByNumber :: "'w TronClient \<Rightarrow> id_or_num \<Rightarrow> ('w, TronBlock res) io" where
  "GetBlockByNumber c blockNumber = map_err (wrap_err ''failed to get block by number: '') (JsonRpcBlock c blockNumber)"

definition tron_GetBalance :: "'w TronClient \<Rightarrow> string \<Rightarrow> ('w, TronAccount res) io" where
  "tron_GetBalance c address = map_err (wrap_err ''failed to get block by hash: '') (JsonRpcGetBalance c [address])"

definition tron_TransactionByHash :: "'w TronClient \<Rightarrow> string \<Rightarrow> ('w, TronTransaction res) io" where
  "tron_TransactionByHash c hush = map_err (wrap_err ''failed to get block by hash: '') (JsonRpcGetTransactionByHash c [hush])"

definition GetAccount :: "'w TronClient \<Rightarrow> string \<Rightarrow> ('w, TronAccount res) io" where
  "GetAccount c address =
     named_call ''get account'' (rpc_account c) ''/wallet/getaccount'' [(''address'', TStr address), (''visible'', TBool True)]"

definition IsAccountActivated :: "'w TronClient \<Rightarrow> string \<Rightarrow> ('w, bool res) io" where
  "IsAccountActivated c address = bind_io (GetAccount c address) (\<lambda>r. ret_io (case r of
       Inl err \<Rightarrow> Inl err
     | Inr account \<Rightarrow> Inr (ac_CreateTime account > 0)))"

definition GetAccountResource :: "'w TronClient \<Rightarrow> string \<Rightarrow> ('w, AccountResourceResponse res) io" where
  "GetAccountResource c address =
     named_call ''get account resource'' (rpc_resource c) ''/wallet/getaccountresource''
       [(''address'', TStr address), (''visible'', TBool True)]"

definition AvailableEnergy :: "'w TronClient \<Rightarrow> string \<Rightarrow> ('w, int res) io" where
  "AvailableEnergy c address = bind_io (GetAccountResource c address) (\<lambda>r. ret_io (case r of
       Inl err \<Rightarrow> Inl err
     | Inr resource \<Rightarrow>
         (let available = wrap64 (EnergyLimit resource - EnergyUsed resource) in
          if available < 0 then Inr 0 else Inr available)))"

definition GetCanDelegatedMaxSize :: "'w TronClient \<Rightarrow> string \<Rightarrow> int \<Rightarrow> ('w, int res) io" where
  "GetCanDelegatedMaxSize c ownerAddress resourceType =
     bind_io (named_call ''get can delegated max size'' (rpc_max_size c) ''/wallet/getcandelegatedmaxsize''
         [(''owner_address'', TStr ownerAddress), (''type'', TInt resourceType), (''visible'', TBool True)]) (\<lambda>r. ret_io (case r of
       Inl err \<Rightarrow> Inl err
     | Inr maxSize \<Rightarrow> if maxSize < 0 then Inr 0 else Inr maxSize))"

section \<open>Unsigned transactions\<close>

definition validateUnsignedTransaction :: "TronTransaction option \<Rightarrow> goerror option" where
  "validateUnsignedTransaction t = (case t of
       None \<Rightarrow> Some (Errorf ''empty transaction returned from node'')
     | Some tx \<Rightarrow>
         if tt_RawDataHex tx = [] then Some (Errorf ''unsigned transaction missing raw_data_hex'')
         else if length (rd_Contract (tt_RawData tx)) = 0 then Some (Errorf ''unsigned transaction missing contract'')
         else None)"

definition validated :: "TronTransaction \<Rightarrow> TronTransaction res" where
  "validated tx = (case validateUnsignedTransaction (Some tx) of Some err \<Rightarrow> Inl err | None \<Rightarrow> Inr tx)"

definition triggerSmartContract :: "'w TronClient \<Rightarrow> body \<Rightarrow> ('w, TronTransaction res) io" where
  "triggerSmartContract c requestBody =
     bind_io (api_call (rpc_trigger c) ''/wallet/triggersmartcontract'' requestBody) (\<lambda>r. ret_io (case r of
         Inl err \<Rightarrow> Inl err
       | Inr (res, message, tx) \<Rightarrow>
           if message \<noteq> [] \<and> \<not> res then Inl (Errorf (''triggersmartcontract rejected: '' @ message))
           else validated tx))"

definition CreateTRXTransaction :: "'w TronClient \<Rightarrow> string \<Rightarrow> string \<Rightarrow> int \<Rightarrow> ('w, TronTransaction res) io" where
  "CreateTRXTransaction c fromAddress toAddress amount =
     bind_io (api_call (rpc_transaction c) ''/wallet/createtransaction''
         [(''owner_address'', TStr fromAddress), (''to_address'', TStr toAddress), (''amount'', TInt amount),
          (''visible'', TBool True)])
       (\<lambda>r. ret_io (bind_res r validated))"

text \<open>The recipient keeps its version byte in the parameter: 22 zeros, then 21 bytes.\<close>

definition trc20_parameter :: "'k tronlib \<Rightarrow> string \<Rightarrow> int \<Rightarrow> string res go" where
  "trc20_parameter T toAddress amount =
     (let toAddressHex = TronAddressToHex T toAddress in
      if toAddressHex = [] then Ret (Inl (Errorf (''invalid to address: '' @ toAddress)))
      else bind_go (slice toAddressHex 2 (int (length toAddressHex))) (\<lambda>h.
           bind_go (if length h < 64 then PadLeftZero h 64 else Ret h) (\<lambda>p.
             Ret (Inr (p @ fmt_064x amount)))))"

definition CreateTRC20Transaction ::
  "'k tronlib \<Rightarrow> 'w TronClient \<Rightarrow> string \<Rightarrow> string \<Rightarrow> string \<Rightarrow> int \<Rightarrow> ('w, TronTransaction res) io" where
  "CreateTRC20Transaction T c fromAddress toAddress contractAddress amount =
     bind_io (lift_go (trc20_parameter T toAddress amount)) (\<lambda>p. case p of
         Inl err \<Rightarrow> ret_io (Inl err)
       | Inr parameter \<Rightarrow>
           triggerSmartContract c
             [(''owner_address'', TStr fromAddress), (''contract_address'', TStr contractAddress),
              (''function_selector'', TStr ''transfer(address,uint256)''), (''parameter'', TStr parameter),
              (''fee_limit'', TInt 100000000), (''call_value'', TInt 0), (''visible'', TBool True)])"

definition defaultActivationTransferSun :: int where "defaultActivationTransferSun = 100000"
definition defaultDelegateBalanceSun :: int where "defaultDelegateBalanceSun = 1000000000"
definition defaultEstimatedEnergy :: int where "defaultEstimatedEnergy = 150000"

definition CreateDelegateResourceTransaction ::
  "'w TronClient \<Rightarrow> string \<Rightarrow> string \<Rightarrow> int \<Rightarrow> string \<Rightarrow> ('w, TronTransaction res) io" where
  "CreateDelegateResourceTransaction c ownerAddress receiverAddress balanceSun resource =
     named_call ''delegate resource'' (rpc_transaction c) ''/wallet/delegateresource''
       [(''owner_address'', TStr ownerAddress), (''receiver_address'', TStr receiverAddress),
        (''balance'', TInt (if balanceSun \<le> 0 then defaultDelegateBalanceSun else balanceSun)),
        (''resource'', TStr (if resource = [] then ''ENERGY'' else resource)), (''lock'', TBool False),
        (''visible'', TBool True)]"

section \<open>Token balances\<close>

definition balance_parameter :: "string \<Rightarrow> string go" where
  "balance_parameter ownerHex =
     (let ownerParam = TrimPrefix ownerHex ''0x'' in
      if length ownerParam < 64
      then bind_go (slice ownerParam 2 (int (length ownerParam))) (\<lambda>p. PadLeftZero p 64)
      else slice ownerParam (int (length ownerParam) - 64) (int (length ownerParam)))"

definition GetTRC20Balance :: "'k tronlib \<Rightarrow> 'w TronClient \<Rightarrow> string \<Rightarrow> string \<Rightarrow> ('w, string res) io" where
  "GetTRC20Balance T c ownerAddress contractAddress =
     (let ownerHex = TronAddressToHex T ownerAddress; contractHex = TronAddressToHex T contractAddress in
      if ownerHex = [] \<or> contractHex = [] then ret_io (Inl (Errorf ''invalid owner or contract address''))
      else bind_io (lift_go (balance_parameter ownerHex)) (\<lambda>ownerParam.
           bind_io (named_call ''triggerconstantcontract'' (rpc_constant c) ''/wallet/triggerconstantcontract''
               [(''owner_address'', TStr ownerAddress), (''contract_address'', TStr contractAddress),
                (''function_selector'', TStr ''balanceOf(address)''), (''parameter'', TStr ownerParam),
                (''visible'', TBool True)]) (\<lambda>r. ret_io (case r of
               Inl err \<Rightarrow> Inl err
             | Inr [] \<Rightarrow> Inr ''0''
             | Inr (raw0 # others) \<Rightarrow>
                 (let raw = TrimPrefix raw0 ''0x'' in
                  if raw = [] then Inr ''0''
                  else (case big_SetString 16 raw of
                      None \<Rightarrow> Inl (Errorf (''decode balance result: invalid hex '' @ raw))
                    | Some value \<Rightarrow> Inr (FormatInt value)))))))"

section \<open>Broadcast\<close>

definition broadcastAccepted :: "BroadcastReturns \<Rightarrow> bool" where
  "broadcastAccepted r =
     (if bc_Error r \<noteq> [] then False
      else if EqualFold (bc_Code r) ''SUCCESS'' then True
      else bc_Result r)"

definition bytes_text :: "byte list \<Rightarrow> string" where
  "bytes_text bs = map (\<lambda>b. char_of (unat b)) bs"

definition decodeBroadcastMessage :: "string \<Rightarrow> string" where
  "decodeBroadcastMessage message0 =
     (let message = TrimSpace message0 in
      if message = [] then message
      else (case hex_decode message of Inl err \<Rightarrow> message | Inr decoded \<Rightarrow> bytes_text decoded))"

text \<open>What an answer of the node amounts to.\<close>

definition broadcast_result :: "string \<Rightarrow> BroadcastReturns \<Rightarrow> string res" where
  "broadcast_result body r =
     (if bc_Error r \<noteq> [] then Inl (Errorf (''broadcast rejected: '' @ bc_Error r))
      else if bc_Code r \<noteq> [] \<and> \<not> EqualFold (bc_Code r) ''SUCCESS''
      then Inl (Errorf (''broadcast rejected: code='' @ bc_Code r @ '' message='' @ decodeBroadcastMessage (bc_Message r)))
      else if \<not> broadcastAccepted r
      then Inl (Errorf (''broadcast not confirmed: code='' @ quote (bc_Code r) @ '' result='' @
             tval_text (TBool (bc_Result r)) @ '' txid='' @ quote (bc_Txid r) @ '' body='' @ body))
      else if bc_Txid r \<noteq> [] then Inr (bc_Txid r)
      else Inl (Errorf (''broadcast returned success without txid: body='' @ body)))"

definition BroadcastTransaction :: "'w TronClient \<Rightarrow> TronTransaction option \<Rightarrow> ('w, string res) io" where
  "BroadcastTransaction c signedTx =
     bind_io (post_io (rpc_broadcast c) ''/wallet/broadcasttransaction'' (broadcastTransactionPayload signedTx)) (\<lambda>r.
       ret_io (case r of
         Inl err \<Rightarrow> Inl (wrap_err ''broadcast failed: '' err)
       | Inr (status, body, returns) \<Rightarrow>
           if status > 399 then Inl (Errorf (''broadcast failed status '' @ FormatInt status @ '': '' @ body))
           else broadcast_result body returns))"

section \<open>JustLend energy rental\<close>

definition DefaultJustLendContractMainnet :: string where
  "DefaultJustLendContractMainnet = ''TU2MJ5Veik1LRAgjeSzEdvmDYx7mefJZvd''"

definition defaultPrepaySun65k :: int where "defaultPrepaySun65k = 25000000"
definition defaultPrepaySun131k :: int where "defaultPrepaySun131k = 30000000"
definition defaultPrepaySun :: int where "defaultPrepaySun = 28000000"
definition defaultSmartFeeLimit :: int where "defaultSmartFeeLimit = 100000000"
definition minJustLendDelegatedSun :: int where "minJustLendDelegatedSun = 1000000"
definition minJustLendLiquidationFeeSun :: int where "minJustLendLiquidationFeeSun = 20000000"
definition defaultStakeTrxPer10KEnergy :: rat where "defaultStakeTrxPer10KEnergy = 1045"

definition defaultRentPrepaySun :: "int \<Rightarrow> int" where
  "defaultRentPrepaySun energyAmount =
     (if energyAmount \<le> 65000 then defaultPrepaySun65k
      else if energyAmount \<le> 131000 then defaultPrepaySun131k
      else defaultPrepaySun)"

definition normalizeJustLendPrepaySun :: "int \<Rightarrow> int \<Rightarrow> int" where
  "normalizeJustLendPrepaySun energyAmount callValueSun =
     (if callValueSun \<ge> minJustLendLiquidationFeeSun then callValueSun
      else (let prepay = defaultRentPrepaySun energyAmount in
            if prepay < minJustLendLiquidationFeeSun then minJustLendLiquidationFeeSun else prepay))"

definition fetchStrxRentInfo :: "'w TronClient \<Rightarrow> ('w, (rat \<times> rat) res) io" where
  "fetchStrxRentInfo c =
     bind_io (ext (Ev ''https://openapi.just.network/lend/strx'' []) (strx_get c)) (\<lambda>r. ret_io (case r of
         Inl err \<Rightarrow> Inl err
       | Inr (status, rent, stake) \<Rightarrow>
           if status > 399 then Inl (Errorf (''strx api status '' @ FormatInt status))
           else (case rent of
               Inl err \<Rightarrow> Inl (Errorf ''invalid priceFor10KEnergByRent'')
             | Inr rentPrice \<Rightarrow>
                 if rentPrice \<le> 0 then Inl (Errorf ''invalid priceFor10KEnergByRent'')
                 else (case stake of
                     Inl err \<Rightarrow> Inl (Errorf ''invalid priceFor10KEnergByStake'')
                   | Inr stakePrice \<Rightarrow>
                       if stakePrice \<le> 0 then Inl (Errorf ''invalid priceFor10KEnergByStake'')
                       else Inr (rentPrice, stakePrice)))))"

definition fetchStakeTrxPer10KEnergy :: "'w TronClient \<Rightarrow> ('w, rat res) io" where
  "fetchStakeTrxPer10KEnergy c =
     bind_io (fetchStrxRentInfo c) (\<lambda>r. ret_io (case r of Inl err \<Rightarrow> Inl err | Inr (rent, stake) \<Rightarrow> Inr stake))"

definition energyToDelegatedSunWithStakePrice :: "int \<Rightarrow> rat \<Rightarrow> int res" where
  "energyToDelegatedSunWithStakePrice targetEnergy trxPer10KEnergy0 =
     (if targetEnergy \<le> 0 then Inl (Errorf (''invalid target energy: '' @ FormatInt targetEnergy))
      else
        (let trxPer10KEnergy = (if trxPer10KEnergy0 \<le> 0 then defaultStakeTrxPer10KEnergy else trxPer10KEnergy0);
             trxNeeded = f64_round (f64_round (f64_round (of_int targetEnergy) / 10000) * trxPer10KEnergy);
             sun = f64_to_int64 (of_int \<lceil>f64_round (trxNeeded * 1000000)\<rceil>) in
         Inr (if sun < minJustLendDelegatedSun then minJustLendDelegatedSun else sun)))"

definition EnergyToDelegatedSun :: "'w TronClient \<Rightarrow> int \<Rightarrow> ('w, int res) io" where
  "EnergyToDelegatedSun c targetEnergy =
     (if targetEnergy \<le> 0 then ret_io (Inl (Errorf (''invalid target energy: '' @ FormatInt targetEnergy)))
      else bind_io (fetchStakeTrxPer10KEnergy c) (\<lambda>r. ret_io
             (energyToDelegatedSunWithStakePrice targetEnergy (case r of
                Inl err \<Rightarrow> defaultStakeTrxPer10KEnergy
              | Inr p \<Rightarrow> if p \<le> 0 then defaultStakeTrxPer10KEnergy else p))))"

definition contract_or_default :: "string \<Rightarrow> string" where
  "contract_or_default contractAddress = (if contractAddress = [] then DefaultJustLendContractMainnet else contractAddress)"

definition constant_body :: "string \<Rightarrow> string \<Rightarrow> string \<Rightarrow> string \<Rightarrow> body" where
  "constant_body renter contractAddress selector parameter =
     [(''owner_address'', TStr renter), (''contract_address'', TStr contractAddress),
      (''function_selector'', TStr selector), (''parameter'', TStr parameter), (''visible'', TBool True)]"

text \<open>The positive number the first 64 digits of an answer hold, if it has them and they are one.\<close>

definition first_word :: "(int \<times> string \<times> string list) res \<Rightarrow> int option" where
  "first_word r = (case r of
       Inl err \<Rightarrow> None
     | Inr (status, txt, []) \<Rightarrow> None
     | Inr (status, txt, raw0 # others) \<Rightarrow>
         if status > 399 then None
         else (let raw = TrimPrefix raw0 ''0x'' in
               if length raw < 64 then None
               else (case big_SetString 16 (take 64 raw) of
                   None \<Rightarrow> None
                 | Some x \<Rightarrow> if x \<le> 0 then None else Some x)))"

text \<open>The second result of the Go function, an error, is always nil.\<close>

definition EstimateRentPrepay ::
  "'k tronlib \<Rightarrow> 'w TronClient \<Rightarrow> string \<Rightarrow> string \<Rightarrow> string \<Rightarrow> int \<Rightarrow> ('w, int) io" where
  "EstimateRentPrepay T c renter receiver contractAddress energyAmount =
     bind_io (lift_go (encodeGetRentInfoParameter T renter receiver)) (\<lambda>p. case p of
         Inl err \<Rightarrow> ret_io (defaultRentPrepaySun energyAmount)
       | Inr parameter \<Rightarrow>
           bind_io (post_io (rpc_constant c) ''/wallet/triggerconstantcontract''
               (constant_body renter (contract_or_default contractAddress) ''getRentInfo(address,address,uint256)'' parameter))
             (\<lambda>r. ret_io (case first_word r of
                None \<Rightarrow> defaultRentPrepaySun energyAmount
              | Some deposit \<Rightarrow> if \<not> int64_range deposit then defaultRentPrepaySun energyAmount else deposit)))"

definition QueryJustLendRentalDelegatedSun ::
  "'k tronlib \<Rightarrow> 'w TronClient \<Rightarrow> string \<Rightarrow> string \<Rightarrow> string \<Rightarrow> ('w, int res) io" where
  "QueryJustLendRentalDelegatedSun T c renter receiver contractAddress =
     bind_io (lift_go (encodeGetRentInfoParameter T renter receiver)) (\<lambda>p. case p of
         Inl err \<Rightarrow> ret_io (Inl err)
       | Inr parameter \<Rightarrow>
           bind_io (post_io (rpc_constant c) ''/wallet/triggerconstantcontract''
               (constant_body renter (contract_or_default contractAddress) ''rentals(address,address,uint256)'' parameter))
             (\<lambda>r. ret_io (case r of
                Inl err \<Rightarrow> Inl err
              | Inr a \<Rightarrow> (case first_word r of
                    None \<Rightarrow> Inr 0
                  | Some amount \<Rightarrow>
                      if \<not> int64_range amount then Inl (Errorf ''delegated sun overflows int64'') else Inr amount))))"

definition resource_body :: "string \<Rightarrow> string \<Rightarrow> string \<Rightarrow> string \<Rightarrow> int \<Rightarrow> body" where
  "resource_body fromAddress contractAddress selector parameter callValue =
     [(''owner_address'', TStr fromAddress), (''contract_address'', TStr contractAddress),
      (''function_selector'', TStr selector), (''parameter'', TStr parameter),
      (''fee_limit'', TInt defaultSmartFeeLimit), (''call_value'', TInt callValue), (''visible'', TBool True)]"

definition prepay_estimate ::
  "'k tronlib \<Rightarrow> 'w TronClient \<Rightarrow> string \<Rightarrow> string \<Rightarrow> string \<Rightarrow> int \<Rightarrow> int \<Rightarrow> ('w, int) io" where
  "prepay_estimate T c fromAddress receiverAddress contractAddress energyAmount callValueSun =
     (if callValueSun \<le> 0
      then bind_io (EstimateRentPrepay T c fromAddress receiverAddress contractAddress energyAmount) (\<lambda>estimated.
             ret_io (if estimated \<le> 0 then defaultRentPrepaySun energyAmount else estimated))
      else ret_io callValueSun)"

definition CreateJustLendRentTransaction ::
  "'k tronlib \<Rightarrow> 'w TronClient \<Rightarrow> string \<Rightarrow> string \<Rightarrow> string \<Rightarrow> int \<Rightarrow> int \<Rightarrow> ('w, TronTransaction res) io" where
  "CreateJustLendRentTransaction T c fromAddress receiverAddress contractAddress0 energyAmount callValueSun0 =
     (let contractAddress = contract_or_default contractAddress0 in
      if energyAmount \<le> 0 then ret_io (Inl (Errorf (''invalid energy amount: '' @ FormatInt energyAmount)))
      else bind_io (IsAccountActivated c receiverAddress) (\<lambda>a. case a of
          Inl err \<Rightarrow> ret_io (Inl (wrap_err ''check receiver activation: '' err))
        | Inr activated \<Rightarrow>
      if \<not> activated then ret_io (Inl (Errorf (''receiver account is not activated: '' @ receiverAddress)))
      else bind_io (EnergyToDelegatedSun c energyAmount) (\<lambda>s. case s of
          Inl err \<Rightarrow> ret_io (Inl err)
        | Inr trxAmountSun \<Rightarrow>
      bind_io (prepay_estimate T c fromAddress receiverAddress contractAddress energyAmount callValueSun0) (\<lambda>callValueSun1.
      bind_io (lift_go (encodeRentResourceParameter T receiverAddress trxAmountSun)) (\<lambda>p. case p of
          Inl err \<Rightarrow> ret_io (Inl err)
        | Inr parameter \<Rightarrow>
            triggerSmartContract c (resource_body fromAddress contractAddress ''rentResource(address,uint256,uint256)''
              parameter (normalizeJustLendPrepaySun energyAmount callValueSun1)))))))"

definition CreateJustLendReturnTransaction ::
  "'k tronlib \<Rightarrow> 'w TronClient \<Rightarrow> string \<Rightarrow> string \<Rightarrow> string \<Rightarrow> int \<Rightarrow> ('w, TronTransaction res) io" where
  "CreateJustLendReturnTransaction T c fromAddress receiverAddress contractAddress0 energyAmount =
     (let contractAddress = contract_or_default contractAddress0 in
      if energyAmount \<le> 0 then ret_io (Inl (Errorf (''invalid energy amount: '' @ FormatInt energyAmount)))
      else bind_io (QueryJustLendRentalDelegatedSun T c fromAddress receiverAddress contractAddress) (\<lambda>q.
      bind_io (case q of
          Inl err \<Rightarrow> EnergyToDelegatedSun c energyAmount
        | Inr delegatedSun \<Rightarrow>
            ret_io (if delegatedSun \<le> 0 then Inl (Errorf (''no active justlend rental for receiver '' @ receiverAddress))
                    else Inr delegatedSun)) (\<lambda>s. case s of
          Inl err \<Rightarrow> ret_io (Inl err)
        | Inr delegatedSun \<Rightarrow>
      bind_io (lift_go (encodeRentResourceParameter T receiverAddress delegatedSun)) (\<lambda>p. case p of
          Inl err \<Rightarrow> ret_io (Inl err)
        | Inr parameter \<Rightarrow>
            triggerSmartContract c (resource_body fromAddress contractAddress ''returnResource(address,uint256,uint256)''
              parameter 0)))))"

section \<open>Building a transaction of any kind\<close>

definition txKindActivate :: string where "txKindActivate = ''activate''"
definition txKindDelegate :: string where "txKindDelegate = ''delegate_resource''"
definition txKindJustLendRent :: string where "txKindJustLendRent = ''justlend_rent_energy''"
definition txKindJustLendReturn :: string where "txKindJustLendReturn = ''justlend_return_energy''"

definition buildUnsignedTransaction :: "'k tronlib \<Rightarrow> 'w TronClient \<Rightarrow> TxStructure \<Rightarrow> ('w, TronTransaction res) io" where
  "buildUnsignedTransaction T c data =
     (let kind = ToLower (TrimSpace (ts_TxKind data)) in
      if kind = txKindActivate
      then CreateTRXTransaction c (ts_FromAddress data) (ts_ToAddress data)
             (if ts_Value data \<le> 0 then defaultActivationTransferSun else ts_Value data)
      else if kind = txKindDelegate
      then CreateDelegateResourceTransaction c (ts_FromAddress data) (ts_ToAddress data)
             (if ts_DelegateBalance data \<le> 0 then defaultDelegateBalanceSun else ts_DelegateBalance data)
             (if ts_Resource data = [] then ''ENERGY'' else ts_Resource data)
      else if kind = txKindJustLendRent
      then CreateJustLendRentTransaction T c (ts_FromAddress data) (ts_ToAddress data)
             (contract_or_default (ts_ContractAddress data)) (ts_EnergyAmount data) (ts_RentCallValue data)
      else if kind = txKindJustLendReturn
      then CreateJustLendReturnTransaction T c (ts_FromAddress data) (ts_ToAddress data)
             (contract_or_default (ts_ContractAddress data)) (ts_EnergyAmount data)
      else if ts_ContractAddress data = []
      then CreateTRXTransaction c (ts_FromAddress data) (ts_ToAddress data) (ts_Value data)
      else CreateTRC20Transaction T c (ts_FromAddress data) (ts_ToAddress data) (ts_ContractAddress data) (ts_Value data))"

end
