(* ===== verification/Tron_Adaptor.thy ===== *)
theory Tron_Adaptor
  imports Tron_Client Dispatcher
begin

text \<open>
  The Tron adaptor (\<open>chain/tron/tron.go\<close>) and the explorer client (\<open>trondata.go\<close>). The base64
  and JSON codecs are the record \<open>troncodec\<close>.

  A loop over heights may go on for ever: \<open>height <= endHeight\<close> holds of every \<open>int64\<close> when the end
  is the greatest one. Its entries are collected in memory, and \<open>mem\<close> is the number of entries the
  process can hold: a slice that cannot be made, or that outgrows it, is a panic.
\<close>

record troncodec =
  base64_Decode :: "string \<Rightarrow> byte list res"
  base64_Encode :: "byte list \<Rightarrow> string"
  json_TronTransaction :: "byte list \<Rightarrow> TronTransaction res"
  json_TxStructure :: "byte list \<Rightarrow> TxStructure res"
  json_Marshal :: "TronTransaction \<Rightarrow> byte list res"

section \<open>The explorer\<close>

text \<open>\<open>oklink.ChainExplorerAdaptor\<close>: the transactions' ids, and the fee answer as text.\<close>

record 'w TronData =
  okt_GetTxByAddress :: "string \<Rightarrow> u64 \<Rightarrow> u64 \<Rightarrow> 'w \<Rightarrow> string list res \<times> 'w"
  okt_GetEstimateGasFee :: "'w \<Rightarrow> string res \<times> 'w"

definition NewTronDataClient :: "(string \<Rightarrow> string \<Rightarrow> 'w TronData res) \<Rightarrow> string \<Rightarrow> string \<Rightarrow> 'w TronData res" where
  "NewTronDataClient new baseUrl apiKey = new apiKey (baseUrl @ ''/'')"

definition td_GetTxByAddress :: "'w TronData \<Rightarrow> u64 \<Rightarrow> u64 \<Rightarrow> string \<Rightarrow> ('w, string list res) io" where
  "td_GetTxByAddress td page pagesize address =
     ext (Ev ''oklink.GetTxByAddress'' [address, FormatUint page, FormatUint pagesize]) (okt_GetTxByAddress td address page pagesize)"

definition td_GetEstimateGasFee :: "'w TronData \<Rightarrow> ('w, string res) io" where
  "td_GetEstimateGasFee td = ext (Ev ''oklink.GetEstimateGasFee'' []) (okt_GetEstimateGasFee td)"

definition zero_TxRawData :: TxRawData where
  "zero_TxRawData = \<lparr>rd_Contract = [], rd_RefBlockBytes = [], rd_RefBlockHash = [], rd_Expiration = 0,
     rd_FeeLimit = 0, rd_Timestamp = 0\<rparr>"

definition td_GetTransactionsByAddress :: "'w TronData \<Rightarrow> string \<Rightarrow> int \<Rightarrow> int \<Rightarrow> ('w, TronTransaction list res) io" where
  "td_GetTransactionsByAddress td address page pageSize =
     bind_io (td_GetTxByAddress td (word_of_int page) (word_of_int pageSize) address) (\<lambda>r. ret_io (case r of
         Inl err \<Rightarrow> Inl err
       | Inr ids \<Rightarrow> Inr (map (\<lambda>i. \<lparr>tt_Ret = [], tt_Signature = [], tt_TxID = i, tt_RawData = zero_TxRawData,
           tt_RawDataHex = []\<rparr>) ids)))"

section \<open>The adaptor\<close>

record 'w tronChainAdaptor =
  tronClient :: "'w TronClient"
  tronDataClient :: "'w TronData"
  sponsor :: TronSponsor

definition tron_NewChainAdaptor ::
  "(string \<Rightarrow> string option \<Rightarrow> 'w TronClient) \<Rightarrow> (string \<Rightarrow> string \<Rightarrow> 'w TronData res) \<Rightarrow> Config \<Rightarrow>
   'w tronChainAdaptor res" where
  "tron_NewChainAdaptor newRpc newOklink cfg =
     (let rpc = Tron (cfg_WalletNode cfg);
          client = DialTronClient newRpc (RpcUrl rpc) (RpcUser rpc) (RpcPass rpc) in
      bind_res (NewTronDataClient newOklink (DataApiUrl rpc) (DataApiKey rpc)) (\<lambda>dataClient.
        (let s0 = Sponsor rpc;
             s1 = (if ActivationTransferSun s0 \<le> 0 then s0\<lparr>ActivationTransferSun := defaultActivationTransferSun\<rparr> else s0);
             s2 = (if DelegateBalanceSun s1 \<le> 0 then s1\<lparr>DelegateBalanceSun := defaultDelegateBalanceSun\<rparr> else s1);
             s3 = (if EstimatedEnergy s2 \<le> 0 then s2\<lparr>EstimatedEnergy := defaultEstimatedEnergy\<rparr> else s2) in
         Inr \<lparr>tronClient = client, tronDataClient = dataClient, sponsor = s3\<rparr>)))"

section \<open>Addresses\<close>

text \<open>A key that does not parse gives an item with no key and no type.\<close>

definition tron_convert_one :: "'k tronlib \<Rightarrow> PublicKey \<Rightarrow> Addresses" where
  "tron_convert_one T publicKeyItem =
     (case hex_decode (TrimPrefix (pk_PublicKey publicKeyItem) ''0x'') of
        Inl err \<Rightarrow> \<lparr>ad_Address = [], ad_PublicKey = pk_PublicKey publicKeyItem, ad_Type = pk_Type publicKeyItem\<rparr>
      | Inr publicKeyBytes \<Rightarrow>
          (case tron_ParsePubKey T publicKeyBytes of
             Inl err \<Rightarrow> \<lparr>ad_Address = [], ad_PublicKey = [], ad_Type = []\<rparr>
           | Inr pubKey \<Rightarrow> \<lparr>ad_Address = gotron_PubkeyToAddress T pubKey, ad_PublicKey = pk_PublicKey publicKeyItem,
               ad_Type = pk_Type publicKeyItem\<rparr>))"

definition tron_ConvertAddresses :: "'k tronlib \<Rightarrow> ConvertAddressesRequest \<Rightarrow> ('w, ConvertAddressesResponse reply) io" where
  "tron_ConvertAddresses T req =
     ret_io (okReply \<lparr>Code = SUCCESS, Msg = ''success'', cvr_Address = map (tron_convert_one T) (car_PublicKey req)\<rparr>)"

definition tron_ValidAddresses :: "'k tronlib \<Rightarrow> ValidAddressesRequest \<Rightarrow> ('w, ValidAddressesResponse reply) io" where
  "tron_ValidAddresses T req =
     ret_io (okReply \<lparr>Code = SUCCESS, Msg = ''success'',
       AddressValid = map (\<lambda>addr. \<lparr>av_Address = ad_Address addr, av_Type = [],
         av_Valid = (case gotron_Base58ToAddress T (ad_Address addr) of Inl err \<Rightarrow> False | Inr valid \<Rightarrow> valid)\<rparr>)
         (var_Addresses req)\<rparr>)"

section \<open>Blocks\<close>

definition raw_header :: "TronBlock \<Rightarrow> BlockHeaderRaw" where
  "raw_header b = hd_RawData (tb_BlockHeader b)"

definition tron_GetLastestBlock :: "'w tronChainAdaptor \<Rightarrow> chain_request \<Rightarrow> ('w, LastestBlockResponse reply) io" where
  "tron_GetLastestBlock c req =
     bind_io (tron_GetLatestBlock (tronClient c)) (\<lambda>r. ret_io (case r of
         Inl err \<Rightarrow> bothReply (latest_rsp ERROR (Error err)) err
       | Inr b \<Rightarrow> okReply \<lparr>Code = SUCCESS, Msg = ''success'', lb_Height = word_of_int (bh_Number (raw_header b)),
           lb_Hash = tb_BlockID b, lb_ParentHash = bh_ParentHash (raw_header b),
           lb_Timestamp = blockTimestampSeconds (bh_Timestamp (raw_header b))\<rparr>))"

definition tron_GetBlock :: "'k tronlib \<Rightarrow> 'w tronChainAdaptor \<Rightarrow> BlockRequest \<Rightarrow> ('w, BlockResponse reply) io" where
  "tron_GetBlock T c req =
     bind_io (GetBlockByNumber (tronClient c) (IdStr (br_HashHeight req))) (\<lambda>r. case r of
         Inl err \<Rightarrow> ret_io (bothReply (block_rsp ERROR (Error err)) err)
       | Inr b \<Rightarrow> bind_io (lift_go (parseBlockTransactions T b)) (\<lambda>txList.
           ret_io (okReply \<lparr>Code = SUCCESS, Msg = ''success'', bkr_Height = FormatInt (bh_Number (raw_header b)),
             bkr_Hash = tb_BlockID b, bkr_ParentHash = bh_ParentHash (raw_header b),
             bkr_Timestamp = blockTimestampSeconds (bh_Timestamp (raw_header b)), bkr_Transactions = txList\<rparr>)))"

definition tron_header_info :: "TronBlock \<Rightarrow> BlockHeaderInfo" where
  "tron_header_info b = \<lparr>bhi_Height = FormatInt (bh_Number (raw_header b)), bhi_Hash = tb_BlockID b,
     bhi_ParentHash = bh_ParentHash (raw_header b), bhi_Timestamp = blockTimestampSeconds (bh_Timestamp (raw_header b))\<rparr>"

definition tron_block_info :: "'k tronlib \<Rightarrow> TronBlock \<Rightarrow> BlockWithTransactions go" where
  "tron_block_info T b = bind_go (parseBlockTransactions T b) (\<lambda>txList. Ret
     \<lparr>bwt_Height = FormatInt (bh_Number (raw_header b)), bwt_Hash = tb_BlockID b,
      bwt_ParentHash = bh_ParentHash (raw_header b), bwt_Timestamp = blockTimestampSeconds (bh_Timestamp (raw_header b)),
      bwt_Transactions = txList\<rparr>)"

text \<open>The loop over the heights; \<open>m\<close> is the number of entries that still fit in memory.\<close>

fun heights_loop ::
  "'w TronClient \<Rightarrow> (TronBlock \<Rightarrow> 'b go) \<Rightarrow> nat \<Rightarrow> int \<Rightarrow> int \<Rightarrow> 'b list \<Rightarrow> ('w, 'b list res) io" where
  "heights_loop cl item m height endHeight acc =
     (if height > endHeight then ret_io (Inr acc)
      else bind_io (GetBlockByNumber cl (IdInt height)) (\<lambda>r. case r of
          Inl err \<Rightarrow> ret_io (Inl err)
        | Inr b \<Rightarrow> bind_io (lift_go (item b)) (\<lambda>x.
            (case m of 0 \<Rightarrow> panic_io
             | Suc k \<Rightarrow> heights_loop cl item k (wrap64 (height + 1)) endHeight (acc @ [x])))))"

declare heights_loop.simps [simp del]

text \<open>\<open>make([]T, 0, endHeight-startHeight+1)\<close>, then the loop.\<close>

definition heights_from ::
  "nat \<Rightarrow> 'w TronClient \<Rightarrow> (TronBlock \<Rightarrow> 'b go) \<Rightarrow> int \<Rightarrow> int \<Rightarrow> ('w, 'b list res) io" where
  "heights_from mem cl item startHeight endHeight =
     (let cap = wrap64 (wrap64 (endHeight - startHeight) + 1) in
      if cap < 0 \<or> cap > int mem then panic_io
      else heights_loop cl item mem startHeight endHeight [])"

definition tron_GetBatchBlock ::
  "nat \<Rightarrow> 'k tronlib \<Rightarrow> 'w tronChainAdaptor \<Rightarrow> BatchBlockRequest \<Rightarrow> ('w, BatchBlockResponse reply) io" where
  "tron_GetBatchBlock mem T c req =
     (case ParseInt (bbr_NextHeight req) of
        Inl err \<Rightarrow> ret_io (okReply (batch_rsp ERROR ''invalid next height''))
      | Inr startHeight \<Rightarrow>
     (case ParseInt (bbr_EndHeight req) of
        Inl err \<Rightarrow> ret_io (okReply (batch_rsp ERROR ''invalid end height''))
      | Inr endHeight \<Rightarrow>
          if startHeight > endHeight
          then ret_io (okReply (batch_rsp ERROR ''next height is greater than end height''))
          else if \<not> bbr_WithTransactions req
          then bind_io (heights_from mem (tronClient c) (\<lambda>b. Ret (tron_header_info b)) startHeight endHeight) (\<lambda>r. ret_io (case r of
                   Inl err \<Rightarrow> okReply (batch_rsp ERROR (Error err))
                 | Inr headers \<Rightarrow> okReply \<lparr>Code = SUCCESS, Msg = ''get batch block success'',
                     bbp_Headers = headers, bbp_Blocks = []\<rparr>))
          else bind_io (heights_from mem (tronClient c) (tron_block_info T) startHeight endHeight) (\<lambda>r. ret_io (case r of
                   Inl err \<Rightarrow> okReply (batch_rsp ERROR (Error err))
                 | Inr blocks \<Rightarrow> okReply \<lparr>Code = SUCCESS, Msg = ''get batch block success'',
                     bbp_Headers = [], bbp_Blocks = blocks\<rparr>))))"

section \<open>Transactions\<close>

definition tron_history_item :: "TronTransaction \<Rightarrow> TransactionList" where
  "tron_history_item tx = zero_TransactionList\<lparr>TxHash := tt_TxID tx\<rparr>"

text \<open>What a contract is read as: its parties, its token contract and its kind. A token transfer without a caller panics.\<close>

definition contract_parties ::
  "'k tronlib \<Rightarrow> TronContract \<Rightarrow> (FromAddress list \<times> ToAddress list \<times> string \<times> u32) go" where
  "contract_parties T contract =
     (let v = tp_Value (tc_Parameter contract) in
      if tc_Type contract = ''TransferContract''
      then bind_go (native_parties T v) (\<lambda>(fromAddrs, toAddrs). Ret (fromAddrs, toAddrs, [], 1))
      else if tc_Type contract = ''TriggerSmartContract''
      then bind_go (call_parties T v) (\<lambda>(contractAddress, fromAddrs).
             if is_transfer_data (cv_Data v)
             then bind_go (transfer_data T (cv_Data v)) (\<lambda>(toAddr, amount).
                    if fromAddrs = [] then Panic
                    else Ret (set_amount amount fromAddrs, [\<lparr>ta_Address = toAddr, ta_Amount = amount\<rparr>], contractAddress, 2))
             else Ret (fromAddrs, [], contractAddress, 2))
      else Ret ([], [], [], 0))"

definition tron_GetTransactionByHash ::
  "'k tronlib \<Rightarrow> 'w tronChainAdaptor \<Rightarrow> TransactionByHashRequest \<Rightarrow> ('w, TransactionByHashResponse reply) io" where
  "tron_GetTransactionByHash T c req =
     bind_io (tron_TransactionByHash (tronClient c) (thr_Hash req)) (\<lambda>r. case r of
         Inl err \<Rightarrow> ret_io (bothReply (txhash_rsp ERROR (Error err)) err)
       | Inr tx \<Rightarrow>
           bind_io (lift_go (case rd_Contract (tt_RawData tx) of
               [] \<Rightarrow> Ret ([], [], [], 0)
             | contract # others \<Rightarrow> contract_parties T contract)) (\<lambda>(fromAddrs, toAddrs, contractAddress, txType).
           ret_io (okReply \<lparr>Code = SUCCESS, Msg = ''success'', thp_Transaction = Some (zero_TransactionList
             \<lparr>TxHash := thr_Hash req, From := fromAddrs, To := toAddrs, ContractAddress := contractAddress,
              TxType := txType, Status := contractRetStatus tx\<rparr>)\<rparr>)))"

definition tron_GetTransactionByAddress ::
  "'w tronChainAdaptor \<Rightarrow> TransactionByAddressRequest \<Rightarrow> ('w, TransactionByAddressResponse reply) io" where
  "tron_GetTransactionByAddress c req =
     (let page = sint (tar_Page req);
          pageSize = (if sint (tar_PageSize req) = 0 then 10 else sint (tar_PageSize req)) in
      bind_io (td_GetTransactionsByAddress (tronDataClient c) (tar_Address req) page pageSize) (\<lambda>r. ret_io (case r of
          Inl err \<Rightarrow> bothReply (txaddr_rsp ERROR (Error err)) err
        | Inr txs \<Rightarrow> okReply \<lparr>Code = SUCCESS, Msg = ''success'', tap_Transaction = map tron_history_item txs\<rparr>)))"

section \<open>Balances\<close>

definition justLendRentalQueryPrefix :: string where
  "justLendRentalQueryPrefix = ''__justlend_rental__''"

definition parseJustLendRentalQuery :: "string \<Rightarrow> string \<times> bool" where
  "parseJustLendRentalQuery contractAddress =
     (let trimmed = TrimSpace contractAddress; n = length justLendRentalQueryPrefix in
      if \<not> HasPrefix (ToLower trimmed) justLendRentalQueryPrefix then ([], False)
      else if length trimmed > n + 1 \<and> trimmed ! n = CHR ''|'' then (TrimSpace (drop (n + 1) trimmed), True)
      else ([], True))"

text \<open>An answer with a text, or an error reported both ways.\<close>

definition balance_reply :: "string res \<Rightarrow> AccountBalanceResponse reply" where
  "balance_reply r = (case r of
       Inl err \<Rightarrow> bothReply (balance_rsp ERROR (Error err) []) err
     | Inr b \<Rightarrow> okReply (balance_rsp SUCCESS ''success'' b))"

definition keyword :: "AccountBalanceRequest \<Rightarrow> string \<Rightarrow> bool" where
  "keyword req k \<longleftrightarrow> EqualFold (TrimSpace (abr_ContractAddress req)) k"

definition at_least_0 :: "int \<Rightarrow> int" where
  "at_least_0 x = (if x < 0 then 0 else x)"

definition free_energy :: "AccountResourceResponse \<Rightarrow> int" where
  "free_energy r = at_least_0 (wrap64 (EnergyLimit r - EnergyUsed r))"

definition free_bandwidth :: "AccountResourceResponse \<Rightarrow> int" where
  "free_bandwidth r =
     wrap64 (at_least_0 (wrap64 (FreeNetLimit r - FreeNetUsed r)) + at_least_0 (wrap64 (NetLimit r - NetUsed r)))"

definition reply_with :: "('w, 'a res) io \<Rightarrow> ('a \<Rightarrow> string) \<Rightarrow> ('w, AccountBalanceResponse reply) io" where
  "reply_with m f = bind_io m (\<lambda>r. ret_io (balance_reply (map_sum id f r)))"

definition rental_balance :: "'k tronlib \<Rightarrow> 'w tronChainAdaptor \<Rightarrow> string \<Rightarrow> string \<Rightarrow> ('w, AccountBalanceResponse reply) io" where
  "rental_balance T c renterOverride address =
     (let renter = (if renterOverride = [] then TrimSpace (tsp_Address (sponsor c)) else renterOverride) in
      if renter = [] then ret_io (okReply (balance_rsp ERROR ''tron sponsor address is not configured'' []))
      else reply_with (QueryJustLendRentalDelegatedSun T (tronClient c) renter address
             (contract_or_default (TrimSpace (JustLendContract (sponsor c))))) FormatInt)"

definition tron_GetAccountBalance ::
  "'k tronlib \<Rightarrow> 'w tronChainAdaptor \<Rightarrow> AccountBalanceRequest \<Rightarrow> ('w, AccountBalanceResponse reply) io" where
  "tron_GetAccountBalance T c req =
     (let cl = tronClient c; a = abr_Address req; q = parseJustLendRentalQuery (abr_ContractAddress req) in
      if keyword req ''__activated__''
      then reply_with (IsAccountActivated cl a) (\<lambda>activated. if activated then ''1'' else ''0'')
      else if keyword req ''__resource__''
      then reply_with (GetAccountResource cl a) (\<lambda>r. FormatInt (free_energy r))
      else if keyword req ''__bandwidth__''
      then reply_with (GetAccountResource cl a) (\<lambda>r. FormatInt (free_bandwidth r))
      else if snd q then rental_balance T c (fst q) a
      else if keyword req ''__delegatable__''
      then reply_with (GetCanDelegatedMaxSize cl a 1) FormatInt
      else if abr_ContractAddress req = []
      then reply_with (GetAccount cl a) (\<lambda>account. FormatInt (ac_Balance account))
      else reply_with (GetTRC20Balance T cl a (abr_ContractAddress req)) id)"

section \<open>Sending\<close>

definition failed_return :: RawTransactionReturn where
  "failed_return = \<lparr>rtr_TxHash = [], rtr_IsSuccess = False, rtr_Message = []\<rparr>"

definition decode_tx :: "troncodec \<Rightarrow> string \<Rightarrow> TronTransaction res" where
  "decode_tx J s = bind_res (base64_Decode J s) (json_TronTransaction J)"

definition tron_send_one :: "troncodec \<Rightarrow> 'w TronClient \<Rightarrow> RawTransaction \<Rightarrow> ('w, RawTransactionReturn) io" where
  "tron_send_one J cl rawTx =
     (case decode_tx J (RawTx rawTx) of
        Inl err \<Rightarrow> ret_io failed_return
      | Inr transaction \<Rightarrow>
          bind_io (BroadcastTransaction cl (Some transaction)) (\<lambda>r. ret_io (case r of
              Inl err \<Rightarrow> failed_return
            | Inr txHash \<Rightarrow> \<lparr>rtr_TxHash = txHash, rtr_IsSuccess = True, rtr_Message = []\<rparr>)))"

definition tron_SendTransaction ::
  "troncodec \<Rightarrow> 'w tronChainAdaptor \<Rightarrow> SendTransactionsRequest \<Rightarrow> ('w, SendTransactionResponse reply) io" where
  "tron_SendTransaction J c req =
     bind_io (map_io (tron_send_one J (tronClient c)) (str_RawTx req)) (\<lambda>rs.
       ret_io (okReply \<lparr>Code = SUCCESS, Msg = ''success'', TxnRet = rs\<rparr>))"

section \<open>Building transactions\<close>

definition tron_BuildTransactionSchema :: "chain_request \<Rightarrow> ('w, TransactionSchemaResponse reply) io" where
  "tron_BuildTransactionSchema request = ret_io (okReply (schema_rsp SUCCESS ''success''))"

fun unsigned_loop ::
  "'k tronlib \<Rightarrow> troncodec \<Rightarrow> 'w TronClient \<Rightarrow> Base64Transaction list \<Rightarrow> UnsignedTransactionMessageHash list \<Rightarrow>
   ('w, UnSignTransactionResponse reply) io" where
  "unsigned_loop T J cl [] acc = ret_io (okReply \<lparr>Code = SUCCESS, Msg = ''success'', UnsignedTxn = acc\<rparr>)"
| "unsigned_loop T J cl (base64Tx # rest) acc =
     (case bind_res (base64_Decode J (Base64Tx base64Tx)) (json_TxStructure J) of
        Inl err \<Rightarrow> ret_io (errReply err)
      | Inr data \<Rightarrow>
          bind_io (buildUnsignedTransaction T cl data) (\<lambda>r. case bind_res r (json_Marshal J) of
              Inl err \<Rightarrow> ret_io (errReply err)
            | Inr txBytes \<Rightarrow> unsigned_loop T J cl rest (acc @ [\<lparr>UnsignedTx = base64_Encode J txBytes\<rparr>])))"

definition tron_BuildUnSignTransaction ::
  "'k tronlib \<Rightarrow> troncodec \<Rightarrow> 'w tronChainAdaptor \<Rightarrow> UnSignTransactionRequest \<Rightarrow> ('w, UnSignTransactionResponse reply) io" where
  "tron_BuildUnSignTransaction T J c request = unsigned_loop T J (tronClient c) (utr_Base64Txn request) []"

definition failed_signed :: SignedTxWithHash where
  "failed_signed = \<lparr>stx_SignedTx = [], stx_TxHash = [], stx_IsSuccess = False\<rparr>"

text \<open>The id of a transaction that has none is the hash of its raw data, where it has those.\<close>

definition with_TxID :: "'k tronlib \<Rightarrow> TronTransaction \<Rightarrow> TronTransaction res" where
  "with_TxID T tx =
     (if tt_TxID tx = [] \<and> tt_RawDataHex tx \<noteq> []
      then (case hex_decode (tt_RawDataHex tx) of
          Inl err \<Rightarrow> Inl err
        | Inr rawDataBytes \<Rightarrow> Inr (tx\<lparr>tt_TxID := EncodeToString (Sum256 T rawDataBytes)\<rparr>))
      else Inr tx)"

definition tron_sign_one :: "'k tronlib \<Rightarrow> troncodec \<Rightarrow> Base64TransactionWithSignature \<Rightarrow> SignedTxWithHash" where
  "tron_sign_one T J txWithSig =
     (case decode_tx J (bts_Base64Tx txWithSig) of
        Inl err \<Rightarrow> failed_signed
      | Inr transaction0 \<Rightarrow>
          (case hex_decode (TrimPrefix (bts_Signature txWithSig) ''0x'') of
             Inl err \<Rightarrow> failed_signed
           | Inr signatureBytes \<Rightarrow>
               (let signatureHex = formatTronSignatureHex (EncodeToString signatureBytes) in
                case with_TxID T (transaction0\<lparr>tt_Signature := [signatureHex]\<rparr>) of
                  Inl err \<Rightarrow> failed_signed
                | Inr transaction \<Rightarrow>
                    (case json_Marshal J transaction of
                       Inl err \<Rightarrow> failed_signed
                     | Inr signedTxBytes \<Rightarrow> \<lparr>stx_SignedTx = base64_Encode J signedTxBytes, stx_TxHash = tt_TxID transaction,
                         stx_IsSuccess = True\<rparr>))))"

definition tron_BuildSignedTransaction ::
  "'k tronlib \<Rightarrow> troncodec \<Rightarrow> SignedTransactionRequest \<Rightarrow> ('w, SignedTransactionResponse reply) io" where
  "tron_BuildSignedTransaction T J request =
     ret_io (okReply \<lparr>Code = SUCCESS, Msg = ''success'', SignedTxn = map (tron_sign_one T J) (sgr_TxnWithSignature request)\<rparr>)"

section \<open>What Tron does not support\<close>

definition tron_GetAddressApproveList :: "AddressApproveListRequest \<Rightarrow> ('w, AddressApproveListResponse reply) io" where
  "tron_GetAddressApproveList request =
     ret_io (okReply (approve_rsp SUCCESS (''don'' @ [CHR 0x27] @ ''t support in this stage, support in the future'')))"

definition tron_BuildSponsoredTransfer :: "SponsoredTransferRequest \<Rightarrow> ('w, SponsoredTransferBuildResponse reply) io" where
  "tron_BuildSponsoredTransfer request = ret_io (okReply (sponsor_rsp ERROR ''unsupported chain''))"

definition tron_SendSponsoredTransfer :: "SponsoredTransferSendRequest \<Rightarrow> ('w, SendTransactionResponse reply) io" where
  "tron_SendSponsoredTransfer request = ret_io (okReply (send_rsp ERROR ''unsupported chain''))"

definition tron_CallContract :: "CallContractRequest \<Rightarrow> ('w, CallContractResponse reply) io" where
  "tron_CallContract request = ret_io (okReply (call_rsp ERROR ''callContract not supported on Tron''))"

definition tron_adaptor :: "nat \<Rightarrow> 'k tronlib \<Rightarrow> troncodec \<Rightarrow> 'w tronChainAdaptor \<Rightarrow> 'w IChainAdaptor" where
  "tron_adaptor mem T J c =
     \<lparr>ConvertAddresses = tron_ConvertAddresses T,
      ValidAddresses = tron_ValidAddresses T,
      GetLastestBlock = tron_GetLastestBlock c,
      GetBlock = tron_GetBlock T c,
      GetBatchBlock = tron_GetBatchBlock mem T c,
      GetTransactionByHash = tron_GetTransactionByHash T c,
      GetTransactionByAddress = tron_GetTransactionByAddress c,
      GetAccountBalance = tron_GetAccountBalance T c,
      SendTransaction = tron_SendTransaction J c,
      BuildTransactionSchema = tron_BuildTransactionSchema,
      BuildUnSignTransaction = tron_BuildUnSignTransaction T J c,
      BuildSignedTransaction = tron_BuildSignedTransaction T J,
      BuildSponsoredTransfer = tron_BuildSponsoredTransfer,
      SendSponsoredTransfer = tron_SendSponsoredTransfer,
      GetAddressApproveList = tron_GetAddressApproveList,
      CallContract = tron_CallContract\<rparr>"

end
