(* ===== verification/Tron_Props.thy ===== *)
theory Tron_Props
  imports Tron_Adaptor
begin

text \<open>
  Lemmas and properties of the Tron adaptor: the loop over block heights, the calldata of token
  transfers, the guards of an energy rental, and the \<open>SendTransaction\<close> contract.
\<close>

section \<open>The loop over heights\<close>

definition height_event :: "int \<Rightarrow> event" where
  "height_event h = request_event ''/walletsolidity/getblock'' [(''id_or_num'', TRaw (id_text (IdInt h))), (''detail'', TBool True)]"

text \<open>Asking for a block is one call; its answer depends on the remote state only.\<close>

definition block_answer :: "'w TronClient \<Rightarrow> int \<Rightarrow> 'w \<Rightarrow> TronBlock res" where
  "block_answer cl h env1 =
     (case answer ''request failed: '' ''API request failed with status code: '' '', body: ''
        (fst (rpc_block cl ''/walletsolidity/getblock'' [(''id_or_num'', TRaw (id_text (IdInt h))), (''detail'', TBool True)] env1)) of
        Inl err \<Rightarrow> Inl (wrap_err ''failed to get block by number: '' err)
      | Inr b \<Rightarrow> Inr b)"

lemma GetBlockByNumber_run:
  obtains w1 where "GetBlockByNumber cl (IdInt h) w = (Ret (block_answer cl h (env w)), w1)"
    "trace w1 = trace w @ [height_event h]"
  by (simp add: GetBlockByNumber_def map_err_def JsonRpcBlock_def api_call_def post_io_def bind_io_assoc
    bind_ext_apply block_answer_def height_event_def)

lemma heights_loop_run:
  assumes "nat (e + 1 - s) = n" "n \<le> m" "int64_range s" "e < 2 ^ 63 - 1" "s \<le> e + 1"
  shows "\<exists>r w' k. heights_loop cl (\<lambda>b. Ret (f b)) m s e acc w = (Ret r, w') \<and> k \<le> n \<and>
    trace w' = trace w @ map (\<lambda>i. height_event (s + int i)) [0..<k] \<and>
    (case r of Inl err \<Rightarrow> k \<noteq> 0 | Inr xs \<Rightarrow> k = n \<and> length xs = length acc + n)"
  using assms
proof (induction n arbitrary: s m acc w)
  case 0
  then show ?case by (intro exI [of _ "Inr acc"] exI [of _ w] exI [of _ 0]) (simp add: heights_loop.simps)
next
  case (Suc n)
  then have s: "s \<le> e" and wrap: "wrap64 (s + 1) = s + 1"
    by (auto intro!: wrap64_id simp: int64_range_def)
  have next_steps: "nat (e + 1 - (s + 1)) = n" "int64_range (s + 1)" "s + 1 \<le> e + 1"
    using Suc.prems(1,3,4) s by (auto simp: int64_range_def)
  obtain m' where m: "m = Suc m'" using Suc.prems(2) by (cases m) auto
  obtain w1 where w1: "GetBlockByNumber cl (IdInt s) w = (Ret (block_answer cl s (env w)), w1)"
    "trace w1 = trace w @ [height_event s]" by (rule GetBlockByNumber_run)
  show ?case
  proof (cases "block_answer cl s (env w)")
    case (Inl err)
    with s w1 show ?thesis
      by (intro exI [of _ "Inl err"] exI [of _ w1] exI [of _ 1])
         (simp add: heights_loop.simps bind_io_run)
  next
    case (Inr b)
    obtain r w' k where r: "heights_loop cl (\<lambda>b. Ret (f b)) m' (s + 1) e (acc @ [f b]) w1 = (Ret r, w')" "k \<le> n"
      "trace w' = trace w1 @ map (\<lambda>i. height_event (s + 1 + int i)) [0..<k]"
      "case r of Inl err \<Rightarrow> k \<noteq> 0 | Inr xs \<Rightarrow> k = n \<and> length xs = length (acc @ [f b]) + n"
      using Suc.IH [OF next_steps(1), of m' "acc @ [f b]" w1] next_steps m Suc.prems(2,4) by auto
    have "map (\<lambda>i. height_event (s + int i)) [0..<Suc k] =
        height_event s # map (\<lambda>i. height_event (s + 1 + int i)) [0..<k]"
      by (simp only: upt_conv_Cons [OF zero_less_Suc] map_Suc_upt [symmetric]) (simp add: comp_def add.assoc)
    with r w1 s m Inr wrap show ?thesis
      by (intro exI [of _ r] exI [of _ w'] exI [of _ "Suc k"])
         (simp add: heights_loop.simps bind_io_run split: sum.splits)
  qed
qed

text \<open>With the greatest end the loop never stops of itself.\<close>

lemma heights_loop_endless:
  assumes "\<And>h v. \<exists>b. block_answer cl h v = Inr b" "int64_range s"
  shows "fst (heights_loop cl (\<lambda>b. Ret (f b)) m s (2 ^ 63 - 1) acc w) = Panic"
  using assms(2)
proof (induction m arbitrary: s acc w)
  case 0
  obtain w1 where "GetBlockByNumber cl (IdInt s) w = (Ret (block_answer cl s (env w)), w1)"
    by (rule GetBlockByNumber_run)
  with 0 assms(1) [of s "env w"] show ?case
    by (auto simp: heights_loop.simps bind_io_run int64_range_def)
next
  case (Suc m)
  obtain w1 where "GetBlockByNumber cl (IdInt s) w = (Ret (block_answer cl s (env w)), w1)"
    by (rule GetBlockByNumber_run)
  with Suc assms(1) [of s "env w"] wrap64_range [of "s + 1"] show ?case
    by (auto simp: heights_loop.simps [of _ _ "Suc m"] bind_io_run int64_range_def)
qed

text \<open>The slice for a range that fits in memory can be made.\<close>

lemma heights_from_fits:
  assumes "s \<le> e" "e - s < int mem" "int mem < 2 ^ 63"
  shows "heights_from mem cl item s e = heights_loop cl item mem s e []"
proof -
  have "wrap64 (e - s) = e - s" "wrap64 (e - s + 1) = e - s + 1"
    using assms by (auto intro!: wrap64_id simp: int64_range_def)
  with assms show ?thesis by (simp add: heights_from_def Let_def)
qed

section \<open>Token transfers\<close>

text \<open>The parameter of a transfer: 22 zeros, the recipient with its version byte, the amount.\<close>

lemma trc20_parameter_eq:
  assumes "base58_ok T" "length bs = 20"
  shows "trc20_parameter T (CheckEncode T bs v) x =
    Ret (Inr (replicate 22 (CHR ''0'') @ EncodeToString (v # bs) @ fmt_064x x))"
proof -
  have dec: "CheckDecode T (CheckEncode T bs v) = Inr (bs, v)" using assms(1) by (simp add: base58_ok_def)
  have len: "length (EncodeToString (v # bs)) = 42"
    using assms(2) by (simp only: length_EncodeToString list.size) simp
  then have "PadLeftZero (EncodeToString (v # bs)) 64 = Ret (replicate 22 (CHR ''0'') @ EncodeToString (v # bs))"
    using PadLeftZero_short [of "EncodeToString (v # bs)" 64] by (simp add: zero_pad_def)
  with dec len show ?thesis
    by (simp add: trc20_parameter_def TronAddressToHex_def slice_def Let_def del: EncodeToString_simps)
qed

text \<open>The data of a transfer as the node sees them: the selector and the parameter.\<close>

lemma transfer_data_parameter:
  assumes "length bs = 20" "0 \<le> x" "x < 2 ^ 256"
    and data: "d = ''a9059cbb'' @ replicate 22 (CHR ''0'') @ EncodeToString (v # bs) @ fmt_064x x"
  shows "is_transfer_data d" "transfer_data T d = Ret (CheckEncode T bs 0x41, FormatInt x)"
proof -
  have "d = (''a9059cbb'' @ replicate 22 (CHR ''0'') @ hex_byte v) @ EncodeToString bs @ fmt_064x x"
    using data by simp
  moreover have "length (''a9059cbb'' @ replicate 22 (CHR ''0'') @ hex_byte v) = 32"
    by (simp add: hex_byte_def)
  ultimately show "transfer_data T d = Ret (CheckEncode T bs 0x41, FormatInt x)"
    using transfer_data_layout assms(1,2,3) by metis
  show "is_transfer_data d"
    using assms(1-3) by (simp add: is_transfer_data_def data fmt_064x_length HasPrefix_def hex_byte_def)
qed

section \<open>The guards of a rental\<close>

lemma normalizeJustLendPrepaySun_min: "minJustLendLiquidationFeeSun \<le> normalizeJustLendPrepaySun energy cv"
  by (simp add: normalizeJustLendPrepaySun_def Let_def)

lemma normalizeJustLendPrepaySun_id:
  "minJustLendLiquidationFeeSun \<le> cv \<Longrightarrow> normalizeJustLendPrepaySun energy cv = cv"
  by (simp add: normalizeJustLendPrepaySun_def)

lemma energyToDelegatedSun_min:
  "energyToDelegatedSunWithStakePrice energy price = Inr sun \<Longrightarrow> minJustLendDelegatedSun \<le> sun"
  by (auto simp: energyToDelegatedSunWithStakePrice_def Let_def split: if_splits)

lemma EnergyToDelegatedSun_min:
  "EnergyToDelegatedSun c energy w = (Ret (Inr sun), w') \<Longrightarrow> minJustLendDelegatedSun \<le> sun"
  by (auto simp: EnergyToDelegatedSun_def run_iff intro: energyToDelegatedSun_min split: if_splits)

text \<open>Which calls the steps before the contract call make.\<close>

lemma emits_run: "emits P m \<Longrightarrow> m w = (r, w') \<Longrightarrow> \<exists>es. trace w' = trace w @ es \<and> list_all P es"
  unfolding emits_def by (metis snd_conv)

lemma emits_post [emits_intros]: "P (request_event path b) \<Longrightarrow> emits P (post_io f path b)"
  by (simp add: post_io_def emits_ext)

definition not_trigger :: "event \<Rightarrow> bool" where
  "not_trigger ev \<longleftrightarrow> ev_name ev \<noteq> ''/wallet/triggersmartcontract''"

lemma not_trigger_request [simp]:
  "not_trigger (request_event path b) \<longleftrightarrow> path \<noteq> ''/wallet/triggersmartcontract''"
  "not_trigger (Ev path args) \<longleftrightarrow> path \<noteq> ''/wallet/triggersmartcontract''"
  by (simp_all add: not_trigger_def request_event_def)

lemma count_not_trigger: "list_all not_trigger es \<Longrightarrow> count_ev ''/wallet/triggersmartcontract'' es = 0"
  by (auto simp: count_ev_def not_trigger_def list_all_iff filter_empty_conv)

lemma rental_steps_emit:
  "emits not_trigger (IsAccountActivated c a)"
  "emits not_trigger (EnergyToDelegatedSun c energy)"
  "emits not_trigger (prepay_estimate T c from to contract energy cv)"
  unfolding IsAccountActivated_def GetAccount_def named_call_def EnergyToDelegatedSun_def
    fetchStakeTrxPer10KEnergy_def fetchStrxRentInfo_def prepay_estimate_def EstimateRentPrepay_def
  by (intro emits_intros; simp)+

lemma triggerSmartContract_run:
  assumes "triggerSmartContract c b w = (Ret (Inr tx), w')"
  shows "trace w' = trace w @ [request_event ''/wallet/triggersmartcontract'' b] \<and>
    tt_RawDataHex tx \<noteq> [] \<and> rd_Contract (tt_RawData tx) \<noteq> []"
  using assms
  by (auto simp: triggerSmartContract_def api_call_def post_io_def bind_io_assoc bind_ext_apply validated_def
    validateUnsignedTransaction_def split: sum.splits prod.splits option.splits if_splits)

section \<open>Broadcasting\<close>

text \<open>A transaction is accepted only with an id, no error, and no code but \<open>SUCCESS\<close>.\<close>

lemma broadcast_result_Inr_iff:
  "broadcast_result body r = Inr txid \<longleftrightarrow>
     bc_Error r = [] \<and> txid = bc_Txid r \<and> txid \<noteq> [] \<and>
     (EqualFold (bc_Code r) ''SUCCESS'' \<or> bc_Code r = [] \<and> bc_Result r)"
  by (auto simp: broadcast_result_def broadcastAccepted_def)

text \<open>What one item of a request calls: nothing, if it is not a transaction.\<close>

definition tron_send_calls :: "troncodec \<Rightarrow> RawTransaction \<Rightarrow> event list" where
  "tron_send_calls J t = (case decode_tx J (RawTx t) of
       Inl err \<Rightarrow> []
     | Inr tx \<Rightarrow> [request_event ''/wallet/broadcasttransaction'' (broadcastTransactionPayload (Some tx))])"

lemma tron_send_one_run:
  "\<exists>r w'. tron_send_one J cl t w = (Ret r, w') \<and> trace w' = trace w @ tron_send_calls J t"
  by (simp add: tron_send_one_def tron_send_calls_def BroadcastTransaction_def post_io_def bind_io_assoc bind_ext_apply
    split: sum.split)

interpretation tron_send: batch_send
  "tron_SendTransaction J c" "tron_send_one J (tronClient c)" "tron_send_calls J" "''success''" for J c
  by unfold_locales (simp_all add: tron_SendTransaction_def tron_send_one_run)

text \<open>A handler with this contract is never the cause of an internal error.\<close>

lemmas tron_send_returns = tron_send.handler_returns

section \<open>Samples\<close>

definition sample_tronlib :: "unit tronlib" where
  "sample_tronlib =
     \<lparr>base58_Decode = \<lambda>s. hex_decode s, base582_Decode = \<lambda>s. [],
      CheckEncode = \<lambda>bs v. EncodeToString (v # bs),
      CheckDecode = \<lambda>s. (case hex_decode s of Inr (v # bs) \<Rightarrow> Inr (bs, v) | _ \<Rightarrow> Inl (Errorf ''invalid format'')),
      Sum256 = \<lambda>bs. bs, gotron_HexToAddress = \<lambda>s. Inr s, gotron_Base58ToAddress = \<lambda>s. Inr True,
      gotron_PubkeyToAddress = \<lambda>k. ''T'', tron_ParsePubKey = \<lambda>bs. Inr ()\<rparr>"

lemma sample_tronlib_ok [simp]: "base58_ok sample_tronlib"
  by (simp add: base58_ok_def sample_tronlib_def del: EncodeToString_simps)

definition sample_contract :: "string \<Rightarrow> TronContract" where
  "sample_contract d = \<lparr>tc_Parameter = \<lparr>tp_Value = \<lparr>cv_OwnerAddress = EncodeToString [0x41, 1], cv_ToAddress = [],
     cv_Amount = 0, cv_ContractAddress = EncodeToString [0x41, 2], cv_Data = d, cv_AssetName = [], cv_CallValue = 0,
     cv_CallTokenValue = 0, cv_TokenID = 0\<rparr>, tp_TypeURL = []\<rparr>, tc_Type = ''TriggerSmartContract'', tc_PermissionID = 0\<rparr>"

definition sample_trontx :: "string \<Rightarrow> TronTransaction" where
  "sample_trontx d = \<lparr>tt_Ret = [\<lparr>ContractRet = ''SUCCESS''\<rparr>], tt_Signature = [], tt_TxID = ''ab'',
     tt_RawData = zero_TxRawData\<lparr>rd_Contract := [sample_contract d]\<rparr>, tt_RawDataHex = ''0a''\<rparr>"

definition sample_tronblock :: TronBlock where
  "sample_tronblock = \<lparr>tb_BlockID = ''05'', tb_BlockHeader = \<lparr>hd_RawData = \<lparr>bh_Number = 5, bh_TxTrieRoot = [],
     bh_WitnessAddress = [], bh_ParentHash = ''04'', bh_Version = 1, bh_Timestamp = 1700000000000\<rparr>,
     WitnessSignature = []\<rparr>, tb_Transactions = []\<rparr>"

definition sample_tronaccount :: TronAccount where
  "sample_tronaccount = \<lparr>ac_Address = [], ac_Balance = 0, ac_CreateTime = 1, ac_LatestConsumeTime = 0,
     ac_NetWindowSize = 0, ac_NetWindowOptimized = False,
     ac_AccountResource = \<lparr>ar_LatestConsumeTimeForEnergy = 0, ar_EnergyWindowSize = 0,
       ar_AcquiredDelegatedFrozenV2BalanceForEnergy = 0, ar_EnergyWindowOptimized = False\<rparr>,
     ac_OwnerPermission = \<lparr>pe_Type = [], pe_ID = 0, pe_PermissionName = [], pe_Threshold = 1, pe_Operations = [], pe_Keys = []\<rparr>,
     ac_ActivePermission = [], ac_FrozenV2 = [], ac_AssetV2 = [], ac_FreeAssetNetUsageV2 = [], ac_AssetOptimized = False\<rparr>"

text \<open>A node that answers every request; the rental prices are not available.\<close>

definition sample_tronclient :: "unit TronClient" where
  "sample_tronclient =
     \<lparr>rpc_block = \<lambda>p b e. (Inr (200, [], sample_tronblock), e),
      rpc_account = \<lambda>p b e. (Inr (200, [], sample_tronaccount), e),
      rpc_resource = \<lambda>p b e. (Inr (200, [], \<lparr>FreeNetUsed = 0, FreeNetLimit = 600, NetUsed = 0, NetLimit = 0,
        EnergyUsed = 0, EnergyLimit = 0\<rparr>), e),
      rpc_max_size = \<lambda>p b e. (Inr (200, [], 0), e),
      rpc_transaction = \<lambda>p b e. (Inr (200, [], sample_trontx []), e),
      rpc_trigger = \<lambda>p b e. (Inr (200, [], True, [], sample_trontx []), e),
      rpc_constant = \<lambda>p b e. (Inr (200, [], []), e),
      rpc_broadcast = \<lambda>p b e. (Inr (200, [], \<lparr>bc_Code = [], bc_Txid = ''ab'', bc_Message = [], bc_Error = [], bc_Result = True\<rparr>), e),
      strx_get = \<lambda>e. (Inl (Errorf ''timeout''), e)\<rparr>"

definition sample_tron :: "unit tronChainAdaptor" where
  "sample_tron = \<lparr>tronClient = sample_tronclient,
     tronDataClient = \<lparr>okt_GetTxByAddress = \<lambda>a p n e. (Inr [], e), okt_GetEstimateGasFee = \<lambda>e. (Inr [], e)\<rparr>,
     sponsor = \<lparr>tsp_Address = [], tsp_PublicKey = [], ActivationTransferSun = 100000,
       DelegateBalanceSun = 1000000000, EstimatedEnergy = 150000, JustLendContract = []\<rparr>\<rparr>"

definition sample_range :: "string \<Rightarrow> string \<Rightarrow> BatchBlockRequest" where
  "sample_range s e = \<lparr>ConsumerToken = [], ChainId = [], Network = [], bbr_NextHeight = s, bbr_EndHeight = e,
     bbr_WithTransactions = False\<rparr>"

lemma sample_parse:
  "ParseInt ''5'' = Inr 5" "ParseInt ''6'' = Inr 6"
  by code_simp+

lemma sample_parse_max: "ParseInt (FormatInt (2 ^ 63 - 1)) = Inr (2 ^ 63 - 1)"
  by (rule ParseInt_FormatInt) (simp add: int64_range_def)

lemma sample_block_answer: "\<exists>b. block_answer sample_tronclient h v = Inr b"
  by (simp add: block_answer_def answer_def sample_tronclient_def)

section \<open>Properties\<close>



text \<open>
  A batch request that ends at the greatest \<open>int64\<close> never comes to an answer while the node
  answers: the loop's counter wraps round, however much memory its entries may take.
\<close>

theorem tron_batch_endless:
  assumes "ParseInt (bbr_NextHeight req) = Inr s" "ParseInt (bbr_EndHeight req) = Inr (2 ^ 63 - 1)"
    and "\<And>h v. \<exists>b. block_answer (tronClient c) h v = Inr b" "\<not> bbr_WithTransactions req"
  shows "fst (tron_GetBatchBlock mem T c req w) = Panic"
proof -
  have s: "int64_range s" using assms(1) by (rule ParseInt_range)
  then have "\<not> s > 2 ^ 63 - 1" by (simp add: int64_range_def)
  with assms show ?thesis
    using heights_loop_endless [OF assms(3) s, where f = tron_header_info and m = mem and acc = "[]" and w = w]
    by (auto simp: tron_GetBatchBlock_def heights_from_def bind_io_apply Let_def split: prod.splits)
qed

theorem tron_batch_endless_witness:
  "fst (tron_GetBatchBlock 10 sample_tronlib sample_tron (sample_range ''5'' (FormatInt (2 ^ 63 - 1)))
     \<lparr>env = (), trace = []\<rparr>) = Panic"
  by (rule tron_batch_endless [where s = 5])
     (simp_all add: sample_range_def sample_parse sample_parse_max [simplified] sample_tron_def sample_block_answer)

text \<open>
  What \<open>CreateTRC20Transaction\<close> asks the node to call is what the parser reads back: a contract
  with that parameter is a token transfer to the same recipient of the same amount. The version byte the
  parameter keeps is not part of what is read.
\<close>

theorem trc20_roundtrip:
  assumes "base58_ok T" "length to = 20" "0 \<le> x" "x < 2 ^ 63"
    and "trc20_parameter T (CheckEncode T to 0x41) x = Ret (Inr p)"
    and "rd_Contract (tt_RawData tx) = contract # others" "tc_Type contract = ''TriggerSmartContract''"
    and "tp_Value (tc_Parameter contract) = v" "cv_Data v = ''a9059cbb'' @ p"
    and "cv_OwnerAddress v = EncodeToString (0x41 # owner)" "cv_ContractAddress v = EncodeToString (0x41 # token)"
  shows "parseSingleTransaction T tx blockHash height i = Ret (Some
    \<lparr>TxHash = tt_TxID tx, Fee = [], Status = contractRetStatus tx, TxType = 2,
     ContractAddress = CheckEncode T token 0x41,
     From = [\<lparr>fa_Address = CheckEncode T owner 0x41, fa_Amount = FormatInt x\<rparr>],
     To = [\<lparr>ta_Address = CheckEncode T to 0x41, ta_Amount = FormatInt x\<rparr>],
     BlockHash = blockHash, BlockHeight = height, LogIndex = i, TransferKind = transferKindTRC20\<rparr>)"
proof -
  have "cv_Data v = ''a9059cbb'' @ replicate 22 (CHR ''0'') @ EncodeToString (0x41 # to) @ fmt_064x x"
    using assms(5,9) trc20_parameter_eq [OF assms(1,2), of "0x41" x] by simp
  moreover have "x < 2 ^ 256" using assms(4) by simp
  ultimately have "is_transfer_data (cv_Data v)" "transfer_data T (cv_Data v) = Ret (CheckEncode T to 0x41, FormatInt x)"
    using transfer_data_parameter assms(2,3) by blast+
  moreover have "EncodeToString (0x41 # bs) \<noteq> []" for bs by (simp add: hex_byte_def)
  ultimately show ?thesis
    using assms(6-8,10,11)
    by (simp add: parseSingleTransaction_def call_parties_def HexToTronAddress_bytes set_amount_def Let_def
      del: EncodeToString_simps)
qed

theorem trc20_roundtrip_witness:
  "\<exists>p. trc20_parameter sample_tronlib (CheckEncode sample_tronlib (replicate 20 7) 0x41) 1000 = Ret (Inr p) \<and>
     (\<exists>t. parseSingleTransaction sample_tronlib (sample_trontx (''a9059cbb'' @ p)) ''05'' 5 0 = Ret (Some t) \<and>
        To t = [\<lparr>ta_Address = CheckEncode sample_tronlib (replicate 20 7) 0x41, ta_Amount = FormatInt 1000\<rparr>])"
proof -
  obtain p where p: "trc20_parameter sample_tronlib (CheckEncode sample_tronlib (replicate 20 7) 0x41) 1000 = Ret (Inr p)"
    using trc20_parameter_eq [of sample_tronlib "replicate 20 7" "0x41" 1000] by simp
  show ?thesis
    using p trc20_roundtrip [OF sample_tronlib_ok _ _ _ p, of "sample_trontx (''a9059cbb'' @ p)"
        "sample_contract (''a9059cbb'' @ p)" "[]" _ "[1]" "[2]" "''05''" 5 0]
    by (simp add: sample_trontx_def sample_contract_def zero_TxRawData_def)
qed

text \<open>
  C17. A transaction that rents energy is only asked for after the node has said that the receiver is
  activated, for a positive amount of energy; it delegates at least 1 TRX and prepays at least the 20
  TRX liquidation fee, and a larger prepayment of the request is kept. It is one contract call, the last
  call of the run, and what the node returns has its raw data and a contract.
\<close>

theorem rent_guarded:
  assumes "CreateJustLendRentTransaction T c fr receiver contract energy cv0 w = (Ret (Inr tx), w')"
  shows "0 < energy \<and> tt_RawDataHex tx \<noteq> [] \<and> rd_Contract (tt_RawData tx) \<noteq> [] \<and>
    (\<exists>w1. IsAccountActivated c receiver w = (Ret (Inr True), w1)) \<and>
    (\<exists>sun cv parameter es. 1000000 \<le> sun \<and> 20000000 \<le> cv \<and> (20000000 \<le> cv0 \<longrightarrow> cv = cv0) \<and>
       encodeRentResourceParameter T receiver sun = Ret (Inr parameter) \<and>
       trace w' = trace w @ es @ [request_event ''/wallet/triggersmartcontract''
         (resource_body fr (contract_or_default contract) ''rentResource(address,uint256,uint256)'' parameter cv)] \<and>
       count_ev ''/wallet/triggersmartcontract'' es = 0)"
proof -
  let ?cd = "contract_or_default contract"
  obtain w1 sun w2 cv1 w3 parameter where energy: "0 < energy"
    and act: "IsAccountActivated c receiver w = (Ret (Inr True), w1)"
    and sun: "EnergyToDelegatedSun c energy w1 = (Ret (Inr sun), w2)"
    and cv: "prepay_estimate T c fr receiver ?cd energy cv0 w2 = (Ret cv1, w3)"
    and par: "encodeRentResourceParameter T receiver sun = Ret (Inr parameter)"
    and trig: "triggerSmartContract c (resource_body fr ?cd ''rentResource(address,uint256,uint256)'' parameter
        (normalizeJustLendPrepaySun energy cv1)) w3 = (Ret (Inr tx), w')"
    using assms by (auto simp: CreateJustLendRentTransaction_def Let_def run_iff split: if_splits)
  obtain es1 es2 es3 where es: "trace w1 = trace w @ es1" "trace w2 = trace w1 @ es2" "trace w3 = trace w2 @ es3"
    "list_all not_trigger (es1 @ es2 @ es3)"
    using emits_run [OF rental_steps_emit(1) act] emits_run [OF rental_steps_emit(2) sun]
      emits_run [OF rental_steps_emit(3) cv] by auto
  have "cv1 = cv0" if "20000000 \<le> cv0" using cv that by (simp add: prepay_estimate_def)
  then have "20000000 \<le> cv0 \<longrightarrow> normalizeJustLendPrepaySun energy cv1 = cv0"
    using normalizeJustLendPrepaySun_id [of cv0 energy] by (simp add: minJustLendLiquidationFeeSun_def)
  with energy act par es EnergyToDelegatedSun_min [OF sun] normalizeJustLendPrepaySun_min [of energy cv1]
    triggerSmartContract_run [OF trig] count_not_trigger [OF es(4)]
  show ?thesis
    by (intro conjI exI [of _ w1] exI [of _ sun] exI [of _ "normalizeJustLendPrepaySun energy cv1"]
        exI [of _ parameter] exI [of _ "es1 @ es2 @ es3"])
       (simp_all add: minJustLendDelegatedSun_def minJustLendLiquidationFeeSun_def)
qed

text \<open>A rental the sample node grants: its prices are the defaults.\<close>

lemma sample_rental:
  "\<exists>tx w'. CreateJustLendRentTransaction sample_tronlib sample_tronclient ''from''
     (CheckEncode sample_tronlib (replicate 20 7) 0x41) [] 65000 0 \<lparr>env = (), trace = []\<rparr> = (Ret (Inr tx), w')"
proof -
  obtain sun where "energyToDelegatedSunWithStakePrice 65000 defaultStakeTrxPer10KEnergy = Inr sun"
    by (simp add: energyToDelegatedSunWithStakePrice_def Let_def)
  moreover have "validated (sample_trontx []) = Inr (sample_trontx [])"
    by (simp add: validated_def validateUnsignedTransaction_def sample_trontx_def)
  moreover have "encodeTronAddressABIParam sample_tronlib ''from'' = Ret (Inl e)"
    if "CheckDecode sample_tronlib ''from'' = Inl d" "e = wrap_err (''invalid tron address '' @ ''from'' @ '': '') d" for d e
    using that by (simp add: encodeTronAddressABIParam_def)
  moreover have "\<exists>d. CheckDecode sample_tronlib ''from'' = Inl d"
  proof -
    have "isl (CheckDecode sample_tronlib ''from'')" by code_simp
    then show ?thesis by (cases "CheckDecode sample_tronlib ''from''") auto
  qed
  ultimately show ?thesis
    using encode_address_param [of sample_tronlib "replicate 20 7" "0x41"]
    by (auto simp: CreateJustLendRentTransaction_def IsAccountActivated_def GetAccount_def named_call_def post_io_def
      bind_io_assoc bind_ext_apply answer_def sample_tronclient_def sample_tronaccount_def EnergyToDelegatedSun_def
      fetchStakeTrxPer10KEnergy_def fetchStrxRentInfo_def prepay_estimate_def EstimateRentPrepay_def
      encodeGetRentInfoParameter_def encodeRentResourceParameter_def defaultRentPrepaySun_def defaultPrepaySun65k_def
      triggerSmartContract_def api_call_def Let_def)
qed

theorem rent_guarded_witness:
  "\<exists>tx w'. CreateJustLendRentTransaction sample_tronlib sample_tronclient ''from''
     (CheckEncode sample_tronlib (replicate 20 7) 0x41) [] 65000 0 \<lparr>env = (), trace = []\<rparr> = (Ret (Inr tx), w') \<and>
     tt_RawDataHex tx \<noteq> []"
  using sample_rental rent_guarded by metis

end
