(* ===== verification/Sol_Types.thy ===== *)
theory Sol_Types
  imports Handlers
begin

text \<open>
  The data of the Solana adaptor (\<open>chain/solana/types.go\<close>, \<open>solana_tx.go\<close>) and the parser of
  transfers (\<open>solana_parse.go\<close>). A value of type \<open>interface{}\<close> is its JSON text, \<open>None\<close> for nil.
  The types of \<open>types.go\<close> that only wrap a result are in \<open>Sol_Client\<close>; those nothing uses are left out.
\<close>

section \<open>Types\<close>

record RPCError =
  rpe_Code :: int
  rpe_Message :: string

record AccountInfo =
  ai_Lamports :: u64
  ai_Owner :: string
  ai_Data :: "string list"
  ai_Executable :: bool
  ai_RentEpoch :: u64
  ai_Space :: u64

record LoadedAddresses =
  la_Readonly :: "string list"
  la_Writable :: "string list"

record TransactionMeta =
  tm_Err :: "string option"
  tm_Fee :: u64
  tm_PreBalances :: "u64 list"
  tm_PostBalances :: "u64 list"
  tm_InnerInstructions :: "string list"
  tm_PreTokenBalances :: "string list"
  tm_PostTokenBalances :: "string list"
  tm_LogMessages :: "string list"
  tm_LoadedAddresses :: LoadedAddresses
  tm_Status :: "string option"
  tm_Rewards :: "string option"
  tm_ComputeUnitsConsumed :: u64

record TransactionDetail =
  dt_Signature :: string
  dt_Slot :: u64
  dt_BlockTime :: int
  dt_Meta :: "TransactionMeta option"
  dt_Version :: "string option"
  dt_Message :: "string option"
  dt_RecentBlockhash :: string

record BlockResult =
  bl_ParentSlot :: u64
  bl_BlockTime :: int
  bl_BlockHeight :: u64
  bl_BlockHash :: string
  bl_PreviousBlockhash :: string
  bl_Signatures :: "string list"
  bl_Transactions :: "TransactionDetail list"

record Instruction =
  ix_Accounts :: "int list"
  ix_Data :: string
  ix_ProgramIdIndex :: int
  ix_StackHeight :: "string option"

record TransactionHeader =
  th_NumReadonlySignedAccounts :: int
  th_NumReadonlyUnsignedAccounts :: int
  th_NumRequiredSignatures :: int

record TransactionMessage =
  ms_AccountKeys :: "string list"
  ms_AddressTableLookups :: "string list"
  ms_Header :: TransactionHeader
  ms_Instructions :: "Instruction list"
  ms_RecentBlockhash :: string

text \<open>A nil list of signatures is \<open>None\<close>, which the client tells from an empty one.\<close>

record SolTransaction =
  sx_Message :: TransactionMessage
  sx_Signatures :: "string list option"

record TransactionResult =
  tx_Slot :: u64
  tx_Version :: "string option"
  tx_BlockTime :: "int option"
  tx_Transaction :: SolTransaction
  tx_Meta :: TransactionMeta

record PrioritizationFee =
  pf_Slot :: u64
  pf_PrioritizationFee :: u64

record SignatureInfo =
  si_Signature :: string
  si_Slot :: u64
  si_Error :: "string option"
  si_Memo :: "string option"
  si_BlockTime :: "int option"
  si_ConfirmationStatus :: "string option"

record SolanaTransferTx =
  st_FromAddress :: string
  st_ToAddress :: string
  st_ContractAddress :: string
  st_Value :: string
  st_FeePayer :: string
  st_CreateAta :: bool
  st_RecentBlockhash :: string
  st_Decimals :: byte

record UnsignedEnvelope =
  en_MessageHex :: string
  en_NumRequiredSignatures :: int
  en_SignerKeys :: "string list"
  en_Signatures :: "string \<rightharpoonup> string"
  en_RecentBlockhash :: string

record ParsedTransfer =
  pt_From :: string
  pt_To :: string
  pt_Amount :: string
  pt_ContractAddress :: string
  pt_TxType :: u32
  pt_Fee :: string

record tokenBalanceEntry =
  tbe_AccountIndex :: int
  tbe_Mint :: string
  tbe_Owner :: string
  tbe_Amount :: string            \<comment> \<open>\<open>UITokenAmount.Amount\<close>\<close>

section \<open>Amounts\<close>

definition wrappedSOLMint :: string where
  "wrappedSOLMint = ''So11111111111111111111111111111111111111112''"

definition isNativeSOL :: "string \<Rightarrow> bool" where
  "isNativeSOL contract = (let c = TrimSpace contract in c = [] \<or> c = wrappedSOLMint)"

definition parseUintAmount :: "string \<Rightarrow> u64 res" where
  "parseUintAmount raw0 =
     (let raw = TrimSpace raw0 in
      if raw = [] then Inl (Errorf ''empty amount'')
      else (case big_SetString 10 raw of
          None \<Rightarrow> Inl (Errorf (''invalid amount '' @ quote raw))
        | Some v \<Rightarrow>
            if v < 0 \<or> \<not> IsUint64 v then Inl (Errorf (''amount out of range: '' @ raw))
            else Inr (big_Uint64 v)))"

definition amountString :: "u64 \<Rightarrow> string" where
  "amountString v = FormatUint v"

definition parseBigInt :: "string \<Rightarrow> int" where
  "parseBigInt s0 =
     (let s = TrimSpace s0 in
      if s = [] then 0 else (case big_SetString 10 s of None \<Rightarrow> 0 | Some v \<Rightarrow> v))"

section \<open>Transfers\<close>

text \<open>
  What the parser uses of the libraries: base58, the ids of the two programs, and the conversion of a
  JSON value to a balance entry. The order in which Go visits the keys of a map is not determined: the
  function \<open>map_order\<close> stands for it.
\<close>

record solparse =
  sol58_Decode :: "string \<Rightarrow> byte list res"
  system_ProgramID :: string
  token_ProgramID :: string
  as_tokenBalance :: "string \<Rightarrow> tokenBalanceEntry res"
  map_order :: "(string \<times> string) list \<Rightarrow> (string \<times> string) list"

definition txTypeNative :: u32 where "txTypeNative = 1"
definition txTypeSPL :: u32 where "txTypeSPL = 2"
definition tokenIxTransfer :: byte where "tokenIxTransfer = 3"
definition tokenIxTransferChecked :: byte where "tokenIxTransferChecked = 12"
definition token2022ProgramID :: string where
  "token2022ProgramID = ''TokenzQdBNbLqP5VEhdkAS6EPFLC1PHnBqCXEpPxuEb''"

definition decodeTokenBalances :: "solparse \<Rightarrow> string list \<Rightarrow> tokenBalanceEntry list" where
  "decodeTokenBalances P raw =
     List.map_filter (\<lambda>item. case as_tokenBalance P item of
         Inl err \<Rightarrow> None
       | Inr entry \<Rightarrow> if tbe_Owner entry \<noteq> [] \<and> tbe_Mint entry \<noteq> [] then Some entry else None) raw"

type_synonym balKey = "string \<times> string"       \<comment> \<open>owner and mint\<close>

definition bal_key :: "tokenBalanceEntry \<Rightarrow> balKey" where
  "bal_key b = (tbe_Owner b, tbe_Mint b)"

definition balance_map :: "tokenBalanceEntry list \<Rightarrow> balKey \<rightharpoonup> int" where
  "balance_map bs = foldl (\<lambda>m b. m(bal_key b \<mapsto> parseBigInt (tbe_Amount b))) Map.empty bs"

definition amount_of :: "(balKey \<rightharpoonup> int) \<Rightarrow> balKey \<Rightarrow> int" where
  "amount_of m k = (case m k of None \<Rightarrow> 0 | Some x \<Rightarrow> x)"

text \<open>The variables of the loop: sender, receiver, mint and amount.\<close>

type_synonym spl_state = "string \<times> string \<times> string \<times> string"

fun spl_step :: "(balKey \<Rightarrow> int) \<Rightarrow> balKey \<Rightarrow> spl_state \<Rightarrow> spl_state" where
  "spl_step diff (owner, mnt) (fromOwner, toOwner, mint, amount) =
     (if diff (owner, mnt) > 0 then (fromOwner, owner, mnt, FormatInt (diff (owner, mnt)))
      else if diff (owner, mnt) < 0
      then (owner, toOwner, if mint = [] then mnt else mint,
            if amount = [] then FormatInt (- diff (owner, mnt)) else amount)
      else (fromOwner, toOwner, mint, amount))"

definition parseSPLFromTokenBalances :: "solparse \<Rightarrow> TransactionMeta \<Rightarrow> ParsedTransfer option" where
  "parseSPLFromTokenBalances P meta =
     (let pre = decodeTokenBalances P (tm_PreTokenBalances meta);
          post = decodeTokenBalances P (tm_PostTokenBalances meta) in
      if pre = [] \<and> post = [] then None
      else
        (let preMap = balance_map pre; postMap = balance_map post;
             keys = map_order P (remdups (map bal_key (pre @ post)));
             diff = (\<lambda>k. amount_of postMap k - amount_of preMap k) in
         case fold (spl_step diff) keys ([], [], [], []) of (fromOwner, toOwner, mint, amount) \<Rightarrow>
           if fromOwner = [] \<or> toOwner = [] \<or> amount = [] \<or> amount = ''0'' then None
           else Some \<lparr>pt_From = fromOwner, pt_To = toOwner, pt_Amount = amount, pt_ContractAddress = mint,
             pt_TxType = txTypeSPL, pt_Fee = []\<rparr>))"

text \<open>A negative index, which the checks let through, panics.\<close>

definition accountAt :: "string list \<Rightarrow> int list \<Rightarrow> nat \<Rightarrow> string go" where
  "accountAt accounts idxs i =
     (if i \<ge> length idxs then Ret []
      else if idxs ! i \<ge> int (length accounts) then Ret []
      else index accounts (idxs ! i))"

definition le_u64 :: "byte list \<Rightarrow> u64" where
  "le_u64 bs = word_of_nat (le_nat bs)"

definition parseTokenInstruction :: "string list \<Rightarrow> Instruction \<Rightarrow> byte list \<Rightarrow> ParsedTransfer option go" where
  "parseTokenInstruction accounts instruction data =
     bind_go (index data 0) (\<lambda>op.
      let at = accountAt accounts (ix_Accounts instruction); amount = le_u64 (take 8 (drop 1 data)) in
      if op = tokenIxTransfer
      then (if length data < 9 \<or> length (ix_Accounts instruction) < 3 then Ret None
            else bind_go (at 2) (\<lambda>from. bind_go (at 1) (\<lambda>to.
              Ret (Some \<lparr>pt_From = from, pt_To = to, pt_Amount = amountString amount, pt_ContractAddress = [],
                pt_TxType = txTypeSPL, pt_Fee = []\<rparr>))))
      else if op = tokenIxTransferChecked
      then (if length data < 10 \<or> length (ix_Accounts instruction) < 4 then Ret None
            else bind_go (at 3) (\<lambda>from. bind_go (at 2) (\<lambda>to. bind_go (at 1) (\<lambda>mint.
              Ret (Some \<lparr>pt_From = from, pt_To = to, pt_Amount = amountString amount, pt_ContractAddress = mint,
                pt_TxType = txTypeSPL, pt_Fee = []\<rparr>)))))
      else Ret None)"

definition system_transfer :: "string list \<Rightarrow> Instruction \<Rightarrow> byte list \<Rightarrow> string \<Rightarrow> ParsedTransfer go" where
  "system_transfer accounts instruction data fee =
     (let at = accountAt accounts (ix_Accounts instruction); lamports = le_u64 (take 8 (drop 4 data)) in
      bind_go (if length (ix_Accounts instruction) \<ge> 2
               then bind_go (at 0) (\<lambda>f. bind_go (at 1) (\<lambda>t. Ret (f, t))) else Ret ([], [])) (\<lambda>(fromAddr, toAddr).
      Ret \<lparr>pt_From = fromAddr, pt_To = toAddr, pt_Amount = amountString lamports, pt_ContractAddress = [],
           pt_TxType = txTypeNative, pt_Fee = fee\<rparr>))"

fun instructions_loop :: "solparse \<Rightarrow> string list \<Rightarrow> string \<Rightarrow> Instruction list \<Rightarrow> ParsedTransfer option go" where
  "instructions_loop P accounts fee [] = Ret None"
| "instructions_loop P accounts fee (instruction # rest) =
     (if ix_ProgramIdIndex instruction \<ge> int (length accounts) then instructions_loop P accounts fee rest
      else bind_go (index accounts (ix_ProgramIdIndex instruction)) (\<lambda>programID.
        case sol58_Decode P (ix_Data instruction) of
          Inl err \<Rightarrow> instructions_loop P accounts fee rest
        | Inr data \<Rightarrow>
            if data = [] then instructions_loop P accounts fee rest
            else if programID = system_ProgramID P
            then (if length data \<ge> 12 \<and> le_nat (take 4 data) = 2
                  then bind_go (system_transfer accounts instruction data fee) (\<lambda>t. Ret (Some t))
                  else instructions_loop P accounts fee rest)
            else if programID = token_ProgramID P \<or> programID = token2022ProgramID
            then bind_go (parseTokenInstruction accounts instruction data) (\<lambda>t. case t of
                   Some transfer \<Rightarrow> Ret (Some (transfer\<lparr>pt_Fee := fee\<rparr>))
                 | None \<Rightarrow> instructions_loop P accounts fee rest)
            else instructions_loop P accounts fee rest))"

definition parseTransactionResult :: "solparse \<Rightarrow> TransactionResult option \<Rightarrow> ParsedTransfer option go" where
  "parseTransactionResult P txResult = (case txResult of
       None \<Rightarrow> Ret None
     | Some t \<Rightarrow>
         (let fee = amountString (tm_Fee (tx_Meta t)) in
          case parseSPLFromTokenBalances P (tx_Meta t) of
            Some transfer \<Rightarrow> Ret (Some (transfer\<lparr>pt_Fee := fee\<rparr>))
          | None \<Rightarrow> instructions_loop P (ms_AccountKeys (sx_Message (tx_Transaction t))) fee
                      (ms_Instructions (sx_Message (tx_Transaction t)))))"

definition solanaTxStatus :: "string option \<Rightarrow> u32" where
  "solanaTxStatus metaErr =
     (if metaErr \<noteq> None then status_code TxStatus_Failed else status_code TxStatus_Success)"

definition toWalletTransaction :: "string \<Rightarrow> ParsedTransfer option \<Rightarrow> string option \<Rightarrow> TransactionList" where
  "toWalletTransaction hash transfer metaErr =
     (let status = solanaTxStatus metaErr in case transfer of
        None \<Rightarrow> zero_TransactionList\<lparr>TxHash := hash, Status := status\<rparr>
      | Some t \<Rightarrow> zero_TransactionList
          \<lparr>TxHash := hash, Fee := pt_Fee t, Status := status, TxType := pt_TxType t,
           ContractAddress := pt_ContractAddress t,
           TransferKind := (if pt_TxType t = txTypeSPL then ''spl_transfer'' else ''sol_transfer''),
           From := [\<lparr>fa_Address = pt_From t, fa_Amount = pt_Amount t\<rparr>],
           To := [\<lparr>ta_Address = pt_To t, ta_Amount = pt_Amount t\<rparr>]\<rparr>)"

end
