(* ===== verification/Sol_Client.thy ===== *)
theory Sol_Client
  imports Sol_Types "HOL-Library.Multiset"
begin

text \<open>
  The JSON-RPC client of the Solana node (\<open>chain/solana/solana_client.go\<close>). The HTTP library is the
  record \<open>solclient\<close>: for each method, what a request with its parameters returns, which is the
  library's error, or the status and the decoded response. The hook after each response and the checks of
  every method are the code's.
\<close>

section \<open>Requests\<close>

datatype sval = SStr string | SInt int | SBool bool | SObj "(string \<times> sval) list"

fun sval_text :: "sval \<Rightarrow> string" where
  "sval_text (SStr s) = s"
| "sval_text (SInt i) = FormatInt i"
| "sval_text (SBool b) = (if b then ''true'' else ''false'')"
| "sval_text (SObj fs) = concat (map (\<lambda>(k, v). k @ '':'' @ sval_text v @ '','') fs)"

text \<open>Fields marked \<open>omitempty\<close>.\<close>

definition opt_str :: "string \<Rightarrow> string \<Rightarrow> (string \<times> sval) list" where
  "opt_str k s = (if s = [] then [] else [(k, SStr s)])"

definition opt_nat :: "string \<Rightarrow> u64 \<Rightarrow> (string \<times> sval) list" where
  "opt_nat k n = (if n = 0 then [] else [(k, SInt (uint n))])"

definition opt_bool :: "string \<Rightarrow> bool \<Rightarrow> (string \<times> sval) list" where
  "opt_bool k b = (if b then [(k, SBool b)] else [])"

text \<open>The configurations of the requests, and the parameter each is sent as.\<close>

record GetSlotRequest =
  gs_Commitment :: string

definition slot_params :: "GetSlotRequest \<Rightarrow> sval" where
  "slot_params c = SObj (opt_str ''commitment'' (gs_Commitment c))"

record GetBlockRequest =
  gb_Commitment :: string
  gb_Encoding :: string
  gb_MaxSupportedTransactionVersion :: int
  gb_TransactionDetails :: string
  gb_Rewards :: bool

definition block_params :: "GetBlockRequest \<Rightarrow> sval" where
  "block_params c = SObj (opt_str ''commitment'' (gb_Commitment c) @
     [(''encoding'', SStr (gb_Encoding c)), (''maxSupportedTransactionVersion'', SInt (gb_MaxSupportedTransactionVersion c)),
      (''transactionDetails'', SStr (gb_TransactionDetails c)), (''rewards'', SBool (gb_Rewards c))])"

record GetFeeForMessageRequest =
  gf_Commitment :: string
  gf_MinContextSlot :: u64

definition fee_params :: "GetFeeForMessageRequest \<Rightarrow> sval" where
  "fee_params c = SObj (opt_str ''commitment'' (gf_Commitment c) @ opt_nat ''minContextSlot'' (gf_MinContextSlot c))"

record GetSignaturesRequest =
  gq_Commitment :: string
  gq_MinContextSlot :: u64
  gq_Limit :: u64
  gq_Before :: string
  gq_Until :: string

definition signatures_params :: "GetSignaturesRequest \<Rightarrow> sval" where
  "signatures_params c = SObj (opt_str ''commitment'' (gq_Commitment c) @ opt_nat ''minContextSlot'' (gq_MinContextSlot c) @
     opt_nat ''limit'' (gq_Limit c) @ opt_str ''before'' (gq_Before c) @ opt_str ''until'' (gq_Until c))"

section \<open>Responses\<close>

text \<open>
  All the responses have the same members; some results are a value with the slot it was read at.
\<close>

record 'a sol_response =
  rs_Jsonrpc :: string
  rs_ID :: int
  rs_Error :: "RPCError option"
  rs_Result :: 'a

record 'a sol_context =
  cx_Slot :: u64
  cx_Value :: 'a

record BlockhashValue =
  bv_Blockhash :: string
  bv_LastValidBlockHeight :: u64

record SimAccount =
  sa_Executable :: bool
  sa_Lamports :: u64
  sa_Owner :: string
  sa_RentEpoch :: u64
  sa_Data :: "string list"

record SimulateResult =
  sr_Err :: "string option"
  sr_Logs :: "string list"
  sr_UnitsConsumed :: u64
  sr_Accounts :: "SimAccount list"
  sr_ReturnData :: "(string \<times> string list) option"        \<comment> \<open>program id and data\<close>
  sr_InnerInstructions :: "(16 word \<times> string list) list"      \<comment> \<open>index and instructions\<close>

type_synonym GetHealthResponse = "string sol_response"
type_synonym GetAccountInfoResponse = "AccountInfo sol_context sol_response"
type_synonym GetBalanceResponse = "u64 sol_context sol_response"
type_synonym BlockHeightResponse = "u64 sol_response"
type_synonym GetSlotResponse = "u64 sol_response"
type_synonym GetBlocksWithLimitResponse = "u64 list option sol_response"
type_synonym GetBlockResponse = "BlockResult sol_response"
type_synonym GetTransactionResponse = "TransactionResult sol_response"
type_synonym GetFeeForMessageResponse = "u64 option sol_context sol_response"
type_synonym getRecentPrioritizationFeesResponse = "PrioritizationFee list sol_response"
type_synonym GetSignaturesResponse = "SignatureInfo list sol_response"
type_synonym SimulateTransactionResponse = "SimulateResult sol_response"
type_synonym SolSendResponse = "string sol_response"
type_synonym GetLatestBlockhashResponse = "BlockhashValue sol_context sol_response"

type_synonym ('w, 'r) rpc = "sval list \<Rightarrow> 'w \<Rightarrow> (int \<times> 'r) res \<times> 'w"

record AccountsInfo =
  aci_Addresses :: "string list"
  aci_Encoding :: string

record SimulateRequest =
  sq_Commitment :: string
  sq_SigVerify :: bool
  sq_ReplaceRecentBlockhash :: bool
  sq_MinContextSlot :: u64
  sq_Encoding :: string
  sq_Accounts :: "AccountsInfo option"

record SolSendRequest =
  sd_Encoding :: string
  sd_Commitment :: string
  sd_SkipPreflight :: bool
  sd_PreflightCommitment :: string
  sd_MaxRetries :: u64
  sd_MinContextSlot :: u64

record 'w solclient =
  sol_url :: string
  rpc_getHealth :: "('w, GetHealthResponse) rpc"
  rpc_getAccountInfo :: "('w, GetAccountInfoResponse) rpc"
  rpc_getBalance :: "('w, GetBalanceResponse) rpc"
  rpc_getBlockHeight :: "('w, BlockHeightResponse) rpc"
  rpc_getSlot :: "('w, GetSlotResponse) rpc"
  rpc_getBlocksWithLimit :: "('w, GetBlocksWithLimitResponse) rpc"
  rpc_getBlock :: "('w, GetBlockResponse) rpc"
  rpc_getTransaction :: "('w, GetTransactionResponse) rpc"
  rpc_getFeeForMessage :: "('w, GetFeeForMessageResponse) rpc"
  rpc_getRecentPrioritizationFees :: "('w, getRecentPrioritizationFeesResponse) rpc"
  rpc_getSignaturesForAddress :: "('w, GetSignaturesResponse) rpc"
  rpc_simulateTransaction :: "('w, SimulateTransactionResponse) rpc"
  rpc_sendTransaction :: "('w, SolSendResponse) rpc"
  rpc_getLatestBlockhash :: "('w, GetLatestBlockhashResponse) rpc"
  sol_ctx_Err :: "'w \<Rightarrow> goerror option \<times> 'w"       \<comment> \<open>whether the deadline of a range has passed\<close>
  sol_sleep :: "int \<Rightarrow> 'w \<Rightarrow> unit \<times> 'w"              \<comment> \<open>seconds\<close>

definition errHTTPError :: string where
  "errHTTPError = ''aptos http error''"

definition after_sol_response :: "string \<Rightarrow> (int \<times> 'a) res \<Rightarrow> (int \<times> 'a) res" where
  "after_sol_response url r = bind_res r (\<lambda>(statusCode, a).
     let target = ''POST '' @ url @ ''/: '' @ errHTTPError in
     if statusCode \<ge> 400
     then Inl (Errorf (FormatInt statusCode @
            (if statusCode = 404 then '' resource not found ''
             else if statusCode \<ge> 500 then '' server error '' else '' cannot '') @ target))
     else Inr (statusCode, a))"

definition sol_call :: "('w solclient \<Rightarrow> ('w, 'a sol_response) rpc) \<Rightarrow> string \<Rightarrow> 'w solclient \<Rightarrow> sval list \<Rightarrow>
   ('w, (int \<times> 'a sol_response) res) io" where
  "sol_call method name s params =
     bind_io (ext (Ev name (map sval_text params)) (method s params)) (\<lambda>r. ret_io (after_sol_response (sol_url s) r))"

definition rpc_error_text :: "RPCError \<Rightarrow> string" where
  "rpc_error_text e = ''RPC error: code='' @ FormatInt (rpe_Code e) @ '', message='' @ rpe_Message e"

text \<open>The checks shared by the methods: the request's error, the status, the response's error.\<close>

definition checked :: "string \<Rightarrow> (RPCError \<Rightarrow> goerror) \<Rightarrow> (int \<times> 'a sol_response) res \<Rightarrow> 'a res" where
  "checked what onError r = (case r of
       Inl err \<Rightarrow> Inl (wrap_err ''request failed: '' err)
     | Inr (status, rsp) \<Rightarrow>
         if status > 399 then Inl (Errorf (''failed to '' @ what @ '': '' @ errHTTPError))
         else (case rs_Error rsp of Some err \<Rightarrow> Inl (onError err) | None \<Rightarrow> Inr (rs_Result rsp)))"

definition sol_get ::
  "('w solclient \<Rightarrow> ('w, 'a sol_response) rpc) \<Rightarrow> string \<Rightarrow> string \<Rightarrow> 'w solclient \<Rightarrow> sval list \<Rightarrow> ('a \<Rightarrow> 'b res) \<Rightarrow> ('w, 'b res) io" where
  "sol_get method name what s params k = bind_io (sol_call method name s params) (\<lambda>r.
     ret_io (bind_res (checked what (\<lambda>e. Errorf (rpc_error_text e)) r) k))"

section \<open>The methods\<close>

definition HealthOk :: string where "HealthOk = ''ok''"
definition HealthBehind :: string where "HealthBehind = ''behind''"
definition HealthUnknown :: string where "HealthUnknown = ''unknown''"
definition Finalized :: string where "Finalized = ''finalized''"
definition Confirmed :: string where "Confirmed = ''confirmed''"
definition Full :: string where "Full = ''full''"
definition Signatures :: string where "Signatures = ''signatures''"
definition detail_None :: string where "detail_None = ''none''"
definition blockLimit :: nat where "blockLimit = 500000"

text \<open>The one method whose value means something beside an error.\<close>

definition GetHealth :: "'w solclient \<Rightarrow> ('w, string \<times> goerror option) io" where
  "GetHealth s = bind_io (sol_call rpc_getHealth ''getHealth'' s []) (\<lambda>r. ret_io (case r of
       Inl err \<Rightarrow> ([], Some (wrap_err ''request failed: '' err))
     | Inr (status, rsp) \<Rightarrow>
         if status > 399 then ([], Some (Errorf (''failed to get health: '' @ errHTTPError)))
         else (case rs_Error rsp of
             Some err \<Rightarrow> if rpe_Code err = - 32005 then (HealthBehind, None)
                         else (HealthUnknown, Some (Errorf (rpc_error_text err)))
           | None \<Rightarrow>
               let v = rs_Result rsp in
               if v = [] then (HealthUnknown, Some (Errorf ''invalid response: empty result''))
               else if v = HealthOk \<or> v = HealthBehind then (v, None)
               else (HealthUnknown, Some (Errorf (''unknown health status: '' @ v))))))"

definition sol_GetAccountInfo :: "'w solclient \<Rightarrow> string \<Rightarrow> ('w, AccountInfo res) io" where
  "sol_GetAccountInfo s inputAddr =
     (let dealAddr = TrimSpace inputAddr in
      if dealAddr = [] then ret_io (Inl (Errorf ''invalid input: empty address''))
      else sol_get rpc_getAccountInfo ''getAccountInfo'' ''get account info'' s
             [SStr dealAddr, SObj [(''encoding'', SStr ''base64'')]] (\<lambda>r.
             let accountInfo = cx_Value r in
             if ai_Owner accountInfo = [] then Inl (Errorf ''invalid response: empty owner'')
             else if length (ai_Data accountInfo) < 2 then Inl (Errorf ''invalid response: missing data encoding'')
             else if ai_Data accountInfo ! 1 \<noteq> ''base64''
             then Inl (Errorf (''unexpected data encoding: '' @ ai_Data accountInfo ! 1))
             else Inr accountInfo))"

text \<open>A status above 399 never gets here: the hook has made it an error.\<close>

definition sol_GetBalance :: "'w solclient \<Rightarrow> string \<Rightarrow> ('w, u64 res) io" where
  "sol_GetBalance s inputAddr =
     (let dealAddr = TrimSpace inputAddr in
      if dealAddr = [] then ret_io (Inl (Errorf ''invalid input: empty address''))
      else sol_get rpc_getBalance ''getBalance'' ''get balance'' s [SStr dealAddr] (\<lambda>r. Inr (cx_Value r)))"

definition GetBlockHeight :: "'w solclient \<Rightarrow> ('w, u64 res) io" where
  "GetBlockHeight s = sol_get rpc_getBlockHeight ''getBlockHeight'' ''get block height'' s [] (\<lambda>h.
     if h = 0 then Inl (Errorf ''invalid block height: got 0'') else Inr h)"

definition GetSlot :: "'w solclient \<Rightarrow> string \<Rightarrow> ('w, u64 res) io" where
  "GetSlot s commitment =
     (if commitment = [] then ret_io (Inl (Errorf ''invalid input: empty commitment''))
      else sol_get rpc_getSlot ''getSlot'' ''get slot'' s [slot_params \<lparr>gs_Commitment = commitment\<rparr>] (\<lambda>slot.
             if slot = 0 then Inl (Errorf ''invalid slot number: got 0'') else Inr slot))"

definition GetBlocksWithLimit :: "'w solclient \<Rightarrow> u64 \<Rightarrow> u64 \<Rightarrow> ('w, u64 list res) io" where
  "GetBlocksWithLimit s startSlot limit =
     (if startSlot = 0 then ret_io (Inl (Errorf ''invalid input: start slot cannot be 0''))
      else if limit = 0 then ret_io (Inl (Errorf ''invalid input: limit cannot be 0''))
      else if unat limit > blockLimit
      then ret_io (Inl (Errorf (''limit must not exceed '' @ FormatInt (int blockLimit) @ '' blocks'')))
      else sol_get rpc_getBlocksWithLimit ''getBlocksWithLimit'' ''get blocks with limit'' s
             [SInt (uint startSlot), SInt (uint limit)] (\<lambda>r. case r of
               None \<Rightarrow> Inr []
             | Some slots \<Rightarrow>
                 if length slots > unat limit
                 then Inl (Errorf (''received more blocks than requested limit: got '' @ FormatInt (int (length slots)) @
                        '', want <= '' @ FormatUint limit))
                 else Inr slots))"

definition GetBlockBySlot :: "'w solclient \<Rightarrow> u64 \<Rightarrow> string \<Rightarrow> ('w, BlockResult res) io" where
  "GetBlockBySlot s slot detailType =
     bind_io (sol_call rpc_getBlock ''getBlock'' s
         [SInt (uint slot), block_params \<lparr>gb_Commitment = Finalized, gb_Encoding = ''json'',
            gb_MaxSupportedTransactionVersion = 0, gb_TransactionDetails = detailType, gb_Rewards = False\<rparr>])
       (\<lambda>r. ret_io (checked ''get block''
          (\<lambda>e. Errorf (''RPC error: (code: '' @ FormatInt (rpe_Code e) @ '') '' @ rpe_Message e)) r))"

definition sol_GetTransaction :: "'w solclient \<Rightarrow> string \<Rightarrow> ('w, TransactionResult res) io" where
  "sol_GetTransaction s signature0 =
     (let signature = TrimSpace signature0 in
      if signature = [] then ret_io (Inl (Errorf ''invalid input: empty signature''))
      else if length signature < 88 \<or> length signature > 90
      then ret_io (Inl (Errorf (''invalid signature length: expected 88-90 chars, got '' @ FormatInt (int (length signature)))))
      else bind_io (sol_call rpc_getTransaction ''getTransaction'' s
          [SStr signature, SObj [(''encoding'', SStr ''json''), (''commitment'', SStr Finalized),
             (''maxSupportedTransactionVersion'', SInt 0)]]) (\<lambda>r. ret_io (
        bind_res (checked ''get transaction'' (\<lambda>e.
            if rpe_Code e = - 32004 then Errorf (''transaction not found: '' @ signature) else Errorf (rpc_error_text e)) r)
          (\<lambda>t. if sx_Signatures (tx_Transaction t) = None then Inl (Errorf ''invalid response: empty transaction data'')
               else Inr t))))"

definition GetFeeForMessage :: "'w solclient \<Rightarrow> string \<Rightarrow> ('w, u64 res) io" where
  "GetFeeForMessage s message =
     (if message = [] then ret_io (Inl (Errorf ''invalid input: empty message''))
      else sol_get rpc_getFeeForMessage ''getFeeForMessage'' ''get fee for message'' s
             [SStr message, fee_params \<lparr>gf_Commitment = Finalized, gf_MinContextSlot = 0\<rparr>] (\<lambda>v. case cx_Value v of
               None \<Rightarrow> Inl (Errorf ''invalid message or unable to estimate fee'')
             | Some fee \<Rightarrow> Inr fee))"

definition GetRecentPrioritizationFees :: "'w solclient \<Rightarrow> ('w, PrioritizationFee list res) io" where
  "GetRecentPrioritizationFees s =
     sol_get rpc_getRecentPrioritizationFees ''getRecentPrioritizationFees'' ''get prioritization fees'' s [] Inr"

text \<open>The upper quartile; three quarters of the length are a number \<open>float64\<close> holds exactly.\<close>

definition GetSuggestedPriorityFee :: "PrioritizationFee list \<Rightarrow> u64 go" where
  "GetSuggestedPriorityFee fees =
     (if fees = [] then Ret 0
      else (let priorityFees = sort (map pf_PrioritizationFee fees) in
            index priorityFees (int (length priorityFees * 3 div 4))))"

definition GetTxForAddress ::
  "'w solclient \<Rightarrow> string \<Rightarrow> string \<Rightarrow> u64 \<Rightarrow> string \<Rightarrow> string \<Rightarrow> ('w, SignatureInfo list res) io" where
  "GetTxForAddress s address commitment limit beforeSignature untilSignature =
     (if address = [] then ret_io (Inl (Errorf ''empty address''))
      else sol_get rpc_getSignaturesForAddress ''getSignaturesForAddress'' ''get signatures'' s
             [SStr address, signatures_params \<lparr>gq_Commitment = commitment, gq_MinContextSlot = 0, gq_Limit = limit,
                gq_Before = beforeSignature, gq_Until = untilSignature\<rparr>] Inr)"

definition simulate_params :: "SimulateRequest \<Rightarrow> sval" where
  "simulate_params c = SObj (opt_str ''commitment'' (sq_Commitment c) @ opt_bool ''sigVerify'' (sq_SigVerify c) @
     opt_bool ''replaceRecentBlockhash'' (sq_ReplaceRecentBlockhash c) @ opt_nat ''minContextSlot'' (sq_MinContextSlot c) @
     opt_str ''encoding'' (sq_Encoding c) @
     (case sq_Accounts c of None \<Rightarrow> []
      | Some a \<Rightarrow> [(''accounts'', SObj ([(''addresses'', SStr (Join (aci_Addresses a) '',''))] @ opt_str ''encoding'' (aci_Encoding a)))]))"

definition SimulateTransaction :: "'w solclient \<Rightarrow> string \<Rightarrow> SimulateRequest option \<Rightarrow> ('w, SimulateResult res) io" where
  "SimulateTransaction s signedTx config0 =
     (if signedTx = [] then ret_io (Inl (Errorf ''invalid input: empty transaction''))
      else
        (let config = (case config0 of Some c \<Rightarrow> c
             | None \<Rightarrow> \<lparr>sq_Commitment = Finalized, sq_SigVerify = False, sq_ReplaceRecentBlockhash = False,
                 sq_MinContextSlot = 0, sq_Encoding = ''base64'', sq_Accounts = None\<rparr>) in
         sol_get rpc_simulateTransaction ''simulateTransaction'' ''simulate transaction'' s
           [SStr signedTx, simulate_params config] (\<lambda>v. case sr_Err v of
             Some err \<Rightarrow> Inl (Errorf (''simulation failed: '' @ err))
           | None \<Rightarrow>
               if sr_UnitsConsumed v = 0 \<and> sr_Logs v = [] then Inl (Errorf ''empty simulation result'') else Inr v)))"

fun first_index :: "('a \<Rightarrow> bool) \<Rightarrow> nat \<Rightarrow> 'a list \<Rightarrow> nat option" where
  "first_index p i [] = None"
| "first_index p i (x # xs) = (if p x then Some i else first_index p (Suc i) xs)"

definition validateSimulateResponse :: "SimulateTransactionResponse option \<Rightarrow> goerror option" where
  "validateSimulateResponse resp = (case resp of
       None \<Rightarrow> Some (Errorf ''empty response'')
     | Some r \<Rightarrow> (case rs_Error r of
           Some e \<Rightarrow> Some (Errorf (rpc_error_text e))
         | None \<Rightarrow>
             if rs_Jsonrpc r \<noteq> ''2.0'' then Some (Errorf (''invalid jsonrpc version: '' @ rs_Jsonrpc r))
             else (case sr_Err (rs_Result r) of
                 Some e \<Rightarrow> Some (Errorf (''simulation failed: '' @ e))
               | None \<Rightarrow>
                   if sr_UnitsConsumed (rs_Result r) = 0 then Some (Errorf ''invalid units consumed: 0'')
                   else (case first_index (\<lambda>a. sa_Owner a = []) 0 (sr_Accounts (rs_Result r)) of
                       Some i \<Rightarrow> Some (Errorf (''invalid account owner at index '' @ FormatInt (int i)))
                     | None \<Rightarrow> (case sr_ReturnData (rs_Result r) of
                           Some ([], d) \<Rightarrow> Some (Errorf ''invalid return data: empty program id'')
                         | _ \<Rightarrow> (case first_index (\<lambda>(i, ixs). ixs = []) 0 (sr_InnerInstructions (rs_Result r)) of
                               Some i \<Rightarrow> Some (Errorf (''empty instructions for inner instruction at index '' @ FormatInt (int i)))
                             | None \<Rightarrow> None))))))"

definition send_params :: "SolSendRequest \<Rightarrow> sval" where
  "send_params c = SObj (opt_str ''encoding'' (sd_Encoding c) @ opt_str ''commitment'' (sd_Commitment c) @
     opt_bool ''skipPreflight'' (sd_SkipPreflight c) @ opt_str ''preflightCommitment'' (sd_PreflightCommitment c) @
     opt_nat ''maxRetries'' (sd_MaxRetries c) @ opt_nat ''minContextSlot'' (sd_MinContextSlot c))"

definition sol_send :: "'w solclient \<Rightarrow> string \<Rightarrow> SolSendRequest option \<Rightarrow> ('w, string res) io" where
  "sol_send s signedTx config0 =
     (if signedTx = [] then ret_io (Inl (Errorf ''invalid input: empty transaction''))
      else
        (let config = (case config0 of Some c \<Rightarrow> c
             | None \<Rightarrow> \<lparr>sd_Encoding = ''base58'', sd_Commitment = Finalized, sd_SkipPreflight = False,
                 sd_PreflightCommitment = [], sd_MaxRetries = 0, sd_MinContextSlot = 0\<rparr>) in
         sol_get rpc_sendTransaction ''sendTransaction'' ''send transaction'' s [SStr signedTx, send_params config] (\<lambda>v.
           if v = [] then Inl (Errorf ''empty transaction signature returned'') else Inr v)))"

definition GetLatestBlockhash :: "'w solclient \<Rightarrow> string \<Rightarrow> ('w, string res) io" where
  "GetLatestBlockhash s commitmentType =
     sol_get rpc_getLatestBlockhash ''getLatestBlockhash'' ''get latest blockhash'' s
       [SObj [(''commitment'', SStr commitmentType)]] (\<lambda>r.
       let blockhash = bv_Blockhash (cx_Value r) in
       if blockhash = [] then Inl (Errorf ''invalid blockhash response: empty blockhash'') else Inr blockhash)"

text \<open>
  Creating a nonce account is not done: whatever the request, the answer is no response and no error.
\<close>

record CreateNonceAccountRequest =
  cn_Payer :: "byte list"
  cn_Authority :: "byte list"

record CreateNonceAccountResponse =
  cn_NonceAccount :: "byte list"
  cn_Nonce :: string
  cn_Signature :: string

definition CreateNonceAccount ::
  "'w solclient \<Rightarrow> CreateNonceAccountRequest \<Rightarrow> ('w, CreateNonceAccountResponse option \<times> goerror option) io" where
  "CreateNonceAccount s req = ret_io (None, None)"

section \<open>Many transactions at once\<close>

text \<open>
  One goroutine for each signature, and at most three attempts in each. The goroutines' attempts are
  interleaved in any order: \<open>pick\<close> chooses, step by step, which of the unfinished ones goes on (the
  limits on their number and rate only exclude some orders). An attempt ends the goroutine with a
  transaction or an error, or sleeps before the next one. After the last attempt there is always one of
  the two, so that the code's message for exhausted retries is never used.
\<close>

definition maxRetries :: nat where "maxRetries = 3"

definition range_attempt :: "'w solclient \<Rightarrow> string \<Rightarrow> nat \<Rightarrow> ('w, TransactionResult res option) io" where
  "range_attempt s signature retry =
     bind_io (ext (Ev ''ctx.Done'' []) (sol_ctx_Err s)) (\<lambda>c. case c of
         Some e \<Rightarrow> ret_io (Some (Inl e))
       | None \<Rightarrow>
           bind_io (sol_GetTransaction s signature) (\<lambda>r. case r of
               Inr tx \<Rightarrow> ret_io (Some (Inr tx))
             | Inl err \<Rightarrow>
                 if retry < maxRetries - 1 \<and> Contains (Error err) ''request failed''
                 then bind_io (ext (Ev ''time.Sleep'' [FormatInt (int retry + 1)]) (sol_sleep s (int retry + 1))) (\<lambda>_. ret_io None)
                 else ret_io (Some (Inl (wrap_err (''failed to get transaction '' @ signature @ '': '') err)))))"

definition without :: "nat \<Rightarrow> 'a list \<Rightarrow> 'a list" where
  "without i xs = take i xs @ drop (Suc i) xs"

fun range_run ::
  "'w solclient \<Rightarrow> (nat \<Rightarrow> nat) \<Rightarrow> nat \<Rightarrow> (string \<times> nat) list \<Rightarrow> TransactionResult list \<Rightarrow> goerror list \<Rightarrow>
   ('w, TransactionResult list \<times> goerror list) io" where
  "range_run s pick 0 pending results errors = ret_io (results, errors)"
| "range_run s pick (Suc n) pending results errors =
     (if pending = [] then ret_io (results, errors)
      else
        (let i = pick n mod length pending; signature = fst (pending ! i); retry = snd (pending ! i) in
         bind_io (range_attempt s signature retry) (\<lambda>r. case r of
             None \<Rightarrow> range_run s pick n (pending[i := (signature, Suc retry)]) results errors
           | Some (Inr tx) \<Rightarrow> range_run s pick n (without i pending) (results @ [tx]) errors
           | Some (Inl e) \<Rightarrow> range_run s pick n (without i pending) results (errors @ [e]))))"

text \<open>The signatures are trimmed in place, up to the first bad one.\<close>

fun trim_signatures :: "nat \<Rightarrow> string list \<Rightarrow> string list \<times> goerror option" where
  "trim_signatures i [] = ([], None)"
| "trim_signatures i (sig # rest) =
     (let t = TrimSpace sig in
      if t = [] then (t # rest, Some (Errorf (''invalid input: empty signature at index '' @ FormatInt (int i))))
      else if length t < 88 \<or> length t > 90
      then (t # rest, Some (Errorf (''invalid signature length at index '' @ FormatInt (int i) @
              '': expected 88-90 chars, got '' @ FormatInt (int (length t)))))
      else (case trim_signatures (Suc i) rest of (ts, e) \<Rightarrow> (t # ts, e)))"

text \<open>The result comes with the caller's slice as the trimming has left it.\<close>

definition GetTransactionRange ::
  "(nat \<Rightarrow> nat) \<Rightarrow> 'w solclient \<Rightarrow> string list \<Rightarrow> ('w, string list \<times> TransactionResult list res) io" where
  "GetTransactionRange pick s inputSignatureList =
     (if inputSignatureList = [] then ret_io ([], Inl (Errorf ''empty signatures''))
      else (case trim_signatures 0 inputSignatureList of
          (sigs, Some e) \<Rightarrow> ret_io (sigs, Inl e)
        | (sigs, None) \<Rightarrow>
            if length sigs = 1
            then bind_io (sol_GetTransaction s (hd sigs)) (\<lambda>r. ret_io (sigs, case r of
                     Inl err \<Rightarrow> Inl (wrap_err ''failed to get single transaction: '' err)
                   | Inr tx \<Rightarrow> Inr [tx]))
            else bind_io (range_run s pick (maxRetries * length sigs) (map (\<lambda>sig. (sig, 0)) sigs) [] []) (\<lambda>(results, errors).
              ret_io (sigs,
                if errors \<noteq> [] then Inl (Errorf (''multiple errors occurred: '' @ Join (map Error errors) ''; ''))
                else
                  (let validResults = filter (\<lambda>r. sx_Signatures (tx_Transaction r) \<noteq> None) results in
                   if validResults = [] then Inl (Errorf ''no valid transactions found'') else Inr validResults)))))"

section \<open>Lemmas\<close>

lemma mset_without: "i < length xs \<Longrightarrow> mset xs = add_mset (xs ! i) (mset (without i xs))"
  by (metis id_take_nth_drop mset.simps(2) mset_append union_mset_add_mset_right without_def)

lemma length_without: "i < length xs \<Longrightarrow> length (without i xs) = length xs - 1"
  by (simp add: without_def)

text \<open>Attempts left over all unfinished goroutines.\<close>

definition attempts_left :: "(string \<times> nat) list \<Rightarrow> nat" where
  "attempts_left pending = sum_list (map (\<lambda>p. maxRetries - snd p) pending)"

lemma attempts_left_mset: "attempts_left pending = sum_mset (image_mset (\<lambda>p. maxRetries - snd p) (mset pending))"
  unfolding attempts_left_def by (metis mset_map sum_mset_sum_list)

lemma attempts_left_without:
  "i < length xs \<Longrightarrow> attempts_left xs = maxRetries - snd (xs ! i) + attempts_left (without i xs)"
  by (simp add: attempts_left_mset mset_without)

definition get_calls :: "event list \<Rightarrow> nat" where
  "get_calls es = count_ev ''getTransaction'' es"

text \<open>A transaction that is the node's answer to a signature.\<close>

definition answered :: "'w solclient \<Rightarrow> string \<Rightarrow> TransactionResult \<Rightarrow> bool" where
  "answered s sig tx \<longleftrightarrow> (\<exists>w1 w2. sol_GetTransaction s sig w1 = (Ret (Inr tx), w2))"

lemma sol_GetTransaction_run:
  "\<exists>r w' es. sol_GetTransaction s sg w = (Ret r, w') \<and> trace w' = trace w @ es \<and> get_calls es \<le> 1"
  by (simp add: sol_GetTransaction_def Let_def sol_call_def bind_io_assoc bind_ext_apply get_calls_def count_ev_def)

lemma answered_signatures: "answered s sg tx \<Longrightarrow> sx_Signatures (tx_Transaction tx) \<noteq> None"
  by (auto simp: answered_def sol_GetTransaction_def Let_def run_iff bind_res_Inr_iff split: if_splits)

lemma range_attempt_run:
  "\<exists>r w' es. range_attempt s sg retry w = (Ret r, w') \<and> trace w' = trace w @ es \<and> get_calls es \<le> 1 \<and>
     (case r of None \<Rightarrow> retry < maxRetries - 1 | Some (Inr tx) \<Rightarrow> answered s sg tx | Some (Inl e) \<Rightarrow> True)"
proof (cases "fst (sol_ctx_Err s (env w))")
  case (Some e)
  then show ?thesis by (simp add: range_attempt_def bind_ext_apply get_calls_def count_ev_def)
next
  case None
  define w1 where "w1 = w\<lparr>env := snd (sol_ctx_Err s (env w)), trace := trace w @ [Ev ''ctx.Done'' []]\<rparr>"
  obtain r w2 es where r: "sol_GetTransaction s sg w1 = (Ret r, w2)" "trace w2 = trace w1 @ es" "get_calls es \<le> 1"
    using sol_GetTransaction_run by metis
  then have "trace w2 = trace w @ Ev ''ctx.Done'' [] # es" and "get_calls (Ev ''ctx.Done'' [] # es) \<le> 1"
    by (simp_all add: w1_def get_calls_def count_ev_def)
  moreover have "answered s sg tx" if "r = Inr tx" for tx using r that by (auto simp: answered_def)
  ultimately show ?thesis using None r(1)
    by (cases r) (auto simp: range_attempt_def bind_ext_apply w1_def [symmetric] bind_io_run get_calls_def
      count_ev_def)
qed

text \<open>
  What a run of the attempts comes to: a transaction for each of the signatures \<open>ps\<close>, an error for each
  of the others, \<open>fs\<close>, and no more requests than attempts were left.
\<close>

definition range_ends ::
  "'w solclient \<Rightarrow> (nat \<Rightarrow> nat) \<Rightarrow> nat \<Rightarrow> (string \<times> nat) list \<Rightarrow> TransactionResult list \<Rightarrow> goerror list \<Rightarrow> 'w world \<Rightarrow> bool" where
  "range_ends s pick n pending results errors w \<longleftrightarrow>
     (\<exists>txs es w' evs ps fs. range_run s pick n pending results errors w = (Ret (results @ txs, errors @ es), w') \<and>
        trace w' = trace w @ evs \<and> get_calls evs \<le> attempts_left pending \<and>
        mset (map fst pending) = mset ps + mset fs \<and> length es = length fs \<and> list_all2 (answered s) ps txs)"

lemma range_run_step:
  assumes "pending \<noteq> []" "pending ! (pick n mod length pending) = (sg, retry)" "range_attempt s sg retry w = (Ret r, w1)"
  shows "range_run s pick (Suc n) pending results errors w =
    (let i = pick n mod length pending in
     case r of None \<Rightarrow> range_run s pick n (pending[i := (sg, Suc retry)]) results errors w1
     | Some (Inr tx) \<Rightarrow> range_run s pick n (without i pending) (results @ [tx]) errors w1
     | Some (Inl e) \<Rightarrow> range_run s pick n (without i pending) results (errors @ [e]) w1)"
  using assms by (simp add: bind_io_run Let_def split: option.split sum.split)

text \<open>One attempt before the rest, with what it added to the results and the errors.\<close>

lemma range_ends_step:
  assumes "range_run s pick (Suc n) pending results errors w = range_run s pick n pending' (results @ txs0) (errors @ es0) w1"
    and "trace w1 = trace w @ evs0" "get_calls evs0 \<le> 1" "Suc (attempts_left pending') \<le> attempts_left pending"
    and "mset (map fst pending) = mset ps0 + mset fs0 + mset (map fst pending')" "length es0 = length fs0"
      "list_all2 (answered s) ps0 txs0"
    and "range_ends s pick n pending' (results @ txs0) (errors @ es0) w1"
  shows "range_ends s pick (Suc n) pending results errors w"
proof -
  from assms(8) obtain txs es w' evs ps fs where
    e: "range_run s pick n pending' (results @ txs0) (errors @ es0) w1 = (Ret ((results @ txs0) @ txs, (errors @ es0) @ es), w')"
    "trace w' = trace w1 @ evs" "get_calls evs \<le> attempts_left pending'" "mset (map fst pending') = mset ps + mset fs"
    "length es = length fs" "list_all2 (answered s) ps txs"
    unfolding range_ends_def by blast
  have "get_calls (evs0 @ evs) \<le> attempts_left pending" using assms(3,4) e(3) by (simp add: get_calls_def)
  moreover have "list_all2 (answered s) (ps0 @ ps) (txs0 @ txs)" using assms(7) e(6) by (rule list_all2_appendI)
  ultimately show ?thesis
    unfolding range_ends_def using assms(1,2,5,6) e
    by (intro exI [of _ "txs0 @ txs"] exI [of _ "es0 @ es"] exI [of _ w'] exI [of _ "evs0 @ evs"] exI [of _ "ps0 @ ps"]
        exI [of _ "fs0 @ fs"]) simp
qed

lemma range_run_complete:
  assumes "attempts_left pending \<le> n" "\<forall>p \<in> set pending. snd p < maxRetries"
  shows "range_ends s pick n pending results errors w"
  using assms
proof (induction n arbitrary: pending results errors w)
  case (0 pending results errors w)
  then have "pending = []" by (cases pending) (auto simp: attempts_left_def)
  then show ?case by (simp add: range_ends_def get_calls_def)
next
  case (Suc n pending results errors w)
  show ?case
  proof (cases "pending = []")
    case False
    define i where "i = pick n mod length pending"
    obtain sg retry where p: "pending ! i = (sg, retry)" by fastforce
    have i: "i < length pending" using False by (simp add: i_def)
    with p Suc.prems(2) have retry: "retry < maxRetries" by (metis nth_mem snd_conv)
    obtain r w1 es1 where r: "range_attempt s sg retry w = (Ret r, w1)" "trace w1 = trace w @ es1" "get_calls es1 \<le> 1"
      "case r of None \<Rightarrow> retry < maxRetries - 1 | Some (Inr tx) \<Rightarrow> answered s sg tx | Some (Inl e) \<Rightarrow> True"
      using range_attempt_run by metis
    note run = range_run_step [where pick = pick and n = n, OF False p [unfolded i_def] r(1), of results errors, folded i_def, unfolded Let_def]
    have without: "attempts_left pending = maxRetries - retry + attempts_left (without i pending)"
      "mset (map fst pending) = add_mset sg (mset (map fst (without i pending)))"
      "\<forall>p \<in> set (without i pending). snd p < maxRetries"
      using attempts_left_without [OF i] mset_without [OF i] p Suc.prems(2)
      by (auto simp: without_def dest: in_set_takeD in_set_dropD)
    show ?thesis
    proof (cases r)
      case None
      let ?next = "pending[i := (sg, Suc retry)]"
      have nxt: "without i ?next = without i pending" by (simp add: without_def)
      have l: "Suc (attempts_left ?next) = attempts_left pending"
        using attempts_left_without [of i ?next] i without(1) r(4) None by (simp add: nxt)
      have "\<forall>p \<in> set ?next. snd p < maxRetries"
        using Suc.prems(2) r(4) None by (auto dest!: set_update_subset_insert [THEN subsetD])
      then have "range_ends s pick n ?next results errors w1" using Suc.IH l Suc.prems(1) by simp
      moreover have "mset (map fst ?next) = mset (map fst pending)"
        using mset_without [of i ?next] i without(2) by (simp add: nxt)
      ultimately show ?thesis
        by (intro range_ends_step [where pending' = ?next and ?txs0.0 = "[]" and ?es0.0 = "[]" and ?w1.0 = w1 and ?evs0.0 = es1
            and ?ps0.0 = "[]" and ?fs0.0 = "[]"]) (use run r None l in simp_all)
    next
      case (Some o1)
      have l: "attempts_left (without i pending) \<le> n" "Suc (attempts_left (without i pending)) \<le> attempts_left pending"
        using without(1) retry Suc.prems(1) by simp_all
      note IH = Suc.IH [OF l(1) without(3)]
      show ?thesis
      proof (cases o1)
        case (Inl e)
        then show ?thesis
          by (intro range_ends_step [where pending' = "without i pending" and ?txs0.0 = "[]" and ?es0.0 = "[e]" and ?w1.0 = w1 and ?evs0.0 = es1
            and ?ps0.0 = "[]" and ?fs0.0 = "[sg]"])
             (use run r Some l without(2) IH in simp_all)
      next
        case (Inr tx)
        then show ?thesis
          by (intro range_ends_step [where pending' = "without i pending" and ?txs0.0 = "[tx]" and ?es0.0 = "[]" and ?w1.0 = w1 and ?evs0.0 = es1
            and ?ps0.0 = "[sg]" and ?fs0.0 = "[]"])
             (use run r Some l without(2) IH in simp_all)
      qed
    qed
  qed (simp add: range_ends_def get_calls_def)
qed

end
