(* ===== verification/Solana_Adaptor.thy ===== *)
theory Solana_Adaptor
  imports Sol_Client Dispatcher
begin

text \<open>
  The Solana adaptor (\<open>chain/solana/solana.go\<close>), its transactions (\<open>solana_tx.go\<close>) and the
  explorer client (\<open>soldata.go\<close>). Keys, instructions, messages and their encodings belong to
  \<open>solana-go\<close> and the codecs, the record \<open>sollib\<close>: \<open>'p\<close> is the type of public keys, \<open>'t\<close> that of
  unsigned transactions and \<open>'m\<close> that of messages. A signature is its 64 bytes.

  The loop over slots may go on for ever: \<open>slot <= endHeight\<close> holds of every \<open>uint64\<close> when the end is
  the greatest one. \<open>mem\<close> is the number of entries a slice can have and bounds the passes of that loop
  too; a loop that would go on is a panic, which stands for a call that does not return.
\<close>

text \<open>The instructions the code builds, with the arguments of their constructors.\<close>

datatype 'p sol_instruction =
  NewTransfer u64 'p 'p
| NewCreateAta 'p 'p 'p
| NewTransferChecked u64 byte 'p 'p 'p 'p
| NewTokenTransfer u64 'p 'p 'p

record ('p, 't, 'm) sollib =
  PublicKeyFromBytes :: "byte list \<Rightarrow> 'p"
  PublicKey_String :: "'p \<Rightarrow> string"
  PublicKeyFromBase58 :: "string \<Rightarrow> 'p res"
  FindAssociatedTokenAddress :: "'p \<Rightarrow> 'p \<Rightarrow> 'p res"
  MustHashFromBase58 :: "string \<Rightarrow> string go"                                \<comment> \<open>as its text\<close>
  NewTransaction :: "'p sol_instruction list \<Rightarrow> string \<Rightarrow> 'p \<Rightarrow> 't res"
  tx_message_bytes :: "'t \<Rightarrow> byte list res"                                    \<comment> \<open>\<open>Message.MarshalBinary\<close>\<close>
  tx_NumRequiredSignatures :: "'t \<Rightarrow> byte"
  tx_AccountKeys :: "'t \<Rightarrow> 'p list"
  tx_RecentBlockhash :: "'t \<Rightarrow> string"
  message_Unmarshal :: "byte list \<Rightarrow> 'm res"
  signed_MarshalBinary :: "byte list list \<Rightarrow> 'm \<Rightarrow> byte list res"
  sol58_Encode :: "byte list \<Rightarrow> string"
  token_Amount :: "byte list \<Rightarrow> u64 res"                                      \<comment> \<open>of a token account\<close>
  sol64_Decode :: "string \<Rightarrow> byte list res"
  sol64_Encode :: "byte list \<Rightarrow> string"
  json_SolanaTransferTx :: "byte list \<Rightarrow> SolanaTransferTx res"
  json_Envelope :: "UnsignedEnvelope \<Rightarrow> byte list res"
  json_UnsignedEnvelope :: "byte list \<Rightarrow> UnsignedEnvelope res"

record 'w SolData =
  scan_GetTxByAddress :: "u64 \<Rightarrow> u64 \<Rightarrow> string \<Rightarrow> string \<Rightarrow> 'w \<Rightarrow> string list res \<times> 'w"

definition NewSolScanClient :: "(string \<Rightarrow> string \<Rightarrow> u64 \<Rightarrow> 'w SolData res) \<Rightarrow> string \<Rightarrow> string \<Rightarrow> u64 \<Rightarrow> 'w SolData res" where
  "NewSolScanClient new baseUrl apiKey timeout = new apiKey baseUrl timeout"

definition ss_GetTxByAddress :: "'w SolData \<Rightarrow> u64 \<Rightarrow> u64 \<Rightarrow> string \<Rightarrow> string \<Rightarrow> ('w, string list res) io" where
  "ss_GetTxByAddress ss page pagesize address action =
     ext (Ev ''solscan.GetTxByAddress'' [address]) (scan_GetTxByAddress ss page pagesize address action)"

record ('w, 'p) solChainAdaptor =
  solCli :: "'w solclient"
  sdk_GetAccountInfo :: "'p \<Rightarrow> 'w \<Rightarrow> byte list res \<times> 'w"        \<comment> \<open>the binary data of an account\<close>
  solData :: "'w SolData"

text \<open>The settings of the HTTP client, times in nanoseconds; \<open>new\<close> makes the client with them.\<close>

record gresty_settings =
  BaseURL :: string
  RequestTimeout :: int
  RetryCount :: int
  RetryWaitTime :: int
  RetryMaxWaitTime :: int
  Debug :: bool

definition NewSolHttpClientAll :: "(gresty_settings \<Rightarrow> 'w solclient) \<Rightarrow> string \<Rightarrow> bool \<Rightarrow> 'w solclient res" where
  "NewSolHttpClientAll new baseUrl withDebug =
     Inr (new \<lparr>BaseURL = baseUrl, RequestTimeout = 30 * 1000000000, RetryCount = 3, RetryWaitTime = 10 * 1000000000,
       RetryMaxWaitTime = 30 * 1000000000, Debug = withDebug\<rparr>)"

definition NewSolHttpClient :: "(gresty_settings \<Rightarrow> 'w solclient) \<Rightarrow> string \<Rightarrow> 'w solclient res" where
  "NewSolHttpClient new baseUrl = NewSolHttpClientAll new baseUrl False"

text \<open>The package's own functions over the client of \<open>solana-go\<close>: they pass on what it answers.\<close>

definition SdkGetAccountInfo :: "('p \<Rightarrow> string) \<Rightarrow> ('p \<Rightarrow> 'w \<Rightarrow> 'i res \<times> 'w) \<Rightarrow> 'p \<Rightarrow> ('w, 'i res) io" where
  "SdkGetAccountInfo text sdkClient tokenAccount =
     bind_io (ext (Ev ''getAccountInfo'' [text tokenAccount]) (sdkClient tokenAccount)) (\<lambda>r. ret_io (case r of
         Inl err \<Rightarrow> Inl err
       | Inr accountInfo \<Rightarrow> Inr accountInfo))"

definition GetTokenSupply :: "('p \<Rightarrow> string) \<Rightarrow> ('p \<Rightarrow> string \<Rightarrow> 'w \<Rightarrow> 'i res \<times> 'w) \<Rightarrow> 'p \<Rightarrow> ('w, 'i res) io" where
  "GetTokenSupply text sdkClient mintPubkey =
     bind_io (ext (Ev ''getTokenSupply'' [text mintPubkey, Finalized]) (sdkClient mintPubkey Finalized)) (\<lambda>r. ret_io (case r of
         Inl err \<Rightarrow> Inl err
       | Inr tokenInfo \<Rightarrow> Inr tokenInfo))"

definition sol_NewChainAdaptor ::
  "(gresty_settings \<Rightarrow> 'w solclient) \<Rightarrow> (string \<Rightarrow> 'p \<Rightarrow> 'w \<Rightarrow> byte list res \<times> 'w) \<Rightarrow>
   (string \<Rightarrow> string \<Rightarrow> u64 \<Rightarrow> 'w SolData res) \<Rightarrow> Config \<Rightarrow> ('w, 'p) solChainAdaptor res" where
  "sol_NewChainAdaptor newHttp newSdk newScan cfg =
     (let node = Sol (cfg_WalletNode cfg); rpcUrl = RpcUrl node in
      bind_res (NewSolHttpClient newHttp rpcUrl) (\<lambda>solHttpCli.
      bind_res (NewSolScanClient newScan (DataApiUrl node) (DataApiKey node) (TimeOut node)) (\<lambda>data.
        Inr \<lparr>solCli = solHttpCli, sdk_GetAccountInfo = newSdk rpcUrl, solData = data\<rparr>)))"

section \<open>Building a transfer\<close>

definition wrapped :: "string \<Rightarrow> 'a res \<Rightarrow> 'a res" where
  "wrapped p r = map_sum (wrap_err p) id r"

definition transfer_instructions ::
  "('p, 't, 'm) sollib \<Rightarrow> SolanaTransferTx \<Rightarrow> u64 \<Rightarrow> 'p \<Rightarrow> 'p \<Rightarrow> 'p \<Rightarrow> 'p sol_instruction list res" where
  "transfer_instructions S payload amount fromPubkey toPubkey feePayer =
     (if isNativeSOL (st_ContractAddress payload) then Inr [NewTransfer amount fromPubkey toPubkey]
      else
        bind_res (wrapped ''invalid mint: '' (PublicKeyFromBase58 S (TrimSpace (st_ContractAddress payload)))) (\<lambda>mintPubkey.
        bind_res (wrapped ''from ATA: '' (FindAssociatedTokenAddress S fromPubkey mintPubkey)) (\<lambda>fromATA.
        bind_res (wrapped ''to ATA: '' (FindAssociatedTokenAddress S toPubkey mintPubkey)) (\<lambda>toATA.
          Inr ((if st_CreateAta payload then [NewCreateAta feePayer toPubkey mintPubkey] else []) @
               [if st_Decimals payload > 0
                then NewTransferChecked amount (st_Decimals payload) fromATA mintPubkey toATA fromPubkey
                else NewTokenTransfer amount fromATA toATA fromPubkey])))))"

text \<open>The hash of a bad blockhash panics.\<close>

definition buildSolanaTransferTransaction ::
  "('p, 't, 'm) sollib \<Rightarrow> SolanaTransferTx \<Rightarrow> string \<Rightarrow> 't res go" where
  "buildSolanaTransferTransaction S payload recentBlockhash =
     (case
        (bind_res (wrapped ''invalid from address: '' (PublicKeyFromBase58 S (TrimSpace (st_FromAddress payload)))) (\<lambda>fromPubkey.
         bind_res (wrapped ''invalid to address: '' (PublicKeyFromBase58 S (TrimSpace (st_ToAddress payload)))) (\<lambda>toPubkey.
         let feePayerStr = (if TrimSpace (st_FeePayer payload) = [] then st_FromAddress payload else TrimSpace (st_FeePayer payload)) in
         bind_res (wrapped ''invalid fee payer: '' (PublicKeyFromBase58 S feePayerStr)) (\<lambda>feePayer.
         bind_res (parseUintAmount (st_Value payload)) (\<lambda>amount.
         let blockhash = (if TrimSpace (st_RecentBlockhash payload) = [] then TrimSpace recentBlockhash
                          else TrimSpace (st_RecentBlockhash payload)) in
         if blockhash = [] then Inl (Errorf ''recent blockhash is required'')
         else Inr (fromPubkey, toPubkey, feePayer, amount, blockhash)))))) of
        Inl err \<Rightarrow> Ret (Inl err)
      | Inr (fromPubkey, toPubkey, feePayer, amount, blockhash) \<Rightarrow>
          bind_go (MustHashFromBase58 S blockhash) (\<lambda>recentHash. Ret (
            bind_res (transfer_instructions S payload amount fromPubkey toPubkey feePayer) (\<lambda>instructions.
              wrapped ''new transaction: '' (NewTransaction S instructions recentHash feePayer)))))"

section \<open>Envelopes\<close>

definition envelopeFromTransaction :: "('p, 't, 'm) sollib \<Rightarrow> 't \<Rightarrow> UnsignedEnvelope res" where
  "envelopeFromTransaction S tx =
     bind_res (wrapped ''marshal message: '' (tx_message_bytes S tx)) (\<lambda>msgBytes.
       let numSigs = unat (tx_NumRequiredSignatures S tx);
           signerKeys = map (PublicKey_String S) (take numSigs (tx_AccountKeys S tx)) in
       Inr \<lparr>en_MessageHex = EncodeToString msgBytes, en_NumRequiredSignatures = int numSigs, en_SignerKeys = signerKeys,
            en_Signatures = map_of (map (\<lambda>k. (k, [])) signerKeys), en_RecentBlockhash = tx_RecentBlockhash S tx\<rparr>)"

definition encodeEnvelope :: "('p, 't, 'm) sollib \<Rightarrow> UnsignedEnvelope \<Rightarrow> string res" where
  "encodeEnvelope S e = bind_res (json_Envelope S e) (\<lambda>raw. Inr (sol64_Encode S raw))"

definition decodeEnvelope :: "('p, 't, 'm) sollib \<Rightarrow> string \<Rightarrow> UnsignedEnvelope res" where
  "decodeEnvelope S base64Tx =
     bind_res (wrapped ''decode envelope base64: '' (sol64_Decode S base64Tx)) (\<lambda>raw.
       wrapped ''unmarshal envelope: '' (json_UnsignedEnvelope S raw))"

definition publicKeyHexToBase58 :: "('p, 't, 'm) sollib \<Rightarrow> string \<Rightarrow> string res" where
  "publicKeyHexToBase58 S pubKeyHex =
     bind_res (hex_decode (TrimPrefix (TrimSpace pubKeyHex) ''0x'')) (\<lambda>pubBytes.
       if length pubBytes \<noteq> 32
       then Inl (Errorf (''solana pubkey must be 32 bytes, got '' @ FormatInt (int (length pubBytes))))
       else Inr (PublicKey_String S (PublicKeyFromBytes S pubBytes)))"

text \<open>The signature an envelope holds for a signer.\<close>

definition signer_signature :: "UnsignedEnvelope \<Rightarrow> string \<Rightarrow> byte list res" where
  "signer_signature e signer =
     (let sigHex = TrimSpace (case en_Signatures e signer of None \<Rightarrow> [] | Some s \<Rightarrow> s) in
      if sigHex = [] then Inl (Errorf (''missing signature for signer '' @ signer))
      else (case hex_decode (TrimPrefix sigHex ''0x'') of
          Inl err \<Rightarrow> Inl (wrap_err (''decode signature for '' @ signer @ '': '') err)
        | Inr sigBytes \<Rightarrow>
            if length sigBytes \<noteq> 64 then Inl (Errorf (''signature for '' @ signer @ '' must be 64 bytes''))
            else Inr sigBytes))"

text \<open>A signer beyond the number of required signatures is an index out of range.\<close>

fun fill_signatures :: "UnsignedEnvelope \<Rightarrow> nat \<Rightarrow> string list \<Rightarrow> byte list list \<Rightarrow> byte list list res go" where
  "fill_signatures e i [] signatures = Ret (Inr signatures)"
| "fill_signatures e i (signer # rest) signatures =
     (case signer_signature e signer of
        Inl err \<Rightarrow> Ret (Inl err)
      | Inr sigBytes \<Rightarrow>
          if i < length signatures then fill_signatures e (Suc i) rest (signatures[i := sigBytes])
          else Panic)"

definition assembleSignedTransaction ::
  "nat \<Rightarrow> ('p, 't, 'm) sollib \<Rightarrow> UnsignedEnvelope \<Rightarrow> ((byte list list \<times> 'm) \<times> string) res go" where
  "assembleSignedTransaction mem S e =
     (case bind_res (wrapped ''decode message hex: '' (hex_decode (TrimPrefix (en_MessageHex e) ''0x''))) (\<lambda>msgBytes.
             wrapped ''unmarshal message: '' (message_Unmarshal S msgBytes)) of
        Inl err \<Rightarrow> Ret (Inl err)
      | Inr message \<Rightarrow>
          if en_NumRequiredSignatures e < 0 \<or> en_NumRequiredSignatures e > int mem then Panic
          else bind_go (fill_signatures e 0 (en_SignerKeys e) (replicate (nat (en_NumRequiredSignatures e)) (replicate 64 0))) (\<lambda>r.
            case r of
              Inl err \<Rightarrow> Ret (Inl err)
            | Inr signatures \<Rightarrow>
                bind_go (index signatures 0) (\<lambda>first. Ret (Inr ((signatures, message), sol58_Encode S first)))))"

definition serializeSignedTxBase64 :: "('p, 't, 'm) sollib \<Rightarrow> byte list list \<times> 'm \<Rightarrow> string res" where
  "serializeSignedTxBase64 S tx = bind_res (signed_MarshalBinary S (fst tx) (snd tx)) (\<lambda>txBytes. Inr (sol64_Encode S txBytes))"

section \<open>Addresses\<close>

definition sol_convert_one :: "('p, 't, 'm) sollib \<Rightarrow> PublicKey \<Rightarrow> Addresses" where
  "sol_convert_one S publicKeyItem =
     \<lparr>ad_Address = (case hex_decode (TrimPrefix (pk_PublicKey publicKeyItem) ''0x'') of
         Inl err \<Rightarrow> []
       | Inr publicKeyBytes \<Rightarrow> PublicKey_String S (PublicKeyFromBytes S publicKeyBytes)),
      ad_PublicKey = pk_PublicKey publicKeyItem, ad_Type = pk_Type publicKeyItem\<rparr>"

definition sol_ConvertAddresses :: "('p, 't, 'm) sollib \<Rightarrow> ConvertAddressesRequest \<Rightarrow> ('w, ConvertAddressesResponse reply) io" where
  "sol_ConvertAddresses S req =
     ret_io (okReply \<lparr>Code = SUCCESS, Msg = ''success'', cvr_Address = map (sol_convert_one S) (car_PublicKey req)\<rparr>)"

definition sol_ValidAddresses :: "('p, 't, 'm) sollib \<Rightarrow> ValidAddressesRequest \<Rightarrow> ('w, ValidAddressesResponse reply) io" where
  "sol_ValidAddresses S req =
     ret_io (okReply \<lparr>Code = SUCCESS, Msg = ''success'',
       AddressValid = map (\<lambda>address. \<lparr>av_Address = ad_Address address, av_Type = [],
         av_Valid = \<not> isl (PublicKeyFromBase58 S (ad_Address address))\<rparr>) (var_Addresses req)\<rparr>)"

section \<open>Blocks\<close>

definition sol_GetLastestBlock :: "('w, 'p) solChainAdaptor \<Rightarrow> chain_request \<Rightarrow> ('w, LastestBlockResponse reply) io" where
  "sol_GetLastestBlock c req =
     bind_io (GetSlot (solCli c) Finalized) (\<lambda>r. ret_io (case r of
         Inl err \<Rightarrow> bothReply (latest_rsp ERROR (Error err)) err
       | Inr slot \<Rightarrow> okReply ((latest_rsp SUCCESS ''success'')\<lparr>lb_Height := slot\<rparr>)))"

definition sol_GetBlock :: "('w, 'p) solChainAdaptor \<Rightarrow> BlockRequest \<Rightarrow> ('w, BlockResponse reply) io" where
  "sol_GetBlock c req =
     (case ParseUint (br_HashHeight req) of
        Inl err \<Rightarrow> ret_io (bothReply (block_rsp ERROR (Error err)) err)
      | Inr slot \<Rightarrow>
          bind_io (GetBlockBySlot (solCli c) slot Full) (\<lambda>r. ret_io (case r of
              Inl err \<Rightarrow> bothReply (block_rsp ERROR (Error err)) err
            | Inr b \<Rightarrow> okReply ((block_rsp SUCCESS ''success'')
                \<lparr>bkr_Height := FormatUint slot, bkr_Hash := bl_BlockHash b,
                 bkr_Transactions := map (\<lambda>tx. zero_TransactionList\<lparr>TxHash := dt_Signature tx\<rparr>) (bl_Transactions b)\<rparr>))))"

definition collectBlockSignatures :: "BlockResult \<Rightarrow> string list" where
  "collectBlockSignatures b =
     (if bl_Signatures b \<noteq> [] then bl_Signatures b
      else filter (\<lambda>sig. sig \<noteq> []) (map dt_Signature (bl_Transactions b)))"

fun wallet_transactions :: "solparse \<Rightarrow> TransactionResult list \<Rightarrow> TransactionList list go" where
  "wallet_transactions P [] = Ret []"
| "wallet_transactions P (t # rest) =
     bind_go (parseTransactionResult P (Some t)) (\<lambda>transfer.
     bind_go (wallet_transactions P rest) (\<lambda>out.
       Ret (toWalletTransaction (case sx_Signatures (tx_Transaction t) of Some (h # hs) \<Rightarrow> h | _ \<Rightarrow> []) transfer
              (tm_Err (tx_Meta t)) # out)))"

definition sol_parseBlockTransactions ::
  "(nat \<Rightarrow> nat) \<Rightarrow> solparse \<Rightarrow> ('w, 'p) solChainAdaptor \<Rightarrow> BlockResult \<Rightarrow> ('w, TransactionList list) io" where
  "sol_parseBlockTransactions pick P c b =
     (let sigs = collectBlockSignatures b in
      if sigs = [] then ret_io []
      else bind_io (GetTransactionRange pick (solCli c) sigs) (\<lambda>(trimmed, r). case r of
          Inl err \<Rightarrow> ret_io (map (\<lambda>hash. zero_TransactionList\<lparr>TxHash := hash\<rparr>)
              (trimmed @ drop (length trimmed) sigs))
        | Inr txResults \<Rightarrow> lift_go (wallet_transactions P txResults)))"

definition sol_header_info :: "u64 \<Rightarrow> BlockResult \<Rightarrow> ('w, BlockHeaderInfo) io" where
  "sol_header_info slot b = ret_io \<lparr>bhi_Height = FormatUint slot, bhi_Hash = bl_BlockHash b,
     bhi_ParentHash = bl_PreviousBlockhash b, bhi_Timestamp = word_of_int (bl_BlockTime b)\<rparr>"

definition sol_block_info ::
  "(nat \<Rightarrow> nat) \<Rightarrow> solparse \<Rightarrow> ('w, 'p) solChainAdaptor \<Rightarrow> u64 \<Rightarrow> BlockResult \<Rightarrow> ('w, BlockWithTransactions) io" where
  "sol_block_info pick P c slot b =
     bind_io (sol_parseBlockTransactions pick P c b) (\<lambda>txs. ret_io \<lparr>bwt_Height = FormatUint slot,
       bwt_Hash = bl_BlockHash b, bwt_ParentHash = bl_PreviousBlockhash b,
       bwt_Timestamp = word_of_int (bl_BlockTime b), bwt_Transactions = txs\<rparr>)"

text \<open>The loop over the slots: a slot whose block is not found, or not answered, is skipped.\<close>

fun slots_loop ::
  "'w solclient \<Rightarrow> string \<Rightarrow> (u64 \<Rightarrow> BlockResult \<Rightarrow> ('w, 'b) io) \<Rightarrow> nat \<Rightarrow> u64 \<Rightarrow> u64 \<Rightarrow> 'b list \<Rightarrow> ('w, 'b list) io" where
  "slots_loop cl detail item m slot endHeight acc =
     (if slot > endHeight then ret_io acc
      else (case m of
          0 \<Rightarrow> panic_io
        | Suc k \<Rightarrow>
            bind_io (GetBlockBySlot cl slot detail) (\<lambda>r. case r of
                Inl err \<Rightarrow> slots_loop cl detail item k (slot + 1) endHeight acc
              | Inr b \<Rightarrow> bind_io (item slot b) (\<lambda>x. slots_loop cl detail item k (slot + 1) endHeight (acc @ [x])))))"

declare slots_loop.simps [simp del]

definition slots_from ::
  "nat \<Rightarrow> 'w solclient \<Rightarrow> string \<Rightarrow> (u64 \<Rightarrow> BlockResult \<Rightarrow> ('w, 'b) io) \<Rightarrow> u64 \<Rightarrow> u64 \<Rightarrow> ('w, 'b list) io" where
  "slots_from mem cl detail item startHeight endHeight =
     (if unat (endHeight - startHeight + 1) > mem then panic_io
      else slots_loop cl detail item mem startHeight endHeight [])"

definition sol_GetBatchBlock ::
  "nat \<Rightarrow> (nat \<Rightarrow> nat) \<Rightarrow> solparse \<Rightarrow> ('w, 'p) solChainAdaptor \<Rightarrow> BatchBlockRequest \<Rightarrow> ('w, BatchBlockResponse reply) io" where
  "sol_GetBatchBlock mem pick P c req =
     (case ParseUint (bbr_NextHeight req) of
        Inl err \<Rightarrow> ret_io (okReply (batch_rsp ERROR ''invalid next height''))
      | Inr startHeight \<Rightarrow>
     (case ParseUint (bbr_EndHeight req) of
        Inl err \<Rightarrow> ret_io (okReply (batch_rsp ERROR ''invalid end height''))
      | Inr endHeight \<Rightarrow>
          if startHeight > endHeight
          then ret_io (okReply (batch_rsp ERROR ''next height is greater than end height''))
          else if \<not> bbr_WithTransactions req
          then bind_io (slots_from mem (solCli c) detail_None sol_header_info startHeight endHeight) (\<lambda>headers.
                 ret_io (okReply \<lparr>Code = SUCCESS, Msg = ''get batch block success'', bbp_Headers = headers, bbp_Blocks = []\<rparr>))
          else bind_io (slots_from mem (solCli c) Signatures (sol_block_info pick P c) startHeight endHeight) (\<lambda>blocks.
                 ret_io (okReply \<lparr>Code = SUCCESS, Msg = ''get batch block success'', bbp_Headers = [], bbp_Blocks = blocks\<rparr>))))"

section \<open>Transactions and balances\<close>

definition sol_GetTransactionByHash ::
  "solparse \<Rightarrow> ('w, 'p) solChainAdaptor \<Rightarrow> TransactionByHashRequest \<Rightarrow> ('w, TransactionByHashResponse reply) io" where
  "sol_GetTransactionByHash P c req =
     bind_io (sol_GetTransaction (solCli c) (thr_Hash req)) (\<lambda>r. case r of
         Inl err \<Rightarrow> ret_io (bothReply (txhash_rsp ERROR (Error err)) err)
       | Inr t \<Rightarrow> bind_io (lift_go (parseTransactionResult P (Some t))) (\<lambda>transfer.
           ret_io (okReply \<lparr>Code = SUCCESS, Msg = ''success'',
             thp_Transaction = Some (toWalletTransaction (thr_Hash req) transfer (tm_Err (tx_Meta t)))\<rparr>)))"

definition sol_GetTransactionByAddress ::
  "('w, 'p) solChainAdaptor \<Rightarrow> TransactionByAddressRequest \<Rightarrow> ('w, TransactionByAddressResponse reply) io" where
  "sol_GetTransactionByAddress c req =
     (let pageSize = (if tar_PageSize req = 0 then 10 else tar_PageSize req) in
      bind_io (GetTxForAddress (solCli c) (tar_Address req) Finalized pageSize [] []) (\<lambda>r. ret_io (case r of
          Inl err \<Rightarrow> bothReply (txaddr_rsp ERROR (Error err)) err
        | Inr signatures \<Rightarrow> okReply \<lparr>Code = SUCCESS, Msg = ''success'',
            tap_Transaction = map (\<lambda>sig. zero_TransactionList\<lparr>TxHash := si_Signature sig\<rparr>) signatures\<rparr>)))"

definition isSolTransfer :: "string \<Rightarrow> bool" where
  "isSolTransfer coinAddress \<longleftrightarrow> coinAddress = [] \<or> coinAddress = wrappedSOLMint"

definition balance_error :: "goerror \<Rightarrow> AccountBalanceResponse reply" where
  "balance_error err = bothReply (balance_rsp ERROR (Error err) []) err"

definition sol_GetAccountBalance ::
  "('p, 't, 'm) sollib \<Rightarrow> ('w, 'p) solChainAdaptor \<Rightarrow> AccountBalanceRequest \<Rightarrow> ('w, AccountBalanceResponse reply) io" where
  "sol_GetAccountBalance S c req =
     (if isSolTransfer (abr_ContractAddress req)
      then bind_io (sol_GetBalance (solCli c) (abr_Address req)) (\<lambda>r. ret_io (case r of
             Inl err \<Rightarrow> balance_error err
           | Inr balance \<Rightarrow> okReply (balance_rsp SUCCESS ''success'' (FormatUint balance))))
      else (case bind_res (PublicKeyFromBase58 S (abr_Address req)) (\<lambda>ownerPubkey.
                 bind_res (PublicKeyFromBase58 S (abr_ContractAddress req)) (\<lambda>mintPubkey.
                   FindAssociatedTokenAddress S ownerPubkey mintPubkey)) of
          Inl err \<Rightarrow> ret_io (balance_error err)
        | Inr ata \<Rightarrow>
            bind_io (SdkGetAccountInfo (PublicKey_String S) (sdk_GetAccountInfo c) ata) (\<lambda>r. ret_io (case r of
                Inl err \<Rightarrow> bothReply (balance_rsp ERROR ''associated token account not found'' [])
                   (wrap_err ''associated token account not found: '' err)
              | Inr data \<Rightarrow> (case token_Amount S data of
                    Inl err \<Rightarrow> balance_error err
                  | Inr amount \<Rightarrow> okReply (balance_rsp SUCCESS ''success'' (FormatUint amount)))))))"

section \<open>Sending\<close>

definition send_config :: SolSendRequest where
  "send_config = \<lparr>sd_Encoding = ''base64'', sd_Commitment = [], sd_SkipPreflight = False,
     sd_PreflightCommitment = Finalized, sd_MaxRetries = 3, sd_MinContextSlot = 0\<rparr>"

definition sol_send_one :: "'w solclient \<Rightarrow> RawTransaction \<Rightarrow> ('w, RawTransactionReturn) io" where
  "sol_send_one cl rawTx =
     bind_io (sol_send cl (RawTx rawTx) (Some send_config)) (\<lambda>r. ret_io (case r of
         Inl err \<Rightarrow> \<lparr>rtr_TxHash = [], rtr_IsSuccess = False, rtr_Message = Error err\<rparr>
       | Inr txHash \<Rightarrow> \<lparr>rtr_TxHash = txHash, rtr_IsSuccess = True, rtr_Message = ''success''\<rparr>))"

definition sol_SendTransaction :: "('w, 'p) solChainAdaptor \<Rightarrow> SendTransactionsRequest \<Rightarrow> ('w, SendTransactionResponse reply) io" where
  "sol_SendTransaction c req =
     bind_io (map_io (sol_send_one (solCli c)) (str_RawTx req)) (\<lambda>rs.
       ret_io (okReply \<lparr>Code = SUCCESS, Msg = ''success'', TxnRet = rs\<rparr>))"

section \<open>Building transactions\<close>

definition sol_BuildTransactionSchema :: "chain_request \<Rightarrow> ('w, TransactionSchemaResponse reply) io" where
  "sol_BuildTransactionSchema request = ret_io (okReply (schema_rsp SUCCESS ''success''))"

definition unsigned_error :: "goerror \<Rightarrow> UnSignTransactionResponse reply" where
  "unsigned_error err = bothReply (unsign_rsp ERROR (Error err)) err"

text \<open>One payload: the encoded envelope of its transaction.\<close>

definition unsigned_one :: "('p, 't, 'm) sollib \<Rightarrow> string \<Rightarrow> Base64Transaction \<Rightarrow> string res go" where
  "unsigned_one S recentBlockhash t =
     (case bind_res (sol64_Decode S (Base64Tx t)) (json_SolanaTransferTx S) of
        Inl err \<Rightarrow> Ret (Inl err)
      | Inr payload \<Rightarrow>
          bind_go (buildSolanaTransferTransaction S payload recentBlockhash) (\<lambda>r. Ret (
            bind_res r (\<lambda>tx. bind_res (envelopeFromTransaction S tx) (encodeEnvelope S)))))"

fun sol_unsigned_loop ::
  "('p, 't, 'm) sollib \<Rightarrow> string \<Rightarrow> Base64Transaction list \<Rightarrow> UnsignedTransactionMessageHash list \<Rightarrow>
   UnSignTransactionResponse reply go" where
  "sol_unsigned_loop S recentBlockhash [] acc = Ret (okReply \<lparr>Code = SUCCESS, Msg = ''success'', UnsignedTxn = acc\<rparr>)"
| "sol_unsigned_loop S recentBlockhash (t # ts) acc =
     bind_go (unsigned_one S recentBlockhash t) (\<lambda>r. case r of
         Inl err \<Rightarrow> Ret (unsigned_error err)
       | Inr encoded \<Rightarrow> sol_unsigned_loop S recentBlockhash ts (acc @ [\<lparr>UnsignedTx = encoded\<rparr>]))"

definition sol_BuildUnSignTransaction ::
  "('p, 't, 'm) sollib \<Rightarrow> ('w, 'p) solChainAdaptor \<Rightarrow> UnSignTransactionRequest \<Rightarrow> ('w, UnSignTransactionResponse reply) io" where
  "sol_BuildUnSignTransaction S c request =
     bind_io (GetLatestBlockhash (solCli c) Confirmed) (\<lambda>r. case r of
         Inl err \<Rightarrow> ret_io (unsigned_error err)
       | Inr recentBlockhash \<Rightarrow> lift_go (sol_unsigned_loop S recentBlockhash (utr_Base64Txn request) []))"

text \<open>The signer a signature is for: the given key, or the only signer there is.\<close>

definition signer_of :: "('p, 't, 'm) sollib \<Rightarrow> UnsignedEnvelope \<Rightarrow> string \<Rightarrow> string option" where
  "signer_of S e publicKey =
     (let k0 = TrimSpace publicKey;
          given = (if k0 = [] then Some []
                   else (case publicKeyHexToBase58 S k0 of
                       Inr addr \<Rightarrow> Some addr
                     | Inl err \<Rightarrow> if isl (PublicKeyFromBase58 S k0) then None else Some k0)) in
      case given of
        None \<Rightarrow> None
      | Some k \<Rightarrow>
          (let k = (if k = [] \<and> length (en_SignerKeys e) = 1 then hd (en_SignerKeys e) else k) in
           if k = [] then None else Some k))"

text \<open>
  The pending envelopes in the order of their first signature, as the pairs of the text that names them
  and the envelope with the signatures so far.
\<close>

type_synonym pending = "(string \<times> UnsignedEnvelope) list"

definition add_pending :: "string \<Rightarrow> UnsignedEnvelope \<Rightarrow> pending \<Rightarrow> pending" where
  "add_pending key e ps = (if map_of ps key = None then ps @ [(key, e)] else ps)"

definition set_signature :: "string \<Rightarrow> string \<Rightarrow> string \<Rightarrow> pending \<Rightarrow> pending" where
  "set_signature key signer sig ps =
     map (\<lambda>(k, e). (k, if k = key then e\<lparr>en_Signatures := (en_Signatures e)(signer \<mapsto> sig)\<rparr> else e)) ps"

definition sign_step :: "('p, 't, 'm) sollib \<Rightarrow> Base64TransactionWithSignature \<Rightarrow> pending \<Rightarrow> pending" where
  "sign_step S t ps =
     (case decodeEnvelope S (bts_Base64Tx t) of
        Inl err \<Rightarrow> ps
      | Inr e0 \<Rightarrow>
          (let ps' = add_pending (bts_Base64Tx t) e0 ps in
           case map_of ps' (bts_Base64Tx t) of
             None \<Rightarrow> ps'
           | Some e \<Rightarrow> (case signer_of S e (bts_PublicKey t) of
                 None \<Rightarrow> ps'
               | Some signer \<Rightarrow> set_signature (bts_Base64Tx t) signer (TrimSpace (bts_Signature t)) ps')))"

definition sol_failed_signed :: SignedTxWithHash where
  "sol_failed_signed = \<lparr>stx_SignedTx = [], stx_TxHash = [], stx_IsSuccess = False\<rparr>"

definition sol_sign_one :: "nat \<Rightarrow> ('p, 't, 'm) sollib \<Rightarrow> UnsignedEnvelope \<Rightarrow> SignedTxWithHash go" where
  "sol_sign_one mem S e =
     bind_go (assembleSignedTransaction mem S e) (\<lambda>r. Ret (case r of
         Inl err \<Rightarrow> sol_failed_signed
       | Inr (tx, txHash) \<Rightarrow> (case serializeSignedTxBase64 S tx of
             Inl err \<Rightarrow> sol_failed_signed
           | Inr signedB64 \<Rightarrow> \<lparr>stx_SignedTx = signedB64, stx_TxHash = txHash, stx_IsSuccess = True\<rparr>)))"

fun sol_sign_all :: "nat \<Rightarrow> ('p, 't, 'm) sollib \<Rightarrow> pending \<Rightarrow> SignedTxWithHash list go" where
  "sol_sign_all mem S [] = Ret []"
| "sol_sign_all mem S (p # ps) =
     bind_go (sol_sign_one mem S (snd p)) (\<lambda>x. bind_go (sol_sign_all mem S ps) (\<lambda>xs. Ret (x # xs)))"

definition sol_BuildSignedTransaction ::
  "nat \<Rightarrow> ('p, 't, 'm) sollib \<Rightarrow> SignedTransactionRequest \<Rightarrow> ('w, SignedTransactionResponse reply) io" where
  "sol_BuildSignedTransaction mem S request =
     bind_io (lift_go (sol_sign_all mem S (fold (sign_step S) (sgr_TxnWithSignature request) []))) (\<lambda>signedTxList.
       ret_io (okReply \<lparr>Code = SUCCESS, Msg = ''success'', SignedTxn = signedTxList\<rparr>))"

section \<open>What Solana does not support\<close>

definition sol_GetAddressApproveList :: "AddressApproveListRequest \<Rightarrow> ('w, AddressApproveListResponse reply) io" where
  "sol_GetAddressApproveList request =
     ret_io (okReply (approve_rsp SUCCESS (''don'' @ [CHR 0x27] @ ''t support in this stage, support in the future'')))"

definition sol_BuildSponsoredTransfer :: "SponsoredTransferRequest \<Rightarrow> ('w, SponsoredTransferBuildResponse reply) io" where
  "sol_BuildSponsoredTransfer request = ret_io (okReply (sponsor_rsp ERROR ''unsupported chain''))"

definition sol_SendSponsoredTransfer :: "SponsoredTransferSendRequest \<Rightarrow> ('w, SendTransactionResponse reply) io" where
  "sol_SendSponsoredTransfer request = ret_io (okReply (send_rsp ERROR ''unsupported chain''))"

definition sol_CallContract :: "CallContractRequest \<Rightarrow> ('w, CallContractResponse reply) io" where
  "sol_CallContract request = ret_io (okReply (call_rsp ERROR ''callContract not supported on Solana''))"

definition PubKeyHexToAddress :: "('p, 't, 'm) sollib \<Rightarrow> string \<Rightarrow> string res" where
  "PubKeyHexToAddress S pubKeyHex =
     bind_res (hex_decode (TrimPrefix pubKeyHex ''0x'')) (\<lambda>pubKeyBytes.
       Inr (PublicKey_String S (PublicKeyFromBytes S pubKeyBytes)))"

definition sol_adaptor ::
  "nat \<Rightarrow> (nat \<Rightarrow> nat) \<Rightarrow> solparse \<Rightarrow> ('p, 't, 'm) sollib \<Rightarrow> ('w, 'p) solChainAdaptor \<Rightarrow> 'w IChainAdaptor" where
  "sol_adaptor mem pick P S c =
     \<lparr>ConvertAddresses = sol_ConvertAddresses S,
      ValidAddresses = sol_ValidAddresses S,
      GetLastestBlock = sol_GetLastestBlock c,
      GetBlock = sol_GetBlock c,
      GetBatchBlock = sol_GetBatchBlock mem pick P c,
      GetTransactionByHash = sol_GetTransactionByHash P c,
      GetTransactionByAddress = sol_GetTransactionByAddress c,
      GetAccountBalance = sol_GetAccountBalance S c,
      SendTransaction = sol_SendTransaction c,
      BuildTransactionSchema = sol_BuildTransactionSchema,
      BuildUnSignTransaction = sol_BuildUnSignTransaction S c,
      BuildSignedTransaction = sol_BuildSignedTransaction mem S,
      BuildSponsoredTransfer = sol_BuildSponsoredTransfer,
      SendSponsoredTransfer = sol_SendSponsoredTransfer,
      GetAddressApproveList = sol_GetAddressApproveList,
      CallContract = sol_CallContract\<rparr>"

end
