(* ===== verification/Sol_Props.thy ===== *)
theory Sol_Props
  imports Solana_Adaptor "HOL-Library.Sublist"
begin

text \<open>
  Lemmas and properties of the Solana adaptor: token transfers read from balances, ranges of
  transactions, the loop over slots, the assembly of signed transactions, and the \<open>SendTransaction\<close>
  contract.
\<close>

section \<open>Token transfers from balances\<close>

text \<open>Keys whose balance does not change are passed over.\<close>

lemma spl_step_zero: "diff k = 0 \<Longrightarrow> spl_step diff k s = s"
  by (cases k; cases s) simp

lemma fold_spl_zero: "\<forall>k \<in> set ks. diff k = 0 \<Longrightarrow> fold (spl_step diff) ks s = s"
  by (induction ks) (auto simp: spl_step_zero)

text \<open>One key that gains and one that loses, whichever comes first.\<close>

lemma fold_spl_gain_loss:
  assumes "distinct ks" "g \<in> set ks" "l \<in> set ks" "diff g > 0" "diff l < 0" "snd g \<noteq> []"
    and "\<forall>k \<in> set ks - {g, l}. diff k = 0"
  shows "fold (spl_step diff) ks ([], [], [], []) = (fst l, fst g, snd g, FormatInt (diff g))"
proof -
  have "g \<noteq> l" using assms(4,5) by auto
  obtain as bs where as: "ks = as @ g # bs" using split_list [OF assms(2)] by blast
  consider cs ds where "ks = cs @ l # ds @ g # bs" | cs ds where "ks = as @ g # cs @ l # ds"
    using assms(3) as \<open>g \<noteq> l\<close> split_list [of l as] split_list [of l bs] by fastforce
  then show ?thesis
  proof cases
    case 1
    then have "\<forall>k \<in> set (cs @ ds @ bs). diff k = 0" using assms(1,7) by auto
    then show ?thesis using 1 assms(4,5,6) by (cases g; cases l) (simp add: fold_spl_zero)
  next
    case 2
    then have "\<forall>k \<in> set (as @ cs @ ds). diff k = 0" using assms(1,7) by auto
    then show ?thesis using 2 assms(4,5,6) by (cases g; cases l) (simp add: fold_spl_zero)
  qed
qed

definition balance_change :: "solparse \<Rightarrow> TransactionMeta \<Rightarrow> balKey \<Rightarrow> int" where
  "balance_change P meta k =
     amount_of (balance_map (decodeTokenBalances P (tm_PostTokenBalances meta))) k -
     amount_of (balance_map (decodeTokenBalances P (tm_PreTokenBalances meta))) k"

definition balance_keys :: "solparse \<Rightarrow> TransactionMeta \<Rightarrow> balKey set" where
  "balance_keys P meta =
     bal_key ` (set (decodeTokenBalances P (tm_PreTokenBalances meta)) \<union> set (decodeTokenBalances P (tm_PostTokenBalances meta)))"

lemma balance_keys_nonempty: "k \<in> balance_keys P meta \<Longrightarrow> fst k \<noteq> [] \<and> snd k \<noteq> []"
  by (auto simp: balance_keys_def bal_key_def decodeTokenBalances_def map_filter_def split: sum.splits if_splits)

lemma amount_of_map: "k \<notin> bal_key ` set bs \<Longrightarrow> amount_of (balance_map bs) k = 0"
  unfolding balance_map_def
  by (induction bs rule: rev_induct) (auto simp: amount_of_def)

lemma balance_change_keys: "balance_change P meta k \<noteq> 0 \<Longrightarrow> k \<in> balance_keys P meta"
  unfolding balance_change_def balance_keys_def image_Un
  using amount_of_map by (metis Un_iff diff_zero)

lemma FormatInt_zero: "FormatInt 0 = ''0''"
  by code_simp

section \<open>Ranges\<close>

lemma trim_signatures_ok:
  "trim_signatures i sigs = (ts, None) \<Longrightarrow> ts = map TrimSpace sigs"
  by (induction sigs arbitrary: i ts) (auto simp: Let_def split: if_splits prod.splits)

lemma mset_map_split: "mset ps = image_mset f (mset xs) \<Longrightarrow> \<exists>qs. mset qs = mset xs \<and> map f qs = ps"
proof (induction ps arbitrary: xs)
  case (Cons p ps)
  then have "p \<in># image_mset f (mset xs)" by (metis list.set_intros(1) set_mset_mset)
  then obtain x where x: "x \<in> set xs" "f x = p" by auto
  then have xs: "mset xs = add_mset x (mset (remove1 x xs))" by simp
  have "add_mset p (mset ps) = image_mset f (mset xs)" using Cons.prems by simp
  also have "\<dots> = add_mset p (image_mset f (mset (remove1 x xs)))" using x(2) by (subst xs) simp
  finally have "mset ps = image_mset f (mset (remove1 x xs))" by simp
  then obtain qs where "mset qs = mset (remove1 x xs)" "map f qs = ps" using Cons.IH by blast
  with x xs show ?case by (intro exI [of _ "x # qs"]) simp
qed simp

lemma attempts_left_start: "attempts_left (map (\<lambda>sig. (sig, 0)) sigs) = maxRetries * length sigs"
  by (induction sigs) (simp_all add: attempts_left_def)

lemma list_all2_answered_filter:
  "list_all2 (answered s) ps txs \<Longrightarrow> filter (\<lambda>r. sx_Signatures (tx_Transaction r) \<noteq> None) txs = txs"
  by (induction ps txs rule: list_all2_induct) (use answered_signatures in fastforce)+

lemma answered_trim: "answered s (TrimSpace sig) tx \<longleftrightarrow> answered s sig tx"
  by (simp add: answered_def sol_GetTransaction_def)

section \<open>Signing\<close>

lemma fill_signatures_ok:
  assumes "\<And>k. k \<in> set keys \<Longrightarrow> signer_signature e k = Inr (f k)" "length sigs = i + length keys"
  shows "fill_signatures e i keys sigs = Ret (Inr (take i sigs @ map f keys))"
  using assms
proof (induction keys arbitrary: i sigs)
  case (Cons k keys)
  then have "fill_signatures e (Suc i) keys (sigs[i := f k]) = Ret (Inr (take (Suc i) (sigs[i := f k]) @ map f keys))"
    by (intro Cons.IH) auto
  with Cons.prems show ?case by (simp add: take_Suc_conv_app_nth)
qed simp

text \<open>The signer of a signature depends on the signers of the envelope only.\<close>

lemma signer_of_cong: "en_SignerKeys e = en_SignerKeys e' \<Longrightarrow> signer_of S e = signer_of S e'"
  by (rule ext) (simp only: signer_of_def)

definition with_signatures :: "UnsignedEnvelope \<Rightarrow> (string \<rightharpoonup> string) \<Rightarrow> UnsignedEnvelope" where
  "with_signatures e m = e\<lparr>en_Signatures := m\<rparr>"

lemma with_signatures_simps [simp]:
  "en_SignerKeys (with_signatures e m) = en_SignerKeys e" "en_MessageHex (with_signatures e m) = en_MessageHex e"
  "en_NumRequiredSignatures (with_signatures e m) = en_NumRequiredSignatures e"
  "en_Signatures (with_signatures e m) = m" "with_signatures e (en_Signatures e) = e"
  "with_signatures (with_signatures e m) m' = with_signatures e m'"
  by (simp_all add: with_signatures_def)

text \<open>Signatures for one envelope are collected in one entry.\<close>

lemma sign_step_single:
  assumes "bts_Base64Tx t = b" "decodeEnvelope S b = Inr e" "signer_of S e (bts_PublicKey t) = Some k"
  shows "sign_step S t [(b, with_signatures e m)] = [(b, with_signatures e (m(k \<mapsto> TrimSpace (bts_Signature t))))]"
  using assms signer_of_cong [of "with_signatures e m" e S]
  by (simp add: sign_step_def add_pending_def set_signature_def with_signatures_def)

lemma sign_step_first:
  assumes "decodeEnvelope S (bts_Base64Tx t) = Inr e"
  shows "sign_step S t [] = sign_step S t [(bts_Base64Tx t, with_signatures e (en_Signatures e))]"
  using assms by (simp add: sign_step_def add_pending_def)

definition put_signature ::
  "('p, 't, 'm) sollib \<Rightarrow> UnsignedEnvelope \<Rightarrow> Base64TransactionWithSignature \<Rightarrow> (string \<rightharpoonup> string) \<Rightarrow> (string \<rightharpoonup> string)" where
  "put_signature S e t m = m(the (signer_of S e (bts_PublicKey t)) \<mapsto> TrimSpace (bts_Signature t))"

lemma fold_sign_single:
  assumes "\<And>t. t \<in> set ts \<Longrightarrow> bts_Base64Tx t = b \<and> signer_of S e (bts_PublicKey t) \<noteq> None" "decodeEnvelope S b = Inr e"
  shows "fold (sign_step S) ts [(b, with_signatures e m)] = [(b, with_signatures e (fold (put_signature S e) ts m))]"
  using assms
proof (induction ts arbitrary: m)
  case (Cons t ts)
  then obtain k where k: "signer_of S e (bts_PublicKey t) = Some k" "bts_Base64Tx t = b" by fastforce
  have "fold (sign_step S) ts [(b, with_signatures e m1)] = [(b, with_signatures e (fold (put_signature S e) ts m1))]" for m1
    using Cons by simp
  with sign_step_single [OF k(2) assms(2) k(1), of m] k put_signature_def [of S e t m] show ?case by simp
qed simp

lemma fold_put_signature:
  assumes "\<And>t. t \<in> set ts \<Longrightarrow> P (the (signer_of S e (bts_PublicKey t))) (TrimSpace (bts_Signature t))"
    and "(\<exists>t \<in> set ts. the (signer_of S e (bts_PublicKey t)) = k) \<or> (\<exists>x. m k = Some x \<and> P k x)"
  shows "\<exists>x. fold (put_signature S e) ts m k = Some x \<and> P k x"
  using assms
proof (induction ts arbitrary: m)
  case (Cons t ts)
  show ?case
  proof (cases "the (signer_of S e (bts_PublicKey t)) = k")
    case True
    then have "put_signature S e t m k = Some (TrimSpace (bts_Signature t)) \<and> P k (TrimSpace (bts_Signature t))"
      using Cons.prems(1) [of t] by (auto simp: put_signature_def)
    with Cons show ?thesis by simp
  next
    case False
    then have "put_signature S e t m k = m k" by (simp add: put_signature_def)
    with False Cons show ?thesis by simp
  qed
qed simp

section \<open>The loop over slots\<close>

definition slot_event :: "string \<Rightarrow> u64 \<Rightarrow> event" where
  "slot_event detail slot = Ev ''getBlock'' (map sval_text
     [SInt (uint slot), block_params \<lparr>gb_Commitment = Finalized, gb_Encoding = ''json'',
        gb_MaxSupportedTransactionVersion = 0, gb_TransactionDetails = detail, gb_Rewards = False\<rparr>])"

lemma GetBlockBySlot_run:
  obtains r w1 where "GetBlockBySlot cl slot detail w = (Ret r, w1)" "trace w1 = trace w @ [slot_event detail slot]"
  by (simp add: GetBlockBySlot_def sol_call_def bind_io_assoc bind_ext_apply slot_event_def)

text \<open>The loop for headers: every slot is asked for, and those not answered leave no entry.\<close>

lemma slots_loop_step:
  assumes "GetBlockBySlot cl slot detail w = (Ret r, w1)" "\<not> slot > e"
    and item: "\<And>s b. item s b = ret_io (f s b)"
  shows "slots_loop cl detail item (Suc k) slot e acc w =
    slots_loop cl detail item k (slot + 1) e (acc @ (case r of Inl err \<Rightarrow> [] | Inr b \<Rightarrow> [f slot b])) w1"
proof (cases r)
  case (Inr b)
  then show ?thesis
    using assms(2) item [of slot b] by (subst slots_loop.simps) (simp add: bind_io_run [where m = "GetBlockBySlot cl slot detail" and w = w, OF assms(1)])
qed (use assms(2) in \<open>subst slots_loop.simps, simp add: bind_io_run [where m = "GetBlockBySlot cl slot detail" and w = w, OF assms(1)]\<close>)

text \<open>A block that is the node's answer for a slot; the slots of a range by their distance from the first.\<close>

definition slot_answer :: "'w solclient \<Rightarrow> string \<Rightarrow> u64 \<Rightarrow> BlockResult \<Rightarrow> bool" where
  "slot_answer cl detail slot b \<longleftrightarrow> (\<exists>w1 w2. GetBlockBySlot cl slot detail w1 = (Ret (Inr b), w2))"

definition answers :: "'w solclient \<Rightarrow> string \<Rightarrow> u64 \<Rightarrow> nat \<Rightarrow> (nat \<times> BlockResult) list \<Rightarrow> bool" where
  "answers cl detail slot n bs \<longleftrightarrow> subseq (map fst bs) [0..<n] \<and>
     (\<forall>(i, b) \<in> set bs. slot_answer cl detail (slot + word_of_nat i) b)"

definition shifted :: "(nat \<times> BlockResult) list \<Rightarrow> (nat \<times> BlockResult) list" where
  "shifted bs = map (\<lambda>(i, b). (Suc i, b)) bs"

lemma subseq_shifted: "subseq xs [0..<n] \<Longrightarrow> subseq (map Suc xs) [Suc 0..<Suc n]"
  using subseq_map [of xs "[0..<n]" Suc] by (simp add: map_Suc_upt)

lemma answers_shifted:
  assumes "answers cl detail (slot + 1) n bs"
  shows "answers cl detail slot (Suc n) (shifted bs)"
    and "slot_answer cl detail slot b \<Longrightarrow> answers cl detail slot (Suc n) ((0, b) # shifted bs)"
proof -
  have "map fst (shifted bs) = map Suc (map fst bs)" by (auto simp: shifted_def)
  then have sub: "subseq (map fst (shifted bs)) [Suc 0..<Suc n]"
    using assms by (simp only: answers_def subseq_shifted)
  have all: "\<forall>(i, b) \<in> set (shifted bs). slot_answer cl detail (slot + word_of_nat i) b"
    using assms by (auto simp: answers_def shifted_def add.assoc)
  have upt: "[0..<Suc n] = 0 # [Suc 0..<Suc n]" by (simp only: upt_conv_Cons [OF zero_less_Suc])
  show "answers cl detail slot (Suc n) (shifted bs)"
    using sub all unfolding answers_def upt by (auto intro: subseq_Cons')
  show "answers cl detail slot (Suc n) ((0, b) # shifted bs)" if "slot_answer cl detail slot b"
    using sub all that unfolding answers_def upt by auto
qed

lemma map_shifted: "map (\<lambda>(i, b). f (slot + word_of_nat i) b) (shifted bs) =
    map (\<lambda>(i, b). f (slot + 1 + word_of_nat i) b) bs"
  by (simp add: shifted_def comp_def case_prod_beta add.assoc)

lemma slots_loop_run:
  assumes item: "\<And>s b. item s b = ret_io (f s b)"
    and "unat slot + n = Suc (unat e)" "n \<le> m" "e < - 1"
  shows "\<exists>bs w'. slots_loop cl detail item m slot e acc w =
      (Ret (acc @ map (\<lambda>(i, b). f (slot + word_of_nat i) b) bs), w') \<and> answers cl detail slot n bs \<and>
    trace w' = trace w @ map (\<lambda>i. slot_event detail (slot + word_of_nat i)) [0..<n]"
  using assms(2-4)
proof (induction n arbitrary: m slot acc w)
  case 0
  then have "slot > e" by (simp add: word_less_nat_alt)
  then show ?case by (auto simp: slots_loop.simps answers_def)
next
  case (Suc n)
  have "unat e < 2 ^ 64 - 1" using Suc.prems(3) by (simp add: word_less_nat_alt unsigned_minus_1_eq_mask mask_eq_exp_minus_1)
  then have nxt: "unat (slot + 1) = Suc (unat slot)" "\<not> slot > e"
    using Suc.prems(1) by (simp_all add: word_less_nat_alt unat_word_ariths)
  obtain k where k: "m = Suc k" using Suc.prems(2) by (cases m) auto
  obtain r w1 where r: "GetBlockBySlot cl slot detail w = (Ret r, w1)" "trace w1 = trace w @ [slot_event detail slot]"
    by (rule GetBlockBySlot_run)
  let ?new = "case r of Inl err \<Rightarrow> [] | Inr b \<Rightarrow> [f slot b]"
  have "unat (slot + 1) + n = Suc (unat e)" "n \<le> k" using Suc.prems nxt k by simp_all
  then obtain bs w' where run: "slots_loop cl detail item k (slot + 1) e (acc @ ?new) w1 =
      (Ret ((acc @ ?new) @ map (\<lambda>(i, b). f (slot + 1 + word_of_nat i) b) bs), w')"
    and bs: "answers cl detail (slot + 1) n bs"
    and tr: "trace w' = trace w1 @ map (\<lambda>i. slot_event detail (slot + 1 + word_of_nat i)) [0..<n]"
    using Suc.IH [of "slot + 1" k "acc @ ?new" w1] Suc.prems(3) by blast
  let ?bs = "(case r of Inl err \<Rightarrow> [] | Inr b \<Rightarrow> [(0, b)]) @ shifted bs"
  have "slot_answer cl detail slot b" if "r = Inr b" for b using r(1) that by (auto simp: slot_answer_def)
  then have "answers cl detail slot (Suc n) ?bs" using answers_shifted [OF bs] by (cases r) auto
  moreover have "map (\<lambda>(i, b). f (slot + word_of_nat i) b) ?bs = ?new @ map (\<lambda>(i, b). f (slot + 1 + word_of_nat i) b) bs"
    by (cases r) (simp_all add: map_shifted)
  moreover have "map (\<lambda>i. slot_event detail (slot + word_of_nat i)) [0..<Suc n] =
      slot_event detail slot # map (\<lambda>i. slot_event detail (slot + 1 + word_of_nat i)) [0..<n]"
    by (simp only: upt_conv_Cons [OF zero_less_Suc] map_Suc_upt [symmetric]) (simp add: comp_def add.assoc)
  ultimately show ?case
    using run tr r(2) slots_loop_step [OF r(1) nxt(2) item, where k = k and acc = acc] k
    by (intro exI [of _ ?bs] exI [of _ w']) (simp del: map_append)
qed

lemma slots_loop_endless:
  assumes item: "\<And>s b. item s b = ret_io (f s b)"
  shows "fst (slots_loop cl detail item m slot (- 1) acc w) = Panic"
proof (induction m arbitrary: slot acc w)
  case 0
  then show ?case by (simp add: slots_loop.simps word_not_simps)
next
  case (Suc m)
  obtain r w1 where "GetBlockBySlot cl slot detail w = (Ret r, w1)" by (rule GetBlockBySlot_run)
  from slots_loop_step [OF this _ item, of "- 1"] Suc show ?case by (simp add: word_not_simps)
qed

section \<open>Sending\<close>

definition sol_send_calls :: "RawTransaction \<Rightarrow> event list" where
  "sol_send_calls t =
     (if RawTx t = [] then [] else [Ev ''sendTransaction'' (map sval_text [SStr (RawTx t), send_params send_config])])"

lemma sol_send_one_run: "\<exists>r w'. sol_send_one cl t w = (Ret r, w') \<and> trace w' = trace w @ sol_send_calls t"
  by (simp add: sol_send_calls_def sol_send_one_def sol_send_def sol_get_def sol_call_def bind_io_assoc bind_ext_apply Let_def)

interpretation sol_send: batch_send
  "sol_SendTransaction c" "sol_send_one (solCli c)" sol_send_calls "''success''" for c
  by unfold_locales (simp_all add: sol_SendTransaction_def sol_send_one_run)

lemmas sol_send_returns = sol_send.handler_returns

section \<open>All the signatures of a transaction\<close>

lemma signed_complete:
  assumes env: "decodeEnvelope S b = Inr e" "hex_decode (TrimPrefix (en_MessageHex e) ''0x'') = Inr bytes"
    "message_Unmarshal S bytes = Inr message" "en_SignerKeys e \<noteq> []"
    "en_NumRequiredSignatures e = int (length (en_SignerKeys e))" "length (en_SignerKeys e) \<le> mem"
    and given: "sgr_TxnWithSignature request \<noteq> []"
      "\<And>t. t \<in> set (sgr_TxnWithSignature request) \<Longrightarrow> bts_Base64Tx t = b \<and> (\<exists>k. signer_of S e (bts_PublicKey t) = Some k \<and>
         hex_decode (TrimPrefix (TrimSpace (bts_Signature t)) ''0x'') = Inr (f k))"
    and complete: "\<And>k. k \<in> set (en_SignerKeys e) \<Longrightarrow> length (f k) = 64 \<and>
        (\<exists>t \<in> set (sgr_TxnWithSignature request). signer_of S e (bts_PublicKey t) = Some k)"
    and raw: "signed_MarshalBinary S (map f (en_SignerKeys e)) message = Inr signedBytes"
  shows "result (sol_BuildSignedTransaction mem S request) w = Ret (okReply \<lparr>Code = SUCCESS, Msg = ''success'',
    SignedTxn = [\<lparr>stx_SignedTx = sol64_Encode S signedBytes, stx_TxHash = sol58_Encode S (f (hd (en_SignerKeys e))),
      stx_IsSuccess = True\<rparr>]\<rparr>)"
proof -
  let ?ts = "sgr_TxnWithSignature request" and ?P = "\<lambda>k x. hex_decode (TrimPrefix x ''0x'') = Inr (f k)"
  define m where "m = fold (put_signature S e) ?ts (en_Signatures e)"
  obtain t ts where ts: "?ts = t # ts" using given(1) by (cases ?ts) auto
  then have first: "sign_step S t [] = sign_step S t [(b, with_signatures e (en_Signatures e))]"
    using sign_step_first [of S t e] given(2) [of t] env(1) by auto
  have "signer_of S e (bts_PublicKey t) \<noteq> None \<and> bts_Base64Tx t = b" if "t \<in> set ?ts" for t
    using given(2) that by fastforce
  then have "fold (sign_step S) ?ts [(b, with_signatures e (en_Signatures e))] = [(b, with_signatures e m)]"
    unfolding m_def using env(1) by (intro fold_sign_single) auto
  then have fold: "fold (sign_step S) ?ts [] = [(b, with_signatures e m)]" using ts first by simp
  have "signer_signature (with_signatures e m) k = Inr (f k)" if k: "k \<in> set (en_SignerKeys e)" for k
  proof -
    have "\<exists>x. m k = Some x \<and> (?P k x \<and> TrimSpace x = x)"
      unfolding m_def
      by (rule fold_put_signature [where P = "\<lambda>k x. ?P k x \<and> TrimSpace x = x"]) (use given(2) complete [OF k] in fastforce)+
    then obtain x where x: "m k = Some x" "?P k x" "TrimSpace x = x" by blast
    moreover have "x \<noteq> []" using x(2) complete [OF k] hex_decode_length [of "[]" "f k"]
      by (auto simp: TrimPrefix_def HasPrefix_def)
    ultimately show ?thesis using complete [OF k] by (simp add: signer_signature_def)
  qed
  then have fill: "fill_signatures (with_signatures e m) 0 (en_SignerKeys e)
      (replicate (length (en_SignerKeys e)) (replicate 64 0)) = Ret (Inr (map f (en_SignerKeys e)))"
    using fill_signatures_ok [of "en_SignerKeys e" "with_signatures e m" f _ 0] by simp
  have "index (map f (en_SignerKeys e)) 0 = Ret (f (hd (en_SignerKeys e)))"
    using env(4) by (simp add: index_def hd_conv_nth)
  with env(2-6) fill raw
  have "sol_sign_one mem S (with_signatures e m) = Ret \<lparr>stx_SignedTx = sol64_Encode S signedBytes,
      stx_TxHash = sol58_Encode S (f (hd (en_SignerKeys e))), stx_IsSuccess = True\<rparr>"
    by (simp add: sol_sign_one_def assembleSignedTransaction_def wrapped_def serializeSignedTxBase64_def)
  with fold show ?thesis by (simp add: sol_BuildSignedTransaction_def result_def)
qed

section \<open>A sample node, parser and library\<close>

definition sample_solparse :: solparse where
  "sample_solparse = \<lparr>sol58_Decode = \<lambda>s. Inr [], system_ProgramID = replicate 32 CHR 0x31, token_ProgramID = ''Tokenkeg'',
     as_tokenBalance = \<lambda>s. (case s of
         [a, n] \<Rightarrow> Inr \<lparr>tbe_AccountIndex = 0, tbe_Mint = ''mint'', tbe_Owner = [a], tbe_Amount = [n]\<rparr>
       | _ \<Rightarrow> Inl (Errorf ''unexpected end of JSON input'')),
     map_order = \<lambda>ks. ks\<rparr>"

definition sample_meta :: TransactionMeta where
  "sample_meta = \<lparr>tm_Err = None, tm_Fee = 5000, tm_PreBalances = [], tm_PostBalances = [], tm_InnerInstructions = [],
     tm_PreTokenBalances = [''a5'', ''b1'', ''c4''], tm_PostTokenBalances = [''c4'', ''b3'', ''a3''], tm_LogMessages = [],
     tm_LoadedAddresses = \<lparr>la_Readonly = [], la_Writable = []\<rparr>, tm_Status = None, tm_Rewards = None,
     tm_ComputeUnitsConsumed = 150\<rparr>"

definition sample_result :: TransactionResult where
  "sample_result = \<lparr>tx_Slot = 7, tx_Version = None, tx_BlockTime = None,
     tx_Transaction = \<lparr>sx_Message = \<lparr>ms_AccountKeys = [], ms_AddressTableLookups = [],
         ms_Header = \<lparr>th_NumReadonlySignedAccounts = 0, th_NumReadonlyUnsignedAccounts = 0, th_NumRequiredSignatures = 1\<rparr>,
         ms_Instructions = [], ms_RecentBlockhash = ''h''\<rparr>, sx_Signatures = Some [''s'']\<rparr>,
     tx_Meta = sample_meta\<rparr>"

text \<open>A node that answers transactions and blocks and refuses everything else.\<close>

definition refused :: "('w, 'a) rpc" where
  "refused ps e = (Inl (Errorf ''connection refused''), e)"

definition answering :: "'a \<Rightarrow> 'a sol_response" where
  "answering v = \<lparr>rs_Jsonrpc = ''2.0'', rs_ID = 1, rs_Error = None, rs_Result = v\<rparr>"

definition sample_solclient :: "unit solclient" where
  "sample_solclient = \<lparr>sol_url = ''http://node'', rpc_getHealth = refused, rpc_getAccountInfo = refused, rpc_getBalance = refused,
     rpc_getBlockHeight = refused, rpc_getSlot = refused, rpc_getBlocksWithLimit = refused,
     rpc_getBlock = \<lambda>ps e. (Inr (200, answering \<lparr>bl_ParentSlot = 6, bl_BlockTime = 1, bl_BlockHeight = 5, bl_BlockHash = ''b'',
        bl_PreviousBlockhash = ''a'', bl_Signatures = [], bl_Transactions = []\<rparr>), e),
     rpc_getTransaction = \<lambda>ps e. (Inr (200, answering sample_result), e), rpc_getFeeForMessage = refused,
     rpc_getRecentPrioritizationFees = refused, rpc_getSignaturesForAddress = refused, rpc_simulateTransaction = refused,
     rpc_sendTransaction = refused, rpc_getLatestBlockhash = refused,
     sol_ctx_Err = \<lambda>e. (None, e), sol_sleep = \<lambda>n e. ((), e)\<rparr>"

definition sample_sol :: "(unit, string) solChainAdaptor" where
  "sample_sol = \<lparr>solCli = sample_solclient, sdk_GetAccountInfo = \<lambda>k e. (Inl NotFound, e),
     solData = \<lparr>scan_GetTxByAddress = \<lambda>p n a x e. (Inr [], e)\<rparr>\<rparr>"

definition sample_envelope :: UnsignedEnvelope where
  "sample_envelope = \<lparr>en_MessageHex = ''0x01'', en_NumRequiredSignatures = 2, en_SignerKeys = [''K1'', ''K2''],
     en_Signatures = Map.empty, en_RecentBlockhash = ''h''\<rparr>"

text \<open>Keys are their texts; the order of the signatures can be read off the signed text.\<close>

definition sample_sollib :: "(string, unit, unit) sollib" where
  "sample_sollib = \<lparr>PublicKeyFromBytes = \<lambda>bs. ''K'', PublicKey_String = \<lambda>k. k, PublicKeyFromBase58 = Inr,
     FindAssociatedTokenAddress = \<lambda>k m. Inr (k @ m), MustHashFromBase58 = Ret, NewTransaction = \<lambda>is h k. Inr (),
     tx_message_bytes = \<lambda>t. Inr [], tx_NumRequiredSignatures = \<lambda>t. 1, tx_AccountKeys = \<lambda>t. [''K''],
     tx_RecentBlockhash = \<lambda>t. ''h'', message_Unmarshal = \<lambda>bs. Inr (), signed_MarshalBinary = \<lambda>sigs m. Inr (map hd sigs),
     sol58_Encode = EncodeToString, token_Amount = \<lambda>bs. Inr 0, sol64_Decode = \<lambda>s. Inr [], sol64_Encode = EncodeToString,
     json_SolanaTransferTx = \<lambda>bs. Inl NotFound, json_Envelope = \<lambda>e. Inr [], json_UnsignedEnvelope = \<lambda>bs. Inr sample_envelope\<rparr>"

definition sample_signatures :: "string list" where
  "sample_signatures = [replicate 88 CHR ''a'', replicate 88 CHR ''b'']"

definition sample_signature :: "string \<Rightarrow> string \<Rightarrow> Base64TransactionWithSignature" where
  "sample_signature k b = \<lparr>bts_Base64Tx = ''tx'', bts_Signature = concat (replicate 64 b), bts_PublicKey = k\<rparr>"

definition sample_signing :: SignedTransactionRequest where
  "sample_signing = \<lparr>ConsumerToken = [], ChainId = [], Network = [],
     sgr_TxnWithSignature = [sample_signature ''K2'' ''02'', sample_signature ''K1'' ''01'']\<rparr>"

lemma sample_balances:
  "decodeTokenBalances sample_solparse (tm_PreTokenBalances sample_meta) =
     [\<lparr>tbe_AccountIndex = 0, tbe_Mint = ''mint'', tbe_Owner = ''a'', tbe_Amount = ''5''\<rparr>,
      \<lparr>tbe_AccountIndex = 0, tbe_Mint = ''mint'', tbe_Owner = ''b'', tbe_Amount = ''1''\<rparr>,
      \<lparr>tbe_AccountIndex = 0, tbe_Mint = ''mint'', tbe_Owner = ''c'', tbe_Amount = ''4''\<rparr>]"
  "decodeTokenBalances sample_solparse (tm_PostTokenBalances sample_meta) =
     [\<lparr>tbe_AccountIndex = 0, tbe_Mint = ''mint'', tbe_Owner = ''c'', tbe_Amount = ''4''\<rparr>,
      \<lparr>tbe_AccountIndex = 0, tbe_Mint = ''mint'', tbe_Owner = ''b'', tbe_Amount = ''3''\<rparr>,
      \<lparr>tbe_AccountIndex = 0, tbe_Mint = ''mint'', tbe_Owner = ''a'', tbe_Amount = ''3''\<rparr>]"
  by (simp_all add: decodeTokenBalances_def sample_solparse_def sample_meta_def)

lemma sample_amounts: "parseBigInt ''1'' = 1" "parseBigInt ''3'' = 3" "parseBigInt ''4'' = 4" "parseBigInt ''5'' = 5"
  by code_simp+

lemma sample_slots: "ParseUint ''5'' = Inr 5" "ParseUint ''6'' = Inr 6"
proof -
  have "read_nat 10 ''5'' = Some 5" "read_nat 10 ''6'' = Some 6" by code_simp+
  then show "ParseUint ''5'' = Inr 5" "ParseUint ''6'' = Inr 6" by (simp_all add: ParseUint_def)
qed

lemma sample_changes:
  "balance_change sample_solparse sample_meta k =
     (if k = (''b'', ''mint'') then 2 else if k = (''a'', ''mint'') then - 2 else 0)"
  by (auto simp: balance_change_def sample_balances balance_map_def bal_key_def amount_of_def sample_amounts)

lemma sample_signer: "signer_of sample_sollib sample_envelope ''K1'' = Some ''K1''"
    "signer_of sample_sollib sample_envelope ''K2'' = Some ''K2''"
  by code_simp+

lemma sample_fields:
  "map_order sample_solparse ks = ks" "solCli sample_sol = sample_solclient"
  "en_SignerKeys sample_envelope = [''K1'', ''K2'']" "en_MessageHex sample_envelope = ''0x01''"
  "en_NumRequiredSignatures sample_envelope = 2"
  "message_Unmarshal sample_sollib bs = Inr ()" "signed_MarshalBinary sample_sollib sigs u = Inr (map hd sigs)"
  "sol58_Encode sample_sollib = EncodeToString" "sol64_Encode sample_sollib = EncodeToString"
  "decodeEnvelope sample_sollib tx = Inr sample_envelope"
  "set (sgr_TxnWithSignature sample_signing) = {sample_signature ''K2'' ''02'', sample_signature ''K1'' ''01''}"
  "sgr_TxnWithSignature sample_signing \<noteq> []"
  by (simp_all add: sample_solparse_def sample_sol_def sample_envelope_def sample_sollib_def decodeEnvelope_def
    wrapped_def sample_signing_def)

lemma sample_hex:
  "hex_decode (TrimPrefix (TrimSpace (concat (replicate 64 ''01''))) ''0x'') = Inr (replicate 64 1)"
  "hex_decode (TrimPrefix (TrimSpace (concat (replicate 64 ''02''))) ''0x'') = Inr (replicate 64 2)"
  "hex_decode (TrimPrefix ''0x01'' ''0x'') = Inr [1]"
  by code_simp+

section \<open>Properties\<close>

text \<open>
  C33. A token transfer is read from the balances of a transaction the same way in whatever order Go
  visits the maps: when one account's balance grows and one account's falls, the transfer goes from the
  owner of the second to the owner of the first, in the mint and by the amount of the growth.
\<close>

theorem spl_transfer:
  assumes order: "\<And>ks. distinct ks \<Longrightarrow> distinct (map_order P ks) \<and> set (map_order P ks) = set ks"
    and "balance_change P meta g > 0" "balance_change P meta l < 0"
    and "\<And>k. k \<noteq> g \<Longrightarrow> k \<noteq> l \<Longrightarrow> balance_change P meta k = 0"
  shows "parseSPLFromTokenBalances P meta =
    Some \<lparr>pt_From = fst l, pt_To = fst g, pt_Amount = FormatInt (balance_change P meta g), pt_ContractAddress = snd g,
      pt_TxType = txTypeSPL, pt_Fee = []\<rparr>"
proof -
  let ?pre = "decodeTokenBalances P (tm_PreTokenBalances meta)"
  let ?post = "decodeTokenBalances P (tm_PostTokenBalances meta)"
  let ?keys = "map_order P (remdups (map bal_key (?pre @ ?post)))"
  have keys: "distinct ?keys" "set ?keys = balance_keys P meta"
    using order [of "remdups (map bal_key (?pre @ ?post))"] by (auto simp: balance_keys_def)
  have gl: "g \<in> balance_keys P meta" "l \<in> balance_keys P meta"
    using assms(2,3) balance_change_keys [of P meta] by (metis less_irrefl)+
  then have "\<not> (?pre = [] \<and> ?post = [])" by (auto simp: balance_keys_def)
  moreover have "fold (spl_step (balance_change P meta)) ?keys ([], [], [], []) =
      (fst l, fst g, snd g, FormatInt (balance_change P meta g))"
    using keys gl assms(2-4) balance_keys_nonempty by (intro fold_spl_gain_loss) auto
  moreover have "FormatInt (balance_change P meta g) \<noteq> ''0''"
    using assms(2) FormatInt_inject [of _ 0] FormatInt_zero by fastforce
  moreover have "fst l \<noteq> []" "fst g \<noteq> []" using gl balance_keys_nonempty by blast+
  ultimately show ?thesis
    by (simp add: parseSPLFromTokenBalances_def Let_def balance_change_def [abs_def])
qed

theorem spl_transfer_witness:
  "parseSPLFromTokenBalances sample_solparse sample_meta = Some \<lparr>pt_From = ''a'', pt_To = ''b'',
     pt_Amount = FormatInt 2, pt_ContractAddress = ''mint'', pt_TxType = txTypeSPL, pt_Fee = []\<rparr>"
proof -
  let ?g = "(''b'', ''mint'')" and ?l = "(''a'', ''mint'')"
  have gl: "balance_change sample_solparse sample_meta ?g = 2" "balance_change sample_solparse sample_meta ?l = - 2"
    by (simp_all add: sample_changes)
  have "parseSPLFromTokenBalances sample_solparse sample_meta = Some \<lparr>pt_From = fst ?l, pt_To = fst ?g,
     pt_Amount = FormatInt (balance_change sample_solparse sample_meta ?g), pt_ContractAddress = snd ?g,
     pt_TxType = txTypeSPL, pt_Fee = []\<rparr>"
    by (rule spl_transfer) (simp_all add: gl sample_fields, simp add: sample_changes)
  then show ?thesis by (simp only: gl fst_conv snd_conv)
qed



text \<open>
  C18. A transaction is signed whatever the order in which its signers' signatures come: if the request
  has only signatures for one envelope, each of a signer of it and all of them present, each the 64 bytes
  \<open>f\<close> gives the signer, then the one answer is the transaction with those signatures in the order of the
  signers, named by the first.
\<close>

theorem signed_in_order:
  assumes env: "decodeEnvelope S b = Inr e" "hex_decode (TrimPrefix (en_MessageHex e) ''0x'') = Inr bytes"
    "message_Unmarshal S bytes = Inr message" "en_SignerKeys e \<noteq> []"
    "en_NumRequiredSignatures e = int (length (en_SignerKeys e))" "length (en_SignerKeys e) \<le> mem"
    and given: "sgr_TxnWithSignature request \<noteq> []"
      "\<And>t. t \<in> set (sgr_TxnWithSignature request) \<Longrightarrow> bts_Base64Tx t = b \<and> (\<exists>k. signer_of S e (bts_PublicKey t) = Some k \<and>
         hex_decode (TrimPrefix (TrimSpace (bts_Signature t)) ''0x'') = Inr (f k))"
    and complete: "\<And>k. k \<in> set (en_SignerKeys e) \<Longrightarrow> length (f k) = 64 \<and>
        (\<exists>t \<in> set (sgr_TxnWithSignature request). signer_of S e (bts_PublicKey t) = Some k)"
    and raw: "signed_MarshalBinary S (map f (en_SignerKeys e)) message = Inr signedBytes"
  shows "result (sol_BuildSignedTransaction mem S request) w = Ret (okReply \<lparr>Code = SUCCESS, Msg = ''success'',
    SignedTxn = [\<lparr>stx_SignedTx = sol64_Encode S signedBytes, stx_TxHash = sol58_Encode S (f (hd (en_SignerKeys e))),
      stx_IsSuccess = True\<rparr>]\<rparr>)"
  using assms by (rule signed_complete)

theorem signed_in_order_witness:
  "result (sol_BuildSignedTransaction 10 sample_sollib sample_signing) \<lparr>env = (), trace = []\<rparr> =
     Ret (okReply \<lparr>Code = SUCCESS, Msg = ''success'',
       SignedTxn = [\<lparr>stx_SignedTx = EncodeToString [1, 2], stx_TxHash = EncodeToString (replicate 64 1), stx_IsSuccess = True\<rparr>]\<rparr>)"
proof -
  let ?f = "\<lambda>k. if k = ''K1'' then replicate 64 1 else replicate 64 (2 :: byte)"
  have "result (sol_BuildSignedTransaction 10 sample_sollib sample_signing) \<lparr>env = (), trace = []\<rparr> =
     Ret (okReply \<lparr>Code = SUCCESS, Msg = ''success'',
       SignedTxn = [\<lparr>stx_SignedTx = sol64_Encode sample_sollib [1, 2],
         stx_TxHash = sol58_Encode sample_sollib (?f (hd (en_SignerKeys sample_envelope))), stx_IsSuccess = True\<rparr>]\<rparr>)"
  proof (rule signed_in_order [where b = "''tx''" and bytes = "[1]" and message = "()"])
    fix t assume "t \<in> set (sgr_TxnWithSignature sample_signing)"
    then consider "t = sample_signature ''K2'' ''02''" | "t = sample_signature ''K1'' ''01''" by (auto simp: sample_fields)
    then show "bts_Base64Tx t = ''tx'' \<and> (\<exists>k. signer_of sample_sollib sample_envelope (bts_PublicKey t) = Some k \<and>
         hex_decode (TrimPrefix (TrimSpace (bts_Signature t)) ''0x'') = Inr (?f k))"
      by cases (simp_all add: sample_signature_def sample_signer sample_hex)
  next
    fix k assume "k \<in> set (en_SignerKeys sample_envelope)"
    then show "length (?f k) = 64 \<and> (\<exists>t \<in> set (sgr_TxnWithSignature sample_signing).
        signer_of sample_sollib sample_envelope (bts_PublicKey t) = Some k)"
      by (auto simp: sample_fields sample_signature_def sample_signer)
  qed (simp_all add: sample_fields sample_hex)
  then show ?thesis by (simp add: sample_fields)
qed



end
