(* ===== verification/Lifecycle.thy ===== *)
theory Lifecycle
  imports Go_Encoding
begin

text \<open>
  The life of the process: the command that sets a service up, starts it, waits for a signal and stops it
  (\<open>common/cliapp/lifecycle.go\<close>, \<open>common/opio/interrupts.go\<close>, \<open>cmd/wallet-api/cli.go\<close>), and the
  gRPC service it runs (\<open>services/grpc/service.go\<close>). The main goroutine, the goroutines that watch for
  signals and the one that serves are interleaved in any order: a step relation on the state \<open>run\<close>.

  The context the command gets is the one \<open>main\<close> makes, which is never cancelled; neither action of the
  program uses the function that closes the context, so that only a signal cancels it. The action, \<open>Start\<close>
  and \<open>Stop\<close> are taken to return. Joined errors are one error with their texts on lines of their own.
\<close>

section \<open>Services and contexts\<close>

text \<open>A service with a state of type \<open>'w\<close>: \<open>Start\<close> and \<open>Stop\<close> as the code calls them.\<close>

record 'w Lifecycle =
  lc_Start :: "'w \<Rightarrow> goerror option \<times> 'w"
  lc_Stop :: "'w \<Rightarrow> goerror option \<times> 'w"
  lc_Stopped :: "'w \<Rightarrow> bool"

text \<open>An action may answer with a nil service and no error.\<close>

type_synonym 'w LifecycleAction = "'w \<Rightarrow> 'w Lifecycle option res \<times> 'w"

datatype ctx = Live | Cancelled goerror

primrec Cause :: "ctx \<Rightarrow> goerror option" where
  "Cause Live = None"
| "Cause (Cancelled e) = Some e"

text \<open>The first cancellation sets the cause; \<open>context.Canceled\<close> stands for a nil one.\<close>

definition Canceled :: goerror where
  "Canceled = Errorf ''context canceled''"

primrec cancel :: "goerror option \<Rightarrow> ctx \<Rightarrow> ctx" where
  "cancel None c = (case c of Live \<Rightarrow> Cancelled Canceled | Cancelled e \<Rightarrow> Cancelled e)"
| "cancel (Some e) c = (case c of Live \<Rightarrow> Cancelled e | Cancelled e' \<Rightarrow> Cancelled e')"

definition interruptErr :: goerror where
  "interruptErr = Errorf ''interrupt signal''"

text \<open>\<open>errors.Join\<close>: nil errors are dropped, the texts come on lines of their own.\<close>

definition errors_Join :: "goerror option list \<Rightarrow> goerror option" where
  "errors_Join es =
     (case List.map_filter id es of [] \<Rightarrow> None | xs \<Rightarrow> Some (Errorf (Join (map Error xs) [CHR 0x0A])))"

section \<open>The goroutines that watch for signals\<close>

text \<open>
  \<open>BlockOnInterruptsContext\<close>, then the cancellation: spawned, registered with the signal package, woken
  by a signal, ended.
\<close>

datatype watcher = Spawned | Watching | Woken | Ended

text \<open>A signal goes to every registered channel that has room.\<close>

primrec notify :: "watcher \<Rightarrow> watcher" where
  "notify Spawned = Spawned"
| "notify Watching = Woken"
| "notify Woken = Woken"
| "notify Ended = Ended"

text \<open>
  One step of a watcher. With its context done it may end without a signal; its own cancellation then
  has no effect.
\<close>

fun watch_step :: "watcher \<Rightarrow> ctx \<Rightarrow> (watcher \<times> ctx) option" where
  "watch_step Spawned c = Some (Watching, c)"
| "watch_step Watching Live = None"
| "watch_step Watching (Cancelled e) = Some (Ended, cancel (Some interruptErr) (Cancelled e))"
| "watch_step Woken c = Some (Ended, cancel (Some interruptErr) c)"
| "watch_step Ended c = None"

section \<open>The command\<close>

datatype phase = InSetup | InStart | Waiting | InStop | Finished "goerror option" | Crashed

datatype call = Setup | Start | Stop

record 'w run =
  phase :: phase
  service :: "'w Lifecycle option"
  svc :: 'w
  appCtx :: ctx
  appWatch :: watcher
  stopCtx :: ctx
  stopWatch :: watcher          \<comment> \<open>\<open>Ended\<close> as long as there is none\<close>
  calls :: "call list"

definition start_run :: "'w \<Rightarrow> 'w run" where
  "start_run w = \<lparr>phase = InSetup, service = None, svc = w, appCtx = Live, appWatch = Spawned,
     stopCtx = Live, stopWatch = Ended, calls = []\<rparr>"

text \<open>One step of the main goroutine, \<open>None\<close> when it is blocked or the command is over.\<close>

definition lifecycle_step :: "'w LifecycleAction \<Rightarrow> 'w run \<Rightarrow> 'w run option" where
  "lifecycle_step fn s = (case phase s of
       InSetup \<Rightarrow> (case fn (svc s) of
           (Inl err, w) \<Rightarrow> Some (s\<lparr>svc := w, calls := calls s @ [Setup],
             phase := Finished (errors_Join [Some (wrap_err ''failed to setup: '' err), Cause (appCtx s)])\<rparr>)
         | (Inr appLifecycle, w) \<Rightarrow> Some (s\<lparr>svc := w, calls := calls s @ [Setup], service := appLifecycle, phase := InStart\<rparr>))
     | InStart \<Rightarrow> (case service s of
           None \<Rightarrow> Some (s\<lparr>phase := Crashed\<rparr>)
         | Some appLifecycle \<Rightarrow> (case lc_Start appLifecycle (svc s) of
               (Some err, w) \<Rightarrow> Some (s\<lparr>svc := w, calls := calls s @ [Start],
                 phase := Finished (errors_Join [Some (wrap_err ''failed to start: '' err), Cause (appCtx s)])\<rparr>)
             | (None, w) \<Rightarrow> Some (s\<lparr>svc := w, calls := calls s @ [Start], phase := Waiting\<rparr>)))
     | Waiting \<Rightarrow> (if appCtx s = Live then None
                  else Some (s\<lparr>stopCtx := Live, stopWatch := Spawned, phase := InStop\<rparr>))
     | InStop \<Rightarrow> (case service s of
           None \<Rightarrow> Some (s\<lparr>phase := Crashed\<rparr>)
         | Some appLifecycle \<Rightarrow>
             (case lc_Stop appLifecycle (svc s) of
                (stopErr, w) \<Rightarrow>
                  (let c = cancel None (stopCtx s) in
                   Some (s\<lparr>svc := w, calls := calls s @ [Stop], stopCtx := c,
                     phase := Finished (case stopErr of
                         None \<Rightarrow> None
                       | Some err \<Rightarrow> errors_Join [Some (wrap_err ''failed to stop: '' err), Cause c])\<rparr>))))
     | Finished e \<Rightarrow> None
     | Crashed \<Rightarrow> None)"

definition over :: "'w run \<Rightarrow> bool" where
  "over s \<longleftrightarrow> (case phase s of Finished e \<Rightarrow> True | Crashed \<Rightarrow> True | _ \<Rightarrow> False)"

text \<open>
  The steps the process makes by itself; those that come from outside (a signal) or from the service's
  own goroutines, \<open>bg\<close>; the end of the command ends the process.
\<close>

inductive internal :: "'w LifecycleAction \<Rightarrow> 'w run \<Rightarrow> 'w run \<Rightarrow> bool" for fn where
  main: "lifecycle_step fn s = Some s' \<Longrightarrow> internal fn s s'"
| app_watch: "\<not> over s \<Longrightarrow> watch_step (appWatch s) (appCtx s) = Some (wt, c) \<Longrightarrow> internal fn s (s\<lparr>appWatch := wt, appCtx := c\<rparr>)"
| stop_watch: "\<not> over s \<Longrightarrow> watch_step (stopWatch s) (stopCtx s) = Some (wt, c) \<Longrightarrow>
    internal fn s (s\<lparr>stopWatch := wt, stopCtx := c\<rparr>)"

inductive run_step :: "('w \<Rightarrow> 'w \<Rightarrow> bool) \<Rightarrow> 'w LifecycleAction \<Rightarrow> 'w run \<Rightarrow> 'w run \<Rightarrow> bool" for bg fn where
  own: "internal fn s s' \<Longrightarrow> run_step bg fn s s'"
| signal: "\<not> over s \<Longrightarrow> run_step bg fn s (s\<lparr>appWatch := notify (appWatch s), stopWatch := notify (stopWatch s)\<rparr>)"
| background: "\<not> over s \<Longrightarrow> bg (svc s) w \<Longrightarrow> run_step bg fn s (s\<lparr>svc := w\<rparr>)"

inductive reachable :: "('w \<Rightarrow> 'w \<Rightarrow> bool) \<Rightarrow> 'w LifecycleAction \<Rightarrow> 'w \<Rightarrow> 'w run \<Rightarrow> bool" for bg fn w where
  start: "reachable bg fn w (start_run w)"
| step: "reachable bg fn w s \<Longrightarrow> run_step bg fn s s' \<Longrightarrow> reachable bg fn w s'"

inductive_cases internalE: "internal fn s s'"
inductive_cases run_stepE: "run_step bg fn s s'"

section \<open>The gRPC service and the actions\<close>

text \<open>
  \<open>Start\<close> spawns the goroutine that makes the dispatcher, listens and serves; \<open>Stop\<close> sets a flag.
  What the dispatcher, the listener and the server return are the parameters of that goroutine's steps.
\<close>

datatype server = NotStarted | Dispatching | Listening | Serving | Down

record GrpcService =
  gs_stopped :: bool
  gs_server :: server

definition grpc_Start :: "GrpcService \<Rightarrow> goerror option \<times> GrpcService" where
  "grpc_Start s = (None, s\<lparr>gs_server := Dispatching\<rparr>)"

definition grpc_Stop :: "GrpcService \<Rightarrow> goerror option \<times> GrpcService" where
  "grpc_Stop s = (None, s\<lparr>gs_stopped := True\<rparr>)"

definition NewRpcService :: "GrpcService \<Rightarrow> GrpcService Lifecycle res \<times> GrpcService" where
  "NewRpcService s = (Inr \<lparr>lc_Start = grpc_Start, lc_Stop = grpc_Stop, lc_Stopped = gs_stopped\<rparr>,
     \<lparr>gs_stopped = False, gs_server = NotStarted\<rparr>)"

text \<open>\<open>Serve\<close> returns an error, or goes on for ever (\<open>None\<close>).\<close>

fun serve_step :: "goerror option \<Rightarrow> goerror option \<Rightarrow> goerror option option \<Rightarrow> GrpcService \<Rightarrow> GrpcService \<Rightarrow> bool" where
  "serve_step newDispatcher listen serve s s' \<longleftrightarrow> (case gs_server s of
       Dispatching \<Rightarrow> s' = s\<lparr>gs_server := (if newDispatcher = None then Listening else Down)\<rparr>
     | Listening \<Rightarrow> s' = s\<lparr>gs_server := (if listen = None then Serving else Down)\<rparr>
     | Serving \<Rightarrow> serve \<noteq> None \<and> s' = s\<lparr>gs_server := Down\<rparr>
     | _ \<Rightarrow> False)"

definition runRpc :: "'c res \<Rightarrow> GrpcService LifecycleAction" where
  "runRpc cfg s = (case cfg of Inl err \<Rightarrow> (Inl err, s) | Inr c \<Rightarrow> (case NewRpcService s of (r, s') \<Rightarrow> (map_sum id Some r, s')))"

definition runApi :: "'w LifecycleAction" where
  "runApi w = (Inr None, w)"

section \<open>Lemmas\<close>

lemma cancelled_neq_Live [simp]: "(case c of Live \<Rightarrow> Cancelled e | Cancelled x \<Rightarrow> Cancelled x) \<noteq> Live"
  by (cases c) simp_all

lemma cancel_neq_Live [simp]: "cancel r c \<noteq> Live"
  by (cases r) simp_all

lemma cancel_interrupt:
  "c = Live \<or> c = Cancelled interruptErr \<Longrightarrow> cancel (Some interruptErr) c = Cancelled interruptErr"
  by auto

lemma notify_iff [simp]: "notify wt = Spawned \<longleftrightarrow> wt = Spawned" "notify wt = Ended \<longleftrightarrow> wt = Ended" "notify wt \<noteq> Watching"
  by (cases wt; simp)+

definition interruptible :: "ctx \<Rightarrow> bool" where
  "interruptible c \<longleftrightarrow> c = Live \<or> c = Cancelled interruptErr"

lemma watch_step_ctx: "watch_step wt c = Some (wt', c') \<Longrightarrow> interruptible c \<Longrightarrow> interruptible c' \<and> (c \<noteq> Live \<longrightarrow> c' = c)"
  by (cases "(wt, c)" rule: watch_step.cases) (auto simp: interruptible_def)

lemma watch_step_Ended: "watch_step wt c = Some (Ended, c') \<Longrightarrow> c' \<noteq> Live"
  by (cases "(wt, c)" rule: watch_step.cases) auto

definition stop_error :: "goerror option \<Rightarrow> bool" where
  "stop_error e \<longleftrightarrow> e = None \<or> (\<exists>err c. e = errors_Join [Some (wrap_err ''failed to stop: '' err), Some c] \<and> c \<in> {Canceled, interruptErr})"

text \<open>What holds in every state: which calls have been made, with which contexts and services.\<close>

definition life_inv :: "'w run \<Rightarrow> bool" where
  "life_inv s \<longleftrightarrow> interruptible (appCtx s) \<and> (appCtx s = Live \<longrightarrow> appWatch s \<noteq> Ended) \<and> (case phase s of
       InSetup \<Rightarrow> calls s = [] \<and> stopWatch s = Ended
     | InStart \<Rightarrow> calls s = [Setup] \<and> stopWatch s = Ended
     | Waiting \<Rightarrow> calls s = [Setup, Start] \<and> stopWatch s = Ended \<and> service s \<noteq> None
     | InStop \<Rightarrow> calls s = [Setup, Start] \<and> service s \<noteq> None \<and> appCtx s \<noteq> Live \<and> interruptible (stopCtx s)
     | Finished e \<Rightarrow> (calls s \<in> {[Setup], [Setup, Start]} \<and> e \<noteq> None) \<or>
         (calls s = [Setup, Start, Stop] \<and> appCtx s \<noteq> Live \<and> stop_error e)
     | Crashed \<Rightarrow> calls s = [Setup] \<and> service s = None)"

lemma errors_Join_Some: "errors_Join [Some e, r] \<noteq> None"
  by (cases r) (simp_all add: errors_Join_def)

lemma stop_error_result:
  assumes "interruptible c"
  shows "stop_error (case stopErr of None \<Rightarrow> None
    | Some err \<Rightarrow> errors_Join [Some (wrap_err ''failed to stop: '' err), Cause (cancel None c)])"
proof -
  obtain c' where "Cause (cancel None c) = Some c'" "c' \<in> {Canceled, interruptErr}"
    using assms by (auto simp: interruptible_def)
  then show ?thesis unfolding stop_error_def by (cases stopErr) (simp_all only: option.case, blast+)
qed

lemma stop_error_text:
  "stop_error (Some e) \<Longrightarrow> \<exists>err c. e = Errorf (''failed to stop: '' @ Error err @ [CHR 0x0A] @ Error c) \<and> c \<in> {Canceled, interruptErr}"
  unfolding stop_error_def by (auto simp: errors_Join_def map_filter_simps wrap_err_def)

lemma lifecycle_step_inv:
  assumes "lifecycle_step fn s = Some s'" "life_inv s"
  shows "life_inv s'"
proof (cases "phase s")
  case InSetup
  with assms show ?thesis
    by (cases "fn (svc s)"; cases "fst (fn (svc s))") (auto simp: lifecycle_step_def life_inv_def errors_Join_Some)
next
  case InStart
  with assms show ?thesis
    by (cases "service s") (auto simp: lifecycle_step_def life_inv_def errors_Join_Some split: prod.splits option.splits)
next
  case Waiting
  with assms show ?thesis
    by (cases "appCtx s") (auto simp: lifecycle_step_def life_inv_def interruptible_def)
next
  case InStop
  with assms obtain l where l: "service s = Some l" and c: "interruptible (stopCtx s)" by (auto simp: life_inv_def)
  obtain stopErr w where r: "lc_Stop l (svc s) = (stopErr, w)" by fastforce
  from InStop assms l r stop_error_result [OF c, of stopErr] show ?thesis
    by (auto simp del: cancel.simps simp: lifecycle_step_def life_inv_def Let_def)
qed (use assms in \<open>simp_all add: lifecycle_step_def\<close>)

lemma app_watch_inv:
  assumes "watch_step (appWatch s) (appCtx s) = Some (wt, c)" "life_inv s"
  shows "life_inv (s\<lparr>appWatch := wt, appCtx := c\<rparr>)"
proof -
  have ctx: "interruptible c" "appCtx s \<noteq> Live \<longrightarrow> c = appCtx s"
    using watch_step_ctx [OF assms(1)] assms(2) by (auto simp: life_inv_def)
  moreover have "c = Live \<longrightarrow> wt \<noteq> Ended" using watch_step_Ended assms(1) by blast
  ultimately show ?thesis using assms(2) by (cases "phase s") (auto simp: life_inv_def)
qed

lemma stop_watch_inv:
  assumes "\<not> over s" "watch_step (stopWatch s) (stopCtx s) = Some (wt, c)" "life_inv s"
  shows "life_inv (s\<lparr>stopWatch := wt, stopCtx := c\<rparr>)"
  using assms watch_step_ctx [OF assms(2)] by (cases "phase s") (auto simp: life_inv_def over_def)

lemma internal_inv: "internal fn s s' \<Longrightarrow> life_inv s \<Longrightarrow> life_inv s'"
  by (erule internal.cases) (blast intro: lifecycle_step_inv app_watch_inv stop_watch_inv)+

lemma signal_inv: "life_inv s \<Longrightarrow> life_inv (s\<lparr>appWatch := notify (appWatch s), stopWatch := notify (stopWatch s)\<rparr>)"
  by (cases "phase s") (simp_all add: life_inv_def)

lemma background_inv: "life_inv s \<Longrightarrow> life_inv (s\<lparr>svc := w\<rparr>)"
  by (cases "phase s") (simp_all add: life_inv_def)

lemma run_step_inv: "run_step bg fn s s' \<Longrightarrow> life_inv s \<Longrightarrow> life_inv s'"
  by (erule run_step.cases) (blast intro: internal_inv signal_inv background_inv)+

lemma start_inv: "life_inv (start_run w)"
  by (simp add: life_inv_def start_run_def interruptible_def)

lemma reachable_inv: "reachable bg fn w s \<Longrightarrow> life_inv s"
  by (induction rule: reachable.induct) (blast intro: run_step_inv start_inv)+

section \<open>Termination\<close>

primrec phase_rank :: "phase \<Rightarrow> nat" where
  "phase_rank InSetup = 16" | "phase_rank InStart = 12" | "phase_rank Waiting = 8" | "phase_rank InStop = 4"
| "phase_rank (Finished e) = 0" | "phase_rank Crashed = 0"

primrec watch_rank :: "watcher \<Rightarrow> nat" where
  "watch_rank Spawned = 3" | "watch_rank Watching = 2" | "watch_rank Woken = 1" | "watch_rank Ended = 0"

definition steps_left :: "'w run \<Rightarrow> nat" where
  "steps_left s = phase_rank (phase s) + watch_rank (appWatch s) + watch_rank (stopWatch s)"

lemma steps_left_bound: "steps_left s \<le> 22"
  by (cases "phase s"; cases "appWatch s"; cases "stopWatch s") (simp_all add: steps_left_def)

lemma watch_step_rank: "watch_step wt c = Some (wt', c') \<Longrightarrow> watch_rank wt' < watch_rank wt"
  by (cases "(wt, c)" rule: watch_step.cases) auto

lemma lifecycle_step_rank: "lifecycle_step fn s = Some s' \<Longrightarrow> steps_left s' < steps_left s"
  by (auto simp: lifecycle_step_def steps_left_def Let_def
    split: phase.splits prod.splits sum.splits option.splits if_splits)

lemma internal_rank: "internal fn s s' \<Longrightarrow> steps_left s' < steps_left s"
  by (erule internal.cases) (auto dest: lifecycle_step_rank watch_step_rank simp: steps_left_def)

lemma internal_bounded: "(internal fn ^^ n) s t \<Longrightarrow> n + steps_left t \<le> steps_left s"
proof (induction n arbitrary: t)
  case (Suc n)
  then show ?case using internal_rank by fastforce
qed simp

lemma internal_pow_inv: "(internal fn ^^ n) s t \<Longrightarrow> life_inv s \<Longrightarrow> life_inv t"
  by (induction n arbitrary: t) (auto intro: internal_inv)

text \<open>A signal has reached the watcher of the command.\<close>

definition interrupted :: "'w run \<Rightarrow> bool" where
  "interrupted s \<longleftrightarrow> appWatch s = Woken \<or> appCtx s \<noteq> Live"

lemma lifecycle_step_frame: "lifecycle_step fn s = Some s' \<Longrightarrow> appWatch s' = appWatch s \<and> appCtx s' = appCtx s"
  by (auto simp: lifecycle_step_def Let_def split: phase.splits prod.splits sum.splits option.splits if_splits)

lemma watch_step_Woken: "watch_step Woken c = Some (wt, c') \<Longrightarrow> c' \<noteq> Live"
  by auto

lemma watch_step_not_Live: "watch_step wt c = Some (wt', c') \<Longrightarrow> c \<noteq> Live \<Longrightarrow> c' \<noteq> Live"
  by (cases "(wt, c)" rule: watch_step.cases) auto

lemma internal_interrupted: "internal fn s s' \<Longrightarrow> interrupted s \<Longrightarrow> interrupted s'"
  by (erule internal.cases)
     (auto simp: interrupted_def dest: lifecycle_step_frame watch_step_not_Live)

lemma internal_pow_interrupted: "(internal fn ^^ n) s t \<Longrightarrow> interrupted s \<Longrightarrow> interrupted t"
  by (induction n arbitrary: t) (auto intro: internal_interrupted)

lemma watch_step_None: "watch_step wt c = None \<longleftrightarrow> (wt = Watching \<and> c = Live) \<or> wt = Ended"
  by (cases "(wt, c)" rule: watch_step.cases) auto

lemma lifecycle_step_None: "lifecycle_step fn s = None \<longleftrightarrow> over s \<or> (phase s = Waiting \<and> appCtx s = Live)"
  by (auto simp: lifecycle_step_def over_def Let_def split: phase.splits prod.splits sum.splits option.splits)

text \<open>A state without a step of its own is over or waits for its first signal.\<close>

lemma stuck_cases:
  assumes "life_inv s" "\<nexists>t. internal fn s t"
  shows "over s \<or> (phase s = Waiting \<and> appCtx s = Live \<and> appWatch s = Watching)"
proof (rule disjCI)
  assume waiting: "\<not> (phase s = Waiting \<and> appCtx s = Live \<and> appWatch s = Watching)"
  have "lifecycle_step fn s = None" using assms(2) internal.main by (cases "lifecycle_step fn s") blast+
  then consider "over s" | "phase s = Waiting" "appCtx s = Live" unfolding lifecycle_step_None by blast
  then show "over s"
  proof cases
    case 2
    then have "\<not> over s" by (simp add: over_def)
    then have "watch_step (appWatch s) (appCtx s) = None"
      using assms(2) internal.app_watch [of s _ _ fn] by (metis old.prod.exhaust option.exhaust)
    with 2 waiting assms(1) show ?thesis by (auto simp: watch_step_None life_inv_def)
  qed
qed

section \<open>The actions of the program\<close>

text \<open>The \<open>api\<close> command never gets past its start: the service is nil, and calling it panics.\<close>

lemma api_step: "run_step bg runApi s s' \<Longrightarrow> phase s \<in> {InSetup, InStart, Crashed} \<Longrightarrow> service s = None \<Longrightarrow>
    phase s' \<in> {InSetup, InStart, Crashed} \<and> service s' = None"
  by (auto simp: lifecycle_step_def runApi_def elim!: run_stepE internalE)

lemma api_crashes: "reachable bg runApi w s \<Longrightarrow> phase s \<in> {InSetup, InStart, Crashed} \<and> service s = None"
proof (induction rule: reachable.induct)
  case (step s s')
  then show ?case using api_step by blast
qed (simp add: start_run_def)

text \<open>The gRPC service never fails to start or to stop, so that the command ends well whenever it is set up.\<close>

lemma rpc_services: "fst (runRpc cfg w) = Inr l \<Longrightarrow> \<exists>l'. l = Some l' \<and> lc_Start l' = grpc_Start \<and> lc_Stop l' = grpc_Stop"
  by (auto simp: runRpc_def NewRpcService_def split: sum.splits)

definition rpc_ok :: "GrpcService run \<Rightarrow> bool" where
  "rpc_ok s \<longleftrightarrow> (\<forall>l. service s = Some l \<longrightarrow> lc_Start l = grpc_Start \<and> lc_Stop l = grpc_Stop) \<and>
     (phase s \<in> {InStart, Waiting, InStop} \<longrightarrow> service s \<noteq> None) \<and> phase s \<noteq> Crashed \<and>
     (\<forall>e. phase s = Finished (Some e) \<longrightarrow> calls s = [Setup])"

lemma rpc_main_ok:
  assumes "lifecycle_step (runRpc cfg) s = Some s'" "rpc_ok s" "life_inv s"
  shows "rpc_ok s'"
proof (cases "phase s")
  case InSetup
  with assms rpc_services [of cfg "svc s"] show ?thesis
    by (cases "fst (runRpc cfg (svc s))") (auto simp: lifecycle_step_def rpc_ok_def life_inv_def split: prod.splits)
next
  case InStart
  with assms show ?thesis by (auto simp: lifecycle_step_def rpc_ok_def grpc_Start_def)
next
  case Waiting
  with assms show ?thesis by (auto simp: lifecycle_step_def rpc_ok_def split: if_splits)
next
  case InStop
  with assms show ?thesis by (auto simp: lifecycle_step_def rpc_ok_def grpc_Stop_def Let_def)
qed (use assms in \<open>simp_all add: lifecycle_step_def\<close>)

lemma rpc_ok_updates [simp]:
  "rpc_ok (s\<lparr>appWatch := wt\<rparr>) = rpc_ok s" "rpc_ok (s\<lparr>stopWatch := wt\<rparr>) = rpc_ok s" "rpc_ok (s\<lparr>svc := w\<rparr>) = rpc_ok s"
  "rpc_ok (s\<lparr>appCtx := c\<rparr>) = rpc_ok s" "rpc_ok (s\<lparr>stopCtx := c\<rparr>) = rpc_ok s"
  by (simp_all add: rpc_ok_def)

lemma rpc_step_ok:
  assumes "run_step bg (runRpc cfg) s s'" "rpc_ok s" "life_inv s"
  shows "rpc_ok s'"
  using assms(1)
proof (cases rule: run_step.cases)
  case own
  then show ?thesis using assms(2,3) rpc_main_ok by (cases rule: internal.cases) auto
qed (use assms(2) in simp_all)

lemma rpc_reachable_ok: "reachable bg (runRpc cfg) w s \<Longrightarrow> rpc_ok s"
proof (induction rule: reachable.induct)
  case (step s s')
  show ?case by (rule rpc_step_ok [OF step.hyps(2) step.IH reachable_inv [OF step.hyps(1)]])
qed (simp add: start_run_def rpc_ok_def)

section \<open>A run\<close>

text \<open>
  A run of the \<open>rpc\<close> command that is set up, serves and gets a signal: it ends without an error, and the
  server still serves, \<open>Stop\<close> having only set its flag.
\<close>

definition sample_service :: "GrpcService Lifecycle" where
  "sample_service = \<lparr>lc_Start = grpc_Start, lc_Stop = grpc_Stop, lc_Stopped = gs_stopped\<rparr>"

definition sample_run :: "phase \<Rightarrow> bool \<Rightarrow> server \<Rightarrow> ctx \<Rightarrow> watcher \<Rightarrow> ctx \<Rightarrow> watcher \<Rightarrow> call list \<Rightarrow> GrpcService run" where
  "sample_run p st sv ac aw sc sw cs = \<lparr>phase = p, service = (if p = InSetup then None else Some sample_service),
     svc = \<lparr>gs_stopped = st, gs_server = sv\<rparr>, appCtx = ac, appWatch = aw, stopCtx = sc, stopWatch = sw, calls = cs\<rparr>"

abbreviation sample_reach :: "GrpcService run \<Rightarrow> bool" where
  "sample_reach \<equiv> reachable (serve_step None None None) (runRpc (Inr ())) \<lparr>gs_stopped = False, gs_server = NotStarted\<rparr>"

lemma sample_main:
  "sample_reach s \<Longrightarrow> lifecycle_step (runRpc (Inr ())) s = Some s' \<Longrightarrow> sample_reach s'"
  by (blast intro: reachable.step run_step.own internal.main)

lemma sample_steps:
  "sample_reach (sample_run InSetup False NotStarted Live Spawned Live Ended [])"
  "sample_reach (sample_run InStart False NotStarted Live Spawned Live Ended [Setup])"
  "sample_reach (sample_run Waiting False Dispatching Live Spawned Live Ended [Setup, Start])"
  "sample_reach (sample_run Waiting False Dispatching Live Watching Live Ended [Setup, Start])"
  "sample_reach (sample_run Waiting False Listening Live Watching Live Ended [Setup, Start])"
  "sample_reach (sample_run Waiting False Serving Live Watching Live Ended [Setup, Start])"
  "sample_reach (sample_run Waiting False Serving Live Woken Live Ended [Setup, Start])"
  "sample_reach (sample_run Waiting False Serving (Cancelled interruptErr) Ended Live Ended [Setup, Start])"
  "sample_reach (sample_run InStop False Serving (Cancelled interruptErr) Ended Live Spawned [Setup, Start])"
  "sample_reach (sample_run (Finished None) True Serving (Cancelled interruptErr) Ended (Cancelled Canceled) Spawned [Setup, Start, Stop])"
proof -
  show s0: "sample_reach (sample_run InSetup False NotStarted Live Spawned Live Ended [])"
    using reachable.start [of "serve_step None None None" "runRpc (Inr ())" "\<lparr>gs_stopped = False, gs_server = NotStarted\<rparr>"]
    by (simp add: sample_run_def start_run_def)
  show s1: "sample_reach (sample_run InStart False NotStarted Live Spawned Live Ended [Setup])"
    by (rule sample_main [OF s0]) (simp add: sample_run_def lifecycle_step_def runRpc_def NewRpcService_def sample_service_def)
  show s2: "sample_reach (sample_run Waiting False Dispatching Live Spawned Live Ended [Setup, Start])"
    by (rule sample_main [OF s1]) (simp add: sample_run_def lifecycle_step_def sample_service_def grpc_Start_def)
  show s3: "sample_reach (sample_run Waiting False Dispatching Live Watching Live Ended [Setup, Start])"
    using reachable.step [OF s2 run_step.own [OF internal.app_watch]] by (simp add: sample_run_def over_def)
  show s4: "sample_reach (sample_run Waiting False Listening Live Watching Live Ended [Setup, Start])"
    using reachable.step [OF s3 run_step.background] by (simp add: sample_run_def over_def)
  show s5: "sample_reach (sample_run Waiting False Serving Live Watching Live Ended [Setup, Start])"
    using reachable.step [OF s4 run_step.background] by (simp add: sample_run_def over_def)
  show s6: "sample_reach (sample_run Waiting False Serving Live Woken Live Ended [Setup, Start])"
    using reachable.step [OF s5 run_step.signal] by (simp add: sample_run_def over_def)
  show s7: "sample_reach (sample_run Waiting False Serving (Cancelled interruptErr) Ended Live Ended [Setup, Start])"
    using reachable.step [OF s6 run_step.own [OF internal.app_watch]] by (simp add: sample_run_def over_def)
  show s8: "sample_reach (sample_run InStop False Serving (Cancelled interruptErr) Ended Live Spawned [Setup, Start])"
    by (rule sample_main [OF s7]) (simp add: sample_run_def lifecycle_step_def)
  show "sample_reach (sample_run (Finished None) True Serving (Cancelled interruptErr) Ended (Cancelled Canceled) Spawned [Setup, Start, Stop])"
    by (rule sample_main [OF s8]) (simp add: sample_run_def lifecycle_step_def sample_service_def grpc_Stop_def)
qed

lemma still_serving: "\<exists>s. sample_reach s \<and> phase s = Finished None \<and> gs_stopped (svc s) \<and> gs_server (svc s) = Serving"
  using sample_steps(10) by (rule exI [of _ "sample_run _ _ _ _ _ _ _ _", OF conjI]) (simp add: sample_run_def)

section \<open>Properties\<close>



text \<open>
  C36. The command always comes to an end: from any state it makes at most 22 steps of its own, and when
  it can make no more it is over, or it waits, with its watcher registered, for its first signal. Once a
  signal has reached the watcher, it is over.
\<close>

theorem lifecycle_ends:
  assumes "reachable bg fn w s" "(internal fn ^^ n) s t"
  shows "n \<le> 22 \<and> ((\<exists>u. internal fn t u) \<or> over t \<or>
    (phase t = Waiting \<and> appCtx t = Live \<and> appWatch t = Watching \<and> \<not> interrupted s))"
proof -
  have "n \<le> 22" using internal_bounded [OF assms(2)] steps_left_bound [of s] by simp
  moreover have "life_inv t" using internal_pow_inv [OF assms(2)] reachable_inv [OF assms(1)] by blast
  moreover have "\<not> interrupted s" if "appCtx t = Live" "appWatch t = Watching"
    using internal_pow_interrupted [OF assms(2)] that by (auto simp: interrupted_def)
  ultimately show ?thesis using stuck_cases [of t fn] by blast
qed

theorem lifecycle_ends_witness:
  "let s = sample_run Waiting False Serving Live Woken Live Ended [Setup, Start];
       t = sample_run Waiting False Serving (Cancelled interruptErr) Ended Live Ended [Setup, Start] in
   (internal (runRpc (Inr ())) ^^ 1) s t \<and> (\<exists>u. internal (runRpc (Inr ())) t u)"
proof -
  let ?s = "sample_run Waiting False Serving Live Woken Live Ended [Setup, Start]"
  let ?t = "sample_run Waiting False Serving (Cancelled interruptErr) Ended Live Ended [Setup, Start]"
  have t: "(internal (runRpc (Inr ())) ^^ 1) ?s ?t"
    using internal.app_watch [of ?s Ended "Cancelled interruptErr" "runRpc (Inr ())"] by (simp add: sample_run_def over_def eq_OO)
  have "\<not> over ?t" "phase ?t = Waiting" "appCtx ?t \<noteq> Live" by (simp_all add: sample_run_def over_def)
  with lifecycle_ends [OF sample_steps(7) t] t show ?thesis unfolding Let_def by blast
qed

end
