(* ===== verification/Read_Only.thy ===== *)
theory Read_Only
  imports Bnb_Sponsor Ethereum Bitcoin Tron_Props Sol_Props
begin

text \<open>
  Which handlers can broadcast. For each adaptor: every handler but \<open>SendTransaction\<close> and
  \<open>SendSponsoredTransfer\<close> makes no call that broadcasts, on its own chain or another.
\<close>

section \<open>The contract\<close>

definition read_only :: "(event \<Rightarrow> bool) \<Rightarrow> 'w IChainAdaptor \<Rightarrow> bool" where
  "read_only P a \<longleftrightarrow>
     (\<forall>r. emits P (ConvertAddresses a r)) \<and> (\<forall>r. emits P (ValidAddresses a r)) \<and>
     (\<forall>r. emits P (GetLastestBlock a r)) \<and> (\<forall>r. emits P (GetBlock a r)) \<and>
     (\<forall>r. emits P (GetBatchBlock a r)) \<and> (\<forall>r. emits P (GetTransactionByHash a r)) \<and>
     (\<forall>r. emits P (GetTransactionByAddress a r)) \<and> (\<forall>r. emits P (GetAccountBalance a r)) \<and>
     (\<forall>r. emits P (BuildTransactionSchema a r)) \<and> (\<forall>r. emits P (BuildUnSignTransaction a r)) \<and>
     (\<forall>r. emits P (BuildSignedTransaction a r)) \<and> (\<forall>r. emits P (BuildSponsoredTransfer a r)) \<and>
     (\<forall>r. emits P (GetAddressApproveList a r)) \<and> (\<forall>r. emits P (CallContract a r))"

lemma emits_pair_case [emits_intros]:
  "(\<And>x y. p = (Some x, Some y) \<Longrightarrow> emits P (f x y)) \<Longrightarrow> emits P m \<Longrightarrow>
   emits P (case p of (Some x, Some y) \<Rightarrow> f x y | _ \<Rightarrow> m)"
  by (auto split: option.split prod.split)

lemma emits_nat_case [emits_intros]:
  "(n = 0 \<Longrightarrow> emits P m) \<Longrightarrow> (\<And>k. n = Suc k \<Longrightarrow> emits P (f k)) \<Longrightarrow> emits P (case n of 0 \<Rightarrow> m | Suc k \<Rightarrow> f k)"
  by (cases n) simp_all

section \<open>Ethereum and BNB\<close>

lemma quiet_explorer:
  "emits no_send (ed_GetTxByAddress ed p n a act)" "emits no_send (ed_GetBalanceByAddress ed c a)"
  by (simp_all add: ed_GetTxByAddress_def ed_GetBalanceByAddress_def emits_ext no_send_def)

lemma quiet_now: "emits no_send (DefaultValidityWindow now)"
  unfolding DefaultValidityWindow_def by (intro emits_intros) (simp add: no_send_def)

lemma quiet_signed_data: "emits no_send (EncodePaymasterSignedData L now)"
  unfolding EncodePaymasterSignedData_def by (intro emits_intros quiet_now)

lemma quiet_BuildTransferUserOp:
  "emits no_send (BuildTransferUserOp L now cfg from to token amount n an rid fee tip)"
  unfolding BuildTransferUserOp_def Let_def by (intro emits_intros quiet_now quiet_signed_data quiet_DecodeWindow)

lemma quiet_signed_loop:
  assumes "\<And>t. emits no_send (build t)"
  shows "emits no_send (signed_loop G T build ts acc)"
proof (induction ts arbitrary: acc)
  case (Cons t ts)
  then show ?case unfolding signed_loop.simps Let_def by (intro emits_intros assms)
qed simp

context eth_client
begin

lemma quiet_eth_build: "emits no_send (eth_buildDynamicFeeTx G T C t)"
  unfolding eth_buildDynamicFeeTx_def by (intro emits_intros quiet)

lemma quiet_bnb_build: "emits no_send (bnb_buildDynamicFeeTx G T C t)"
  unfolding bnb_buildDynamicFeeTx_def Let_def by (intro emits_intros quiet quiet_Resolve)

lemma quiet_unsigned: "(\<And>t. emits no_send (build t)) \<Longrightarrow> emits no_send (evm_BuildUnSignTransaction G T build req)"
  unfolding evm_BuildUnSignTransaction_def by (intro emits_intros) assumption

lemma quiet_signed: "(\<And>t. emits no_send (build t)) \<Longrightarrow> emits no_send (evm_BuildSignedTransaction G T build req)"
  unfolding evm_BuildSignedTransaction_def by (intro quiet_signed_loop) assumption

lemma quiet_evm:
  "emits no_send (evm_ConvertAddresses G r1)" "emits no_send (evm_ValidAddresses r2)"
  "emits no_send (evm_GetLastestBlock G C r3)" "emits no_send (evm_GetTransactionByAddress ed r4)"
  "emits no_send (evm_GetAccountBalance ed r5)" "emits no_send (evm_BuildTransactionSchema r6)"
  "emits no_send (evm_GetAddressApproveList r7)" "emits no_send (evm_CallContract G C r8)"
  unfolding evm_ConvertAddresses_def evm_ValidAddresses_def evm_GetLastestBlock_def evm_GetTransactionByAddress_def
    evm_GetAccountBalance_def evm_BuildTransactionSchema_def evm_GetAddressApproveList_def evm_CallContract_def Let_def
  by (intro emits_intros quiet quiet_explorer)+

lemma quiet_eth:
  "emits no_send (eth_GetBlock G H C r1)" "emits no_send (eth_GetTransactionByHash G H C r2)"
  "emits no_send (eth_GetBatchBlock r3)" "emits no_send (eth_BuildSponsoredTransfer r4)"
  unfolding eth_GetBlock_def eth_GetTransactionByHash_def eth_GetBatchBlock_def eth_BuildSponsoredTransfer_def Let_def
  by (intro emits_intros quiet)+

lemma eth_read_only: "read_only no_send (eth_adaptor G H T C ed)"
  unfolding read_only_def eth_adaptor_def IChainAdaptor.simps
  by (intro conjI allI quiet_evm quiet_eth quiet_unsigned quiet_signed quiet_eth_build)

lemma quiet_block: "emits no_send (buildBlockWithTransactions G idx C b)"
  unfolding buildBlockWithTransactions_def Let_def by (intro emits_intros quiet)

lemma quiet_build_blocks: "emits no_send (build_blocks G idx C bs acc)"
proof (induction bs arbitrary: acc)
  case (Cons b bs)
  then show ?case unfolding build_blocks.simps by (intro emits_intros quiet_block)
qed simp

lemma quiet_bnb:
  assumes "bc_ethClient c = C"
  shows "emits no_send (bnb_GetBlock G bad c r1)" "emits no_send (bnb_GetBatchBlock G c r2)"
    "emits no_send (tryParseUserOpERC20Transfer G c item)"
  unfolding bnb_GetBlock_def bnb_GetBatchBlock_def tryParseUserOpERC20Transfer_def Let_def assms
  by (intro emits_intros quiet quiet_block quiet_build_blocks)+

lemma quiet_classify: "bc_ethClient c = C \<Longrightarrow> emits no_send (classify_tx G c tx receipt)"
  unfolding classify_tx_def Let_def by (simp only:) (intro emits_intros quiet quiet_bnb)

lemma quiet_bnb_hash: "bc_ethClient c = C \<Longrightarrow> emits no_send (bnb_GetTransactionByHash G c r)"
  unfolding bnb_GetTransactionByHash_def Let_def by (simp only:) (intro emits_intros quiet quiet_classify)

lemma quiet_entryPointNonce: "emits no_send (entryPointNonce L C s e)"
  unfolding entryPointNonce_def by (intro emits_intros quiet)

lemma quiet_bnb_sponsored: "bc_ethClient c = C \<Longrightarrow> emits no_send (bnb_BuildSponsoredTransfer G L now c r)"
  unfolding bnb_BuildSponsoredTransfer_def Let_def
  by (simp only:) (intro emits_intros quiet quiet_entryPointNonce quiet_resolved quiet_BuildTransferUserOp)

lemma bnb_read_only:
  assumes "bc_ethClient c = C"
  shows "read_only no_send (bnb_adaptor G L T bad now c)"
  unfolding read_only_def bnb_adaptor_def IChainAdaptor.simps bnb_ConvertAddresses_def bnb_ValidAddresses_def
    bnb_GetLastestBlock_def bnb_GetTransactionByAddress_def bnb_GetAccountBalance_def bnb_BuildTransactionSchema_def
    bnb_BuildUnSignTransaction_def bnb_BuildSignedTransaction_def bnb_GetAddressApproveList_def bnb_CallContract_def assms
  by (intro conjI allI quiet_evm quiet_bnb quiet_bnb_hash quiet_bnb_sponsored quiet_unsigned quiet_signed quiet_bnb_build assms)

end

section \<open>Bitcoin\<close>

lemma no_send_simps [simp]:
  "no_send (Ev n args) \<longleftrightarrow> n \<notin> broadcast_names" "no_send (request_event n b) \<longleftrightarrow> n \<notin> broadcast_names"
  by (simp_all add: no_send_def request_event_def)

lemma quiet_btc_get: "emits no_send (bc_get get c path)"
  unfolding bc_get_def by (intro emits_intros) simp

lemma quiet_btc_client:
  "emits no_send (bc_GetAccountBalance c a)" "emits no_send (bc_GetTransactionsByAddress c a p n)"
  "emits no_send (bc_GetTransactionsByHash c h)"
  unfolding bc_GetAccountBalance_def bc_GetTransactionsByAddress_def bc_GetTransactionsByHash_def Let_def
  by (intro emits_intros quiet_btc_get)+

lemma quiet_RawRequest: "m \<notin> broadcast_names \<Longrightarrow> emits no_send (RawRequest C m params)"
  unfolding RawRequest_def by (intro emits_intros) simp

lemma quiet_btc_block_loop: "emits no_send (btc_block_loop B C txids acc)"
proof (induction txids arbitrary: acc)
  case (Cons txid txids)
  show ?case unfolding btc_block_loop.simps by (intro emits_intros quiet_RawRequest Cons.IH) simp
qed simp

lemma btc_read_only: "read_only no_send (btc_adaptor B c)"
  unfolding read_only_def btc_adaptor_def IChainAdaptor.simps btc_ConvertAddresses_def btc_ValidAddresses_def
    btc_GetLastestBlock_def btc_GetBlock_def btc_GetBatchBlock_def btc_GetTransactionByHash_def
    btc_GetTransactionByAddress_def btc_GetAccountBalance_def btc_BuildTransactionSchema_def
    btc_BuildUnSignTransaction_def btc_BuildSignedTransaction_def btc_GetAddressApproveList_def
    btc_BuildSponsoredTransfer_def btc_CallContract_def Let_def
  by (intro conjI allI emits_intros quiet_btc_client quiet_RawRequest quiet_btc_block_loop) simp_all

section \<open>Tron\<close>

lemma quiet_api:
  "path \<notin> broadcast_names \<Longrightarrow> emits no_send (api_call f path b)"
  "path \<notin> broadcast_names \<Longrightarrow> emits no_send (named_call n f path b)"
  unfolding api_call_def named_call_def by (intro emits_intros; simp)+

lemma emits_map_err: "emits P m \<Longrightarrow> emits P (map_err f m)"
  unfolding map_err_def by (intro emits_intros)

lemma emits_reply_with: "emits P m \<Longrightarrow> emits P (reply_with m f)"
  unfolding reply_with_def by (intro emits_intros)

lemma quiet_tron_client:
  "emits no_send (tron_GetLatestBlock c)" "emits no_send (GetBlockByNumber c n)"
  "emits no_send (JsonRpcBlockHeader c n)"
  "emits no_send (tron_TransactionByHash c h)" "emits no_send (GetAccount c a)"
  "emits no_send (GetAccountResource c a)" "emits no_send (GetCanDelegatedMaxSize c a t)"
  "emits no_send (triggerSmartContract c b)" "emits no_send (CreateTRXTransaction c from to v)"
  "emits no_send (CreateDelegateResourceTransaction c from to v res)"
  unfolding tron_GetLatestBlock_def GetBlockByNumber_def tron_TransactionByHash_def GetAccount_def
    GetAccountResource_def GetCanDelegatedMaxSize_def triggerSmartContract_def CreateTRXTransaction_def
    CreateDelegateResourceTransaction_def JsonRpcGetLatestBlock_def JsonRpcBlock_def JsonRpcBlockHeader_def
    JsonRpcGetTransactionByHash_def
  by (intro emits_intros emits_map_err quiet_api; simp)+

lemma quiet_tron_calls:
  "emits no_send (IsAccountActivated c a)" "emits no_send (CreateTRC20Transaction T c from to contract v)"
  "emits no_send (GetTRC20Balance T c a contract)" "emits no_send (EnergyToDelegatedSun c energy)"
  "emits no_send (prepay_estimate T c from to contract energy cv)"
  "emits no_send (QueryJustLendRentalDelegatedSun T c from to contract)"
  unfolding IsAccountActivated_def CreateTRC20Transaction_def GetTRC20Balance_def EnergyToDelegatedSun_def
    fetchStakeTrxPer10KEnergy_def fetchStrxRentInfo_def prepay_estimate_def EstimateRentPrepay_def
    QueryJustLendRentalDelegatedSun_def Let_def
  by (intro emits_intros quiet_tron_client quiet_api; simp)+

lemma quiet_rentals:
  "emits no_send (CreateJustLendRentTransaction T c from to contract energy cv)"
  "emits no_send (CreateJustLendReturnTransaction T c from to contract energy)"
  unfolding CreateJustLendRentTransaction_def CreateJustLendReturnTransaction_def Let_def
  by (intro emits_intros quiet_tron_client quiet_tron_calls)+

lemma quiet_buildUnsigned: "emits no_send (buildUnsignedTransaction T c data)"
  unfolding buildUnsignedTransaction_def Let_def
  by (intro emits_intros quiet_tron_client quiet_tron_calls quiet_rentals)

lemma quiet_unsigned_loop: "emits no_send (unsigned_loop T J c ts acc)"
proof (induction ts arbitrary: acc)
  case (Cons t ts)
  show ?case unfolding unsigned_loop.simps by (intro emits_intros quiet_buildUnsigned Cons.IH)
qed simp

lemma quiet_heights: "emits no_send (heights_from mem c item a b)"
proof -
  have "emits no_send (heights_loop c item m height endHeight acc)" for m height endHeight acc
  proof (induction c item m height endHeight acc rule: heights_loop.induct)
    case (1 cl item m height endHeight acc)
    show ?case
      by (subst heights_loop.simps) (intro emits_intros quiet_tron_client 1; assumption)
  qed
  then show ?thesis unfolding heights_from_def Let_def by (intro emits_intros)
qed

lemma quiet_tron_explorer: "emits no_send (td_GetTransactionsByAddress td a p n)"
  unfolding td_GetTransactionsByAddress_def td_GetTxByAddress_def by (intro emits_intros) simp

lemma quiet_tron_balance: "emits no_send (tron_GetAccountBalance T c req)"
  unfolding tron_GetAccountBalance_def rental_balance_def Let_def
  by (intro emits_intros emits_reply_with quiet_tron_client quiet_tron_calls)

lemma tron_read_only: "read_only no_send (tron_adaptor mem T J c)"
  unfolding read_only_def tron_adaptor_def IChainAdaptor.simps tron_ConvertAddresses_def tron_ValidAddresses_def
    tron_GetLastestBlock_def tron_GetBlock_def tron_GetBatchBlock_def tron_GetTransactionByHash_def
    tron_GetTransactionByAddress_def tron_BuildTransactionSchema_def tron_BuildUnSignTransaction_def
    tron_BuildSignedTransaction_def tron_BuildSponsoredTransfer_def tron_GetAddressApproveList_def
    tron_CallContract_def Let_def
  by (intro conjI allI emits_intros quiet_tron_client quiet_tron_balance quiet_tron_explorer quiet_heights
      quiet_unsigned_loop)

section \<open>Solana\<close>

lemma quiet_sol_call: "name \<notin> broadcast_names \<Longrightarrow> emits no_send (sol_call m name s params)"
  unfolding sol_call_def by (intro emits_intros) simp

lemma quiet_sol_get: "name \<notin> broadcast_names \<Longrightarrow> emits no_send (sol_get m name what s params k)"
  unfolding sol_get_def by (intro emits_intros quiet_sol_call)

lemma quiet_sol_client:
  "emits no_send (sol_GetBalance s a)" "emits no_send (GetSlot s c)" "emits no_send (GetBlockBySlot s slot d)"
  "emits no_send (sol_GetTransaction s sg)" "emits no_send (GetTxForAddress s a c l b u)"
  "emits no_send (GetLatestBlockhash s c)"
  unfolding sol_GetBalance_def GetSlot_def GetBlockBySlot_def sol_GetTransaction_def GetTxForAddress_def
    GetLatestBlockhash_def Let_def
  by (intro emits_intros quiet_sol_get quiet_sol_call; simp)+

lemma quiet_attempt: "emits no_send (range_attempt s sg retry)"
  unfolding range_attempt_def by (intro emits_intros quiet_sol_client) simp_all

lemma quiet_range_run: "emits no_send (range_run s pick n pending results errors)"
proof (induction n arbitrary: pending results errors)
  case (Suc n)
  show ?case unfolding range_run.simps Let_def by (intro emits_intros quiet_attempt Suc.IH)
qed simp

lemma quiet_range: "emits no_send (GetTransactionRange pick s sigs)"
  unfolding GetTransactionRange_def by (intro emits_intros quiet_sol_client quiet_range_run)

lemma quiet_slots:
  assumes "\<And>slot b. emits no_send (item slot b)"
  shows "emits no_send (slots_from mem cl detail item a b)"
proof -
  have "emits no_send (slots_loop cl detail item m slot endHeight acc)" for m slot endHeight acc
  proof (induction m arbitrary: slot acc)
    case 0
    show ?case by (subst slots_loop.simps) simp
  next
    case (Suc m)
    show ?case
      by (subst slots_loop.simps) (simp only: nat.case, intro emits_intros quiet_sol_client assms Suc.IH)
  qed
  then show ?thesis unfolding slots_from_def by (intro emits_intros)
qed

lemma quiet_sol_items:
  "emits no_send (sol_header_info slot b)" "emits no_send (sol_block_info pick P c slot b)"
  unfolding sol_header_info_def sol_block_info_def sol_parseBlockTransactions_def Let_def
  by (intro emits_intros quiet_range)+

lemma sol_read_only: "read_only no_send (sol_adaptor mem pick P S c)"
  unfolding read_only_def sol_adaptor_def IChainAdaptor.simps sol_ConvertAddresses_def sol_ValidAddresses_def
    sol_GetLastestBlock_def sol_GetBlock_def sol_GetBatchBlock_def sol_GetTransactionByHash_def
    sol_GetTransactionByAddress_def sol_GetAccountBalance_def SdkGetAccountInfo_def sol_BuildTransactionSchema_def
    sol_BuildUnSignTransaction_def sol_BuildSignedTransaction_def sol_BuildSponsoredTransfer_def
    sol_GetAddressApproveList_def sol_CallContract_def Let_def
  by (intro conjI allI emits_intros quiet_sol_client quiet_slots quiet_sol_items) simp_all

end
