(* ===== verification/Gateway.thy ===== *)
theory Gateway
  imports Dispatcher Handlers Bnb_Props Read_Only
begin

text \<open>
  The dispatcher on the adaptors of the five chains: the factories of \<open>chaindispatcher/dispatcher.go\<close>,
  and the contract of every adaptor they make. A request can broadcast only through \<open>SendTransaction\<close>,
  which sends every transaction once at most, and through \<open>SendSponsoredTransfer\<close> on BNB, which sends
  three times at most.
\<close>

section \<open>The factories\<close>

text \<open>The libraries and the outside world of all adaptors, arguments of the constructors.\<close>

record ('w, 'x, 'k, 'y, 'b, 'm, 't, 'p, 'u, 'n) externals =
  x_geth :: geth
  x_ethlib :: ethlib
  x_txlib :: "'x txlib"
  x_evm :: "'w evm_env"
  x_aalib :: "('k, 'y) aalib"
  x_bad :: "string \<Rightarrow> int"
  x_now :: "'w \<Rightarrow> int \<times> 'w"
  x_btclib :: "('b, 'm) btclib"
  x_btc_rpc :: "ConnConfig \<Rightarrow> ('w, 'm) BaseClient res"
  x_oklink :: "string \<Rightarrow> string \<Rightarrow> 'w oklink res"
  x_btc_http :: "string \<Rightarrow> 'w BcClient"
  x_mem :: nat
  x_tronlib :: "'t tronlib"
  x_troncodec :: troncodec
  x_tron_rpc :: "string \<Rightarrow> string option \<Rightarrow> 'w TronClient"
  x_tron_oklink :: "string \<Rightarrow> string \<Rightarrow> 'w TronData res"
  x_pick :: "nat \<Rightarrow> nat"
  x_solparse :: solparse
  x_sollib :: "('p, 'u, 'n) sollib"
  x_sol_http :: "gresty_settings \<Rightarrow> 'w solclient"
  x_sol_sdk :: "string \<Rightarrow> 'p \<Rightarrow> 'w \<Rightarrow> byte list res \<times> 'w"
  x_solscan :: "string \<Rightarrow> string \<Rightarrow> u64 \<Rightarrow> 'w SolData res"

definition chain_factories :: "('w, 'x, 'k, 'y, 'b, 'm, 't, 'p, 'u, 'n) externals \<Rightarrow> 'w factories" where
  "chain_factories X =
     \<lparr>ethereum_New = eth_NewChainAdaptor (x_geth X) (x_ethlib X) (x_txlib X) (x_evm X),
      bitcoin_New = (\<lambda>cfg. ret_io (map_sum id (btc_adaptor (x_btclib X))
        (btc_NewChainAdaptor (x_btc_rpc X) (x_oklink X) (x_btc_http X) cfg))),
      solana_New = (\<lambda>cfg. ret_io (map_sum id (sol_adaptor (x_mem X) (x_pick X) (x_solparse X) (x_sollib X))
        (sol_NewChainAdaptor (x_sol_http X) (x_sol_sdk X) (x_solscan X) cfg))),
      tron_New = (\<lambda>cfg. ret_io (map_sum id (tron_adaptor (x_mem X) (x_tronlib X) (x_troncodec X))
        (tron_NewChainAdaptor (x_tron_rpc X) (x_tron_oklink X) cfg))),
      bnbchain_New = (\<lambda>cfg. bind_io (bnb_NewChainAdaptor (x_geth X) (x_evm X) cfg) (\<lambda>c.
        ret_io (map_sum id (bnb_adaptor (x_geth X) (x_aalib X) (x_txlib X) (x_bad X) (x_now X)) c)))\<rparr>"

section \<open>The contract of an adaptor\<close>

text \<open>The call of a chain's client that broadcasts.\<close>

definition broadcast_call :: "string \<Rightarrow> string" where
  "broadcast_call k =
     (if k = bitcoin_ChainID then ''sendrawtransaction''
      else if k = tron_ChainID then ''/wallet/broadcasttransaction''
      else if k = solana_ChainID then ''sendTransaction''
      else ''eth_sendRawTransaction'')"

text \<open>The broadcasts that a transaction of a request makes on a chain, which are none when it is refused unread.\<close>

definition broadcast_of :: "('w, 'x, 'k, 'y, 'b, 'm, 't, 'p, 'u, 'n) externals \<Rightarrow> string \<Rightarrow> RawTransaction \<Rightarrow> event list" where
  "broadcast_of X k t =
     (if k = bitcoin_ChainID then btc_send_calls (x_btclib X) t
      else if k = tron_ChainID then tron_send_calls (x_troncodec X) t
      else if k = solana_ChainID then sol_send_calls t
      else [Ev ''eth_sendRawTransaction'' [RawTx t]])"

text \<open>
  A send always ends with a reply of one result for each transaction, and all it calls outside are the
  broadcasts of its transactions, in order.
\<close>

definition sends_as :: "(RawTransaction \<Rightarrow> event list) \<Rightarrow> 'w IChainAdaptor \<Rightarrow> bool" where
  "sends_as calls a \<longleftrightarrow> (\<forall>req w. \<exists>m rs w'.
     SendTransaction a req w = (Ret (okReply \<lparr>Code = SUCCESS, Msg = m, TxnRet = rs\<rparr>), w') \<and>
     length rs = length (str_RawTx req) \<and> trace w' = trace w @ concat (map calls (str_RawTx req)))"

definition sponsors_at_most :: "nat \<Rightarrow> 'w IChainAdaptor \<Rightarrow> bool" where
  "sponsors_at_most k a \<longleftrightarrow> (\<forall>req. sends_at_most k (SendSponsoredTransfer a req))"

definition sponsored_limit :: "string \<Rightarrow> nat" where
  "sponsored_limit k = (if k = bnbchain_ChainID then 3 else 0)"

definition chain_contract :: "('w, 'x, 'k, 'y, 'b, 'm, 't, 'p, 'u, 'n) externals \<Rightarrow> string \<Rightarrow> 'w IChainAdaptor \<Rightarrow> bool" where
  "chain_contract X k a \<longleftrightarrow> read_only no_send a \<and> sends_as (broadcast_of X k) a \<and> sponsors_at_most (sponsored_limit k) a"

lemma chain_contractI:
  assumes "broadcast_of X k = calls" and "sponsored_limit k = j" and "read_only no_send a" and "sends_as calls a"
    and "sponsors_at_most j a"
  shows "chain_contract X k a"
  using assms by (simp add: chain_contract_def)

section \<open>Sending\<close>

text \<open>A batch whose items each broadcast once at most, through one call of the client.\<close>

locale broadcaster = batch_send handler item calls msg
  for handler :: "SendTransactionsRequest \<Rightarrow> ('w, SendTransactionResponse reply) io"
    and item :: "RawTransaction \<Rightarrow> ('w, RawTransactionReturn) io"
    and calls :: "RawTransaction \<Rightarrow> event list"
    and msg :: string +
  fixes rpc :: string
  assumes one_call: "length (calls t) \<le> 1 \<and> list_all (\<lambda>ev. ev_name ev = rpc) (calls t)"
begin

lemma all_calls: "length (concat (map calls ts)) \<le> length ts \<and> list_all (\<lambda>ev. ev_name ev = rpc) (concat (map calls ts))"
proof (induction ts)
  case (Cons t ts)
  with one_call [of t] show ?case by simp
qed simp

lemma contract: "SendTransaction a = handler \<Longrightarrow> sends_as calls a"
  using handler_run unfolding sends_as_def by metis

end

interpretation eth_gate: broadcaster
  "eth_SendTransaction G (clnt G maxLen schedule r)" "eth_send_one G (clnt G maxLen schedule r)"
  "\<lambda>t. [Ev ''eth_sendRawTransaction'' [RawTx t]]" "''send tx success''" "''eth_sendRawTransaction''"
  for G maxLen schedule r
  by unfold_locales simp

interpretation bnb_gate: broadcaster
  "bnb_SendTransaction G (clnt G maxLen schedule r)" "bnb_send_one G (clnt G maxLen schedule r)"
  "\<lambda>t. [Ev ''eth_sendRawTransaction'' [RawTx t]]" "''send tx success''" "''eth_sendRawTransaction''"
  for G maxLen schedule r
  by unfold_locales simp

interpretation btc_gate: broadcaster
  "btc_SendTransaction B C" "btc_send_one B C" "btc_send_calls B" "''send tx success''" "''sendrawtransaction''" for B C
  by unfold_locales (simp add: btc_send_calls_def split: sum.split)

interpretation tron_gate: broadcaster
  "tron_SendTransaction J c" "tron_send_one J (tronClient c)" "tron_send_calls J" "''success''"
  "''/wallet/broadcasttransaction''" for J c
  by unfold_locales (simp add: tron_send_calls_def request_event_def split: sum.split)

interpretation sol_gate: broadcaster
  "sol_SendTransaction c" "sol_send_one (solCli c)"
  sol_send_calls "''success''" "''sendTransaction''" for c
  by unfold_locales (simp add: sol_send_calls_def)

text \<open>So on every chain a transaction is broadcast once at most, through the chain's own call.\<close>

lemma broadcast_of_calls:
  "length (concat (map (broadcast_of X k) ts)) \<le> length ts \<and>
   list_all (\<lambda>ev. ev_name ev = broadcast_call k) (concat (map (broadcast_of X k) ts))"
proof -
  have "broadcast_of X k = btc_send_calls (x_btclib X)" if "k = bitcoin_ChainID"
    using that by (simp add: fun_eq_iff broadcast_of_def)
  moreover have "broadcast_of X k = tron_send_calls (x_troncodec X)" if "k = tron_ChainID"
    using that by (simp add: fun_eq_iff broadcast_of_def chain_id_defs)
  moreover have "broadcast_of X k = sol_send_calls" if "k = solana_ChainID"
    using that by (simp add: fun_eq_iff broadcast_of_def chain_id_defs)
  moreover have "broadcast_of X k = (\<lambda>t. [Ev ''eth_sendRawTransaction'' [RawTx t]])"
    if "k \<noteq> bitcoin_ChainID" "k \<noteq> tron_ChainID" "k \<noteq> solana_ChainID"
    using that by (simp add: fun_eq_iff broadcast_of_def)
  ultimately show ?thesis
    using btc_gate.all_calls [of "x_btclib X" ts] tron_gate.all_calls [of "x_troncodec X" ts] sol_gate.all_calls [of ts]
      eth_gate.all_calls [of ts] unfolding broadcast_call_def by presburger
qed

lemma broadcast_call_name: "broadcast_call k \<in> broadcast_names"
  by (simp add: broadcast_call_def)

section \<open>Every adaptor of a factory has the contract\<close>

lemma map_sum_Inr_iff: "map_sum f g x = Inr y \<longleftrightarrow> (\<exists>z. x = Inr z \<and> y = g z)"
  by (cases x) auto

lemma DialEthClient_clnt:
  assumes "DialEthClient G maxLen schedule dl url w = (Ret (Inr C), w')"
  shows "\<exists>r. C = clnt G maxLen schedule r"
  using assms unfolding DialEthClient_def by (auto simp: bind_io_Ret_iff map_sum_Inr_iff)

text \<open>What answers without a call broadcasts nothing.\<close>

lemma sponsors_silent: "(\<And>r. SendSponsoredTransfer a r = ret_io (f r)) \<Longrightarrow> sponsors_at_most 0 a"
  by (simp add: sponsors_at_most_def sends_quiet)

lemma eth_contract: "chain_contract X ethereum_ChainID (eth_adaptor G H T (clnt G maxLen schedule r) ed)"
proof (rule chain_contractI)
  show "read_only no_send (eth_adaptor G H T (clnt G maxLen schedule r) ed)" by (rule eth_clnt.eth_read_only)
  show "sends_as (\<lambda>t. [Ev ''eth_sendRawTransaction'' [RawTx t]]) (eth_adaptor G H T (clnt G maxLen schedule r) ed)"
    by (rule eth_gate.contract) (simp add: eth_adaptor_def)
  show "sponsors_at_most 0 (eth_adaptor G H T (clnt G maxLen schedule r) ed)"
    by (rule sponsors_silent) (simp add: eth_adaptor_def eth_SendSponsoredTransfer_def)
qed (simp_all add: fun_eq_iff broadcast_of_def sponsored_limit_def chain_id_defs)

lemma bnb_contract:
  assumes "bc_ethClient c = clnt G maxLen schedule r"
  shows "chain_contract X bnbchain_ChainID (bnb_adaptor G L T bad now c)"
proof (rule chain_contractI)
  show "read_only no_send (bnb_adaptor G L T bad now c)" by (rule eth_clnt.bnb_read_only [OF assms])
  show "sends_as (\<lambda>t. [Ev ''eth_sendRawTransaction'' [RawTx t]]) (bnb_adaptor G L T bad now c)"
    by (rule bnb_gate.contract) (simp add: bnb_adaptor_def assms)
  show "sponsors_at_most 3 (bnb_adaptor G L T bad now c)"
    unfolding sponsors_at_most_def bnb_adaptor_def IChainAdaptor.simps by (intro allI sponsored_at_most [OF assms])
qed (simp_all add: fun_eq_iff broadcast_of_def sponsored_limit_def chain_id_defs)

lemma btc_contract: "chain_contract X bitcoin_ChainID (btc_adaptor (x_btclib X) c)"
proof (rule chain_contractI)
  show "sends_as (btc_send_calls (x_btclib X)) (btc_adaptor (x_btclib X) c)"
    by (rule btc_gate.contract) (simp add: btc_adaptor_def)
  show "sponsors_at_most 0 (btc_adaptor (x_btclib X) c)"
    by (rule sponsors_silent) (simp add: btc_adaptor_def btc_SendSponsoredTransfer_def)
qed (simp_all add: btc_read_only fun_eq_iff broadcast_of_def sponsored_limit_def chain_id_defs)

lemma tron_contract: "chain_contract X tron_ChainID (tron_adaptor mem T (x_troncodec X) c)"
proof (rule chain_contractI)
  show "sends_as (tron_send_calls (x_troncodec X)) (tron_adaptor mem T (x_troncodec X) c)"
    by (rule tron_gate.contract) (simp add: tron_adaptor_def)
  show "sponsors_at_most 0 (tron_adaptor mem T (x_troncodec X) c)"
    by (rule sponsors_silent) (simp add: tron_adaptor_def tron_SendSponsoredTransfer_def)
qed (simp_all add: tron_read_only fun_eq_iff broadcast_of_def sponsored_limit_def chain_id_defs)

lemma sol_contract: "chain_contract X solana_ChainID (sol_adaptor mem pick P S c)"
proof (rule chain_contractI)
  show "sends_as sol_send_calls (sol_adaptor mem pick P S c)"
    by (rule sol_gate.contract) (simp add: sol_adaptor_def)
  show "sponsors_at_most 0 (sol_adaptor mem pick P S c)"
    by (rule sponsors_silent) (simp add: sol_adaptor_def sol_SendSponsoredTransfer_def)
qed (simp_all add: sol_read_only fun_eq_iff broadcast_of_def sponsored_limit_def chain_id_defs)

lemma eth_factory:
  assumes "eth_NewChainAdaptor G H T V cfg w = (Ret (Inr a), w')"
  shows "\<exists>r ed. a = eth_adaptor G H T (clnt G (ev_maxLen V) (ev_schedule V) r) ed"
  using assms unfolding eth_NewChainAdaptor_def
  by (auto simp: run_iff split: sum.splits dest!: DialEthClient_clnt)

lemma bnb_factory:
  assumes "bnb_NewChainAdaptor G V cfg w = (Ret (Inr c), w')"
  shows "(\<exists>r. bc_ethClient c = clnt G (ev_maxLen V) (ev_schedule V) r) \<and> bc_conf c = cfg"
  using assms unfolding bnb_NewChainAdaptor_def Let_def
  by (auto simp: run_iff split: sum.splits dest!: DialEthClient_clnt)

text \<open>What a factory makes is the adaptor of its chain.\<close>

lemma factory_cases:
  assumes "chainAdaptorFactoryMap (chain_factories X) k = Some factory" and "factory cfg w = (Ret (Inr a), w')"
    and "\<And>r ed. P ethereum_ChainID (eth_adaptor (x_geth X) (x_ethlib X) (x_txlib X)
        (clnt (x_geth X) (ev_maxLen (x_evm X)) (ev_schedule (x_evm X)) r) ed)"
    and "\<And>c r. bc_ethClient c = clnt (x_geth X) (ev_maxLen (x_evm X)) (ev_schedule (x_evm X)) r \<Longrightarrow> bc_conf c = cfg \<Longrightarrow>
        P bnbchain_ChainID (bnb_adaptor (x_geth X) (x_aalib X) (x_txlib X) (x_bad X) (x_now X) c)"
    and "\<And>c. P bitcoin_ChainID (btc_adaptor (x_btclib X) c)"
    and "\<And>c. P tron_ChainID (tron_adaptor (x_mem X) (x_tronlib X) (x_troncodec X) c)"
    and "\<And>c. P solana_ChainID (sol_adaptor (x_mem X) (x_pick X) (x_solparse X) (x_sollib X) c)"
  shows "P k a"
proof -
  from assms(1) consider
      "k = ethereum_ChainID" "factory = ethereum_New (chain_factories X)"
    | "k = bitcoin_ChainID" "factory = bitcoin_New (chain_factories X)"
    | "k = solana_ChainID" "factory = solana_New (chain_factories X)"
    | "k = tron_ChainID" "factory = tron_New (chain_factories X)"
    | "k = bnbchain_ChainID" "factory = bnbchain_New (chain_factories X)"
    unfolding chainAdaptorFactoryMap_def by (auto split: if_splits)
  then show ?thesis
  proof cases
    case 1
    with assms(2) have "eth_NewChainAdaptor (x_geth X) (x_ethlib X) (x_txlib X) (x_evm X) cfg w = (Ret (Inr a), w')"
      by (simp add: chain_factories_def)
    from eth_factory [OF this] assms(3) 1(1) show ?thesis by blast
  next
    case 2
    with assms(2,5) show ?thesis by (auto simp: chain_factories_def map_sum_Inr_iff)
  next
    case 3
    with assms(2,7) show ?thesis by (auto simp: chain_factories_def map_sum_Inr_iff)
  next
    case 4
    with assms(2,6) show ?thesis by (auto simp: chain_factories_def map_sum_Inr_iff)
  next
    case 5
    with assms(2) obtain c w1 where c: "bnb_NewChainAdaptor (x_geth X) (x_evm X) cfg w = (Ret (Inr c), w1)"
      "a = bnb_adaptor (x_geth X) (x_aalib X) (x_txlib X) (x_bad X) (x_now X) c"
      by (auto simp: chain_factories_def bind_io_Ret_iff map_sum_Inr_iff)
    from bnb_factory [OF c(1)] assms(4) c(2) 5(1) show ?thesis by blast
  qed
qed

text \<open>The dispatcher's configuration is the one given, and its registry has the adaptors of the factories.\<close>

lemma gateway_conf:
  assumes "NewChainDispatcher fs cfg w = (Ret (Some d), w')"
  shows "conf d = cfg" and "dom (registry d) = ch_ChainId ` set (Chains cfg) \<inter> set supportedChains"
proof -
  from assms obtain reg where r: "register_chains fs cfg (Chains cfg) Map.empty w = (Ret (Some reg), w')"
    and d: "d = \<lparr>conf = cfg, registry = reg\<rparr>"
    by (auto simp: NewChainDispatcher_def bind_io_Ret_iff)
  show "conf d = cfg" "dom (registry d) = ch_ChainId ` set (Chains cfg) \<inter> set supportedChains"
    using register_chains_dom [OF r] d by simp_all
qed

lemma gateway_registry:
  assumes "NewChainDispatcher (chain_factories X) cfg w = (Ret (Some d), w')" and "registry d k = Some a"
    and "\<And>r ed. P ethereum_ChainID (eth_adaptor (x_geth X) (x_ethlib X) (x_txlib X)
        (clnt (x_geth X) (ev_maxLen (x_evm X)) (ev_schedule (x_evm X)) r) ed)"
    and "\<And>c r. bc_ethClient c = clnt (x_geth X) (ev_maxLen (x_evm X)) (ev_schedule (x_evm X)) r \<Longrightarrow> bc_conf c = cfg \<Longrightarrow>
        P bnbchain_ChainID (bnb_adaptor (x_geth X) (x_aalib X) (x_txlib X) (x_bad X) (x_now X) c)"
    and "\<And>c. P bitcoin_ChainID (btc_adaptor (x_btclib X) c)"
    and "\<And>c. P tron_ChainID (tron_adaptor (x_mem X) (x_tronlib X) (x_troncodec X) c)"
    and "\<And>c. P solana_ChainID (sol_adaptor (x_mem X) (x_pick X) (x_solparse X) (x_sollib X) c)"
  shows "P k a"
proof -
  from assms(1) obtain reg where r: "register_chains (chain_factories X) cfg (Chains cfg) Map.empty w = (Ret (Some reg), w')"
    and d: "d = \<lparr>conf = cfg, registry = reg\<rparr>"
    by (auto simp: NewChainDispatcher_def bind_io_Ret_iff)
  with register_chains_origin [OF r, of k a] assms(2) obtain factory w1 w2 where
    "chainAdaptorFactoryMap (chain_factories X) k = Some factory" "factory cfg w1 = (Ret (Inr a), w2)" by auto
  then show ?thesis by (rule factory_cases) (fact assms(3-7))+
qed

lemma gateway_contract:
  assumes "NewChainDispatcher (chain_factories X) cfg w = (Ret (Some d), w')" and "registry d k = Some a"
  shows "chain_contract X k a"
  using assms by (rule gateway_registry) (rule eth_contract bnb_contract btc_contract tron_contract sol_contract, assumption?)+

text \<open>So only the two sends of a gateway broadcast.\<close>

lemma gateway_quiet:
  assumes "NewChainDispatcher (chain_factories X) cfg w = (Ret (Some d), w')"
  shows "emits no_send (d_ConvertAddresses d r1)" "emits no_send (d_ValidAddresses d r2)"
    "emits no_send (d_GetLastestBlock d r3)" "emits no_send (d_GetBlock d r4)"
    "emits no_send (d_GetBatchBlock d r5)" "emits no_send (d_GetTransactionByHash d r6)"
    "emits no_send (d_GetTransactionByAddress d r7)" "emits no_send (d_GetAccountBalance d r8)"
    "emits no_send (d_BuildTransactionSchema d r9)" "emits no_send (d_BuildUnSignTransaction d r10)"
    "emits no_send (d_BuildSignedTransaction d r11)" "emits no_send (d_GetAddressApproveList d r12)"
    "emits no_send (d_BuildSponsoredTransfer d r13)" "emits no_send (d_CallContract d r14)"
proof -
  have "read_only no_send a" if "registry d k = Some a" for k a
    using gateway_contract [OF assms that] by (simp add: chain_contract_def)
  then show "emits no_send (d_ConvertAddresses d r1)" "emits no_send (d_ValidAddresses d r2)"
    "emits no_send (d_GetLastestBlock d r3)" "emits no_send (d_GetBlock d r4)"
    "emits no_send (d_GetBatchBlock d r5)" "emits no_send (d_GetTransactionByHash d r6)"
    "emits no_send (d_GetTransactionByAddress d r7)" "emits no_send (d_GetAccountBalance d r8)"
    "emits no_send (d_BuildTransactionSchema d r9)" "emits no_send (d_BuildUnSignTransaction d r10)"
    "emits no_send (d_BuildSignedTransaction d r11)" "emits no_send (d_GetAddressApproveList d r12)"
    "emits no_send (d_BuildSponsoredTransfer d r13)" "emits no_send (d_CallContract d r14)"
    unfolding read_only_def
    by (simp_all only: convert.emits_handle valid.emits_handle latest.emits_handle block.emits_handle batch.emits_handle txhash.emits_handle txaddr.emits_handle balance.emits_handle schema.emits_handle unsign.emits_handle signed.emits_handle approve.emits_handle sponsor.emits_handle callc.emits_handle)
qed

section \<open>A sample gateway\<close>

definition sample_evm_env :: "unit evm_env" where
  "sample_evm_env =
     \<lparr>ev_dialer = \<lparr>parse_url = \<lambda>u. None, net_dial = \<lambda>a e. (True, e), rpc_DialContext = \<lambda>u e. (Inr sample_rpc, e),
        ctx_Err = \<lambda>e. (None, e), time_Sleep = \<lambda>n e. ((), e), rand_Int63n = \<lambda>n e. (0, e)\<rparr>,
      ev_maxLen = 1000, ev_schedule = concat,
      ev_new_explorer = \<lambda>k u e. (Inr \<lparr>exp_GetTxByAddress = \<lambda>q w. (Inr [], w), exp_GetAccountBalance = \<lambda>q w. (Inr None, w)\<rparr>, e)\<rparr>"

text \<open>A codec for which a transaction is its id in hex.\<close>

definition sample_troncodec :: troncodec where
  "sample_troncodec =
     \<lparr>base64_Decode = hex_decode, base64_Encode = EncodeToString,
      json_TronTransaction = \<lambda>bs. Inr (sample_trontx []\<lparr>tt_TxID := EncodeToString bs\<rparr>),
      json_TxStructure = \<lambda>bs. Inl NotFound, json_Marshal = \<lambda>t. hex_decode (tt_TxID t)\<rparr>"

definition sample_externals :: "(unit, DynamicFeeTx, address, SetCodeTx, nat, string, unit, string, unit, unit) externals" where
  "sample_externals =
     \<lparr>x_geth = sample_geth, x_ethlib = sample_ethlib, x_txlib = sample_txlib, x_evm = sample_evm_env,
      x_aalib = sample_lib, x_bad = \<lambda>s. 0, x_now = \<lambda>e. (1700000000, e), x_btclib = sample_btclib,
      x_btc_rpc = \<lambda>c. Inr sample_node,
      x_oklink = \<lambda>k u. Inr \<lparr>okl_GetEstimateGasFee = \<lambda>c e. (Inr [], e), okl_GetAccountBalance = \<lambda>c a s e. (Inr [], e),
        okl_GetAccountUtxo = \<lambda>c a s t e. (Inr [], e), okl_GetTxByAddress = \<lambda>a p n e. (Inr [], e),
        okl_GetTxByHash = \<lambda>c t e. (Inr [], e)\<rparr>,
      x_btc_http = \<lambda>u. sample_history, x_mem = 1000, x_tronlib = sample_tronlib,
      x_troncodec = sample_troncodec, x_tron_rpc = \<lambda>u k. sample_tronclient,
      x_tron_oklink = \<lambda>k u. Inr (tronDataClient sample_tron), x_pick = \<lambda>n. n, x_solparse = sample_solparse,
      x_sollib = sample_sollib, x_sol_http = \<lambda>u. sample_solclient, x_sol_sdk = \<lambda>u. sdk_GetAccountInfo sample_sol,
      x_solscan = \<lambda>k u n. Inr (solData sample_sol)\<rparr>"

text \<open>A configuration with two chains, and the dispatcher made of it.\<close>

definition sample_gateway_config :: Config where
  "sample_gateway_config = sample_config
     [\<lparr>ch_ChainName = ''Tron'', ch_ChainId = ''DappLinkTron'', ch_Network = ''mainnet''\<rparr>,
      \<lparr>ch_ChainName = ''Solana'', ch_ChainId = ''DappLinkSolana'', ch_Network = ''mainnet''\<rparr>]"

definition sample_gateway :: "unit ChainDispatcher" where
  "sample_gateway = \<lparr>conf = sample_gateway_config, registry =
     [''DappLinkTron'' \<mapsto> tron_adaptor 1000 sample_tronlib sample_troncodec sample_tron,
      ''DappLinkSolana'' \<mapsto> sol_adaptor 1000 (\<lambda>n. n) sample_solparse sample_sollib sample_sol]\<rparr>"

lemma sample_gateway_made:
  "NewChainDispatcher (chain_factories sample_externals) sample_gateway_config \<lparr>env = (), trace = []\<rparr> =
     (Ret (Some sample_gateway), \<lparr>env = (), trace = []\<rparr>)"
  by (simp add: NewChainDispatcher_def chain_factories_def chainAdaptorFactoryMap_def chain_id_defs bind_io_apply
    sample_gateway_config_def sample_gateway_def sample_externals_def sample_config_def Let_def
    tron_NewChainAdaptor_def NewTronDataClient_def DialTronClient_def sol_NewChainAdaptor_def NewSolHttpClient_def NewSolHttpClientAll_def
    NewSolScanClient_def sample_tron_def sample_sol_def defaultActivationTransferSun_def defaultDelegateBalanceSun_def
    defaultEstimatedEnergy_def)

end
