(* ===== verification/Replies.thy ===== *)
theory Replies
  imports Gateway
begin

text \<open>
  What every handler answers with: a reply, an error, or a reply that says \<open>ERROR\<close> together with an
  error; never neither of them, and never a success beside an error. \<open>returns Q m\<close> says that \<open>Q\<close> holds
  of whatever \<open>m\<close> returns; its introduction rules follow the control flow of a handler, as those of
  \<open>emits\<close> do.
\<close>

section \<open>Well-formed replies\<close>

definition well_formed :: "'a response_scheme reply \<Rightarrow> bool" where
  "well_formed p = (case p of
       (None, err) \<Rightarrow> err \<noteq> None
     | (Some r, None) \<Rightarrow> True
     | (Some r, Some e) \<Rightarrow> Code r = ERROR)"

named_theorems returns_intros

lemma well_formed_simps [simp]:
  "well_formed (okReply r)" "well_formed (errReply e)" "well_formed (bothReply r e) \<longleftrightarrow> Code r = ERROR"
  by (simp_all add: well_formed_def okReply_def errReply_def bothReply_def)

definition returns :: "('a \<Rightarrow> bool) \<Rightarrow> ('w, 'a) io \<Rightarrow> bool" where
  "returns Q m \<longleftrightarrow> (\<forall>w x w'. m w = (Ret x, w') \<longrightarrow> Q x)"

lemma returnsD: "returns Q m \<Longrightarrow> m w = (Ret x, w') \<Longrightarrow> Q x"
  unfolding returns_def by blast

lemma returns_ret [returns_intros]: "Q x \<Longrightarrow> returns Q (ret_io x)"
  by (simp add: returns_def)

lemma returns_panic [returns_intros]: "returns Q panic_io"
  by (simp add: returns_def)

lemma returns_bind [returns_intros]: "(\<And>x. returns Q (f x)) \<Longrightarrow> returns Q (bind_io m f)"
  unfolding returns_def bind_io_Ret_iff by blast

lemma returns_if [returns_intros]:
  "(b \<Longrightarrow> returns Q m) \<Longrightarrow> (\<not> b \<Longrightarrow> returns Q m') \<Longrightarrow> returns Q (if b then m else m')"
  by simp

lemma returns_sum_case [returns_intros]:
  "(\<And>e. x = Inl e \<Longrightarrow> returns Q (f e)) \<Longrightarrow> (\<And>v. x = Inr v \<Longrightarrow> returns Q (g v)) \<Longrightarrow>
   returns Q (case x of Inl e \<Rightarrow> f e | Inr v \<Rightarrow> g v)"
  by (cases x) auto

lemma returns_option_case [returns_intros]:
  "(x = None \<Longrightarrow> returns Q n) \<Longrightarrow> (\<And>v. x = Some v \<Longrightarrow> returns Q (g v)) \<Longrightarrow>
   returns Q (case x of None \<Rightarrow> n | Some v \<Rightarrow> g v)"
  by (cases x) auto

lemma returns_prod_case [returns_intros]:
  "(\<And>a b. p = (a, b) \<Longrightarrow> returns Q (f a b)) \<Longrightarrow> returns Q (case p of (a, b) \<Rightarrow> f a b)"
  by (cases p) auto

lemma returns_pair_case [returns_intros]:
  "(\<And>x y. p = (Some x, Some y) \<Longrightarrow> returns Q (f x y)) \<Longrightarrow> returns Q m \<Longrightarrow>
   returns Q (case p of (Some x, Some y) \<Rightarrow> f x y | _ \<Rightarrow> m)"
  by (auto split: option.split prod.split)

lemma well_formed_sum_case [returns_intros]:
  "(\<And>e. x = Inl e \<Longrightarrow> well_formed (f e)) \<Longrightarrow> (\<And>v. x = Inr v \<Longrightarrow> well_formed (g v)) \<Longrightarrow>
   well_formed (case x of Inl e \<Rightarrow> f e | Inr v \<Rightarrow> g v)"
  by (cases x) auto

lemma well_formed_atoms [returns_intros]:
  "well_formed (okReply r)" "well_formed (errReply e)" "Code r = ERROR \<Longrightarrow> well_formed (bothReply r e)"
  by simp_all

text \<open>The contract of an adaptor: all its handlers answer so.\<close>

definition answers :: "'w IChainAdaptor \<Rightarrow> bool" where
  "answers a \<longleftrightarrow>
     (\<forall>r. returns well_formed (ConvertAddresses a r)) \<and> (\<forall>r. returns well_formed (ValidAddresses a r)) \<and>
     (\<forall>r. returns well_formed (GetLastestBlock a r)) \<and> (\<forall>r. returns well_formed (GetBlock a r)) \<and>
     (\<forall>r. returns well_formed (GetBatchBlock a r)) \<and> (\<forall>r. returns well_formed (GetTransactionByHash a r)) \<and>
     (\<forall>r. returns well_formed (GetTransactionByAddress a r)) \<and> (\<forall>r. returns well_formed (GetAccountBalance a r)) \<and>
     (\<forall>r. returns well_formed (SendTransaction a r)) \<and> (\<forall>r. returns well_formed (BuildTransactionSchema a r)) \<and>
     (\<forall>r. returns well_formed (BuildUnSignTransaction a r)) \<and> (\<forall>r. returns well_formed (BuildSignedTransaction a r)) \<and>
     (\<forall>r. returns well_formed (BuildSponsoredTransfer a r)) \<and> (\<forall>r. returns well_formed (SendSponsoredTransfer a r)) \<and>
     (\<forall>r. returns well_formed (GetAddressApproveList a r)) \<and> (\<forall>r. returns well_formed (CallContract a r))"

section \<open>The five chains\<close>

lemma evm_signed_answers: "returns well_formed (evm_BuildSignedTransaction G T build req)"
proof -
  have "returns well_formed (signed_loop G T build ts acc)" for ts acc
  proof (induction ts arbitrary: acc)
    case Nil
    show ?case unfolding signed_loop.simps by (intro returns_intros)
  next
    case (Cons t ts)
    show ?case unfolding signed_loop.simps Let_def by (intro returns_intros Cons.IH)
  qed
  then show ?thesis unfolding evm_BuildSignedTransaction_def .
qed

lemma evm_answers:
  "returns well_formed (evm_ConvertAddresses G r1)" "returns well_formed (evm_ValidAddresses r2)"
  "returns well_formed (evm_GetLastestBlock G C r3)" "returns well_formed (evm_GetTransactionByAddress ed r4)"
  "returns well_formed (evm_GetAccountBalance ed r5)" "returns well_formed (evm_BuildTransactionSchema r6)"
  "returns well_formed (evm_GetAddressApproveList r7)" "returns well_formed (evm_CallContract G C r8)"
  "returns well_formed (evm_BuildUnSignTransaction G T build r9)"
  unfolding evm_ConvertAddresses_def evm_ValidAddresses_def evm_GetLastestBlock_def evm_GetTransactionByAddress_def
    evm_GetAccountBalance_def evm_BuildTransactionSchema_def evm_GetAddressApproveList_def evm_CallContract_def
    evm_BuildUnSignTransaction_def Let_def
  by (intro returns_intros; simp)+

lemma eth_answers: "answers (eth_adaptor G H T C ed)"
  unfolding answers_def eth_adaptor_def IChainAdaptor.simps eth_GetBlock_def eth_GetTransactionByHash_def
    eth_GetBatchBlock_def eth_BuildSponsoredTransfer_def eth_SendSponsoredTransfer_def eth_SendTransaction_def Let_def
  by (intro conjI allI evm_answers evm_signed_answers returns_intros)

lemma bnb_answers: "answers (bnb_adaptor G L T bad now c)"
  unfolding answers_def bnb_adaptor_def IChainAdaptor.simps bnb_ConvertAddresses_def bnb_ValidAddresses_def
    bnb_GetLastestBlock_def bnb_GetTransactionByAddress_def bnb_GetAccountBalance_def bnb_BuildTransactionSchema_def
    bnb_BuildUnSignTransaction_def bnb_BuildSignedTransaction_def bnb_GetAddressApproveList_def bnb_CallContract_def
    bnb_GetBlock_def bnb_GetBatchBlock_def bnb_GetTransactionByHash_def bnb_SendTransaction_def
    bnb_BuildSponsoredTransfer_def bnb_SendSponsoredTransfer_def sponsored_reply_def Let_def
  by (intro conjI allI evm_answers evm_signed_answers returns_intros)

lemma btc_answers: "answers (btc_adaptor B c)"
  unfolding answers_def btc_adaptor_def IChainAdaptor.simps btc_ConvertAddresses_def btc_ValidAddresses_def
    btc_GetLastestBlock_def btc_GetBlock_def btc_GetBatchBlock_def btc_GetTransactionByHash_def
    btc_GetTransactionByAddress_def btc_GetAccountBalance_def btc_BuildTransactionSchema_def
    btc_BuildUnSignTransaction_def btc_BuildSignedTransaction_def btc_GetAddressApproveList_def
    btc_BuildSponsoredTransfer_def btc_SendSponsoredTransfer_def btc_SendTransaction_def btc_CallContract_def Let_def
  by (intro conjI allI returns_intros; simp)

lemma balance_reply_well_formed: "well_formed (balance_reply r)"
  unfolding balance_reply_def by (intro returns_intros) simp

lemma tron_unsigned_answers: "returns well_formed (unsigned_loop T J c ts acc)"
proof (induction ts arbitrary: acc)
  case Nil
  show ?case unfolding unsigned_loop.simps by (intro returns_intros)
next
  case (Cons t ts)
  show ?case unfolding unsigned_loop.simps by (intro returns_intros Cons.IH)
qed

lemma tron_answers: "answers (tron_adaptor mem T J c)"
  unfolding answers_def tron_adaptor_def IChainAdaptor.simps tron_ConvertAddresses_def tron_ValidAddresses_def
    tron_GetLastestBlock_def tron_GetBlock_def tron_GetBatchBlock_def tron_GetTransactionByHash_def
    tron_GetTransactionByAddress_def tron_GetAccountBalance_def rental_balance_def reply_with_def
    tron_BuildTransactionSchema_def tron_BuildUnSignTransaction_def tron_BuildSignedTransaction_def
    tron_BuildSponsoredTransfer_def tron_SendSponsoredTransfer_def tron_SendTransaction_def
    tron_GetAddressApproveList_def tron_CallContract_def Let_def
  by (intro conjI allI returns_intros tron_unsigned_answers balance_reply_well_formed; simp)

lemma sol_unsigned_answers: "returns well_formed (lift_go (sol_unsigned_loop S h ts acc))"
proof (induction ts arbitrary: acc)
  case Nil
  show ?case by (simp add: returns_def)
next
  case (Cons t ts)
  then show ?case
    by (cases "unsigned_one S h t") (auto simp: returns_def unsigned_error_def lift_go_Ret_iff well_formed_def bothReply_def split: sum.splits)
qed

lemma sol_answers: "answers (sol_adaptor mem pick P S c)"
  unfolding answers_def sol_adaptor_def IChainAdaptor.simps sol_ConvertAddresses_def sol_ValidAddresses_def
    sol_GetLastestBlock_def sol_GetBlock_def sol_GetBatchBlock_def sol_GetTransactionByHash_def
    sol_GetTransactionByAddress_def sol_GetAccountBalance_def SdkGetAccountInfo_def balance_error_def sol_BuildTransactionSchema_def
    sol_BuildUnSignTransaction_def unsigned_error_def sol_BuildSignedTransaction_def sol_BuildSponsoredTransfer_def
    sol_SendSponsoredTransfer_def sol_SendTransaction_def sol_GetAddressApproveList_def sol_CallContract_def Let_def
  by (intro conjI allI returns_intros sol_unsigned_answers; simp)

text \<open>Every adaptor in the registry of a gateway answers so.\<close>

lemma gateway_answers:
  assumes "NewChainDispatcher (chain_factories X) cfg w = (Ret (Some d), w')" and "registry d k = Some a"
  shows "answers a"
  using assms by (rule gateway_registry) (rule eth_answers bnb_answers btc_answers tron_answers sol_answers)+

section \<open>Behind the interceptor\<close>

text \<open>
  What the client of the service receives: never nothing; beside an error, at most a response that says
  \<open>ERROR\<close>.
\<close>

definition well_formed_result :: "'a response_scheme rpc_result \<Rightarrow> bool" where
  "well_formed_result p = (case p of
       (None, err) \<Rightarrow> err \<noteq> None
     | (Some (CommonResponse r), err) \<Rightarrow> err \<noteq> None \<and> Code r = ERROR
     | (Some (Handled r), err) \<Rightarrow> err = None \<or> Code r = ERROR)"

text \<open>An intercepted call of a route, with the token its request carries.\<close>

definition call_answered ::
  "'w ChainDispatcher \<Rightarrow> string \<Rightarrow> 'q common_request_scheme \<Rightarrow>
   ('q common_request_scheme \<Rightarrow> ('w, 'a response_scheme reply) io) \<Rightarrow> bool" where
  "call_answered d m req handler \<longleftrightarrow>
     (\<forall>w. \<exists>p w'. Interceptor d (\<lambda>r. Some (ConsumerToken r)) m req handler w = (Ret p, w') \<and> well_formed_result p)"

lemma call_answeredI:
  assumes "returns well_formed (handler req)"
  shows "call_answered d m req handler"
  unfolding call_answered_def
proof
  fix w
  have "slice m (LastIndexByte m (CHR ''/'') + 1) (int (length m)) \<noteq> Panic"
    using LastIndexByte_bounds [of m "CHR ''/''"] by (simp add: slice_def)
  then obtain s where s: "slice m (LastIndexByte m (CHR ''/'') + 1) (int (length m)) = Ret s"
    by (cases "slice m (LastIndexByte m (CHR ''/'') + 1) (int (length m))") auto
  obtain x w1 where x: "handler req w = (x, w1)" by fastforce
  show "\<exists>p w'. Interceptor d (\<lambda>r. Some (ConsumerToken r)) m req handler w = (Ret p, w') \<and> well_formed_result p"
  proof (cases x)
    case (Ret p)
    then have "well_formed p" using assms x by (auto intro: returnsD)
    then show ?thesis using s x Ret
      by (cases p) (auto simp: Interceptor_def recover_panic_def bind_io_apply well_formed_def well_formed_result_def
        split: option.splits)
  next
    case Panic
    then show ?thesis using s x
      by (auto simp: Interceptor_def recover_panic_def bind_io_apply well_formed_result_def)
  qed
qed

context route
begin

lemma returns_handle:
  "(\<And>a. registry d (ChainId req) = Some a \<Longrightarrow> returns Q (call a req)) \<Longrightarrow> Q (okReply reject) \<Longrightarrow> returns Q (handle d req)"
  by (cases "registry d (ChainId req)") (simp_all add: handle_registered handle_unregistered returns_ret)

end

lemma gateway_returns:
  assumes "NewChainDispatcher (chain_factories X) cfg w = (Ret (Some d), w')"
  shows "returns well_formed (d_ConvertAddresses d r1)" "returns well_formed (d_ValidAddresses d r2)"
    "returns well_formed (d_GetLastestBlock d r3)" "returns well_formed (d_GetBlock d r4)"
    "returns well_formed (d_GetBatchBlock d r5)" "returns well_formed (d_GetTransactionByHash d r6)"
    "returns well_formed (d_GetTransactionByAddress d r7)" "returns well_formed (d_GetAccountBalance d r8)"
    "returns well_formed (d_BuildTransactionSchema d r9)" "returns well_formed (d_BuildUnSignTransaction d r10)"
    "returns well_formed (d_BuildSignedTransaction d r11)" "returns well_formed (d_GetAddressApproveList d r12)"
    "returns well_formed (d_BuildSponsoredTransfer d r13)" "returns well_formed (d_CallContract d r14)"
    "returns well_formed (d_SendTransaction d r15)" "returns well_formed (d_SendSponsoredTransfer d r16)"
proof -
  have "answers a" if "registry d k = Some a" for k a
    using gateway_answers [OF assms that] .
  then show "returns well_formed (d_ConvertAddresses d r1)" "returns well_formed (d_ValidAddresses d r2)"
    "returns well_formed (d_GetLastestBlock d r3)" "returns well_formed (d_GetBlock d r4)"
    "returns well_formed (d_GetBatchBlock d r5)" "returns well_formed (d_GetTransactionByHash d r6)"
    "returns well_formed (d_GetTransactionByAddress d r7)" "returns well_formed (d_GetAccountBalance d r8)"
    "returns well_formed (d_BuildTransactionSchema d r9)" "returns well_formed (d_BuildUnSignTransaction d r10)"
    "returns well_formed (d_BuildSignedTransaction d r11)" "returns well_formed (d_GetAddressApproveList d r12)"
    "returns well_formed (d_BuildSponsoredTransfer d r13)" "returns well_formed (d_CallContract d r14)"
    "returns well_formed (d_SendTransaction d r15)" "returns well_formed (d_SendSponsoredTransfer d r16)"
    unfolding answers_def
    by (simp_all only: well_formed_simps convert.returns_handle valid.returns_handle latest.returns_handle block.returns_handle batch.returns_handle txhash.returns_handle txaddr.returns_handle balance.returns_handle schema.returns_handle unsign.returns_handle signed.returns_handle approve.returns_handle sponsor.returns_handle callc.returns_handle send.returns_handle sponsored_send.returns_handle)
qed

end
