(* ===== verification/Sponsor_Lock.thy ===== *)
theory Sponsor_Lock
  imports Bnb_Sponsor
begin

text \<open>
  Sponsored sends side by side (\<open>chain/bnbchain/bnb_aa.go\<close>): every request is a goroutine of its own, and
  \<open>sponsorSendMu\<close> is held from the check of the nonce to the end of the attempts. A send is a program of
  steps, one for each call of a client's method, and any number of them are interleaved step by step with
  each other and with whatever else uses the node.
\<close>

section \<open>Programs of steps\<close>

text \<open>A program has ended, with a value or a panic, or takes a step on the world and goes on.\<close>

datatype ('w, 'a) prog = Halt "'a go" | Act "'w world \<Rightarrow> ('w, 'a) prog \<times> 'w world"

primrec run :: "('w, 'a) prog \<Rightarrow> ('w, 'a) io" where
  "run (Halt r) = (\<lambda>w. (r, w))"
| "run (Act f) = (\<lambda>w. case map_prod run id (f w) of (m, w') \<Rightarrow> m w')"

definition atom :: "('w, 'a) io \<Rightarrow> ('w, 'a) prog" where
  "atom m = Act (\<lambda>w. (Halt (fst (m w)), snd (m w)))"

primrec bind_prog :: "('w, 'a) prog \<Rightarrow> ('a \<Rightarrow> ('w, 'b) prog) \<Rightarrow> ('w, 'b) prog" where
  "bind_prog (Halt r) k = (case r of Ret x \<Rightarrow> k x | Panic \<Rightarrow> Halt Panic)"
| "bind_prog (Act f) k = Act (\<lambda>w. map_prod (\<lambda>p. bind_prog p k) id (f w))"

lemma run_atom [simp]: "run (atom m) = m"
  by (simp add: atom_def fun_eq_iff)

lemma run_Halt [simp]: "run (Halt r) = lift_go r"
  by (simp add: lift_go_def)

declare run.simps(1) [simp del]

lemma run_bind [simp]: "run (bind_prog p k) = bind_io (run p) (\<lambda>x. run (k x))"
proof (induction p)
  case (Halt r)
  show ?case by (cases r) (simp_all add: fun_eq_iff bind_io_apply)
next
  case (Act f)
  show ?case
  proof
    fix w
    obtain q w' where "f w = (q, w')" by fastforce
    moreover from this have "run (bind_prog q k) = bind_io (run q) (\<lambda>x. run (k x))"
      using Act [OF rangeI [of f w], of q] by (simp add: fsts.simps)
    ultimately show "run (bind_prog (Act f) k) w = bind_io (run (Act f)) (\<lambda>x. run (k x)) w"
      by (simp add: bind_io_apply)
  qed
qed

lemma bind_io_cong: "(\<And>x. f x = g x) \<Longrightarrow> bind_io m f = bind_io m g"
  by presburger

text \<open>How many steps a program takes at most.\<close>

inductive depth :: "nat \<Rightarrow> ('w, 'a) prog \<Rightarrow> bool" where
  halted: "depth n (Halt r)"
| acted: "(\<And>w. depth n (fst (f w))) \<Longrightarrow> depth (Suc n) (Act f)"

inductive_simps depth_Act: "depth n (Act f)"

lemma depth_mono: "depth m p \<Longrightarrow> m \<le> n \<Longrightarrow> depth n p"
proof (induction arbitrary: n rule: depth.induct)
  case (acted m f)
  then obtain k where "n = Suc k" "m \<le> k" by (cases n) auto
  with acted show ?case by (auto intro: depth.acted)
qed (rule depth.halted)

lemma depth_atom: "depth (Suc 0) (atom m)"
  unfolding atom_def by (rule depth.acted) (simp add: depth.halted)

lemma depth_bind: "depth m p \<Longrightarrow> (\<And>x. depth n (k x)) \<Longrightarrow> depth (m + n) (bind_prog p k)"
proof (induction rule: depth.induct)
  case (halted m r)
  then show ?case by (cases r) (simp_all add: depth.halted depth_mono [of n])
next
  case (acted m f)
  then show ?case by (auto intro: depth.acted)
qed

lemma depth_step: "(\<And>x. depth n (k x)) \<Longrightarrow> depth (Suc n) (bind_prog (atom m) k)"
  using depth_bind [OF depth_atom, of n k m] by simp

section \<open>A sponsored send as a program\<close>

type_synonym sponsored = "aaConfig \<times> UserOperation \<times> byte list \<times> byte list"

text \<open>Up to the preflight checks, a send does not hold the mutex.\<close>

definition before_lock ::
  "geth \<Rightarrow> ('k, 'x) aalib \<Rightarrow> ('w \<Rightarrow> int \<times> 'w) \<Rightarrow> 'w bnbChainAdaptor \<Rightarrow> SponsoredTransferSendRequest \<Rightarrow>
   ('w, string + sponsored) prog" where
  "before_lock G L now c request =
     (case bnb_aaConfig G c of
        Inl err \<Rightarrow> Halt (Ret (Inl (Error err)))
      | Inr cfg \<Rightarrow>
      if \<not> Enabled cfg then Halt (Ret (Inl ''AA not enabled''))
      else (case UserOpFromJSON L (sps_UserOpJson request) of
        Inl err \<Rightarrow> Halt (Ret (Inl (Error err)))
      | Inr op0 \<Rightarrow>
     (case ParseSignatureHex (sps_UserOpSignature request) of
        Inl err \<Rightarrow> Halt (Ret (Inl (Error err)))
      | Inr userOpSig \<Rightarrow>
     (case ParseSignatureHex (sps_AuthSignature request) of
        Inl err \<Rightarrow> Halt (Ret (Inl (Error err)))
      | Inr authSig \<Rightarrow>
          bind_prog (atom (paymasterVerifyingSigner G L (bc_ethClient c) (cfg_Paymaster cfg))) (\<lambda>s.
          bind_prog (atom (PreflightSponsoredSend G L now cfg (EnsurePaymasterSigPlaceholder (ApplyConfigToUserOp op0 cfg))
                userOpSig (case s of Inl err \<Rightarrow> 0 | Inr a \<Rightarrow> a))) (\<lambda>(report, op).
            Halt (Ret (if \<not> report_OK report then Inl (report_String report) else Inr (cfg, op, userOpSig, authSig)))))))))"

fun attempts_prog ::
  "geth \<Rightarrow> ('k, 'x) aalib \<Rightarrow> ('w \<Rightarrow> int \<times> 'w) \<Rightarrow> 'w EthClient \<Rightarrow> aaConfig \<Rightarrow> byte list \<Rightarrow> byte list \<Rightarrow>
   nat list \<Rightarrow> int \<times> int \<Rightarrow> UserOperation \<Rightarrow> ('w, hash res) prog" where
  "attempts_prog G L now C cfg userOpSig authSig [] fees op =
     Halt (Ret (Inl (Errorf ''send sponsored transfer failed'')))"
| "attempts_prog G L now C cfg userOpSig authSig (attempt # rest) fees0 op =
     (let fees = (if attempt > 0 then BumpEip1559GasFees (fst fees0) (snd fees0) (int attempt) else fees0) in
      bind_prog (atom (GetTransactionAccount C (SponsorAddress cfg))) (\<lambda>n. case n of
          Inl err \<Rightarrow> Halt (Ret (Inl err))
        | Inr sponsorNonceBig \<Rightarrow>
      bind_prog (atom (FinalizeAndSignSend G L now cfg op userOpSig authSig (big_Uint64 sponsorNonceBig) (fst fees)
                 (snd fees) outerGasLimit)) (\<lambda>(tx, op'). case tx of
          Inl err \<Rightarrow> Halt (Ret (Inl err))
        | Inr signedTx \<Rightarrow>
      (case RawTxHex L signedTx of
          Inl err \<Rightarrow> Halt (Ret (Inl err))
        | Inr rawTx \<Rightarrow>
      bind_prog (atom (SendRawTransaction C rawTx)) (\<lambda>h. case h of
          Inr hash \<Rightarrow> Halt (Ret (Inr hash))
        | Inl err \<Rightarrow>
            if \<not> IsRetryableSendError (Some err) \<or> int attempt = maxSendAttempts - 1 then Halt (Ret (Inl err))
            else attempts_prog G L now C cfg userOpSig authSig rest fees op')))))"

text \<open>What is done while the mutex is held: from the check of the nonce to the answer.\<close>

definition in_lock ::
  "geth \<Rightarrow> ('k, 'x) aalib \<Rightarrow> ('w \<Rightarrow> int \<times> 'w) \<Rightarrow> 'w EthClient \<Rightarrow> sponsored \<Rightarrow> ('w, SendTransactionResponse reply) prog" where
  "in_lock G L now C = (\<lambda>(cfg, op, userOpSig, authSig).
     bind_prog (atom (GetTransactionAccount C (Sender op))) (\<lambda>a. case a of
         Inl err \<Rightarrow> Halt (Ret (okReply (send_rsp ERROR (Error err))))
       | Inr authNonceBig \<Rightarrow>
           if big_Uint64 authNonceBig \<noteq> AuthNonce op
           then Halt (Ret (okReply (send_rsp ERROR (''stale auth nonce: expected '' @ FormatUint (AuthNonce op) @ '' got '' @
                  FormatUint (big_Uint64 authNonceBig) @ '', rebuild sponsored transfer''))))
           else bind_prog (atom (resolved_or_default C)) (\<lambda>fees.
                bind_prog (attempts_prog G L now C cfg userOpSig authSig [0..<nat maxSendAttempts] fees op) (\<lambda>out.
                  Halt (Ret (sponsored_reply G out))))))"

text \<open>A send that runs alone is the handler.\<close>

definition whole_send ::
  "geth \<Rightarrow> ('k, 'x) aalib \<Rightarrow> ('w \<Rightarrow> int \<times> 'w) \<Rightarrow> 'w bnbChainAdaptor \<Rightarrow> SponsoredTransferSendRequest \<Rightarrow>
   ('w, SendTransactionResponse reply) prog" where
  "whole_send G L now c request = bind_prog (before_lock G L now c request) (\<lambda>ok. case ok of
       Inl msg \<Rightarrow> Halt (Ret (okReply (send_rsp ERROR msg)))
     | Inr x \<Rightarrow> in_lock G L now (bc_ethClient c) x)"

lemma run_attempts:
  "run (attempts_prog G L now C cfg us sg as fees op) = send_attempts G L now C cfg us sg as fees op"
proof (induction as arbitrary: fees op)
  case (Cons a as)
  show ?case
    unfolding attempts_prog.simps send_attempts.simps Let_def run_bind run_atom
    by (intro bind_io_cong) (auto simp: Cons.IH split: sum.split prod.split intro!: bind_io_cong)
qed simp

lemma run_in_lock:
  "run (in_lock G L now C (cfg, op, us, sg)) =
     bind_io (GetTransactionAccount C (Sender op)) (\<lambda>a. case a of
         Inl err \<Rightarrow> ret_io (okReply (send_rsp ERROR (Error err)))
       | Inr n \<Rightarrow>
           if big_Uint64 n \<noteq> AuthNonce op
           then ret_io (okReply (send_rsp ERROR (''stale auth nonce: expected '' @ FormatUint (AuthNonce op) @ '' got '' @
                  FormatUint (big_Uint64 n) @ '', rebuild sponsored transfer'')))
           else bind_io (resolved_or_default C) (\<lambda>fees.
                bind_io (send_attempts G L now C cfg us sg [0..<nat maxSendAttempts] fees op) (\<lambda>out.
                  ret_io (sponsored_reply G out))))"
  unfolding in_lock_def prod.case run_bind run_atom
  by (intro bind_io_cong) (auto simp: run_attempts split: sum.split)

lemma run_whole_send: "run (whole_send G L now c request) = bnb_SendSponsoredTransfer G L now c request"
proof (cases "bnb_aaConfig G c")
  case (Inr cfg)
  show ?thesis
  proof (cases "\<not> Enabled cfg \<or> isl (UserOpFromJSON L (sps_UserOpJson request)) \<or>
      isl (ParseSignatureHex (sps_UserOpSignature request)) \<or> isl (ParseSignatureHex (sps_AuthSignature request))")
    case True
    with Inr show ?thesis
      by (auto simp: whole_send_def before_lock_def bnb_SendSponsoredTransfer_def sponsored_checks_def Let_def isl_def
          split: sum.split)
  next
    case False
    then obtain op0 us sg where ok: "Enabled cfg" "UserOpFromJSON L (sps_UserOpJson request) = Inr op0"
      "ParseSignatureHex (sps_UserOpSignature request) = Inr us" "ParseSignatureHex (sps_AuthSignature request) = Inr sg"
      by (auto simp: isl_def split: sum.splits) (metis sum.exhaust)
    show ?thesis
      unfolding whole_send_def before_lock_def bnb_SendSponsoredTransfer_def sponsored_checks_def Let_def Inr ok
      by (simp add: ok bind_io_assoc split del: if_split, rule bind_io_cong, rule bind_io_cong)
         (auto simp: run_in_lock bind_io_assoc split: prod.split sum.split intro!: bind_io_cong)
  qed
qed (simp add: whole_send_def before_lock_def bnb_SendSponsoredTransfer_def sponsored_checks_def fun_eq_iff)

section \<open>Goroutines and the mutex\<close>

datatype 'w goroutine =
    Checking "('w, string + sponsored) prog"
  | Waiting sponsored
  | Holding "('w, SendTransactionResponse reply) prog"
  | Finished "SendTransactionResponse reply go"

text \<open>What happened, in order, by the number of the goroutine; other users of the node have none.\<close>

datatype happening = Locked nat | Unlocked nat | Called nat "event list" | Elsewhere "event list"

record 'w pool =
  routines :: "'w goroutine list"
  sponsorSendMu :: "nat option"      \<comment> \<open>who holds the mutex\<close>
  shared :: "'w world"
  history :: "happening list"

text \<open>One step of a program: what is left of it, and the pool after its calls.\<close>

definition take_step :: "nat \<Rightarrow> ('w world \<Rightarrow> ('w, 'a) prog \<times> 'w world) \<Rightarrow> 'w pool \<Rightarrow> ('w, 'a) prog \<times> 'w pool" where
  "take_step i f s = (let (p, w') = f (shared s) in
     (p, s\<lparr>shared := w', history := history s @ [Called i (drop (length (trace (shared s))) (trace w'))]\<rparr>))"

definition becomes :: "nat \<Rightarrow> 'w goroutine \<Rightarrow> 'w pool \<Rightarrow> 'w pool" where
  "becomes i g s = s\<lparr>routines := (routines s)[i := g]\<rparr>"

text \<open>
  The next step of a goroutine, if it has one: it has none when it has ended, and while the mutex it
  waits for is held. \<open>defer\<close> gives the mutex back whatever the end, a panic included.
\<close>

definition goroutine_step ::
  "geth \<Rightarrow> ('k, 'x) aalib \<Rightarrow> ('w \<Rightarrow> int \<times> 'w) \<Rightarrow> 'w EthClient \<Rightarrow> nat \<Rightarrow> 'w pool \<Rightarrow> 'w pool option" where
  "goroutine_step G L now C i s =
     (if i \<ge> length (routines s) then None
      else (case routines s ! i of
          Checking (Act f) \<Rightarrow> (case take_step i f s of (p, s') \<Rightarrow> Some (becomes i (Checking p) s'))
        | Checking (Halt Panic) \<Rightarrow> Some (becomes i (Finished Panic) s)
        | Checking (Halt (Ret (Inl msg))) \<Rightarrow> Some (becomes i (Finished (Ret (okReply (send_rsp ERROR msg)))) s)
        | Checking (Halt (Ret (Inr x))) \<Rightarrow> Some (becomes i (Waiting x) s)
        | Waiting x \<Rightarrow>
            if sponsorSendMu s \<noteq> None then None
            else Some (becomes i (Holding (in_lock G L now C x))
                   (s\<lparr>sponsorSendMu := Some i, history := history s @ [Locked i]\<rparr>))
        | Holding (Act f) \<Rightarrow> (case take_step i f s of (p, s') \<Rightarrow> Some (becomes i (Holding p) s'))
        | Holding (Halt r) \<Rightarrow> Some (becomes i (Finished r)
            (s\<lparr>sponsorSendMu := None, history := history s @ [Unlocked i]\<rparr>))
        | Finished r \<Rightarrow> None))"

definition start_pool ::
  "geth \<Rightarrow> ('k, 'x) aalib \<Rightarrow> ('w \<Rightarrow> int \<times> 'w) \<Rightarrow> 'w bnbChainAdaptor \<Rightarrow> SponsoredTransferSendRequest list \<Rightarrow> 'w world \<Rightarrow> 'w pool" where
  "start_pool G L now c requests w =
     \<lparr>routines = map (\<lambda>r. Checking (before_lock G L now c r)) requests, sponsorSendMu = None, shared = w, history = []\<rparr>"

text \<open>
  The states reached from one: any goroutine may go on, and the node may be used by others and change by
  itself. The number counts the steps of the pool's own goroutines.
\<close>

inductive pool_run ::
  "geth \<Rightarrow> ('k, 'x) aalib \<Rightarrow> ('w \<Rightarrow> int \<times> 'w) \<Rightarrow> 'w EthClient \<Rightarrow> 'w pool \<Rightarrow> nat \<Rightarrow> 'w pool \<Rightarrow> bool"
  for G L now C s0 where
  none: "pool_run G L now C s0 0 s0"
| own_step: "pool_run G L now C s0 n s \<Longrightarrow> goroutine_step G L now C i s = Some s' \<Longrightarrow> pool_run G L now C s0 (Suc n) s'"
| other_step: "pool_run G L now C s0 n s \<Longrightarrow> trace w' = trace (shared s) @ es \<Longrightarrow>
    pool_run G L now C s0 n (s\<lparr>shared := w', history := history s @ [Elsewhere es]\<rparr>)"

section \<open>Lemmas\<close>

text \<open>The calls a program's steps make.\<close>

inductive steps_emit :: "(event \<Rightarrow> bool) \<Rightarrow> ('w, 'a) prog \<Rightarrow> bool" for P where
  emit_halted: "steps_emit P (Halt r)"
| emit_acted: "(\<And>w. steps_emit P (fst (f w)) \<and> (\<exists>es. trace (snd (f w)) = trace w @ es \<and> list_all P es)) \<Longrightarrow>
    steps_emit P (Act f)"

inductive_simps steps_emit_Act: "steps_emit P (Act f)"

lemma steps_emit_atom: "emits P m \<Longrightarrow> steps_emit P (atom m)"
  unfolding atom_def emits_def by (rule emit_acted) (simp add: emit_halted)

lemma steps_emit_bind: "steps_emit P p \<Longrightarrow> (\<And>x. steps_emit P (k x)) \<Longrightarrow> steps_emit P (bind_prog p k)"
proof (induction rule: steps_emit.induct)
  case (emit_halted r)
  then show ?case by (cases r) (auto intro: steps_emit.emit_halted)
next
  case (emit_acted f)
  then show ?case by (auto intro!: steps_emit.emit_acted)
qed

lemma goroutine_stepE:
  assumes "goroutine_step G L now C i s = Some s'"
  obtains
    (check) f where "i < length (routines s)" "routines s ! i = Checking (Act f)"
      "s' = becomes i (Checking (fst (take_step i f s))) (snd (take_step i f s))"
  | (crash) "i < length (routines s)" "routines s ! i = Checking (Halt Panic)" "s' = becomes i (Finished Panic) s"
  | (reject) msg where "i < length (routines s)" "routines s ! i = Checking (Halt (Ret (Inl msg)))"
      "s' = becomes i (Finished (Ret (okReply (send_rsp ERROR msg)))) s"
  | (pass) x where "i < length (routines s)" "routines s ! i = Checking (Halt (Ret (Inr x)))"
      "s' = becomes i (Waiting x) s"
  | (lock) x where "i < length (routines s)" "routines s ! i = Waiting x" "sponsorSendMu s = None"
      "s' = becomes i (Holding (in_lock G L now C x)) (s\<lparr>sponsorSendMu := Some i, history := history s @ [Locked i]\<rparr>)"
  | (work) f where "i < length (routines s)" "routines s ! i = Holding (Act f)"
      "s' = becomes i (Holding (fst (take_step i f s))) (snd (take_step i f s))"
  | (unlock) r where "i < length (routines s)" "routines s ! i = Holding (Halt r)"
      "s' = becomes i (Finished r) (s\<lparr>sponsorSendMu := None, history := history s @ [Unlocked i]\<rparr>)"
proof (cases "routines s ! i")
  case (Checking p)
  then show ?thesis using assms check crash reject pass
    by (cases p) (auto simp: goroutine_step_def split: if_splits prod.splits go.splits sum.splits)
next
  case (Waiting x)
  then show ?thesis using assms lock by (auto simp: goroutine_step_def split: if_splits)
next
  case (Holding p)
  then show ?thesis using assms work unlock
    by (cases p) (auto simp: goroutine_step_def split: if_splits prod.splits)
next
  case (Finished r)
  then show ?thesis using assms by (simp add: goroutine_step_def split: if_splits)
qed

section \<open>The mutex is held by one send at a time\<close>

text \<open>Who holds the mutex after a history that respects it: only its holder broadcasts.\<close>

fun lock_after :: "nat option \<Rightarrow> happening list \<Rightarrow> nat option option" where
  "lock_after h [] = Some h"
| "lock_after h (Locked i # hs) = (if h = None then lock_after (Some i) hs else None)"
| "lock_after h (Unlocked i # hs) = (if h = Some i then lock_after None hs else None)"
| "lock_after h (Called i es # hs) = (if broadcasts es = [] \<or> h = Some i then lock_after h hs else None)"
| "lock_after h (Elsewhere es # hs) = lock_after h hs"

lemma lock_after_append: "lock_after h (xs @ ys) = Option.bind (lock_after h xs) (\<lambda>h'. lock_after h' ys)"
  by (induction h xs rule: lock_after.induct) auto

text \<open>Nothing of another send between taking the mutex and giving it back.\<close>

lemma lock_after_section:
  "lock_after (Some i) hs = Some h \<Longrightarrow> Unlocked i \<notin> set hs \<Longrightarrow>
   h = Some i \<and> (\<forall>j. Locked j \<notin> set hs) \<and> (\<forall>j es. Called j es \<in> set hs \<longrightarrow> broadcasts es \<noteq> [] \<longrightarrow> j = i)"
  by (induction "Some i" hs rule: lock_after.induct) (auto split: if_splits)

lemma lock_after_holder:
  "lock_after h0 hs = Some (Some i) \<Longrightarrow>
   (h0 = Some i \<and> Unlocked i \<notin> set hs) \<or> (\<exists>cs ds. hs = cs @ Locked i # ds \<and> Unlocked i \<notin> set ds)"
proof (induction h0 hs rule: lock_after.induct)
  case (2 h k hs)
  then show ?case by (cases "k = i") (fastforce split: if_splits intro: exI [of _ "Locked k # cs" for cs])+
next
  case (3 h k hs)
  then show ?case by (fastforce split: if_splits intro: exI [of _ "Unlocked k # cs" for cs])
next
  case (4 h k es hs)
  then show ?case by (fastforce split: if_splits intro: exI [of _ "Called k es # cs" for cs])
next
  case (5 h es hs)
  then show ?case by (fastforce intro: exI [of _ "Elsewhere es # cs" for cs])
qed simp

fun quiet_routine :: "'w goroutine \<Rightarrow> bool" where
  "quiet_routine (Checking p) \<longleftrightarrow> steps_emit no_send p"
| "quiet_routine g \<longleftrightarrow> True"

fun holds_mutex :: "'w goroutine \<Rightarrow> bool" where
  "holds_mutex (Holding p) \<longleftrightarrow> True"
| "holds_mutex g \<longleftrightarrow> False"

definition pool_inv :: "'w pool \<Rightarrow> bool" where
  "pool_inv s \<longleftrightarrow>
     (\<forall>i < length (routines s). quiet_routine (routines s ! i) \<and> (holds_mutex (routines s ! i) \<longleftrightarrow> sponsorSendMu s = Some i)) \<and>
     (\<forall>i. sponsorSendMu s = Some i \<longrightarrow> i < length (routines s)) \<and>
     lock_after None (history s) = Some (sponsorSendMu s)"

lemma quiet_take_step:
  assumes "steps_emit no_send (Act f)"
  shows "steps_emit no_send (fst (take_step i f s)) \<and>
    (\<exists>es. broadcasts es = [] \<and> snd (take_step i f s) = s\<lparr>shared := snd (f (shared s)), history := history s @ [Called i es]\<rparr>)"
proof -
  from assms obtain es where "trace (snd (f (shared s))) = trace (shared s) @ es" "list_all no_send es"
    and q: "steps_emit no_send (fst (f (shared s)))" unfolding steps_emit_Act by blast
  then have "broadcasts (drop (length (trace (shared s))) (trace (snd (f (shared s))))) = []"
    by (simp add: broadcasts_quiet)
  with q show ?thesis by (auto simp: take_step_def Let_def split: prod.split)
qed

lemma take_step_frame:
  "\<exists>es. snd (take_step i f s) = s\<lparr>shared := snd (f (shared s)), history := history s @ [Called i es]\<rparr>"
  by (auto simp: take_step_def Let_def split: prod.split)

lemma becomes_simps [simp]:
  "routines (becomes i g s) = (routines s)[i := g]" "sponsorSendMu (becomes i g s) = sponsorSendMu s"
  "history (becomes i g s) = history s" "shared (becomes i g s) = shared s"
  by (simp_all add: becomes_def)

lemma pool_inv_step:
  assumes "goroutine_step G L now C i s = Some s'" and "pool_inv s"
  shows "pool_inv s'"
  using assms(1)
proof (cases rule: goroutine_stepE)
  case (check f)
  with assms(2) have "steps_emit no_send (Act f)" unfolding pool_inv_def by force
  from quiet_take_step [OF this, of i s] obtain es where
    "steps_emit no_send (fst (take_step i f s))" "broadcasts es = []"
    "snd (take_step i f s) = s\<lparr>shared := snd (f (shared s)), history := history s @ [Called i es]\<rparr>" by blast
  with check assms(2) show ?thesis by (auto simp: pool_inv_def lock_after_append nth_list_update)
next
  case (lock x)
  with assms(2) show ?thesis by (auto simp: pool_inv_def lock_after_append nth_list_update)
next
  case (work f)
  from take_step_frame [of i f s] obtain es where
    "snd (take_step i f s) = s\<lparr>shared := snd (f (shared s)), history := history s @ [Called i es]\<rparr>" by blast
  moreover have "sponsorSendMu s = Some i" using work assms(2) unfolding pool_inv_def by force
  ultimately show ?thesis using work assms(2) by (auto simp: pool_inv_def lock_after_append nth_list_update)
next
  case (unlock r)
  then have "sponsorSendMu s = Some i" using assms(2) unfolding pool_inv_def by force
  with unlock assms(2) show ?thesis by (auto simp: pool_inv_def lock_after_append nth_list_update)
qed (use assms(2) in \<open>auto simp: pool_inv_def nth_list_update\<close>)

lemma quiet_before_lock:
  assumes "bc_ethClient c = clnt G maxLen schedule r"
  shows "steps_emit no_send (before_lock G L now c request)"
  unfolding before_lock_def assms
  by (auto intro!: emit_halted steps_emit_bind steps_emit_atom eth_clnt.quiet_signer quiet_Preflight split: sum.split prod.split)

lemma pool_run_inv:
  assumes "pool_run G L now C (start_pool G L now c requests w) n s" and "bc_ethClient c = clnt G maxLen schedule r"
  shows "pool_inv s \<and> length (routines s) = length requests"
  using assms(1)
proof (induction rule: pool_run.induct)
  case none
  show ?case by (simp add: pool_inv_def start_pool_def quiet_before_lock [OF assms(2)])
next
  case (own_step n s i s')
  moreover from own_step(2) have "length (routines s') = length (routines s)"
    by (cases rule: goroutine_stepE) (auto simp: take_step_def Let_def split: prod.split)
  ultimately show ?case using pool_inv_step by metis
next
  case (other_step n s w' es)
  then show ?case by (auto simp: pool_inv_def lock_after_append)
qed

section \<open>Every send ends\<close>

lemma depth_attempts: "depth (3 * length as) (attempts_prog G L now C cfg us sg as fees op)"
proof (induction as arbitrary: fees op)
  case (Cons a as)
  have "depth (Suc (Suc (Suc (3 * length as)))) (attempts_prog G L now C cfg us sg (a # as) fees op)"
    unfolding attempts_prog.simps Let_def
    by (auto intro!: depth_step depth.halted Cons.IH split: sum.split prod.split)
  then show ?case by (simp add: numeral_3_eq_3)
qed (simp add: depth.halted)

lemma depth_before_lock: "depth 2 (before_lock G L now c request)"
  unfolding before_lock_def numeral_2_eq_2
  by (auto intro!: depth_step depth.halted split: sum.split prod.split)

lemma depth_in_lock: "depth 11 (in_lock G L now C x)"
proof -
  obtain cfg op us sg where x: "x = (cfg, op, us, sg)" by (metis prod_cases4)
  have "depth (3 * length [0..<nat maxSendAttempts] + 0) (bind_prog (attempts_prog G L now C cfg us sg
      [0..<nat maxSendAttempts] fees op) (\<lambda>out. Halt (Ret (sponsored_reply G out))))" for fees
    by (rule depth_bind) (rule depth_attempts, rule depth.halted)
  then have a: "depth 9 (bind_prog (attempts_prog G L now C cfg us sg
      [0..<nat maxSendAttempts] fees op) (\<lambda>out. Halt (Ret (sponsored_reply G out))))" for fees
    by (simp add: maxSendAttempts_def)
  have b: "depth (Suc 9) (bind_prog (atom (resolved_or_default C)) (\<lambda>fees. bind_prog (attempts_prog G L now C cfg us sg
      [0..<nat maxSendAttempts] fees op) (\<lambda>out. Halt (Ret (sponsored_reply G out)))))"
    by (rule depth_step) (rule a)
  have "depth (Suc (Suc 9)) (in_lock G L now C x)"
    unfolding x in_lock_def prod.case
  proof (rule depth_step)
    fix r :: "int res"
    show "depth (Suc 9) (case r of Inl err \<Rightarrow> Halt (Ret (okReply (send_rsp ERROR (Error err))))
       | Inr authNonceBig \<Rightarrow>
           if big_Uint64 authNonceBig \<noteq> AuthNonce op
           then Halt (Ret (okReply (send_rsp ERROR (''stale auth nonce: expected '' @ FormatUint (AuthNonce op) @ '' got '' @
                  FormatUint (big_Uint64 authNonceBig) @ '', rebuild sponsored transfer''))))
           else bind_prog (atom (resolved_or_default C)) (\<lambda>fees.
                bind_prog (attempts_prog G L now C cfg us sg [0..<nat maxSendAttempts] fees op) (\<lambda>out.
                  Halt (Ret (sponsored_reply G out)))))"
      using b by (cases r) (simp_all add: depth.halted)
  qed
  then show ?thesis by simp
qed

text \<open>An upper bound of the steps a goroutine still has: its program's, and its changes of state.\<close>

fun steps_left :: "'w goroutine \<Rightarrow> nat \<Rightarrow> bool" where
  "steps_left (Checking p) k \<longleftrightarrow> (\<exists>m. depth m p \<and> m + 14 \<le> k)"
| "steps_left (Waiting x) k \<longleftrightarrow> 13 \<le> k"
| "steps_left (Holding p) k \<longleftrightarrow> (\<exists>m. depth m p \<and> m + 1 \<le> k)"
| "steps_left (Finished r) k \<longleftrightarrow> True"

lemma depth_take_step: "depth m (Act f) \<Longrightarrow> \<exists>k. m = Suc k \<and> depth k (fst (take_step i f s))"
  unfolding depth_Act take_step_def Let_def by (auto split: prod.split) (metis fst_conv)

lemma steps_left_step:
  assumes "goroutine_step G L now C i s = Some s'"
  shows "i < length (routines s) \<and> (\<exists>g. routines s' = (routines s)[i := g] \<and>
    (\<forall>k. steps_left (routines s ! i) k \<longrightarrow> 0 < k \<and> steps_left g (k - 1)))"
  using assms
proof (cases rule: goroutine_stepE)
  case (check f)
  then show ?thesis using take_step_frame [of i f s]
    by (fastforce dest: depth_take_step [of _ _ i s])
next
  case (lock x)
  have "steps_left (Holding (in_lock G L now C x)) (k - 1)" if "13 \<le> k" for k
    unfolding steps_left.simps by (rule exI [of _ 11]) (use that in \<open>simp add: depth_in_lock\<close>)
  with lock show ?thesis by (intro conjI exI [of _ "Holding (in_lock G L now C x)"]) auto
next
  case (work f)
  then show ?thesis using take_step_frame [of i f s]
    by (fastforce dest: depth_take_step [of _ _ i s])
qed auto

definition steps_bound :: nat where
  "steps_bound = 16"

lemma pool_run_bound:
  assumes "pool_run G L now C (start_pool G L now c requests w) n s"
  shows "\<exists>ks. length ks = length (routines s) \<and> (\<forall>i < length ks. steps_left (routines s ! i) (ks ! i)) \<and>
    n + sum_list ks = steps_bound * length requests"
  using assms
proof (induction rule: pool_run.induct)
  case none
  show ?case
    by (rule exI [of _ "replicate (length requests) steps_bound"])
       (auto simp: start_pool_def steps_bound_def sum_list_replicate intro!: exI [of _ 2] depth_before_lock)
next
  case (own_step n s i s')
  then obtain ks where ks: "length ks = length (routines s)" "\<forall>i < length ks. steps_left (routines s ! i) (ks ! i)"
    "n + sum_list ks = steps_bound * length requests" by blast
  from steps_left_step [OF own_step(2)] obtain g where g: "i < length (routines s)" "routines s' = (routines s)[i := g]"
    "0 < ks ! i" "steps_left g (ks ! i - 1)" using ks(1,2) by metis
  have "ks ! i \<le> sum_list ks" using g(1) ks(1) by (simp add: elem_le_sum_list)
  then have "Suc n + sum_list (ks[i := ks ! i - 1]) = steps_bound * length requests"
    using ks(1,3) g(1,3) by (simp add: sum_list_update)
  with ks(1,2) g show ?case
    by (intro exI [of _ "ks[i := ks ! i - 1]"]) (auto simp: nth_list_update)
next
  case (other_step n s w' es)
  then show ?case by simp
qed

fun finished :: "'w goroutine \<Rightarrow> bool" where
  "finished (Finished r) \<longleftrightarrow> True"
| "finished g \<longleftrightarrow> False"

text \<open>There is no deadlock: the holder of the mutex can always go on.\<close>

lemma some_goroutine_steps:
  assumes "pool_inv s" and "i < length (routines s)" and "\<not> finished (routines s ! i)"
  shows "\<exists>j. goroutine_step G L now C j s \<noteq> None"
proof (cases "sponsorSendMu s")
  case (Some j)
  with assms(1) have "j < length (routines s)" "holds_mutex (routines s ! j)" unfolding pool_inv_def by auto
  then have "goroutine_step G L now C j s \<noteq> None"
    by (cases "routines s ! j") (auto simp: goroutine_step_def split: prog.split prod.split)
  then show ?thesis by blast
next
  case None
  with assms(2,3) have "goroutine_step G L now C i s \<noteq> None"
    by (cases "routines s ! i") (auto simp: goroutine_step_def split: prog.split prod.split go.split sum.split)
  then show ?thesis by blast
qed

section \<open>Properties\<close>


lemma check_step:
  assumes "routines s ! i = Checking (bind_prog (atom m) k)" and "i < length (routines s)"
  shows "\<exists>s'. goroutine_step G L now C i s = Some s' \<and> i < length (routines s') \<and> sponsorSendMu s' = sponsorSendMu s \<and>
    routines s' ! i = Checking (bind_prog (Halt (fst (m (shared s)))) k) \<and> shared s' = snd (m (shared s))"
  using assms by (simp add: goroutine_step_def atom_def take_step_def becomes_def del: bind_prog.simps(1))

lemma lock_steps:
  assumes "routines s ! i = Checking (Halt (Ret (Inr x)))" and "i < length (routines s)" and "sponsorSendMu s = None"
  shows "\<exists>s' s''. goroutine_step G L now C i s = Some s' \<and> goroutine_step G L now C i s' = Some s'' \<and>
    history s'' = history s' @ [Locked i]"
  using assms by (simp add: goroutine_step_def becomes_def)

text \<open>Two sends of the sample request, of which the first has just taken the mutex.\<close>

lemma sample_lock_taken:
  "\<exists>n s as. pool_run sample_geth sample_lib now (bc_ethClient aa_bnb)
      (start_pool sample_geth sample_lib now aa_bnb [send_request, send_request] w) n s \<and> history s = as @ [Locked 0]"
proof -
  let ?G = sample_geth and ?L = sample_lib and ?C = "bc_ethClient aa_bnb"
  define pre where "pre = (\<lambda>s :: address res. PreflightSponsoredSend ?G ?L now sample_aa sample_op sample_sig
    (case s of Inl err \<Rightarrow> 0 | Inr a \<Rightarrow> a))"
  define fin :: "PreflightReport \<times> UserOperation \<Rightarrow> (unit, string + sponsored) prog" where "fin = (\<lambda>(report, op). Halt (Ret (if \<not> report_OK report then Inl (report_String report)
    else Inr (sample_aa, op, sample_sig, []))))"
  define ask where "ask = paymasterVerifyingSigner ?G ?L ?C 9"
  define nxt :: "address res \<Rightarrow> (unit, string + sponsored) prog" where "nxt = (\<lambda>s. bind_prog (atom (pre s)) fin)"
  have b: "before_lock ?G ?L now aa_bnb send_request = bind_prog (atom ask) nxt"
    by (simp add: before_lock_def aa_bnb_config send_request_def send_request_fields pre_def fin_def ask_def nxt_def)
  obtain w1 where s: "ask w = (Ret (Inl (Errorf ''invalid verifyingSigner response'')), w1)"
    unfolding ask_def using aa_bnb_calls(2) by blast
  obtain report where r: "pre (Inl (Errorf ''invalid verifyingSigner response'')) w1 = (Ret (report, sample_op), w1)"
    "report_OK report" unfolding pre_def sum.case using sample_preflight by blast
  define s0 where "s0 = start_pool ?G ?L now aa_bnb [send_request, send_request] w"
  have "routines s0 ! 0 = Checking (bind_prog (atom ask) nxt)" and z: "0 < length (routines s0)" "sponsorSendMu s0 = None"
    "shared s0 = w" by (simp_all add: s0_def start_pool_def b)
  from check_step [OF this(1,2), of ?G ?L now ?C] s z obtain s1 where s1: "goroutine_step ?G ?L now ?C 0 s0 = Some s1"
    "0 < length (routines s1)" "sponsorSendMu s1 = None" "shared s1 = w1"
    "routines s1 ! 0 = Checking (bind_prog (atom (pre (Inl (Errorf ''invalid verifyingSigner response'')))) fin)"
    by (auto simp: nxt_def)
  from check_step [OF s1(5,2), of ?G ?L now ?C] s1(3,4) r obtain s2 where s2: "goroutine_step ?G ?L now ?C 0 s1 = Some s2"
    "0 < length (routines s2)" "sponsorSendMu s2 = None" "routines s2 ! 0 = Checking (Halt (Ret (Inr (sample_aa, sample_op, sample_sig, []))))"
    by (auto simp: fin_def)
  from lock_steps [OF s2(4,2,3), of ?G ?L now ?C] obtain s3 s4 where
    "goroutine_step ?G ?L now ?C 0 s2 = Some s3" "goroutine_step ?G ?L now ?C 0 s3 = Some s4" "history s4 = history s3 @ [Locked 0]"
    by blast
  with s1(1) s2(1) have "pool_run ?G ?L now ?C s0 (Suc (Suc (Suc (Suc 0)))) s4 \<and> history s4 = history s3 @ [Locked 0]"
    by (blast intro: pool_run.intros)
  then show ?thesis unfolding s0_def by blast
qed


text \<open>
  C37. Sponsored sends do not block each other for ever: at every moment either all have answered (or ended
  in a panic, which gives the mutex back too) or one of them can go on, and all of them together take at
  most sixteen steps for each request, whatever the node answers.
\<close>

theorem sponsored_sends_end:
  assumes "pool_run G L now (bc_ethClient c) (start_pool G L now c requests w) n s"
    and "bc_ethClient c = clnt G maxLen schedule r"
  shows "n \<le> 16 * length requests \<and>
    (list_all finished (routines s) \<or> (\<exists>i. goroutine_step G L now (bc_ethClient c) i s \<noteq> None))"
proof
  show "n \<le> 16 * length requests"
    using pool_run_bound [OF assms(1)] by (auto simp: steps_bound_def)
  show "list_all finished (routines s) \<or> (\<exists>i. goroutine_step G L now (bc_ethClient c) i s \<noteq> None)"
    using pool_run_inv [OF assms] some_goroutine_steps [of s _ G L now "bc_ethClient c"]
    by (metis list_all_length)
qed

theorem sponsored_sends_end_witness:
  "\<exists>i. goroutine_step sample_geth sample_lib (\<lambda>e. (0, e)) (bc_ethClient aa_bnb) i
     (start_pool sample_geth sample_lib (\<lambda>e. (0, e)) aa_bnb [send_request, send_request] \<lparr>env = (), trace = []\<rparr>) \<noteq> None"
proof -
  let ?s = "start_pool sample_geth sample_lib (\<lambda>e. (0, e)) aa_bnb [send_request, send_request] \<lparr>env = (), trace = []\<rparr>"
  have "\<not> list_all finished (routines ?s)" by (simp add: start_pool_def)
  moreover have "list_all finished (routines ?s) \<or> (\<exists>i. goroutine_step sample_geth sample_lib (\<lambda>e. (0, e))
      (bc_ethClient aa_bnb) i ?s \<noteq> None)"
    by (rule sponsored_sends_end [OF pool_run.none aa_bnb_client, THEN conjunct2])
  ultimately show ?thesis by blast
qed

end
