(* ===== verification/Sponsor_Flow.thy ===== *)
theory Sponsor_Flow
  imports Bnb_Sponsor
begin

text \<open>
  The two calls of a sponsored transfer composed: what \<open>BuildSponsoredTransfer\<close> answers, signed by the
  sender, passes the checks of \<open>SendSponsoredTransfer\<close>.
\<close>

text \<open>Documented of \<open>encoding/json\<close>: an operation that was written is read back.\<close>

definition json_ok :: "('k, 'x) aalib \<Rightarrow> bool" where
  "json_ok L \<longleftrightarrow> (\<forall>op t. UserOpToJSON L op = Inr t \<longrightarrow> UserOpFromJSON L t = Inr op)"

text \<open>What a successful build did: the calls, the operation and the answer.\<close>

lemma built_reply:
  assumes "bnb_aaConfig G c = Inr cfg" and "bnb_BuildSponsoredTransfer G L now c req w = (Ret (okReply rsp), w1)" and "Code rsp = SUCCESS"
  shows "\<exists>amount n wa en tip fee wb wc op h. Enabled cfg \<and> big_SetString 10 (spr_Amount req) = Some amount \<and>
    GetTransactionAccount (bc_ethClient c) (HexToAddress G (spr_FromAddress req)) w = (Ret (Inr n), wa) \<and>
    BuildTransferUserOp L now cfg (HexToAddress G (spr_FromAddress req)) (HexToAddress G (spr_ToAddress req))
      (HexToAddress G (spr_TokenAddress req)) amount en (big_Uint64 n) (spr_RequestId req) fee tip wb = (Ret (Inr op), wc) \<and>
    GetUserOpHash G L op = Ret h \<and> spb_UserOpHash rsp = HashHex G h \<and> UserOpToJSON L op = Inr (spb_UserOpJson rsp) \<and>
    spb_AuthDigest rsp = HashHex G (AuthDigest L (fst (uint256_FromBig L (cfg_ChainID cfg))) (cfg_Delegate cfg) (big_Uint64 n))"
proof -
  have e: "Enabled cfg" using assms by (auto simp: bnb_BuildSponsoredTransfer_def Let_def split: if_splits)
  obtain amount where a: "big_SetString 10 (spr_Amount req) = Some amount"
    using assms e by (auto simp: bnb_BuildSponsoredTransfer_def Let_def split: option.splits)
  show ?thesis
    using assms e a unfolding bnb_BuildSponsoredTransfer_def Let_def
    by (auto simp: run_iff split: prod.splits) blast+
qed

lemma built_fields:
  assumes "BuildTransferUserOp L now cfg from to token amount n authNonce rid fee tip w0 = (Ret (Inr op), w1)"
  shows "ApplyConfigToUserOp op cfg = op \<and> EnsurePaymasterSigPlaceholder op = op \<and> AuthNonce op = authNonce \<and>
    EncodeExecuteTokenTransferCall L token to amount = Inr (CallData op)"
  using assms
  by (auto simp: BuildTransferUserOp_def run_iff ApplyConfigToUserOp_def EnsurePaymasterSigPlaceholder_def paymasterSigPlaceholder_def)

section \<open>Properties\<close>

text \<open>
  C8. A sponsored transfer that was built can be sent: when the sender signs the hash of a successful
  answer of \<open>BuildSponsoredTransfer\<close> with the key of its address, and sends the operation back as it was
  answered, every check of \<open>SendSponsoredTransfer\<close> passes, provided that the sender's nonce has not moved
  and the node, if it answers, names the configured key as the paymaster's signer. What is then offered to
  the node is the operation the sender signed, with the call for the transfer that was asked for.
\<close>

theorem built_transfer_passes:
  assumes "geth_ok G" and "crypto_ok L" and "abi_window_ok L" and "json_ok L"
    and config: "bnb_aaConfig G c = Inr cfg" "cfg_Paymaster cfg \<noteq> 0" "LoadVerifyingKey L cfg = Inr k" "PubkeyToAddress L k \<noteq> 0"
    and built: "bnb_BuildSponsoredTransfer G L now c req w = (Ret (okReply rsp), w1)" "Code rsp = SUCCESS"
    and user: "HexToAddress G (spr_FromAddress req) = PubkeyToAddress L userKey"
    and hash: "spb_UserOpHash rsp = HashHex G h" "Sign L (hash_bytes h) userKey = Inr us"
    and sent: "sps_UserOpJson sreq = spb_UserOpJson rsp" "ParseSignatureHex (sps_UserOpSignature sreq) = Inr us"
      "ParseSignatureHex (sps_AuthSignature sreq) = Inr authSig"
    and signer: "paymasterVerifyingSigner G L (bc_ethClient c) (cfg_Paymaster cfg) w2 = (Ret s, w3)"
      "\<And>a. s = Inr a \<Longrightarrow> a = PubkeyToAddress L k"
    and nonce: "GetTransactionAccount (bc_ethClient c) (PubkeyToAddress L userKey) w = (Ret (Inr n), wa)"
      "GetTransactionAccount (bc_ethClient c) (PubkeyToAddress L userKey) w3 = (Ret (Inr n'), w4)" "big_Uint64 n' = big_Uint64 n"
  shows "\<exists>op amount. sponsored_checks G L now c sreq w2 = (Ret (Inr (cfg, op, us, authSig)), w4) \<and>
    GetUserOpHash G L op = Ret h \<and> Sender op = PubkeyToAddress L userKey \<and> big_SetString 10 (spr_Amount req) = Some amount \<and>
    EncodeExecuteTokenTransferCall L (HexToAddress G (spr_TokenAddress req)) (HexToAddress G (spr_ToAddress req)) amount =
      Inr (CallData op)"
proof -
  from built_reply [OF config(1) built] nonce(1) user obtain amount en tip fee wb wc op h' where
    b: "Enabled cfg" "big_SetString 10 (spr_Amount req) = Some amount"
      "BuildTransferUserOp L now cfg (PubkeyToAddress L userKey) (HexToAddress G (spr_ToAddress req))
        (HexToAddress G (spr_TokenAddress req)) amount en (big_Uint64 n) (spr_RequestId req) fee tip wb = (Ret (Inr op), wc)"
    and h': "GetUserOpHash G L op = Ret h'" "spb_UserOpHash rsp = HashHex G h'" "UserOpToJSON L op = Inr (spb_UserOpJson rsp)"
    by auto
  have "h' = h" using h'(2) hash(1) geth_okD(5) [OF assms(1)] by metis
  with h' have h: "GetUserOpHash G L op = Ret h" by simp
  have json: "UserOpFromJSON L (spb_UserOpJson rsp) = Inr op" using assms(4) h'(3) unfolding json_ok_def by blast
  note f = built_fields [OF b(3)]
  obtain u :: u64 where u: "Sender op = PubkeyToAddress L userKey" "Paymaster op = cfg_Paymaster cfg"
    "PaymasterSignature op = paymasterSigPlaceholder" "PaymasterData op = be_bytes 32 (unat u) @ be_bytes 32 (unat (0 :: u64))"
    using built_op [OF b(3) assms(3)] by blast
  then have "PaymasterSignature op \<noteq> []" by (simp add: paymasterSigPlaceholder_def)
  moreover have "(case s of Inl err \<Rightarrow> 0 | Inr a \<Rightarrow> a) \<in> {0, PubkeyToAddress L k}" using signer(2) by (cases s) auto
  ultimately obtain report where p: "PreflightSponsoredSend G L now cfg op us (case s of Inl err \<Rightarrow> 0 | Inr a \<Rightarrow> a) w3 = (Ret (report, op), w3)"
    "report_OK report"
    using preflight_accepts [OF assms(1-3) u(1,2) _ u(4) config(2,3) _ config(4) h hash(2), of _ now w3] by blast
  have "sponsored_checks G L now c sreq w2 = (Ret (Inr (cfg, op, us, authSig)), w4)"
    using p signer(1) nonce(2,3) f u(1) b(1)
    by (simp add: sponsored_checks_def config(1) sent json bind_io_apply Let_def)
  with h u(1) b(2) f show ?thesis by blast
qed

text \<open>A node whose contracts answer the number 4, whose nonces are 3, and which does not know the price.\<close>

definition flow_bnb :: "unit bnbChainAdaptor" where
  "flow_bnb = aa_bnb\<lparr>bc_ethClient := (bc_ethClient aa_bnb)\<lparr>eth_CallContract := \<lambda>m. ret_io (Inr (be_bytes 32 4)),
     GetTransactionAccount := \<lambda>a. ret_io (Inr 3), SuggestGasPrice := ret_io (Inl NotFound)\<rparr>\<rparr>"

definition flow_window :: "byte list" where
  "flow_window = be_bytes 32 (unat (1700003600 :: u64)) @ be_bytes 32 (unat (0 :: u64))"

definition flow_op :: UserOperation where
  "flow_op = sample_op\<lparr>Nonce := Some 4, InitCode := InitCodeEIP7702Marker,
      CallData := concat (map abi_word [AAddress 2, AAddress 1, AUint256 100]),
      VerificationGasLimit := Some DefaultVerificationGas, CallGasLimit := Some DefaultCallGas,
      PreVerificationGas := Some DefaultPreVerificationGas, MaxFeePerGas := Some defaultGasFeeCap,
      MaxPriorityFeePerGas := Some defaultGasTipCap, PaymasterData := flow_window\<rparr>"

definition flow_lib :: "(address, SetCodeTx) aalib" where
  "flow_lib = sample_lib\<lparr>json_Marshal := \<lambda>op. if op = flow_op then Inr ''{}'' else Inl NotFound, json_Unmarshal := \<lambda>t. Inr flow_op\<rparr>"

definition flow_request :: SponsoredTransferRequest where
  "flow_request = \<lparr>ConsumerToken = [], ChainId = [], Network = [], spr_FromAddress = AddressHex sample_geth 5,
     spr_ToAddress = AddressHex sample_geth 1, spr_Amount = FormatInt 100, spr_TokenAddress = AddressHex sample_geth 2, spr_RequestId = []\<rparr>"

lemma flow_lib_ok: "crypto_ok flow_lib" "abi_window_ok flow_lib" "json_ok flow_lib"
  using sample_lib_crypto sample_lib_window
  by (simp_all add: flow_lib_def crypto_ok_def abi_window_ok_def json_ok_def UserOpToJSON_def UserOpFromJSON_def)

lemma flow_keys: "LoadVerifyingKey flow_lib sample_aa = Inr 4" "PubkeyToAddress flow_lib a = a"
    "Sign flow_lib h a = Inr (addr_bytes a @ replicate 45 0)"
proof -
  have "HexToECDSA flow_lib = HexToECDSA sample_lib" by (simp add: flow_lib_def)
  with sample_keys(2) show "LoadVerifyingKey flow_lib sample_aa = Inr 4" by (auto simp: LoadVerifyingKey_def Let_def split: if_splits)
qed (simp_all add: flow_lib_def sample_lib_def)

lemma flow_built:
  "BuildTransferUserOp flow_lib (\<lambda>e. (1700000000, e)) sample_aa 5 1 2 100 4 3 [] defaultGasFeeCap defaultGasTipCap w =
     (Ret (Inr flow_op), w\<lparr>trace := trace w @ [Ev ''time.Now'' []]\<rparr>)"
proof -
  have "encodePaymasterWindow flow_lib 1700003600 0 = Inr flow_window"
    unfolding flow_window_def by (rule window_encoded(1) [OF flow_lib_ok(2)])
  then have e: "EncodePaymasterSignedData flow_lib (\<lambda>e. (1700000000, e)) w = (Ret flow_window, w\<lparr>trace := trace w @ [Ev ''time.Now'' []]\<rparr>)"
    by (simp add: EncodePaymasterSignedData_def DefaultValidityWindow_def bind_io_assoc bind_ext_apply ignore_err_def)
  have "EncodeExecuteTokenTransferCall flow_lib 2 1 100 = Inr (CallData flow_op)"
    by (simp add: EncodeExecuteTokenTransferCall_def flow_lib_def sample_lib_def flow_op_def)
  then show ?thesis using e
    by (simp add: BuildTransferUserOp_def bind_io_apply flow_op_def sample_op_def sample_aa_def paymasterSigPlaceholder_def)
qed

lemma flow_hash: "\<exists>h. GetUserOpHash sample_geth flow_lib flow_op = Ret h"
proof -
  have "\<exists>p. PackUserOp flow_op True = Ret p \<and> p_PaymasterAndData p = PackPaymasterAndData 9 flow_window [0] True"
    by (simp add: PackUserOp_def flow_op_def sample_op_def deref_def PackUint128s_def FillBytes_def InitCodeEIP7702Marker_def
        DefaultVerificationGas_def DefaultCallGas_def DefaultPreVerificationGas_def defaultGasFeeCap_def defaultGasTipCap_def)
  then show ?thesis
    using signing_form [of 9 "[0]" sample_geth "unat (1700003600 :: u64)" "unat (0 :: u64)"]
    by (auto simp: GetUserOpHash_def domainSeparator_def flow_op_def sample_op_def deref_def Let_def flow_window_def)
qed

lemma flow_reply:
  "\<exists>h rsp w1. bnb_BuildSponsoredTransfer sample_geth flow_lib (\<lambda>e. (1700000000, e)) flow_bnb flow_request w = (Ret (okReply rsp), w1) \<and>
     Code rsp = SUCCESS \<and> spb_UserOpHash rsp = HashHex sample_geth h \<and> spb_UserOpJson rsp = ''{}''"
proof -
  obtain h where h: "GetUserOpHash sample_geth flow_lib flow_op = Ret h" using flow_hash by blast
  have c: "bnb_aaConfig sample_geth flow_bnb = Inr sample_aa" using aa_bnb_config by (simp add: flow_bnb_def bnb_aaConfig_def)
  have f: "resolved_or_default (bc_ethClient flow_bnb) w = (Ret (defaultGasTipCap, defaultGasFeeCap), w)" for w
    by (simp add: resolved_or_default_def ResolveEip1559GasFees_def flow_bnb_def DefaultEip1559GasFees_def)
  have n: "entryPointNonce flow_lib (bc_ethClient flow_bnb) a b w = (Ret (Inr 4), w)" for a b w
    by (simp add: entryPointNonce_def EncodeGetNonce_def flow_lib_def sample_lib_def flow_bnb_def big_SetBytes_def be.dec_enc)
  have t: "GetTransactionAccount (bc_ethClient flow_bnb) a w = (Ret (Inr 3), w)" for a w by (simp add: flow_bnb_def)
  have e: "Enabled sample_aa" "cfg_EntryPoint sample_aa = 8" by (simp_all add: sample_aa_def)
  have j: "UserOpToJSON flow_lib flow_op = Inr ''{}''" by (simp add: UserOpToJSON_def flow_lib_def)
  show ?thesis
    by (rule exI [of _ h]) (simp add: bnb_BuildSponsoredTransfer_def c e flow_request_def geth_okD [OF sample_geth_ok] bind_io_apply t n f
        big_Uint64_def flow_built h j Let_def)
qed

theorem built_transfer_passes_witness:
  "\<exists>rsp w1 h us op w4. bnb_BuildSponsoredTransfer sample_geth flow_lib (\<lambda>e. (1700000000, e)) flow_bnb flow_request
      \<lparr>env = (), trace = []\<rparr> = (Ret (okReply rsp), w1) \<and>
    sponsored_checks sample_geth flow_lib (\<lambda>e. (1700000000, e)) flow_bnb
      \<lparr>ConsumerToken = [], ChainId = [], Network = [], sps_UserOpJson = spb_UserOpJson rsp, sps_AuthSignature = [],
       sps_UserOpSignature = EncodeToString us\<rparr> w1 = (Ret (Inr (sample_aa, op, us, [])), w4) \<and>
    GetUserOpHash sample_geth flow_lib op = Ret h \<and> Sender op = 5"
proof -
  define us :: "byte list" where "us = addr_bytes 5 @ replicate 45 0"
  have us: "Sign flow_lib h 5 = Inr us" for h by (simp add: us_def flow_keys(3))
  obtain h rsp w1 where r: "bnb_BuildSponsoredTransfer sample_geth flow_lib (\<lambda>e. (1700000000, e)) flow_bnb flow_request
      \<lparr>env = (), trace = []\<rparr> = (Ret (okReply rsp), w1)" "Code rsp = SUCCESS" "spb_UserOpHash rsp = HashHex sample_geth h"
    using flow_reply by blast
  have c: "bnb_aaConfig sample_geth flow_bnb = Inr sample_aa" using aa_bnb_config by (simp add: flow_bnb_def bnb_aaConfig_def)
  have "drop 12 (be_bytes 32 4) = be_bytes 20 4" using be_bytes_append [of 12 20 4] by simp
  then have s: "paymasterVerifyingSigner sample_geth flow_lib (bc_ethClient flow_bnb) 9 w1 = (Ret (Inr 4), w1)"
    by (simp add: paymasterVerifyingSigner_def EncodePaymasterVerifyingSigner_def flow_lib_def sample_lib_def flow_bnb_def
        geth_okD [OF sample_geth_ok] crop_address_def be.dec_enc)
  have t: "GetTransactionAccount (bc_ethClient flow_bnb) a w = (Ret (Inr 3), w)" for a w by (simp add: flow_bnb_def)
  have p: "ParseSignatureHex (EncodeToString bs) = Inr bs" "ParseSignatureHex [] = Inr []" for bs
    by (simp_all add: ParseSignatureHex_def) (simp add: TrimPrefix_def HasPrefix_def hex_decode_def)
  have pm: "cfg_Paymaster sample_aa = 9" by (simp add: sample_aa_def)
  obtain op where "sponsored_checks sample_geth flow_lib (\<lambda>e. (1700000000, e)) flow_bnb
      \<lparr>ConsumerToken = [], ChainId = [], Network = [], sps_UserOpJson = spb_UserOpJson rsp, sps_AuthSignature = [],
       sps_UserOpSignature = EncodeToString us\<rparr> w1 = (Ret (Inr (sample_aa, op, us, [])), w1)"
    "GetUserOpHash sample_geth flow_lib op = Ret h" "Sender op = 5"
    using built_transfer_passes [OF sample_geth_ok flow_lib_ok c _ flow_keys(1) _ r(1,2) _ r(3) us, of
        "\<lparr>ConsumerToken = [], ChainId = [], Network = [], sps_UserOpJson = spb_UserOpJson rsp, sps_AuthSignature = [],
          sps_UserOpSignature = EncodeToString us\<rparr>" "[]" w1 "Inr 4" w1 3 "\<lparr>env = (), trace = []\<rparr>" 3 w1] s t p
    by (auto simp: flow_keys(2) pm flow_request_def geth_okD [OF sample_geth_ok])
  with r(1) show ?thesis by blast
qed

end
