(* ===== verification/Sponsor_Gateway.thy ===== *)
theory Sponsor_Gateway
  imports Gateway
begin

text \<open>
  The sponsored transfer behind the gateway: what the BNB adaptor in a gateway's registry broadcasts, and a
  sample gateway that broadcasts one.
\<close>

text \<open>A BNB adaptor works with the gateway's configuration, and sponsors what an operation's sender signed.\<close>

lemma sponsored_by_sender:
  assumes "NewChainDispatcher (chain_factories X) cfg w0 = (Ret (Some (d :: 'w ChainDispatcher)), w1)"
    and "registry d (ChainId req) = Some a" and "ChainId req = bnbchain_ChainID" and "geth_ok (x_geth X)"
    and "count_ev ''eth_sendRawTransaction'' (new_events (SendSponsoredTransfer a req) w) \<noteq> 0"
  shows "\<exists>(c :: 'w bnbChainAdaptor) aa op0 op us h. bc_conf c = cfg \<and> bnb_aaConfig (x_geth X) c = Inr aa \<and> Enabled aa \<and>
       UserOpFromJSON (x_aalib X) (sps_UserOpJson req) = Inr op0 \<and>
       op = EnsurePaymasterSigPlaceholder (ApplyConfigToUserOp op0 aa) \<and>
       ParseSignatureHex (sps_UserOpSignature req) = Inr us \<and> GetUserOpHash (x_geth X) (x_aalib X) op = Ret h \<and>
       recoverPubkey (x_aalib X) (hash_bytes h) us = Inr (Sender op)"
proof -
  let ?P = "\<lambda>k a. k = bnbchain_ChainID \<longrightarrow> (\<exists>c r. bc_conf c = cfg \<and>
      bc_ethClient c = clnt (x_geth X) (ev_maxLen (x_evm X)) (ev_schedule (x_evm X)) r \<and>
      SendSponsoredTransfer a = bnb_SendSponsoredTransfer (x_geth X) (x_aalib X) (x_now X) c)"
  have "?P (ChainId req) a"
    by (rule gateway_registry [OF assms(1,2), where P = ?P]) (auto simp: chain_id_defs bnb_adaptor_def)
  then obtain c r where c: "bc_conf c = cfg" "SendSponsoredTransfer a = bnb_SendSponsoredTransfer (x_geth X) (x_aalib X) (x_now X) c"
    "bc_ethClient c = clnt (x_geth X) (ev_maxLen (x_evm X)) (ev_schedule (x_evm X)) r"
    using assms(3) by blast
  from sponsored_send_signed [OF assms(4) c(3) assms(5) [unfolded c(2)]] show ?thesis
    using c(1) by (intro exI [of _ c]) simp
qed

section \<open>A gateway that sponsors\<close>

text \<open>The BNB adaptor of the sample send, dialled by the gateway.\<close>

definition aa_externals :: "(unit, DynamicFeeTx, address, SetCodeTx, nat, string, unit, string, unit, unit) externals" where
  "aa_externals = sample_externals\<lparr>x_evm := sample_evm_env\<lparr>ev_dialer := (ev_dialer sample_evm_env)
     \<lparr>parse_url := \<lambda>u. Some \<lparr>Host = u, HasPort = False, Scheme = ''ipc''\<rparr>,
      rpc_DialContext := \<lambda>u e. (Inr (sample_rpc\<lparr>call_big := \<lambda>m a e. ((3, None), e)\<rparr>), e)\<rparr>\<rparr>\<rparr>"

definition aa_gateway :: "unit ChainDispatcher" where
  "aa_gateway = \<lparr>conf = bc_conf aa_bnb, registry =
     [''DappLinkBnbChain'' \<mapsto> bnb_adaptor sample_geth sample_lib sample_txlib (\<lambda>s. 0) (\<lambda>e. (1700000000, e)) aa_bnb]\<rparr>"

lemma aa_bnb_dialled:
  "\<exists>w'. bnb_NewChainAdaptor sample_geth (x_evm aa_externals) (bc_conf aa_bnb) w = (Ret (Inr aa_bnb), w')"
  by (simp add: bnb_NewChainAdaptor_def aa_externals_def aa_bnb_def Let_def DialEthClient_def Do_def
      IsURLAvailable_def sample_evm_env_def sample_externals_def bind_io_apply ext_apply prefix_err_def NewEthDataClient_def
      sample_config_def sample_AAConfig_def newContractAddrIndex_def geth_okD [OF sample_geth_ok] numeral_eq_Suc)

lemma aa_gateway_made:
  "\<exists>w'. NewChainDispatcher (chain_factories aa_externals) (bc_conf aa_bnb) w = (Ret (Some aa_gateway), w')"
proof -
  obtain w' where "bnb_NewChainAdaptor sample_geth (x_evm aa_externals) (bc_conf aa_bnb) w = (Ret (Inr aa_bnb), w')"
    using aa_bnb_dialled by blast
  moreover have "Chains (bc_conf aa_bnb) = [\<lparr>ch_ChainName = ''BNB'', ch_ChainId = ''DappLinkBnbChain'', ch_Network = ''mainnet''\<rparr>]"
    by (simp add: aa_bnb_def sample_config_def Let_def)
  ultimately show ?thesis
    by (simp add: NewChainDispatcher_def chain_factories_def chainAdaptorFactoryMap_def chain_id_defs bind_io_apply
        aa_gateway_def aa_externals_def sample_externals_def)
qed

lemma aa_gateway_sends:
  "\<exists>k. count_ev ''eth_sendRawTransaction'' (new_events (Interceptor aa_gateway (\<lambda>r. Some (ConsumerToken r)) meth send_request
      (d_SendSponsoredTransfer aa_gateway)) \<lparr>env = (), trace = []\<rparr>) = Suc k"
proof -
  let ?w = "\<lparr>env = (), trace = []\<rparr> :: unit world"
  have "registry aa_gateway (ChainId send_request) = Some
      (bnb_adaptor sample_geth sample_lib sample_txlib (\<lambda>s. 0) (\<lambda>e. (1700000000, e)) aa_bnb)"
    by (simp add: aa_gateway_def send_request_def)
  then have r: "d_SendSponsoredTransfer aa_gateway send_request =
      bnb_SendSponsoredTransfer sample_geth sample_lib (\<lambda>e. (1700000000, e)) aa_bnb send_request"
    by (simp add: sponsored_send.handle_registered bnb_adaptor_def)
  have t: "ConsumerToken send_request = AccessToken (conf aa_gateway)"
    by (simp add: send_request_def aa_gateway_def aa_bnb_def sample_config_def Let_def)
  obtain w' es raw where "bnb_SendSponsoredTransfer sample_geth sample_lib (\<lambda>e. (1700000000, e)) aa_bnb send_request ?w =
      (Ret (sponsored_reply sample_geth (Inr 7)), w')" "trace w' = es @ [Ev ''eth_sendRawTransaction'' [raw]]"
    using aa_bnb_run by blast
  then have "count_ev ''eth_sendRawTransaction'' (new_events (d_SendSponsoredTransfer aa_gateway send_request) ?w) =
      Suc (count_ev ''eth_sendRawTransaction'' es)"
    by (simp add: r new_events_def final_def count_ev_def)
  then show ?thesis by (simp add: intercepted_events t)
qed

end
