(* ===== verification/Grpc_Service.thy ===== *)
theory Grpc_Service
  imports Replies Sponsor_Gateway
begin

text \<open>
  The server side of the generated gRPC code (\<open>protobuf/walletapi/walletapi_grpc.pb.go\<close>): the names of the
  methods, the handler of each and the table that the gRPC library calls them by. A decoder is its result:
  the request, or the error of bytes that are none. The registered server is the dispatcher, and the only
  interceptor is its own (\<open>services/grpc/service.go\<close>).

  A \<open>session\<close> is what happens to a gateway from outside: calls of any methods with any requests, one after
  the other, between which the nodes and explorers may change as they like. The abstract gateway,
  \<open>call_spec\<close>, says of each call what it may broadcast.
\<close>

section \<open>Methods and handlers\<close>

definition GetSupportChains_FullMethodName :: string where "GetSupportChains_FullMethodName = ''/dapplink.WalletApiGateWayService/getSupportChains''"
definition ConvertAddresses_FullMethodName :: string where "ConvertAddresses_FullMethodName = ''/dapplink.WalletApiGateWayService/convertAddresses''"
definition ValidAddresses_FullMethodName :: string where "ValidAddresses_FullMethodName = ''/dapplink.WalletApiGateWayService/validAddresses''"
definition GetLastestBlock_FullMethodName :: string where "GetLastestBlock_FullMethodName = ''/dapplink.WalletApiGateWayService/getLastestBlock''"
definition GetBlock_FullMethodName :: string where "GetBlock_FullMethodName = ''/dapplink.WalletApiGateWayService/getBlock''"
definition GetBatchBlock_FullMethodName :: string where "GetBatchBlock_FullMethodName = ''/dapplink.WalletApiGateWayService/getBatchBlock''"
definition GetTransactionByHash_FullMethodName :: string where "GetTransactionByHash_FullMethodName = ''/dapplink.WalletApiGateWayService/getTransactionByHash''"
definition GetTransactionByAddress_FullMethodName :: string where "GetTransactionByAddress_FullMethodName = ''/dapplink.WalletApiGateWayService/getTransactionByAddress''"
definition GetAccountBalance_FullMethodName :: string where "GetAccountBalance_FullMethodName = ''/dapplink.WalletApiGateWayService/getAccountBalance''"
definition SendTransaction_FullMethodName :: string where "SendTransaction_FullMethodName = ''/dapplink.WalletApiGateWayService/sendTransaction''"
definition BuildTransactionSchema_FullMethodName :: string where "BuildTransactionSchema_FullMethodName = ''/dapplink.WalletApiGateWayService/buildTransactionSchema''"
definition BuildUnSignTransaction_FullMethodName :: string where "BuildUnSignTransaction_FullMethodName = ''/dapplink.WalletApiGateWayService/buildUnSignTransaction''"
definition BuildSignedTransaction_FullMethodName :: string where "BuildSignedTransaction_FullMethodName = ''/dapplink.WalletApiGateWayService/buildSignedTransaction''"
definition GetAddressApproveList_FullMethodName :: string where "GetAddressApproveList_FullMethodName = ''/dapplink.WalletApiGateWayService/getAddressApproveList''"
definition BuildSponsoredTransfer_FullMethodName :: string where "BuildSponsoredTransfer_FullMethodName = ''/dapplink.WalletApiGateWayService/buildSponsoredTransfer''"
definition SendSponsoredTransfer_FullMethodName :: string where "SendSponsoredTransfer_FullMethodName = ''/dapplink.WalletApiGateWayService/sendSponsoredTransfer''"
definition CallContract_FullMethodName :: string where "CallContract_FullMethodName = ''/dapplink.WalletApiGateWayService/callContract''"

type_synonym ('w, 'q, 'r) interceptor = "string \<Rightarrow> 'q \<Rightarrow> ('q \<Rightarrow> ('w, 'r reply) io) \<Rightarrow> ('w, 'r rpc_result) io"

text \<open>What the generated handlers share; \<open>info\<close> is the name of the method, \<open>call\<close> the server's method.\<close>

definition unary ::
  "('q \<Rightarrow> ('w, 'r reply) io) \<Rightarrow> string \<Rightarrow> 'q res \<Rightarrow> ('w, 'q, 'r) interceptor option \<Rightarrow> ('w, 'r rpc_result) io" where
  "unary call info dec ic =
     (case dec of
        Inl err \<Rightarrow> ret_io (None, Some (HandlerError err))
      | Inr inp \<Rightarrow>
          (case ic of
             None \<Rightarrow> bind_io (call inp) (\<lambda>(resp, err). ret_io (map_option Handled resp, map_option HandlerError err))
           | Some interceptor \<Rightarrow> interceptor info inp call))"

definition GetSupportChains_Handler ::
  "'w ChainDispatcher \<Rightarrow> common_request res \<Rightarrow> ('w, common_request, SupportChainResponse) interceptor option \<Rightarrow>
   ('w, SupportChainResponse rpc_result) io" where
  "GetSupportChains_Handler srv dec ic = unary (GetSupportChains srv) GetSupportChains_FullMethodName dec ic"

definition ConvertAddresses_Handler ::
  "'w ChainDispatcher \<Rightarrow> ConvertAddressesRequest res \<Rightarrow> ('w, ConvertAddressesRequest, ConvertAddressesResponse) interceptor option \<Rightarrow>
   ('w, ConvertAddressesResponse rpc_result) io" where
  "ConvertAddresses_Handler srv dec ic = unary (d_ConvertAddresses srv) ConvertAddresses_FullMethodName dec ic"

definition ValidAddresses_Handler ::
  "'w ChainDispatcher \<Rightarrow> ValidAddressesRequest res \<Rightarrow> ('w, ValidAddressesRequest, ValidAddressesResponse) interceptor option \<Rightarrow>
   ('w, ValidAddressesResponse rpc_result) io" where
  "ValidAddresses_Handler srv dec ic = unary (d_ValidAddresses srv) ValidAddresses_FullMethodName dec ic"

definition GetLastestBlock_Handler ::
  "'w ChainDispatcher \<Rightarrow> chain_request res \<Rightarrow> ('w, chain_request, LastestBlockResponse) interceptor option \<Rightarrow>
   ('w, LastestBlockResponse rpc_result) io" where
  "GetLastestBlock_Handler srv dec ic = unary (d_GetLastestBlock srv) GetLastestBlock_FullMethodName dec ic"

definition GetBlock_Handler ::
  "'w ChainDispatcher \<Rightarrow> BlockRequest res \<Rightarrow> ('w, BlockRequest, BlockResponse) interceptor option \<Rightarrow>
   ('w, BlockResponse rpc_result) io" where
  "GetBlock_Handler srv dec ic = unary (d_GetBlock srv) GetBlock_FullMethodName dec ic"

definition GetBatchBlock_Handler ::
  "'w ChainDispatcher \<Rightarrow> BatchBlockRequest res \<Rightarrow> ('w, BatchBlockRequest, BatchBlockResponse) interceptor option \<Rightarrow>
   ('w, BatchBlockResponse rpc_result) io" where
  "GetBatchBlock_Handler srv dec ic = unary (d_GetBatchBlock srv) GetBatchBlock_FullMethodName dec ic"

definition GetTransactionByHash_Handler ::
  "'w ChainDispatcher \<Rightarrow> TransactionByHashRequest res \<Rightarrow> ('w, TransactionByHashRequest, TransactionByHashResponse) interceptor option \<Rightarrow>
   ('w, TransactionByHashResponse rpc_result) io" where
  "GetTransactionByHash_Handler srv dec ic = unary (d_GetTransactionByHash srv) GetTransactionByHash_FullMethodName dec ic"

definition GetTransactionByAddress_Handler ::
  "'w ChainDispatcher \<Rightarrow> TransactionByAddressRequest res \<Rightarrow> ('w, TransactionByAddressRequest, TransactionByAddressResponse) interceptor option \<Rightarrow>
   ('w, TransactionByAddressResponse rpc_result) io" where
  "GetTransactionByAddress_Handler srv dec ic = unary (d_GetTransactionByAddress srv) GetTransactionByAddress_FullMethodName dec ic"

definition GetAccountBalance_Handler ::
  "'w ChainDispatcher \<Rightarrow> AccountBalanceRequest res \<Rightarrow> ('w, AccountBalanceRequest, AccountBalanceResponse) interceptor option \<Rightarrow>
   ('w, AccountBalanceResponse rpc_result) io" where
  "GetAccountBalance_Handler srv dec ic = unary (d_GetAccountBalance srv) GetAccountBalance_FullMethodName dec ic"

definition SendTransaction_Handler ::
  "'w ChainDispatcher \<Rightarrow> SendTransactionsRequest res \<Rightarrow> ('w, SendTransactionsRequest, SendTransactionResponse) interceptor option \<Rightarrow>
   ('w, SendTransactionResponse rpc_result) io" where
  "SendTransaction_Handler srv dec ic = unary (d_SendTransaction srv) SendTransaction_FullMethodName dec ic"

definition BuildTransactionSchema_Handler ::
  "'w ChainDispatcher \<Rightarrow> chain_request res \<Rightarrow> ('w, chain_request, TransactionSchemaResponse) interceptor option \<Rightarrow>
   ('w, TransactionSchemaResponse rpc_result) io" where
  "BuildTransactionSchema_Handler srv dec ic = unary (d_BuildTransactionSchema srv) BuildTransactionSchema_FullMethodName dec ic"

definition BuildUnSignTransaction_Handler ::
  "'w ChainDispatcher \<Rightarrow> UnSignTransactionRequest res \<Rightarrow> ('w, UnSignTransactionRequest, UnSignTransactionResponse) interceptor option \<Rightarrow>
   ('w, UnSignTransactionResponse rpc_result) io" where
  "BuildUnSignTransaction_Handler srv dec ic = unary (d_BuildUnSignTransaction srv) BuildUnSignTransaction_FullMethodName dec ic"

definition BuildSignedTransaction_Handler ::
  "'w ChainDispatcher \<Rightarrow> SignedTransactionRequest res \<Rightarrow> ('w, SignedTransactionRequest, SignedTransactionResponse) interceptor option \<Rightarrow>
   ('w, SignedTransactionResponse rpc_result) io" where
  "BuildSignedTransaction_Handler srv dec ic = unary (d_BuildSignedTransaction srv) BuildSignedTransaction_FullMethodName dec ic"

definition GetAddressApproveList_Handler ::
  "'w ChainDispatcher \<Rightarrow> AddressApproveListRequest res \<Rightarrow> ('w, AddressApproveListRequest, AddressApproveListResponse) interceptor option \<Rightarrow>
   ('w, AddressApproveListResponse rpc_result) io" where
  "GetAddressApproveList_Handler srv dec ic = unary (d_GetAddressApproveList srv) GetAddressApproveList_FullMethodName dec ic"

definition BuildSponsoredTransfer_Handler ::
  "'w ChainDispatcher \<Rightarrow> SponsoredTransferRequest res \<Rightarrow> ('w, SponsoredTransferRequest, SponsoredTransferBuildResponse) interceptor option \<Rightarrow>
   ('w, SponsoredTransferBuildResponse rpc_result) io" where
  "BuildSponsoredTransfer_Handler srv dec ic = unary (d_BuildSponsoredTransfer srv) BuildSponsoredTransfer_FullMethodName dec ic"

definition SendSponsoredTransfer_Handler ::
  "'w ChainDispatcher \<Rightarrow> SponsoredTransferSendRequest res \<Rightarrow> ('w, SponsoredTransferSendRequest, SendTransactionResponse) interceptor option \<Rightarrow>
   ('w, SendTransactionResponse rpc_result) io" where
  "SendSponsoredTransfer_Handler srv dec ic = unary (d_SendSponsoredTransfer srv) SendSponsoredTransfer_FullMethodName dec ic"

definition CallContract_Handler ::
  "'w ChainDispatcher \<Rightarrow> CallContractRequest res \<Rightarrow> ('w, CallContractRequest, CallContractResponse) interceptor option \<Rightarrow>
   ('w, CallContractResponse rpc_result) io" where
  "CallContract_Handler srv dec ic = unary (d_CallContract srv) CallContract_FullMethodName dec ic"

section \<open>The service\<close>

text \<open>A call: a method of the table with what its decoder makes of the message.\<close>

datatype wallet_call =
  Call_GetSupportChains "common_request res"
  | Call_ConvertAddresses "ConvertAddressesRequest res"
  | Call_ValidAddresses "ValidAddressesRequest res"
  | Call_GetLastestBlock "chain_request res"
  | Call_GetBlock "BlockRequest res"
  | Call_GetBatchBlock "BatchBlockRequest res"
  | Call_GetTransactionByHash "TransactionByHashRequest res"
  | Call_GetTransactionByAddress "TransactionByAddressRequest res"
  | Call_GetAccountBalance "AccountBalanceRequest res"
  | Call_SendTransaction "SendTransactionsRequest res"
  | Call_BuildTransactionSchema "chain_request res"
  | Call_BuildUnSignTransaction "UnSignTransactionRequest res"
  | Call_BuildSignedTransaction "SignedTransactionRequest res"
  | Call_GetAddressApproveList "AddressApproveListRequest res"
  | Call_BuildSponsoredTransfer "SponsoredTransferRequest res"
  | Call_SendSponsoredTransfer "SponsoredTransferSendRequest res"
  | Call_CallContract "CallContractRequest res"

datatype wallet_reply =
  Reply_GetSupportChains "SupportChainResponse rpc_result"
  | Reply_ConvertAddresses "ConvertAddressesResponse rpc_result"
  | Reply_ValidAddresses "ValidAddressesResponse rpc_result"
  | Reply_GetLastestBlock "LastestBlockResponse rpc_result"
  | Reply_GetBlock "BlockResponse rpc_result"
  | Reply_GetBatchBlock "BatchBlockResponse rpc_result"
  | Reply_GetTransactionByHash "TransactionByHashResponse rpc_result"
  | Reply_GetTransactionByAddress "TransactionByAddressResponse rpc_result"
  | Reply_GetAccountBalance "AccountBalanceResponse rpc_result"
  | Reply_SendTransaction "SendTransactionResponse rpc_result"
  | Reply_BuildTransactionSchema "TransactionSchemaResponse rpc_result"
  | Reply_BuildUnSignTransaction "UnSignTransactionResponse rpc_result"
  | Reply_BuildSignedTransaction "SignedTransactionResponse rpc_result"
  | Reply_GetAddressApproveList "AddressApproveListResponse rpc_result"
  | Reply_BuildSponsoredTransfer "SponsoredTransferBuildResponse rpc_result"
  | Reply_SendSponsoredTransfer "SendTransactionResponse rpc_result"
  | Reply_CallContract "CallContractResponse rpc_result"

text \<open>The dispatcher's interceptor, which asks each request for its token.\<close>

abbreviation intercepted :: "'w ChainDispatcher \<Rightarrow> ('w, 'q common_request_scheme, 'r) interceptor option" where
  "intercepted d \<equiv> Some (\<lambda>info req handler. Interceptor d (\<lambda>r. Some (ConsumerToken r)) info req handler)"

text \<open>The table \<open>ServiceDesc\<close>: the method of a call, and its handler.\<close>

fun MethodName :: "wallet_call \<Rightarrow> string" where
  "MethodName (Call_GetSupportChains _) = ''getSupportChains''"
| "MethodName (Call_ConvertAddresses _) = ''convertAddresses''"
| "MethodName (Call_ValidAddresses _) = ''validAddresses''"
| "MethodName (Call_GetLastestBlock _) = ''getLastestBlock''"
| "MethodName (Call_GetBlock _) = ''getBlock''"
| "MethodName (Call_GetBatchBlock _) = ''getBatchBlock''"
| "MethodName (Call_GetTransactionByHash _) = ''getTransactionByHash''"
| "MethodName (Call_GetTransactionByAddress _) = ''getTransactionByAddress''"
| "MethodName (Call_GetAccountBalance _) = ''getAccountBalance''"
| "MethodName (Call_SendTransaction _) = ''sendTransaction''"
| "MethodName (Call_BuildTransactionSchema _) = ''buildTransactionSchema''"
| "MethodName (Call_BuildUnSignTransaction _) = ''buildUnSignTransaction''"
| "MethodName (Call_BuildSignedTransaction _) = ''buildSignedTransaction''"
| "MethodName (Call_GetAddressApproveList _) = ''getAddressApproveList''"
| "MethodName (Call_BuildSponsoredTransfer _) = ''buildSponsoredTransfer''"
| "MethodName (Call_SendSponsoredTransfer _) = ''sendSponsoredTransfer''"
| "MethodName (Call_CallContract _) = ''callContract''"

fun serve :: "'w ChainDispatcher \<Rightarrow> wallet_call \<Rightarrow> ('w, wallet_reply) io" where
  "serve d (Call_GetSupportChains dec) =
     bind_io (GetSupportChains_Handler d dec (intercepted d)) (\<lambda>r. ret_io (Reply_GetSupportChains r))"
| "serve d (Call_ConvertAddresses dec) =
     bind_io (ConvertAddresses_Handler d dec (intercepted d)) (\<lambda>r. ret_io (Reply_ConvertAddresses r))"
| "serve d (Call_ValidAddresses dec) =
     bind_io (ValidAddresses_Handler d dec (intercepted d)) (\<lambda>r. ret_io (Reply_ValidAddresses r))"
| "serve d (Call_GetLastestBlock dec) =
     bind_io (GetLastestBlock_Handler d dec (intercepted d)) (\<lambda>r. ret_io (Reply_GetLastestBlock r))"
| "serve d (Call_GetBlock dec) =
     bind_io (GetBlock_Handler d dec (intercepted d)) (\<lambda>r. ret_io (Reply_GetBlock r))"
| "serve d (Call_GetBatchBlock dec) =
     bind_io (GetBatchBlock_Handler d dec (intercepted d)) (\<lambda>r. ret_io (Reply_GetBatchBlock r))"
| "serve d (Call_GetTransactionByHash dec) =
     bind_io (GetTransactionByHash_Handler d dec (intercepted d)) (\<lambda>r. ret_io (Reply_GetTransactionByHash r))"
| "serve d (Call_GetTransactionByAddress dec) =
     bind_io (GetTransactionByAddress_Handler d dec (intercepted d)) (\<lambda>r. ret_io (Reply_GetTransactionByAddress r))"
| "serve d (Call_GetAccountBalance dec) =
     bind_io (GetAccountBalance_Handler d dec (intercepted d)) (\<lambda>r. ret_io (Reply_GetAccountBalance r))"
| "serve d (Call_SendTransaction dec) =
     bind_io (SendTransaction_Handler d dec (intercepted d)) (\<lambda>r. ret_io (Reply_SendTransaction r))"
| "serve d (Call_BuildTransactionSchema dec) =
     bind_io (BuildTransactionSchema_Handler d dec (intercepted d)) (\<lambda>r. ret_io (Reply_BuildTransactionSchema r))"
| "serve d (Call_BuildUnSignTransaction dec) =
     bind_io (BuildUnSignTransaction_Handler d dec (intercepted d)) (\<lambda>r. ret_io (Reply_BuildUnSignTransaction r))"
| "serve d (Call_BuildSignedTransaction dec) =
     bind_io (BuildSignedTransaction_Handler d dec (intercepted d)) (\<lambda>r. ret_io (Reply_BuildSignedTransaction r))"
| "serve d (Call_GetAddressApproveList dec) =
     bind_io (GetAddressApproveList_Handler d dec (intercepted d)) (\<lambda>r. ret_io (Reply_GetAddressApproveList r))"
| "serve d (Call_BuildSponsoredTransfer dec) =
     bind_io (BuildSponsoredTransfer_Handler d dec (intercepted d)) (\<lambda>r. ret_io (Reply_BuildSponsoredTransfer r))"
| "serve d (Call_SendSponsoredTransfer dec) =
     bind_io (SendSponsoredTransfer_Handler d dec (intercepted d)) (\<lambda>r. ret_io (Reply_SendSponsoredTransfer r))"
| "serve d (Call_CallContract dec) =
     bind_io (CallContract_Handler d dec (intercepted d)) (\<lambda>r. ret_io (Reply_CallContract r))"

fun well_formed_reply :: "wallet_reply \<Rightarrow> bool" where
  "well_formed_reply (Reply_GetSupportChains r) = well_formed_result r"
| "well_formed_reply (Reply_ConvertAddresses r) = well_formed_result r"
| "well_formed_reply (Reply_ValidAddresses r) = well_formed_result r"
| "well_formed_reply (Reply_GetLastestBlock r) = well_formed_result r"
| "well_formed_reply (Reply_GetBlock r) = well_formed_result r"
| "well_formed_reply (Reply_GetBatchBlock r) = well_formed_result r"
| "well_formed_reply (Reply_GetTransactionByHash r) = well_formed_result r"
| "well_formed_reply (Reply_GetTransactionByAddress r) = well_formed_result r"
| "well_formed_reply (Reply_GetAccountBalance r) = well_formed_result r"
| "well_formed_reply (Reply_SendTransaction r) = well_formed_result r"
| "well_formed_reply (Reply_BuildTransactionSchema r) = well_formed_result r"
| "well_formed_reply (Reply_BuildUnSignTransaction r) = well_formed_result r"
| "well_formed_reply (Reply_BuildSignedTransaction r) = well_formed_result r"
| "well_formed_reply (Reply_GetAddressApproveList r) = well_formed_result r"
| "well_formed_reply (Reply_BuildSponsoredTransfer r) = well_formed_result r"
| "well_formed_reply (Reply_SendSponsoredTransfer r) = well_formed_result r"
| "well_formed_reply (Reply_CallContract r) = well_formed_result r"


section \<open>The abstract gateway\<close>

text \<open>A request with the configured token, for a chain that is configured and supported.\<close>

definition served :: "Config \<Rightarrow> 'q chain_request_scheme \<Rightarrow> bool" where
  "served cfg r \<longleftrightarrow> ConsumerToken r = AccessToken cfg \<and> ChainId r \<in> ch_ChainId ` set (Chains cfg) \<inter> set supportedChains"

text \<open>
  A sponsored request that the operation's sender has signed: account abstraction is enabled, the
  operation and the signature decode, and the signature recovers the sender from the operation's hash.
\<close>

definition signed_operation ::
  "('w, 'x, 'k, 'y, 'b, 'm, 't, 'p, 'u, 'n) externals \<Rightarrow> Config \<Rightarrow> SponsoredTransferSendRequest \<Rightarrow> bool" where
  "signed_operation X cfg req \<longleftrightarrow>
     (\<exists>(c :: 'w bnbChainAdaptor) aa op0 op us h. bc_conf c = cfg \<and> bnb_aaConfig (x_geth X) c = Inr aa \<and> Enabled aa \<and>
       UserOpFromJSON (x_aalib X) (sps_UserOpJson req) = Inr op0 \<and>
       op = EnsurePaymasterSigPlaceholder (ApplyConfigToUserOp op0 aa) \<and>
       ParseSignatureHex (sps_UserOpSignature req) = Inr us \<and> GetUserOpHash (x_geth X) (x_aalib X) op = Ret h \<and>
       recoverPubkey (x_aalib X) (hash_bytes h) us = Inr (Sender op))"

text \<open>
  What a call may broadcast: a send, exactly its transactions, in order, when it is served; a sponsored
  send, at most three transactions, and any only when it is served, on BNB, and signed; every other call,
  nothing.
\<close>

fun call_spec ::
  "('w, 'x, 'k, 'y, 'b, 'm, 't, 'p, 'u, 'n) externals \<Rightarrow> Config \<Rightarrow> wallet_call \<Rightarrow> event list \<Rightarrow> bool" where
  "call_spec X cfg (Call_SendTransaction (Inr r)) bs \<longleftrightarrow>
     bs = (if served cfg r then concat (map (broadcast_of X (ChainId r)) (str_RawTx r)) else [])"
| "call_spec X cfg (Call_SendSponsoredTransfer (Inr r)) bs \<longleftrightarrow>
     bs = [] \<or> served cfg r \<and> ChainId r = bnbchain_ChainID \<and> signed_operation X cfg r \<and> length bs \<le> 3 \<and>
       list_all (\<lambda>ev. ev_name ev = ''eth_sendRawTransaction'') bs"
| "call_spec X cfg _ bs \<longleftrightarrow> bs = []"

section \<open>Sessions\<close>

inductive session :: "'w ChainDispatcher \<Rightarrow> 'w world \<Rightarrow> (wallet_call \<times> wallet_reply) list \<Rightarrow> 'w world \<Rightarrow> bool"
  for d :: "'w ChainDispatcher" and w :: "'w world" where
  opened: "session d w [] w"
| called: "session d w cs w1 \<Longrightarrow> serve d c w1 = (Ret r, w2) \<Longrightarrow> session d w (cs @ [(c, r)]) w2"
| outside: "session d w cs w1 \<Longrightarrow> session d w cs (w1\<lparr>env := e\<rparr>)"

section \<open>Every call implements the abstract gateway\<close>

text \<open>An intercepted call answers, and does what its handler does when it is let through.\<close>

lemma unary_run:
  assumes "\<And>q. returns well_formed (call q)"
    and "\<And>q. ConsumerToken q = AccessToken (conf d) \<Longrightarrow> \<exists>es. trace (final (call q) w) = trace w @ es \<and> Q (Inr q) (broadcasts es)"
    and "\<And>q. ConsumerToken q \<noteq> AccessToken (conf d) \<Longrightarrow> Q (Inr q) []" and "\<And>e. Q (Inl e) []"
  obtains p w' es where "unary call info dec (intercepted d) w = (Ret p, w')" "well_formed_result p"
    "trace w' = trace w @ es" "Q dec (broadcasts es)"
proof (cases dec)
  case (Inl e)
  show ?thesis by (rule that [of "(None, Some (HandlerError e))" w "[]"])
      (use Inl assms(4) in \<open>simp_all add: unary_def well_formed_result_def\<close>)
next
  case (Inr q)
  let ?m = "Interceptor d (\<lambda>r. Some (ConsumerToken r)) info q call"
  have "call_answered d info q call" by (rule call_answeredI) (rule assms(1))
  then obtain p w' where run: "?m w = (Ret p, w')" "well_formed_result p"
    unfolding call_answered_def by blast
  then have w': "w' = (if ConsumerToken q = AccessToken (conf d) then final (call q) w else w)"
    using intercepted_final [of d "\<lambda>r. Some (ConsumerToken r)" info q call w] by (simp add: final_def)
  have "\<exists>es. trace w' = trace w @ es \<and> Q dec (broadcasts es)"
  proof (cases "ConsumerToken q = AccessToken (conf d)")
    case True
    then show ?thesis using assms(2) [OF True] w' Inr by simp
  next
    case False
    then show ?thesis using assms(3) [OF False] w' Inr by (intro exI [of _ "[]"]) simp
  qed
  then show ?thesis using that [of p w'] run Inr by (auto simp: unary_def)
qed

lemma unary_quiet:
  assumes "\<And>q. returns well_formed (call q)" and "\<And>q. emits no_send (call q)"
  obtains p w' es where "unary call info dec (intercepted d) w = (Ret p, w')" "well_formed_result p"
    "trace w' = trace w @ es" "broadcasts es = []"
proof (rule unary_run [of call d w "\<lambda>_ bs. bs = []" info dec])
  fix q
  obtain es where "trace (snd (call q w)) = trace w @ es" "list_all no_send es"
    using assms(2) [of q] unfolding emits_def by blast
  then show "\<exists>es. trace (final (call q) w) = trace w @ es \<and> broadcasts es = []"
    by (auto simp: final_def broadcasts_quiet)
qed (use assms(1) that in auto)
lemma quiet_served:
  assumes "\<And>q. returns well_formed (call q)" and "\<And>q. emits no_send (call q)"
    and "\<And>p. well_formed_reply (mk p) = well_formed_result p" and "call_spec X cfg c []"
  shows "\<exists>r w' es. bind_io (unary call info dec (intercepted d)) (\<lambda>p. ret_io (mk p)) w = (Ret r, w') \<and>
    well_formed_reply r \<and> trace w' = trace w @ es \<and> call_spec X cfg c (broadcasts es)"
proof -
  obtain p w' es where "unary call info dec (intercepted d) w = (Ret p, w')" "well_formed_result p"
    "trace w' = trace w @ es" "broadcasts es = []"
    using unary_quiet [OF assms(1,2)] .
  with assms(3,4) show ?thesis by (simp add: bind_io_apply)
qed

text \<open>The two sends, when they are let through.\<close>

lemma served_iff:
  assumes "NewChainDispatcher fs cfg w0 = (Ret (Some d), w1)"
  shows "served cfg q \<longleftrightarrow> ConsumerToken q = AccessToken cfg \<and> registry d (ChainId q) \<noteq> None"
  unfolding served_def gateway_conf(2) [OF assms, symmetric] by blast

lemma sent_counted:
  "list_all (\<lambda>ev. ev_name ev = ''eth_sendRawTransaction'') (broadcasts es) \<Longrightarrow> broadcasts es \<noteq> [] \<Longrightarrow>
   count_ev ''eth_sendRawTransaction'' es \<noteq> 0"
  by (induction es) (auto simp: broadcasts_def split: if_splits)

lemma send_let_through:
  assumes "NewChainDispatcher (chain_factories X) cfg w0 = (Ret (Some d), w1)" and "ConsumerToken q = AccessToken cfg"
  shows "\<exists>es. trace (final (d_SendTransaction d q) w) = trace w @ es \<and> call_spec X cfg (Call_SendTransaction (Inr q)) (broadcasts es)"
proof (cases "registry d (ChainId q)")
  case None
  then show ?thesis
    by (intro exI [of _ "[]"]) (simp add: send.rejected_silently final_def served_iff [OF assms(1)])
next
  case (Some a)
  then have "served cfg q" using Some assms(2) by (simp add: served_iff [OF assms(1)])
  moreover have "sends_as (broadcast_of X (ChainId q)) a"
    using gateway_contract [OF assms(1) Some] by (simp add: chain_contract_def)
  then obtain r w' where "SendTransaction a q w = (r, w')" "trace w' = trace w @ concat (map (broadcast_of X (ChainId q)) (str_RawTx q))"
    unfolding sends_as_def by blast
  moreover have "broadcasts (concat (map (broadcast_of X (ChainId q)) (str_RawTx q))) =
      concat (map (broadcast_of X (ChainId q)) (str_RawTx q))"
    using broadcast_of_calls [of X "ChainId q" "str_RawTx q"] broadcast_call_name [of "ChainId q"]
    by (intro broadcasts_all) (auto simp: list_all_iff)
  ultimately show ?thesis using Some by (simp add: send.handle_registered final_def)
qed

lemma sponsored_let_through:
  assumes "NewChainDispatcher (chain_factories X) cfg w0 = (Ret (Some d), w1)" and "geth_ok (x_geth X)"
    and "ConsumerToken q = AccessToken cfg"
  shows "\<exists>es. trace (final (d_SendSponsoredTransfer d q) w) = trace w @ es \<and>
    call_spec X cfg (Call_SendSponsoredTransfer (Inr q)) (broadcasts es)"
proof (cases "registry d (ChainId q)")
  case None
  then show ?thesis
    by (intro exI [of _ "[]"]) (simp add: sponsored_send.rejected_silently final_def)
next
  case (Some a)
  have h: "d_SendSponsoredTransfer d q = SendSponsoredTransfer a q" by (rule sponsored_send.handle_registered [OF Some])
  have "sends_at_most (sponsored_limit (ChainId q)) (SendSponsoredTransfer a q)"
    using gateway_contract [OF assms(1) Some] by (simp add: chain_contract_def sponsors_at_most_def)
  then obtain es where es: "trace (final (SendSponsoredTransfer a q) w) = trace w @ es" "sends_evm (sponsored_limit (ChainId q)) es"
    unfolding sends_at_most_def final_def by blast
  show ?thesis
  proof (cases "broadcasts es = []")
    case True
    with es(1) show ?thesis by (intro exI [of _ es]) (simp add: h)
  next
    case False
    with es(2) have bnb: "ChainId q = bnbchain_ChainID"
      by (auto simp: sends_evm_def sponsored_limit_def split: if_splits)
    have all: "list_all (\<lambda>ev. ev_name ev = ''eth_sendRawTransaction'') (broadcasts es)" "length (broadcasts es) \<le> 3"
      using es(2) bnb by (simp_all add: sends_evm_def sponsored_limit_def)
    have "count_ev ''eth_sendRawTransaction'' (new_events (SendSponsoredTransfer a q) w) \<noteq> 0"
      using False es(1) sent_counted [OF all(1)] by (simp add: new_events_def)
    from sponsored_by_sender [OF assms(1) Some bnb assms(2) this] have "signed_operation X cfg q"
      unfolding signed_operation_def .
    moreover have "served cfg q" using Some assms(3) by (simp add: served_iff [OF assms(1)])
    ultimately show ?thesis using es(1) bnb all by (intro exI [of _ es]) (simp add: h)
  qed
qed

lemmas quiet_Handler_defs = ConvertAddresses_Handler_def ValidAddresses_Handler_def GetLastestBlock_Handler_def
  GetBlock_Handler_def GetBatchBlock_Handler_def GetTransactionByHash_Handler_def GetTransactionByAddress_Handler_def
  GetAccountBalance_Handler_def BuildTransactionSchema_Handler_def BuildUnSignTransaction_Handler_def
  BuildSignedTransaction_Handler_def GetAddressApproveList_Handler_def BuildSponsoredTransfer_Handler_def
  CallContract_Handler_def

lemma serve_spec:
  assumes "NewChainDispatcher (chain_factories X) cfg w0 = (Ret (Some d), w1)" and "geth_ok (x_geth X)"
  shows "\<exists>r w' es. serve d c w = (Ret r, w') \<and> well_formed_reply r \<and> trace w' = trace w @ es \<and> call_spec X cfg c (broadcasts es)"
proof (cases c)
  case (Call_GetSupportChains dec)
  show ?thesis unfolding Call_GetSupportChains serve.simps GetSupportChains_Handler_def
    by (rule quiet_served) (simp_all add: GetSupportChains_def returns_ret)
next
  case (Call_SendTransaction dec)
  have conf: "conf d = cfg" by (rule gateway_conf(1) [OF assms(1)])
  obtain p w' es where "unary (d_SendTransaction d) SendTransaction_FullMethodName dec (intercepted d) w = (Ret p, w')"
    "well_formed_result p" "trace w' = trace w @ es" "call_spec X cfg (Call_SendTransaction dec) (broadcasts es)"
    by (rule unary_run [of "d_SendTransaction d" d w "\<lambda>dec. call_spec X cfg (Call_SendTransaction dec)"
        SendTransaction_FullMethodName dec])
      (use gateway_returns(15) [OF assms(1)] send_let_through [OF assms(1)] in \<open>simp_all add: conf served_def\<close>)
  then show ?thesis unfolding Call_SendTransaction serve.simps SendTransaction_Handler_def by (simp add: bind_io_apply)
next
  case (Call_SendSponsoredTransfer dec)
  have conf: "conf d = cfg" by (rule gateway_conf(1) [OF assms(1)])
  obtain p w' es where "unary (d_SendSponsoredTransfer d) SendSponsoredTransfer_FullMethodName dec (intercepted d) w = (Ret p, w')"
    "well_formed_result p" "trace w' = trace w @ es" "call_spec X cfg (Call_SendSponsoredTransfer dec) (broadcasts es)"
    by (rule unary_run [of "d_SendSponsoredTransfer d" d w "\<lambda>dec. call_spec X cfg (Call_SendSponsoredTransfer dec)"
        SendSponsoredTransfer_FullMethodName dec])
      (use gateway_returns(16) [OF assms(1)] sponsored_let_through [OF assms] in \<open>simp_all add: conf\<close>)
  then show ?thesis unfolding Call_SendSponsoredTransfer serve.simps SendSponsoredTransfer_Handler_def
    by (simp add: bind_io_apply)
qed (simp only: serve.simps quiet_Handler_defs, rule quiet_served, rule gateway_returns [OF assms(1)],
    rule gateway_quiet [OF assms(1)], simp, simp)+

lemma session_spec:
  assumes "session d w cs w'"
    and "NewChainDispatcher (chain_factories X) cfg w0 = (Ret (Some d), w1)" and "geth_ok (x_geth X)"
  shows "\<exists>es bss. trace w' = trace w @ es \<and> broadcasts es = concat bss \<and> list_all2 (call_spec X cfg) (map fst cs) bss \<and>
    list_all well_formed_reply (map snd cs)"
  using assms(1)
proof induction
  case opened
  show ?case by (intro exI [of _ "[]"]) simp
next
  case (called cs w1 c r w2)
  from called.IH obtain es bss where IH: "trace w1 = trace w @ es" "broadcasts es = concat bss"
    "list_all2 (call_spec X cfg) (map fst cs) bss" "list_all well_formed_reply (map snd cs)" by blast
  obtain fs where "trace w2 = trace w1 @ fs" "call_spec X cfg c (broadcasts fs)" "well_formed_reply r"
    using serve_spec [OF assms(2,3), of c w1] called.hyps(2) by auto
  with IH show ?case
    by (intro exI [of _ "es @ fs"] exI [of _ "bss @ [broadcasts fs]"]) (simp add: list_all2_appendI)
next
  case (outside cs w1 e)
  then show ?case by simp
qed

end
