(* ===== verification/Evm_Sign.thy ===== *)
theory Evm_Sign
  imports Bnb_Props Ethereum
begin

text \<open>
  The two calls of a transfer on an EVM chain: \<open>BuildUnSignTransaction\<close> answers the hash to sign, and
  \<open>BuildSignedTransaction\<close> takes the signature. Both make the transaction anew from the node's nonce and
  fees of their moment (\<open>buildDynamicFeeTx\<close>): whether an honest signature is accepted depends on what
  happened in between.
\<close>

text \<open>
  Documented of the library, for the signatures \<open>sign_as a h\<close> that the owner of the address \<open>a\<close> makes of a
  hash \<open>h\<close>: they can be attached and written; the sender recovered from them is \<open>a\<close> for a transaction
  with that hash, and for no other.
\<close>

definition signatures_ok :: "'x txlib \<Rightarrow> (address \<Rightarrow> hash \<Rightarrow> byte list) \<Rightarrow> bool" where
  "signatures_ok T sign_as \<longleftrightarrow>
     (\<forall>d c a h. \<exists>x bs. WithSignature T d c (sign_as a h) = Inr x \<and> tx_MarshalBinary T x = Inr bs \<and>
        (types_Sender T c x = Inr a \<longleftrightarrow> SigningHash T d c = h))"

text \<open>What makes the transaction of a request: the one of BNB or that of Ethereum.\<close>

definition evm_builds ::
  "geth \<Rightarrow> 'x txlib \<Rightarrow> 'w EthClient \<Rightarrow> (string \<Rightarrow> ('w, (DynamicFeeTx \<times> Eip1559DynamicFeeTx) res) io) set" where
  "evm_builds G T C = {bnb_buildDynamicFeeTx G T C, eth_buildDynamicFeeTx G T C}"

definition unsigned_request :: "string \<Rightarrow> UnSignTransactionRequest" where
  "unsigned_request item = \<lparr>ConsumerToken = [], ChainId = [], Network = [], utr_Base64Txn = [\<lparr>Base64Tx = item\<rparr>]\<rparr>"

definition signed_request :: "string \<Rightarrow> byte list \<Rightarrow> SignedTransactionRequest" where
  "signed_request item sig = \<lparr>ConsumerToken = [], ChainId = [], Network = [],
     sgr_TxnWithSignature = [\<lparr>bts_Base64Tx = item, bts_Signature = EncodeToString sig, bts_PublicKey = []\<rparr>]\<rparr>"

lemma eth_build_ok:
  assumes "eth_buildDynamicFeeTx G T C item w = (Ret (Inr (d, e)), w')"
  shows "\<exists>p nonce. plan_tx G T item = Inr (p, e) \<and> d = planned p nonce MaxPriorityFeePerGas MaxFeePerGas"
  using assms by (auto simp: eth_buildDynamicFeeTx_def run_iff)

lemma one_build:
  assumes "build \<in> evm_builds G T C" and "build item w = (Ret (Inr (d, e)), w')"
  shows "\<exists>p nonce tip fee. plan_tx G T item = Inr (p, e) \<and> d = planned p nonce tip fee \<and>
    (build = eth_buildDynamicFeeTx G T C \<longrightarrow> tip = MaxPriorityFeePerGas \<and> fee = MaxFeePerGas)"
proof (cases "build = eth_buildDynamicFeeTx G T C")
  case True
  with eth_build_ok [of G T C item w d e w'] assms(2) show ?thesis by blast
next
  case False
  with assms have "bnb_buildDynamicFeeTx G T C item w = (Ret (Inr (d, e)), w')" by (simp add: evm_builds_def)
  from bnb_build_ok [OF this] False show ?thesis by blast
qed

text \<open>Two runs differ at most in the nonce and the fees; those of Ethereum are constants.\<close>

lemma two_builds:
  assumes "build \<in> evm_builds G T C"
    and "build item w = (Ret (Inr (d1, e1)), w1)" and "build item w2 = (Ret (Inr (d2, e2)), w3)"
  shows "e2 = e1 \<and> df_ChainID d2 = df_ChainID d1 \<and>
    (d2 = d1 \<longleftrightarrow> df_Nonce d2 = df_Nonce d1 \<and> df_GasTipCap d2 = df_GasTipCap d1 \<and> df_GasFeeCap d2 = df_GasFeeCap d1) \<and>
    (build = eth_buildDynamicFeeTx G T C \<longrightarrow> df_GasTipCap d2 = df_GasTipCap d1 \<and> df_GasFeeCap d2 = df_GasFeeCap d1)"
proof -
  from one_build [OF assms(1), of item w d1 e1 w1] assms(2) obtain p n1 t1 f1 where 1: "plan_tx G T item = Inr (p, e1)"
    "d1 = planned p n1 t1 f1" "build = eth_buildDynamicFeeTx G T C \<longrightarrow> t1 = MaxPriorityFeePerGas \<and> f1 = MaxFeePerGas" by blast
  from one_build [OF assms(1), of item w2 d2 e2 w3] assms(3) obtain q n2 t2 f2 where 2: "plan_tx G T item = Inr (q, e2)"
    "d2 = planned q n2 t2 f2" "build = eth_buildDynamicFeeTx G T C \<longrightarrow> t2 = MaxPriorityFeePerGas \<and> f2 = MaxFeePerGas" by blast
  from 1 2 show ?thesis by (auto simp: planned_def)
qed

lemma unsigned_hash:
  assumes "build item w = (Ret (Inr (d, e)), w')"
  shows "evm_BuildUnSignTransaction G T build (unsigned_request item) w = (Ret (okReply
    \<lparr>Code = SUCCESS, Msg = ''build unsign transaction success'', UnsignedTxn = [\<lparr>UnsignedTx = HashHex G (SigningHash T d (df_ChainID d))\<rparr>]\<rparr>), w')"
  by (simp add: evm_BuildUnSignTransaction_def unsigned_request_def bind_io_apply assms CreateEip1559UnSignTx_def)

lemma signed_accepted:
  assumes "geth_ok G" and "signatures_ok T sign_as" and "build item w = (Ret (Inr (d, e)), w')" and "AddressHex G a = e1_FromAddress e"
  shows "(\<exists>rsp. evm_BuildSignedTransaction G T build (signed_request item (sign_as a h)) w = (Ret (okReply rsp), w') \<and>
      length (SignedTxn rsp) = 1) \<longleftrightarrow> SigningHash T d (df_ChainID d) = h"
    and "\<exists>r. evm_BuildSignedTransaction G T build (signed_request item (sign_as a h)) w = (Ret r, w')"
proof -
  obtain x bs where x: "WithSignature T d (df_ChainID d) (sign_as a h) = Inr x" "tx_MarshalBinary T x = Inr bs"
    "types_Sender T (df_ChainID d) x = Inr a \<longleftrightarrow> SigningHash T d (df_ChainID d) = h"
    using assms(2) unfolding signatures_ok_def by metis
  have run: "evm_BuildSignedTransaction G T build (signed_request item (sign_as a h)) w =
      (case types_Sender T (df_ChainID d) x of
         Inl err \<Rightarrow> (Ret (errReply (wrap_err ''recover sender failed: '' err)), w')
       | Inr sender \<Rightarrow> if sender \<noteq> a
           then (Ret (errReply (Errorf (''sender address mismatch: expected '' @ e1_FromAddress e @ '', got '' @ AddressHex G sender))), w')
           else (Ret (okReply \<lparr>Code = SUCCESS, Msg = ''build signed transaction success'', SignedTxn =
             [\<lparr>stx_SignedTx = ''0x'' @ EncodeToString bs, stx_TxHash = HashHex G (signed_Hash T x), stx_IsSuccess = True\<rparr>]\<rparr>), w'))"
    using assms(4) AddressHex_inject [OF assms(1), of _ a]
    by (simp add: evm_BuildSignedTransaction_def signed_request_def bind_io_apply assms(3) CreateEip1559SignedTx_def x(1,2)
        split: sum.split)
  then show "\<exists>r. evm_BuildSignedTransaction G T build (signed_request item (sign_as a h)) w = (Ret r, w')"
    by (simp split: sum.split)
  from run x(3) show "(\<exists>rsp. evm_BuildSignedTransaction G T build (signed_request item (sign_as a h)) w = (Ret (okReply rsp), w') \<and>
      length (SignedTxn rsp) = 1) \<longleftrightarrow> SigningHash T d (df_ChainID d) = h"
    by (auto split: sum.splits if_splits)
qed

section \<open>Properties\<close>


text \<open>A library whose signed transaction carries its signature, and whose hash is the nonce.\<close>

definition nonce_txlib :: "(DynamicFeeTx \<times> byte list) txlib" where
  "nonce_txlib =
     \<lparr>SigningHash = \<lambda>d c. ucast (df_Nonce d), WithSignature = \<lambda>d c sig. Inr (d, sig), legacy_SigningHash = \<lambda>d c. 2,
      legacy_WithSignature = \<lambda>d c sig. Inl NotFound, tx_MarshalBinary = \<lambda>x. Inr (snd x), rlp_EncodeToBytes = \<lambda>d. Inr [],
      signed_Hash = \<lambda>d. 3, types_Sender = \<lambda>c (d, sig). (if drop 20 sig = hash_bytes (ucast (df_Nonce d))
        then Inr (crop_address (take 20 sig)) else Inl NotFound), base64_Decode = \<lambda>s. Inr [],
      json_Unmarshal_tx = \<lambda>bs. Inr \<lparr>e1_ChainId = FormatInt 56, e1_FromAddress = AddressHex sample_geth 4,
        e1_ToAddress = AddressHex sample_geth 5, e1_Amount = FormatInt 7, e1_ContractAddress = [], e1_Signature = []\<rparr>\<rparr>"

definition counting_client :: "unit EthClient" where
  "counting_client = (clnt sample_geth 1000 concat sample_rpc)\<lparr>GetTransactionAccount :=
     \<lambda>a w. (Ret (Inr (int (length (trace w)))), w\<lparr>trace := trace w @ [Ev ''nonce'' []]\<rparr>)\<rparr>"

definition sample_sign :: "address \<Rightarrow> hash \<Rightarrow> byte list" where
  "sample_sign a h = addr_bytes a @ hash_bytes h"

lemma nonce_signatures_ok: "signatures_ok nonce_txlib sample_sign"
  by (auto simp: signatures_ok_def nonce_txlib_def sample_sign_def)

lemma counting_build:
  "\<exists>d e. eth_buildDynamicFeeTx sample_geth nonce_txlib counting_client [] w = (Ret (Inr (d, e)), w\<lparr>trace := trace w @ [Ev ''nonce'' []]\<rparr>) \<and>
     df_Nonce d = word_of_nat (length (trace w)) \<and> df_ChainID d = 56 \<and> e1_FromAddress e = AddressHex sample_geth 4"
  by (simp add: eth_buildDynamicFeeTx_def plan_tx_def nonce_txlib_def IsEthTransfer_def Let_def counting_client_def
      bind_io_apply planned_def big_Uint64_def)


end
