(* ===== verification/Tron_Flow.thy ===== *)
theory Tron_Flow
  imports Tron_Props
begin

text \<open>
  The three calls of a transfer on Tron composed: the transactions the node builds for
  \<open>BuildUnSignTransaction\<close>, completed by \<open>BuildSignedTransaction\<close> with the signatures of the client, are
  what \<open>SendTransaction\<close> broadcasts.
\<close>

text \<open>Documented of base64 and \<open>encoding/json\<close>: what was written is read back.\<close>

definition tron_codec_ok :: "troncodec \<Rightarrow> bool" where
  "tron_codec_ok J \<longleftrightarrow> (\<forall>bs. base64_Decode J (base64_Encode J bs) = Inr bs) \<and>
     (\<forall>tx bs. json_Marshal J tx = Inr bs \<longrightarrow> json_TronTransaction J bs = Inr tx)"

lemma decode_encoded:
  assumes "tron_codec_ok J" and "json_Marshal J tx = Inr bs"
  shows "decode_tx J (base64_Encode J bs) = Inr tx"
  using assms by (simp add: decode_tx_def tron_codec_ok_def)

section \<open>What each call makes\<close>

text \<open>The transaction the node built for a payload.\<close>

definition tron_built :: "'k tronlib \<Rightarrow> troncodec \<Rightarrow> 'w TronClient \<Rightarrow> Base64Transaction \<Rightarrow> TronTransaction \<Rightarrow> bool" where
  "tron_built T J cl t tx \<longleftrightarrow> (\<exists>data w w'. bind_res (base64_Decode J (Base64Tx t)) (json_TxStructure J) = Inr data \<and>
     buildUnsignedTransaction T cl data w = (Ret (Inr tx), w'))"

lemma unsigned_loop_run:
  assumes "unsigned_loop T J cl ts acc w = (Ret (okReply rsp), w')"
  shows "\<exists>txs bss. Code rsp = SUCCESS \<and> UnsignedTxn rsp = acc @ map (\<lambda>bs. \<lparr>UnsignedTx = base64_Encode J bs\<rparr>) bss \<and>
    list_all2 (tron_built T J cl) ts txs \<and> list_all2 (\<lambda>tx bs. json_Marshal J tx = Inr bs) txs bss"
  using assms
proof (induction ts arbitrary: acc w)
  case Nil
  then show ?case by (auto simp: okReply_def)
next
  case (Cons t ts)
  obtain data where data: "bind_res (base64_Decode J (Base64Tx t)) (json_TxStructure J) = Inr data"
    using Cons.prems by (auto simp: errReply_def okReply_def split: sum.splits)
  obtain r w1 where r: "buildUnsignedTransaction T cl data w = (Ret r, w1)"
    and rest: "(case bind_res r (json_Marshal J) of Inl err \<Rightarrow> ret_io (errReply err)
      | Inr bs \<Rightarrow> unsigned_loop T J cl ts (acc @ [\<lparr>UnsignedTx = base64_Encode J bs\<rparr>])) w1 = (Ret (okReply rsp), w')"
    using Cons.prems data by (auto simp: bind_io_Ret_iff)
  obtain bs where bs: "bind_res r (json_Marshal J) = Inr bs"
    using rest by (cases "bind_res r (json_Marshal J)") (auto simp: errReply_def okReply_def)
  then obtain tx where "r = Inr tx" "json_Marshal J tx = Inr bs" by (auto simp: bind_res_Inr_iff)
  with r rest bs have b: "buildUnsignedTransaction T cl data w = (Ret (Inr tx), w1)" "json_Marshal J tx = Inr bs"
    and rest: "unsigned_loop T J cl ts (acc @ [\<lparr>UnsignedTx = base64_Encode J bs\<rparr>]) w1 = (Ret (okReply rsp), w')" by simp_all
  from Cons.IH [OF rest] obtain txs bss where "Code rsp = SUCCESS"
    "UnsignedTxn rsp = (acc @ [\<lparr>UnsignedTx = base64_Encode J bs\<rparr>]) @ map (\<lambda>bs. \<lparr>UnsignedTx = base64_Encode J bs\<rparr>) bss"
    "list_all2 (tron_built T J cl) ts txs" "list_all2 (\<lambda>tx bs. json_Marshal J tx = Inr bs) txs bss" by blast
  moreover have "tron_built T J cl t tx" using data b(1) unfolding tron_built_def by blast
  ultimately show ?case using b(2) by (intro exI [of _ "tx # txs"] exI [of _ "bs # bss"]) simp
qed

text \<open>A transaction with a signature and, where it had none, its id; nothing else changes.\<close>

definition tron_signed :: "'k tronlib \<Rightarrow> TronTransaction \<Rightarrow> string \<Rightarrow> TronTransaction" where
  "tron_signed T tx sig = tx
     \<lparr>tt_Signature := [formatTronSignatureHex (EncodeToString (case_sum (\<lambda>_. []) id (hex_decode (TrimPrefix sig ''0x''))))],
      tt_TxID := (if tt_TxID tx = [] \<and> tt_RawDataHex tx \<noteq> []
        then EncodeToString (Sum256 T (case_sum (\<lambda>_. []) id (hex_decode (tt_RawDataHex tx)))) else tt_TxID tx)\<rparr>"

lemma with_TxID_Inr:
  "with_TxID T tx = Inr tx' \<Longrightarrow> tx' = tx\<lparr>tt_TxID := (if tt_TxID tx = [] \<and> tt_RawDataHex tx \<noteq> []
     then EncodeToString (Sum256 T (case_sum (\<lambda>_. []) id (hex_decode (tt_RawDataHex tx)))) else tt_TxID tx)\<rparr>"
  by (auto simp: with_TxID_def split: if_splits sum.splits)

lemma tron_sign_one_ok:
  assumes "tron_codec_ok J" and "decode_tx J (bts_Base64Tx t) = Inr tx" and "stx_IsSuccess (tron_sign_one T J t)"
  shows "decode_tx J (stx_SignedTx (tron_sign_one T J t)) = Inr (tron_signed T tx (bts_Signature t)) \<and>
    stx_TxHash (tron_sign_one T J t) = tt_TxID (tron_signed T tx (bts_Signature t))"
proof -
  obtain sg where sg: "hex_decode (TrimPrefix (bts_Signature t) ''0x'') = Inr sg"
    using assms(2,3) by (auto simp: tron_sign_one_def failed_signed_def split: sum.splits)
  obtain tx' bs where tx': "with_TxID T (tx\<lparr>tt_Signature := [formatTronSignatureHex (EncodeToString sg)]\<rparr>) = Inr tx'"
    "json_Marshal J tx' = Inr bs"
    using assms(2,3) sg by (auto simp: tron_sign_one_def failed_signed_def split: sum.splits)
  have "tx' = tron_signed T tx (bts_Signature t)"
    using with_TxID_Inr [OF tx'(1)] by (simp add: tron_signed_def sg)
  then show ?thesis
    using tx' sg assms(2) decode_encoded [OF assms(1) tx'(2)] by (simp add: tron_sign_one_def)
qed

section \<open>Properties\<close>

text \<open>
  C10. A transfer on Tron from its request to the network: when \<open>BuildUnSignTransaction\<close> succeeds, each of
  its transactions comes back with a signature, and \<open>BuildSignedTransaction\<close> accepts them all, then the
  send of its answers broadcasts, one for one and in order, the transactions the node built for the
  requests, each with its own signature and with nothing else changed but an id where it had none; and the
  answers name them by these ids.
\<close>

theorem tron_transfer_flow:
  assumes "tron_codec_ok J"
    and build: "tron_BuildUnSignTransaction T J c req w0 = (Ret (okReply rsp), w1)"
    and sign: "length sigs = length (UnsignedTxn rsp)"
      "sgr_TxnWithSignature sreq =
         map2 (\<lambda>u s. \<lparr>bts_Base64Tx = UnsignedTx u, bts_Signature = s, bts_PublicKey = []\<rparr>) (UnsignedTxn rsp) sigs"
      "tron_BuildSignedTransaction T J sreq w2 = (Ret (okReply srsp), w3)" "list_all stx_IsSuccess (SignedTxn srsp)"
    and send: "str_RawTx breq = map (\<lambda>e. \<lparr>RawTx = stx_SignedTx e\<rparr>) (SignedTxn srsp)"
  shows "\<exists>txs w5. list_all2 (tron_built T J (tronClient c)) (utr_Base64Txn req) txs \<and>
    map stx_TxHash (SignedTxn srsp) = map tt_TxID (map2 (tron_signed T) txs sigs) \<and>
    snd (tron_SendTransaction J c breq w4) = w5 \<and>
    trace w5 = trace w4 @ map (\<lambda>tx. request_event ''/wallet/broadcasttransaction'' (broadcastTransactionPayload (Some tx)))
      (map2 (tron_signed T) txs sigs)"
proof -
  obtain txs bss where u: "UnsignedTxn rsp = map (\<lambda>bs. \<lparr>UnsignedTx = base64_Encode J bs\<rparr>) bss"
    "list_all2 (tron_built T J (tronClient c)) (utr_Base64Txn req) txs" "list_all2 (\<lambda>tx bs. json_Marshal J tx = Inr bs) txs bss"
    using unsigned_loop_run [OF build [unfolded tron_BuildUnSignTransaction_def]] by auto
  have answered: "SignedTxn srsp = map (tron_sign_one T J) (sgr_TxnWithSignature sreq)"
    using sign(3) by (auto simp: tron_BuildSignedTransaction_def okReply_def)
  have len: "length bss = length txs" "length sigs = length txs"
    using u(1,3) sign(1) by (auto dest: list_all2_lengthD)
  have one: "decode_tx J (stx_SignedTx (SignedTxn srsp ! i)) = Inr (tron_signed T (txs ! i) (sigs ! i)) \<and>
      stx_TxHash (SignedTxn srsp ! i) = tt_TxID (tron_signed T (txs ! i) (sigs ! i))" if "i < length txs" for i
  proof -
    let ?t = "\<lparr>bts_Base64Tx = base64_Encode J (bss ! i), bts_Signature = sigs ! i, bts_PublicKey = []\<rparr>"
    have t: "SignedTxn srsp ! i = tron_sign_one T J ?t" "i < length (SignedTxn srsp)"
      using that len by (simp_all add: answered sign(2) u(1))
    moreover have "decode_tx J (base64_Encode J (bss ! i)) = Inr (txs ! i)"
      by (rule decode_encoded [OF assms(1)]) (rule list_all2_nthD [OF u(3) that])
    ultimately show ?thesis
      using tron_sign_one_ok [OF assms(1), of ?t "txs ! i" T] sign(4) by (auto simp: list_all_length)
  qed
  have n: "length (SignedTxn srsp) = length txs" using len by (simp add: answered sign(2) u(1))
  obtain r w5 where s: "tron_SendTransaction J c breq w4 = (r, w5)"
    "trace w5 = trace w4 @ concat (map (tron_send_calls J) (str_RawTx breq))"
    using tron_send.handler_run [of J c breq w4] by blast
  have "map (tron_send_calls J) (str_RawTx breq) = map (\<lambda>tx. [request_event ''/wallet/broadcasttransaction''
      (broadcastTransactionPayload (Some tx))]) (map2 (tron_signed T) txs sigs)"
    using n len one by (intro nth_equalityI) (simp_all add: send tron_send_calls_def)
  then have "concat (map (tron_send_calls J) (str_RawTx breq)) = map (\<lambda>tx. request_event ''/wallet/broadcasttransaction''
      (broadcastTransactionPayload (Some tx))) (map2 (tron_signed T) txs sigs)"
    by (simp only: concat_map_singleton)
  moreover have "map stx_TxHash (SignedTxn srsp) = map tt_TxID (map2 (tron_signed T) txs sigs)"
    using n len one by (intro nth_equalityI) simp_all
  ultimately show ?thesis using u(2) s by (intro exI [of _ txs] exI [of _ w5]) simp
qed

section \<open>A transfer, from its request to the network\<close>

text \<open>A codec that knows the transaction of \<open>sample_tronclient\<close>, before and after the signature \<open>05\<close>.\<close>

definition trx_tx :: TronTransaction where
  "trx_tx = sample_trontx []"

definition trx_signed :: TronTransaction where
  "trx_signed = tron_signed sample_tronlib trx_tx ''05''"

definition trx_codec :: troncodec where
  "trx_codec =
     \<lparr>base64_Decode = hex_decode, base64_Encode = EncodeToString,
      json_TronTransaction = \<lambda>bs. if bs = [1] then Inr trx_tx else if bs = [2] then Inr trx_signed else Inl NotFound,
      json_TxStructure = \<lambda>bs. Inr \<lparr>ts_TxKind = [], ts_ContractAddress = [], ts_FromAddress = ''T1'', ts_ToAddress = ''T2'',
        ts_Value = 7, ts_DelegateBalance = 0, ts_Resource = [], ts_EnergyAmount = 0, ts_RentCallValue = 0\<rparr>,
      json_Marshal = \<lambda>t. if t = trx_tx then Inr [1] else if t = trx_signed then Inr [2] else Inl NotFound\<rparr>"

lemma trx_codec_ok: "tron_codec_ok trx_codec"
  by (simp add: tron_codec_ok_def trx_codec_def)

lemma trx_hex: "hex_decode ''00'' = Inr [0]" "hex_decode ''05'' = Inr [5]" "TrimPrefix ''05'' ''0x'' = ''05''"
  "ToLower (TrimSpace []) = ([] :: string)" "formatTronSignatureHex (EncodeToString [5]) = ''05''"
  "formatTronSignatureHex (hex_byte 5) = ''05''"
  by code_simp+

lemma trx_signed_eq: "trx_signed = trx_tx\<lparr>tt_Signature := [''05'']\<rparr>"
  by (simp add: trx_signed_def tron_signed_def trx_tx_def sample_trontx_def trx_hex)

lemma trx_created:
  "\<exists>w1. CreateTRXTransaction sample_tronclient a b n w = (Ret (Inr trx_tx), w1)"
  by (simp add: CreateTRXTransaction_def api_call_def post_io_def bind_io_assoc bind_io_apply answer_def ext_def
      sample_tronclient_def validated_def validateUnsignedTransaction_def trx_tx_def sample_trontx_def)

lemma trx_built:
  "\<exists>w1. tron_BuildUnSignTransaction sample_tronlib trx_codec sample_tron \<lparr>ConsumerToken = [], ChainId = [], Network = [],
      utr_Base64Txn = [\<lparr>Base64Tx = ''00''\<rparr>]\<rparr> w =
    (Ret (okReply \<lparr>Code = SUCCESS, Msg = ''success'', UnsignedTxn = [\<lparr>UnsignedTx = EncodeToString [1]\<rparr>]\<rparr>), w1)"
  using trx_created [of "''T1''" "''T2''" 7 w]
  by (auto simp: tron_BuildUnSignTransaction_def sample_tron_def trx_codec_def trx_hex buildUnsignedTransaction_def Let_def
      txKindActivate_def txKindDelegate_def txKindJustLendRent_def txKindJustLendReturn_def bind_io_apply)

lemma trx_sign:
  "tron_sign_one sample_tronlib trx_codec \<lparr>bts_Base64Tx = EncodeToString [1], bts_Signature = ''05'', bts_PublicKey = []\<rparr> =
    \<lparr>stx_SignedTx = EncodeToString [2], stx_TxHash = ''ab'', stx_IsSuccess = True\<rparr>"
proof -
  have "trx_signed \<noteq> trx_tx" "with_TxID sample_tronlib (trx_tx\<lparr>tt_Signature := [''05'']\<rparr>) = Inr trx_signed"
    "tt_TxID trx_signed = ''ab''"
    by (simp_all add: trx_signed_eq with_TxID_def trx_tx_def sample_trontx_def)
  moreover have "decode_tx trx_codec (EncodeToString [1]) = Inr trx_tx"
    by (simp add: decode_tx_def trx_codec_def del: EncodeToString_simps)
  ultimately show ?thesis
    by (simp add: tron_sign_one_def trx_hex Let_def trx_codec_def del: EncodeToString_simps)
qed

theorem tron_transfer_flow_witness:
  "\<exists>w5. snd (tron_SendTransaction trx_codec sample_tron \<lparr>ConsumerToken = [], ChainId = [], Network = [],
      str_RawTx = [\<lparr>RawTx = EncodeToString [2]\<rparr>]\<rparr> \<lparr>env = (), trace = []\<rparr>) = w5 \<and>
     map ev_name (trace w5) = [''/wallet/broadcasttransaction'']"
proof -
  let ?w = "\<lparr>env = (), trace = []\<rparr> :: unit world"
  let ?t = "\<lparr>bts_Base64Tx = EncodeToString [1], bts_Signature = ''05'', bts_PublicKey = []\<rparr>"
  obtain w1 where b: "tron_BuildUnSignTransaction sample_tronlib trx_codec sample_tron \<lparr>ConsumerToken = [], ChainId = [],
      Network = [], utr_Base64Txn = [\<lparr>Base64Tx = ''00''\<rparr>]\<rparr> ?w =
    (Ret (okReply \<lparr>Code = SUCCESS, Msg = ''success'', UnsignedTxn = [\<lparr>UnsignedTx = EncodeToString [1]\<rparr>]\<rparr>), w1)"
    using trx_built by blast
  have s: "tron_BuildSignedTransaction sample_tronlib trx_codec \<lparr>ConsumerToken = [], ChainId = [], Network = [],
      sgr_TxnWithSignature = [?t]\<rparr> ?w = (Ret (okReply \<lparr>Code = SUCCESS, Msg = ''success'',
      SignedTxn = [\<lparr>stx_SignedTx = EncodeToString [2], stx_TxHash = ''ab'', stx_IsSuccess = True\<rparr>]\<rparr>), ?w)"
    by (simp add: tron_BuildSignedTransaction_def trx_sign ret_io_def del: EncodeToString_simps)
  show ?thesis
    using tron_transfer_flow [OF trx_codec_ok b, of "[''05'']" "\<lparr>ConsumerToken = [], ChainId = [], Network = [],
        sgr_TxnWithSignature = [?t]\<rparr>", OF _ _ s, of "\<lparr>ConsumerToken = [], ChainId = [], Network = [],
        str_RawTx = [\<lparr>RawTx = EncodeToString [2]\<rparr>]\<rparr>" ?w]
    by (auto simp: request_event_def list_all2_Cons1 simp del: EncodeToString_simps)
qed

end
