(* ===== verification/Sol_Flow.thy ===== *)
theory Sol_Flow
  imports Sol_Props
begin

text \<open>
  The three calls of a transfer on Solana composed: the transaction \<open>BuildUnSignTransaction\<close> makes of a
  payload travels as an envelope to the signers and back, \<open>BuildSignedTransaction\<close> puts the signatures
  under the message of that transaction, and \<open>SendTransaction\<close> broadcasts the result.
\<close>

text \<open>
  Documented of base64, \<open>encoding/json\<close> and \<open>solana-go\<close>, with \<open>msg t\<close> the message of the transaction \<open>t\<close>: what
  was written is read back, the text of a key is not empty, and a new transaction lists the accounts that
  sign first, the fee payer among them.
\<close>

definition sol_codec_ok :: "('p, 't, 'm) sollib \<Rightarrow> ('t \<Rightarrow> 'm) \<Rightarrow> bool" where
  "sol_codec_ok S msg \<longleftrightarrow>
     (\<forall>bs. sol64_Decode S (sol64_Encode S bs) = Inr bs) \<and>
     (\<forall>e bs. json_Envelope S e = Inr bs \<longrightarrow> json_UnsignedEnvelope S bs = Inr e) \<and>
     (\<forall>t bs. tx_message_bytes S t = Inr bs \<longrightarrow> message_Unmarshal S bs = Inr (msg t)) \<and>
     (\<forall>k. PublicKey_String S k \<noteq> []) \<and>
     (\<forall>is h k t. NewTransaction S is h k = Inr t \<longrightarrow>
        0 < unat (tx_NumRequiredSignatures S t) \<and> unat (tx_NumRequiredSignatures S t) \<le> length (tx_AccountKeys S t))"

text \<open>The texts of the keys that sign a transaction, in its order.\<close>

definition signer_keys :: "('p, 't, 'm) sollib \<Rightarrow> 't \<Rightarrow> string list" where
  "signer_keys S t = map (PublicKey_String S) (take (unat (tx_NumRequiredSignatures S t)) (tx_AccountKeys S t))"

lemma wrapped_Inr_iff [simp]: "wrapped p r = Inr x \<longleftrightarrow> r = Inr x"
  by (cases r) (simp_all add: wrapped_def)

lemma built_is_new:
  assumes "buildSolanaTransferTransaction S payload h = Ret (Inr t)"
  shows "\<exists>is rh k. NewTransaction S is rh k = Inr t"
  using assms
  by (auto simp: buildSolanaTransferTransaction_def bind_go_Ret_iff bind_res_Inr_iff Let_def
      split: sum.splits prod.splits)

lemma envelope_of:
  assumes "sol_codec_ok S msg" and "envelopeFromTransaction S t = Inr e"
  obtains bytes where "hex_decode (TrimPrefix (en_MessageHex e) ''0x'') = Inr bytes"
    "message_Unmarshal S bytes = Inr (msg t)" "en_SignerKeys e = signer_keys S t"
    "en_NumRequiredSignatures e = int (unat (tx_NumRequiredSignatures S t))"
proof -
  obtain bytes where b: "tx_message_bytes S t = Inr bytes"
    using assms(2) by (auto simp: envelopeFromTransaction_def bind_res_Inr_iff)
  then show ?thesis
    using assms that [of bytes]
    by (auto simp: envelopeFromTransaction_def bind_res_Inr_iff Let_def sol_codec_ok_def signer_keys_def)
qed

lemma envelope_roundtrip:
  assumes "sol_codec_ok S msg" and "encodeEnvelope S e = Inr b"
  shows "decodeEnvelope S b = Inr e"
  using assms by (auto simp: encodeEnvelope_def decodeEnvelope_def wrapped_def sol_codec_ok_def bind_res_Inr_iff)

text \<open>A signer who gives the 32 bytes of the key in hex is known by the text of the key.\<close>

lemma signer_of_hex:
  assumes "sol_codec_ok S msg" and "length p = 32"
  shows "signer_of S e (EncodeToString p) = Some (PublicKey_String S (PublicKeyFromBytes S p))"
proof -
  have "EncodeToString p \<noteq> []" using assms(2) by (metis length_EncodeToString list.size(3) mult_eq_0_iff zero_neq_numeral)
  then show ?thesis
    using assms by (simp add: signer_of_def publicKeyHexToBase58_def sol_codec_ok_def del: EncodeToString_simps)
qed

section \<open>A sample library with two signers\<close>

definition slt_key1 :: "byte list" where "slt_key1 = replicate 32 1"
definition slt_key2 :: "byte list" where "slt_key2 = replicate 32 2"

definition slt_envelope :: UnsignedEnvelope where
  "slt_envelope = \<lparr>en_MessageHex = EncodeToString [9], en_NumRequiredSignatures = 2,
     en_SignerKeys = [EncodeToString slt_key1, EncodeToString slt_key2],
     en_Signatures = map_of [(EncodeToString slt_key1, []), (EncodeToString slt_key2, [])], en_RecentBlockhash = ''h''\<rparr>"

definition slt_payload :: SolanaTransferTx where
  "slt_payload = \<lparr>st_FromAddress = ''B'', st_ToAddress = ''C'', st_ContractAddress = [], st_Value = ''7'', st_FeePayer = ''A'',
     st_CreateAta = False, st_RecentBlockhash = [], st_Decimals = 0\<rparr>"

definition slt_sollib :: "(byte list, unit, unit) sollib" where
  "slt_sollib = \<lparr>PublicKeyFromBytes = \<lambda>bs. bs, PublicKey_String = \<lambda>k. if k = [] then ''1'' else EncodeToString k,
     PublicKeyFromBase58 = \<lambda>s. Inr [], FindAssociatedTokenAddress = \<lambda>k m. Inr k, MustHashFromBase58 = Ret,
     NewTransaction = \<lambda>is h k. Inr (), tx_message_bytes = \<lambda>t. Inr [9], tx_NumRequiredSignatures = \<lambda>t. 2,
     tx_AccountKeys = \<lambda>t. [slt_key1, slt_key2, []], tx_RecentBlockhash = \<lambda>t. ''h'', message_Unmarshal = \<lambda>bs. Inr (),
     signed_MarshalBinary = \<lambda>sigs m. Inr (map hd sigs), sol58_Encode = EncodeToString, token_Amount = \<lambda>bs. Inr 0,
     sol64_Decode = hex_decode, sol64_Encode = EncodeToString, json_SolanaTransferTx = \<lambda>bs. Inr slt_payload,
     json_Envelope = \<lambda>e. if e = slt_envelope then Inr [1] else Inl NotFound,
     json_UnsignedEnvelope = \<lambda>bs. if bs = [1] then Inr slt_envelope else Inl NotFound\<rparr>"

definition slt_sol :: "(unit, byte list) solChainAdaptor" where
  "slt_sol = \<lparr>solCli = sample_solclient\<lparr>rpc_getLatestBlockhash := \<lambda>ps e. (Inr (200, answering \<lparr>cx_Slot = 7, cx_Value = \<lparr>bv_Blockhash = ''h'', bv_LastValidBlockHeight = 9\<rparr>\<rparr>), e)\<rparr>,
     sdk_GetAccountInfo = \<lambda>k e. (Inl NotFound, e), solData = solData sample_sol\<rparr>"

lemma slt_keys [simp]: "slt_key1 \<noteq> []" "slt_key2 \<noteq> []" "length slt_key1 = 32" "length slt_key2 = 32"
  by (simp_all add: slt_key1_def slt_key2_def)

lemma slt_sollib_ok: "sol_codec_ok slt_sollib (\<lambda>t. ())"
  by (auto simp: sol_codec_ok_def slt_sollib_def split: if_splits)

lemma slt_hash: "\<exists>w1. GetLatestBlockhash (solCli slt_sol) Confirmed w = (Ret (Inr ''h''), w1)"
  by (simp add: GetLatestBlockhash_def sol_get_def sol_call_def bind_io_assoc ext_def slt_sol_def after_sol_response_def
      checked_def answering_def bind_io_apply)

lemma slt_transaction: "buildSolanaTransferTransaction slt_sollib slt_payload ''h'' = Ret (Inr ())"
proof -
  have "parseUintAmount ''7'' = Inr 7" "isNativeSOL []" "TrimSpace ''A'' = ''A''" "TrimSpace ''h'' = ''h''" "TrimSpace [] = []"
    by code_simp+
  then show ?thesis
    by (simp add: buildSolanaTransferTransaction_def slt_payload_def slt_sollib_def transfer_instructions_def wrapped_def Let_def)
qed

lemma slt_envelope_made: "bind_res (envelopeFromTransaction slt_sollib ()) (encodeEnvelope slt_sollib) = Inr (EncodeToString [1])"
proof -
  have "unat (2 :: byte) = 2" "take 2 [slt_key1, slt_key2, []] = [slt_key1, slt_key2]" by simp_all
  then have "envelopeFromTransaction slt_sollib () = Inr slt_envelope"
    by (simp add: envelopeFromTransaction_def slt_sollib_def wrapped_def slt_envelope_def del: EncodeToString_simps)
  then show ?thesis by (simp add: encodeEnvelope_def slt_sollib_def del: EncodeToString_simps)
qed

section \<open>Properties\<close>

text \<open>
  C9. A transfer on Solana from its payload to the network: when \<open>BuildUnSignTransaction\<close> answers for a
  payload, and each of the signers of the transaction built of it signs, in any order, under the hex of its
  public key, then \<open>BuildSignedTransaction\<close> answers with the message of that transaction under these
  signatures in the order of the transaction's signers, named by the fee payer's, and the send of the
  answer makes one broadcast, of exactly this.
\<close>

theorem sol_transfer_flow:
  assumes codec: "sol_codec_ok S msg" and mem: "255 \<le> mem"
    and build: "GetLatestBlockhash (solCli c) Confirmed w0 = (Ret (Inr h), w1)" "utr_Base64Txn req = [item]"
      "bind_res (sol64_Decode S (Base64Tx item)) (json_SolanaTransferTx S) = Inr payload"
      "buildSolanaTransferTransaction S payload h = Ret (Inr t)"
      "sol_BuildUnSignTransaction S c req w0 = (Ret (okReply rsp), w2)"
    and sign: "sgr_TxnWithSignature sreq = map (\<lambda>p. \<lparr>bts_Base64Tx = UnsignedTx (hd (UnsignedTxn rsp)),
        bts_Signature = EncodeToString (f (PublicKey_String S (PublicKeyFromBytes S p))), bts_PublicKey = EncodeToString p\<rparr>) pubs"
      "list_all (\<lambda>p. length p = 32 \<and> length (f (PublicKey_String S (PublicKeyFromBytes S p))) = 64) pubs"
      "set (map (\<lambda>p. PublicKey_String S (PublicKeyFromBytes S p)) pubs) = set (signer_keys S t)"
    and raw: "signed_MarshalBinary S (map f (signer_keys S t)) (msg t) = Inr signedBytes"
    and send: "str_RawTx breq = [\<lparr>RawTx = sol64_Encode S signedBytes\<rparr>]" "sol64_Encode S signedBytes \<noteq> []"
  shows "result (sol_BuildSignedTransaction mem S sreq) w = Ret (okReply \<lparr>Code = SUCCESS, Msg = ''success'',
      SignedTxn = [\<lparr>stx_SignedTx = sol64_Encode S signedBytes, stx_TxHash = sol58_Encode S (f (hd (signer_keys S t))),
        stx_IsSuccess = True\<rparr>]\<rparr>) \<and>
    trace (snd (sol_SendTransaction c breq w3)) = trace w3 @
      [Ev ''sendTransaction'' (map sval_text [SStr (sol64_Encode S signedBytes), send_params send_config])]"
proof -
  obtain e b where e: "envelopeFromTransaction S t = Inr e" "encodeEnvelope S e = Inr b" "UnsignedTxn rsp = [\<lparr>UnsignedTx = b\<rparr>]"
    using build by (auto simp: sol_BuildUnSignTransaction_def bind_io_apply unsigned_one_def lift_go_def okReply_def
        unsigned_error_def bothReply_def bind_res_Inr_iff split: sum.splits)
  obtain bytes where m: "hex_decode (TrimPrefix (en_MessageHex e) ''0x'') = Inr bytes" "message_Unmarshal S bytes = Inr (msg t)"
    and k: "en_SignerKeys e = signer_keys S t" "en_NumRequiredSignatures e = int (unat (tx_NumRequiredSignatures S t))"
    using envelope_of [OF codec e(1)] by blast
  have n: "0 < unat (tx_NumRequiredSignatures S t)" "unat (tx_NumRequiredSignatures S t) \<le> length (tx_AccountKeys S t)"
    using built_is_new [OF build(4)] codec unfolding sol_codec_ok_def by blast+
  then have keys: "length (signer_keys S t) = unat (tx_NumRequiredSignatures S t)" "signer_keys S t \<noteq> []"
    by (auto simp: signer_keys_def)
  have "unat (tx_NumRequiredSignatures S t) < 256" using unsigned_less [of "tx_NumRequiredSignatures S t", where ?'a = nat] by simp
  with keys mem have few: "length (signer_keys S t) \<le> mem" by simp
  let ?key = "\<lambda>p. PublicKey_String S (PublicKeyFromBytes S p)"
  let ?entry = "\<lambda>p. \<lparr>bts_Base64Tx = b, bts_Signature = EncodeToString (f (?key p)), bts_PublicKey = EncodeToString p\<rparr>"
  have entries: "sgr_TxnWithSignature sreq = map ?entry pubs" using sign(1) e(3) by simp
  have who: "signer_of S e (EncodeToString p) = Some (?key p)" if "p \<in> set pubs" for p
    using that sign(2) by (intro signer_of_hex [OF codec]) (auto simp: list_all_iff)
  have "result (sol_BuildSignedTransaction mem S sreq) w = Ret (okReply \<lparr>Code = SUCCESS, Msg = ''success'',
      SignedTxn = [\<lparr>stx_SignedTx = sol64_Encode S signedBytes, stx_TxHash = sol58_Encode S (f (hd (en_SignerKeys e))),
        stx_IsSuccess = True\<rparr>]\<rparr>)"
  proof (rule signed_complete [OF envelope_roundtrip [OF codec e(2)] m])
    show "sgr_TxnWithSignature sreq \<noteq> []" using keys(2) sign(3) by (auto simp: entries)
    show "bts_Base64Tx t = b \<and> (\<exists>k. signer_of S e (bts_PublicKey t) = Some k \<and>
        hex_decode (TrimPrefix (TrimSpace (bts_Signature t)) ''0x'') = Inr (f k))" if "t \<in> set (sgr_TxnWithSignature sreq)" for t
      using that who by (auto simp: entries simp del: EncodeToString_simps)
    show "length (f k) = 64 \<and> (\<exists>t \<in> set (sgr_TxnWithSignature sreq). signer_of S e (bts_PublicKey t) = Some k)"
      if "k \<in> set (en_SignerKeys e)" for k
    proof -
      have "k \<in> ?key ` set pubs" using that sign(3) k(1) by simp
      then obtain p where "p \<in> set pubs" "k = ?key p" by blast
      then show ?thesis using sign(2) who by (auto simp: entries list_all_iff simp del: EncodeToString_simps)
    qed
  qed (use k keys raw few in simp_all)
  moreover have "trace (snd (sol_SendTransaction c breq w3)) = trace w3 @ concat (map sol_send_calls (str_RawTx breq))"
    using sol_send.handler_run [of c breq w3] by auto
  ultimately show ?thesis using send by (simp add: k sol_send_calls_def)
qed

theorem sol_transfer_flow_witness:
  "\<exists>w'. snd (sol_SendTransaction slt_sol \<lparr>ConsumerToken = [], ChainId = [], Network = [],
      str_RawTx = [\<lparr>RawTx = EncodeToString [1, 2]\<rparr>]\<rparr> \<lparr>env = (), trace = []\<rparr>) = w' \<and>
     map ev_name (trace w') = [''sendTransaction'']"
proof -
  let ?w = "\<lparr>env = (), trace = []\<rparr> :: unit world"
  let ?req = "\<lparr>ConsumerToken = [], ChainId = [], Network = [], utr_Base64Txn = [\<lparr>Base64Tx = EncodeToString [0]\<rparr>]\<rparr>"
  let ?f = "\<lambda>k. if k = EncodeToString slt_key1 then replicate 64 1 else replicate 64 (2 :: byte)"
  obtain w1 where h: "GetLatestBlockhash (solCli slt_sol) Confirmed ?w = (Ret (Inr ''h''), w1)" using slt_hash by blast
  have item: "bind_res (sol64_Decode slt_sollib (EncodeToString [0])) (json_SolanaTransferTx slt_sollib) = Inr slt_payload"
    by (simp add: slt_sollib_def del: EncodeToString_simps)
  have build: "sol_BuildUnSignTransaction slt_sollib slt_sol ?req ?w = (Ret (okReply \<lparr>Code = SUCCESS, Msg = ''success'',
      UnsignedTxn = [\<lparr>UnsignedTx = EncodeToString [1]\<rparr>]\<rparr>), w1)"
    by (simp add: sol_BuildUnSignTransaction_def bind_io_apply h unsigned_one_def item slt_transaction slt_envelope_made
        lift_go_def del: EncodeToString_simps)
  have fields: "sol64_Encode slt_sollib = EncodeToString" "signer_keys slt_sollib () = [EncodeToString slt_key1, EncodeToString slt_key2]"
    "signed_MarshalBinary slt_sollib sigs () = Inr (map hd sigs)"
    "PublicKeyFromBytes slt_sollib bs = bs" "bs \<noteq> [] \<Longrightarrow> PublicKey_String slt_sollib bs = EncodeToString bs"
    for sigs bs
    by (simp_all add: slt_sollib_def signer_keys_def slt_key1_def slt_key2_def take_Cons' del: EncodeToString_simps)
  have "slt_key1 \<noteq> slt_key2" by (simp add: slt_key1_def slt_key2_def)
  then have ne: "EncodeToString slt_key2 \<noteq> EncodeToString slt_key1" by (metis hex_decode_encode sum.inject(2))
  let ?entry = "\<lambda>p. \<lparr>bts_Base64Tx = EncodeToString [1], bts_Signature = EncodeToString (?f (EncodeToString p)), bts_PublicKey = EncodeToString p\<rparr>"
  let ?sreq = "\<lparr>ConsumerToken = [], ChainId = [], Network = [], sgr_TxnWithSignature = [?entry slt_key2, ?entry slt_key1]\<rparr>"
  let ?breq = "\<lparr>ConsumerToken = [], ChainId = [], Network = [], str_RawTx = [\<lparr>RawTx = EncodeToString [1, 2]\<rparr>]\<rparr>"
  show ?thesis
    using sol_transfer_flow [where c = slt_sol and req = ?req and item = "\<lparr>Base64Tx = EncodeToString [0]\<rparr>"
        and sreq = ?sreq and breq = ?breq and mem = 255 and f = ?f and pubs = "[slt_key2, slt_key1]"
        and signedBytes = "[1, 2]" and w = ?w and ?w3.0 = ?w, OF slt_sollib_ok _ h _ _ slt_transaction build]
    by (simp add: item fields ne insert_commute del: EncodeToString_simps)
qed

end
