(* ===== verification/Addressing.thy ===== *)
theory Addressing
  imports Gateway
begin

text \<open>
  The two address methods of the chains against each other: \<open>ConvertAddresses\<close> makes addresses of public
  keys, \<open>ValidAddresses\<close> judges addresses. The locale \<open>addressing\<close> is the shape both have on every chain
  but Bitcoin, whose \<open>ValidAddresses\<close> collects no verdicts.
\<close>

text \<open>
  Of the addresses \<open>convert\<close> answered, those that are not empty are all accepted by \<open>valid\<close>, one for one.
\<close>

definition accepts_made ::
  "(ConvertAddressesRequest \<Rightarrow> ('w, ConvertAddressesResponse reply) io) \<Rightarrow>
   (ValidAddressesRequest \<Rightarrow> ('w, ValidAddressesResponse reply) io) \<Rightarrow> bool" where
  "accepts_made convert valid \<longleftrightarrow> (\<forall>q w0 rsp w1 v w. convert q w0 = (Ret (okReply rsp), w1) \<longrightarrow>
     var_Addresses v = filter (\<lambda>a. ad_Address a \<noteq> []) (cvr_Address rsp) \<longrightarrow>
     (\<exists>r. valid v w = (Ret (okReply r), w) \<and> map av_Address (AddressValid r) = map ad_Address (var_Addresses v) \<and>
        list_all av_Valid (AddressValid r)))"

section \<open>The shape of the two methods\<close>

locale addressing =
  fixes convert :: "ConvertAddressesRequest \<Rightarrow> ('w, ConvertAddressesResponse reply) io"
    and valid :: "ValidAddressesRequest \<Rightarrow> ('w, ValidAddressesResponse reply) io"
    and make :: "PublicKey \<Rightarrow> Addresses"
    and readable :: "string \<Rightarrow> bool"          \<comment> \<open>the check of the address comes to a verdict\<close>
    and verdict :: "string \<Rightarrow> bool"
  assumes convert_run: "convert q w = (Ret (okReply \<lparr>Code = SUCCESS, Msg = ''success'', cvr_Address = map make (car_PublicKey q)\<rparr>), w)"
    and valid_run: "list_all (\<lambda>a. readable (ad_Address a)) (var_Addresses v) \<Longrightarrow>
      valid v w = (Ret (okReply \<lparr>Code = SUCCESS, Msg = ''success'', AddressValid =
        map (\<lambda>a. \<lparr>av_Address = ad_Address a, av_Type = [], av_Valid = verdict (ad_Address a)\<rparr>) (var_Addresses v)\<rparr>), w)"
    and verdict_readable: "verdict s \<Longrightarrow> readable s"
begin

text \<open>Addresses the check accepts are accepted, each under its text, whatever else the request says.\<close>

lemma accepted:
  assumes "list_all (\<lambda>a. verdict (ad_Address a)) (var_Addresses v)"
  shows "\<exists>r. valid v w = (Ret (okReply r), w) \<and> map av_Address (AddressValid r) = map ad_Address (var_Addresses v) \<and>
    list_all av_Valid (AddressValid r)"
proof -
  have "list_all (\<lambda>a. readable (ad_Address a)) (var_Addresses v)"
    using assms verdict_readable by (auto simp: list_all_iff)
  from valid_run [OF this] assms show ?thesis by (auto simp: list_all_iff)
qed

text \<open>So are the addresses it made, when the check knows what the chain makes.\<close>

lemma made_accepted:
  assumes "\<And>k. ad_Address (make k) \<noteq> [] \<Longrightarrow> verdict (ad_Address (make k))"
  shows "accepts_made convert valid"
  unfolding accepts_made_def
proof (intro allI impI)
  fix q w0 rsp w1 and v :: ValidAddressesRequest and w
  assume "convert q w0 = (Ret (okReply rsp), w1)" and v: "var_Addresses v = filter (\<lambda>a. ad_Address a \<noteq> []) (cvr_Address rsp)"
  then have "cvr_Address rsp = map make (car_PublicKey q)" by (auto simp: convert_run okReply_def)
  with v assms show "\<exists>r. valid v w = (Ret (okReply r), w) \<and> map av_Address (AddressValid r) = map ad_Address (var_Addresses v) \<and>
      list_all av_Valid (AddressValid r)"
    by (intro accepted) (auto simp: list_all_iff)
qed

end

section \<open>The chains\<close>

definition evm_verdict :: "string \<Rightarrow> bool" where
  "evm_verdict s \<longleftrightarrow> length s = 42 \<and> HasPrefix s ''0x'' \<and> hex40 (drop 2 s)"

lemma valid_one_readable: "2 \<le> length s \<Longrightarrow> valid_one s = Ret \<lparr>av_Address = s, av_Type = [], av_Valid = evm_verdict s\<rparr>"
  by (auto simp: valid_one_def slice_def evm_verdict_def)

lemma valid_one_panics: "length s < 2 \<Longrightarrow> valid_one s = Panic"
  by (simp add: valid_one_def slice_def)

lemma map_io_valid:
  "list_all (\<lambda>a. 2 \<le> length (ad_Address a)) as \<Longrightarrow> map_io (\<lambda>a. lift_go (valid_one (ad_Address a))) as w =
    (Ret (map (\<lambda>a. \<lparr>av_Address = ad_Address a, av_Type = [], av_Valid = evm_verdict (ad_Address a)\<rparr>) as), w)"
  by (induction as) (simp_all add: valid_one_readable bind_io_apply)

interpretation evm_addr: addressing "evm_ConvertAddresses G" evm_ValidAddresses "convert_one G"
    "\<lambda>s. 2 \<le> length s" evm_verdict for G
  by unfold_locales (simp_all add: evm_ConvertAddresses_def evm_ValidAddresses_def map_io_valid bind_io_apply evm_verdict_def)

definition tron_verdict :: "'k tronlib \<Rightarrow> string \<Rightarrow> bool" where
  "tron_verdict T s = (case gotron_Base58ToAddress T s of Inl err \<Rightarrow> False | Inr valid \<Rightarrow> valid)"

interpretation tron_addr: addressing "tron_ConvertAddresses T" "tron_ValidAddresses T" "tron_convert_one T"
    "\<lambda>s. True" "tron_verdict T" for T
  by unfold_locales (simp_all add: tron_ConvertAddresses_def tron_ValidAddresses_def tron_verdict_def)

interpretation sol_addr: addressing "sol_ConvertAddresses S" "sol_ValidAddresses S" "sol_convert_one S"
    "\<lambda>s. True" "\<lambda>s. \<not> isl (PublicKeyFromBase58 S s)" for S
  by unfold_locales (simp_all add: sol_ConvertAddresses_def sol_ValidAddresses_def)

text \<open>
  Documented of the libraries: geth writes an address as \<open>0x\<close> and 40 hex digits (EIP-55), Tron's base58
  form of a key's address has the version byte and the check sum of an address, and the base58 form of a
  Solana key is read back.
\<close>

definition address_texts_ok :: "('w, 'x, 'k, 'y, 'b, 'm, 't, 'p, 'u, 'n) externals \<Rightarrow> string \<Rightarrow> bool" where
  "address_texts_ok X chain \<longleftrightarrow>
     (chain \<in> {ethereum_ChainID, bnbchain_ChainID} \<longrightarrow>
        (\<forall>a. \<exists>s. AddressHex (x_geth X) a = ''0x'' @ s \<and> hex40 s)) \<and>
     (chain = tron_ChainID \<longrightarrow>
        (\<forall>k. gotron_Base58ToAddress (x_tronlib X) (gotron_PubkeyToAddress (x_tronlib X) k) = Inr True)) \<and>
     (chain = solana_ChainID \<longrightarrow> (\<forall>k. PublicKeyFromBase58 (x_sollib X) (PublicKey_String (x_sollib X) k) = Inr k))"

text \<open>What the contract of a chain is: the addresses it makes are those it accepts.\<close>

definition addresses_agree :: "string \<Rightarrow> 'w IChainAdaptor \<Rightarrow> bool" where
  "addresses_agree chain a \<longleftrightarrow>
     (if chain = bitcoin_ChainID then \<forall>v w. \<exists>r. ValidAddresses a v w = (Ret (okReply r), w) \<and> AddressValid r = []
      else accepts_made (ConvertAddresses a) (ValidAddresses a))"

lemma evm_made:
  assumes "\<forall>a. \<exists>s. AddressHex G a = ''0x'' @ s \<and> hex40 s" and "ad_Address (convert_one G k) \<noteq> []"
  shows "evm_verdict (ad_Address (convert_one G k))"
proof -
  obtain a where "ad_Address (convert_one G k) = AddressHex G a"
    using assms(2) by (auto simp: convert_one_def Let_def split: sum.splits)
  moreover obtain s where "AddressHex G a = ''0x'' @ s" "hex40 s" using assms(1) by blast
  ultimately show ?thesis by (simp add: evm_verdict_def HasPrefix_def hex40_def)
qed

lemma tron_made:
  assumes "\<forall>k. gotron_Base58ToAddress T (gotron_PubkeyToAddress T k) = Inr True" and "ad_Address (tron_convert_one T k) \<noteq> []"
  shows "tron_verdict T (ad_Address (tron_convert_one T k))"
  using assms by (auto simp: tron_convert_one_def tron_verdict_def split: sum.splits)

lemma sol_made:
  assumes "\<forall>k. PublicKeyFromBase58 S (PublicKey_String S k) = Inr k" and "ad_Address (sol_convert_one S k) \<noteq> []"
  shows "\<not> isl (PublicKeyFromBase58 S (ad_Address (sol_convert_one S k)))"
  using assms by (auto simp: sol_convert_one_def split: sum.splits)

lemma gateway_addresses:
  assumes "NewChainDispatcher (chain_factories X) cfg w = (Ret (Some d), w')" and "registry d k = Some a"
    and "address_texts_ok X k"
  shows "addresses_agree k a"
proof -
  have "address_texts_ok X k \<longrightarrow> addresses_agree k a"
    using assms(1,2)
  proof (rule gateway_registry, goal_cases)
    case (1 r ed)
    then show ?case
      using evm_addr.made_accepted evm_made by (auto simp: addresses_agree_def eth_adaptor_def address_texts_ok_def chain_id_defs)
  next
    case (2 c r)
    then show ?case
      using evm_addr.made_accepted evm_made
      by (auto simp: addresses_agree_def bnb_adaptor_def bnb_ConvertAddresses_def [abs_def] bnb_ValidAddresses_def [abs_def]
          address_texts_ok_def chain_id_defs)
  next
    case (3 c)
    then show ?case by (simp add: addresses_agree_def btc_adaptor_def btc_ValidAddresses_def btc_valid_loop_eq)
  next
    case (4 c)
    then show ?case
      using tron_addr.made_accepted tron_made by (auto simp: addresses_agree_def tron_adaptor_def address_texts_ok_def chain_id_defs)
  next
    case (5 c)
    then show ?case
      using sol_addr.made_accepted sol_made by (auto simp: addresses_agree_def sol_adaptor_def address_texts_ok_def chain_id_defs)
  qed
  then show ?thesis using assms(3) by blast
qed

section \<open>Properties\<close>

text \<open>
  C16. What the gateway answers to \<open>ConvertAddresses\<close> its \<open>ValidAddresses\<close> accepts: when the addresses of a
  successful answer that are not empty are sent back for the same chain, the reply has one verdict for
  each, under its text and in order, and all of them say valid. On Bitcoin the reply is a success without
  any verdict.
\<close>

theorem addresses_accepted:
  assumes "NewChainDispatcher (chain_factories X) cfg w = (Ret (Some d), w')" and "address_texts_ok X (ChainId q)"
    and "d_ConvertAddresses d q w0 = (Ret (okReply rsp), w1)" and "Code rsp = SUCCESS"
    and "ChainId v = ChainId q" and "var_Addresses v = filter (\<lambda>a. ad_Address a \<noteq> []) (cvr_Address rsp)"
  shows "\<exists>r. d_ValidAddresses d v w2 = (Ret (okReply r), w2) \<and>
    (if ChainId q = bitcoin_ChainID then AddressValid r = []
     else map av_Address (AddressValid r) = map ad_Address (var_Addresses v) \<and> list_all av_Valid (AddressValid r))"
proof (cases "registry d (ChainId q)")
  case None
  then show ?thesis using convert.rejected_silently [of d q w0] assms(3,4) by (auto simp: okReply_def)
next
  case (Some a)
  then have "addresses_agree (ChainId q) a" using assms(1,2) by (intro gateway_addresses)
  with assms(3,6) Some show ?thesis
    by (auto simp: addresses_agree_def accepts_made_def convert.handle_registered valid.handle_registered [of d v] assms(5)
        split: if_splits) metis+
qed

theorem addresses_accepted_witness:
  "\<exists>r. d_ValidAddresses sample_gateway \<lparr>ConsumerToken = [], ChainId = tron_ChainID, Network = [],
      var_Addresses = [\<lparr>ad_Address = ''T'', ad_PublicKey = ''00'', ad_Type = []\<rparr>]\<rparr> \<lparr>env = (), trace = []\<rparr> =
     (Ret (okReply r), \<lparr>env = (), trace = []\<rparr>) \<and> map av_Address (AddressValid r) = [''T''] \<and> list_all av_Valid (AddressValid r)"
proof -
  let ?q = "\<lparr>ConsumerToken = [], ChainId = tron_ChainID, Network = [], car_AddressFormat = [],
     car_PublicKey = [\<lparr>pk_Type = [], pk_PublicKey = ''00''\<rparr>, \<lparr>pk_Type = [], pk_PublicKey = ''zz''\<rparr>]\<rparr>"
  let ?v = "\<lparr>ConsumerToken = [], ChainId = tron_ChainID, Network = [],
     var_Addresses = [\<lparr>ad_Address = ''T'', ad_PublicKey = ''00'', ad_Type = []\<rparr>]\<rparr>"
  let ?w = "\<lparr>env = (), trace = []\<rparr> :: unit world"
  have hex: "hex_decode ''00'' = Inr [0]" "hex_decode ''zz'' = Inl (InvalidByteError CHR ''z'')"
    "TrimPrefix ''00'' ''0x'' = ''00''" "TrimPrefix ''zz'' ''0x'' = ''zz''" by code_simp+
  have made: "d_ConvertAddresses sample_gateway ?q ?w = (Ret (okReply \<lparr>Code = SUCCESS, Msg = ''success'',
      cvr_Address = [\<lparr>ad_Address = ''T'', ad_PublicKey = ''00'', ad_Type = []\<rparr>,
        \<lparr>ad_Address = [], ad_PublicKey = ''zz'', ad_Type = []\<rparr>]\<rparr>), ?w)"
    by (simp add: convert.handle_registered [where a = "tron_adaptor 1000 sample_tronlib sample_troncodec sample_tron"]
        sample_gateway_def chain_id_defs tron_adaptor_def tron_ConvertAddresses_def tron_convert_one_def hex sample_tronlib_def)
  have texts: "address_texts_ok sample_externals (ChainId ?q)"
    by (simp add: address_texts_ok_def chain_id_defs sample_externals_def sample_tronlib_def)
  have q: "ChainId ?q \<noteq> bitcoin_ChainID" by (simp add: chain_id_defs)
  show ?thesis
    using addresses_accepted [OF sample_gateway_made texts made, of ?v ?w] q by auto
qed

end
