(* ===== verification/Sol_Keys.thy ===== *)
theory Sol_Keys
  imports Sol_Types
begin

text \<open>
  The key helpers of Solana (\<open>chain/solana/solana_sdk.go\<close>). A key of Go's \<open>ed25519\<close> package is a list of
  bytes of any length, a private one being its seed followed by its public key; pointers are options. The
  point of a seed, base58 and the keys of \<open>solana-go\<close> belong to libraries, the record \<open>keylib\<close>; random
  bytes and new wallets come from outside.
\<close>

type_synonym privkey = "byte list"
type_synonym pubkey = "byte list"

record 'w keylib =
  rand_seed :: "'w \<Rightarrow> byte list res \<times> 'w"                \<comment> \<open>32 bytes of \<open>crypto/rand\<close>\<close>
  ed_point :: "byte list \<Rightarrow> byte list"                     \<comment> \<open>the public key of a seed\<close>
  btc58_Encode :: "byte list \<Rightarrow> string"                    \<comment> \<open>\<open>btcutil/base58\<close>\<close>
  sdk_NewWallet :: "'w \<Rightarrow> privkey go \<times> 'w"               \<comment> \<open>\<open>solana-go\<close>, from here on\<close>
  sdk_PublicKey :: "privkey \<Rightarrow> pubkey go"
  sdk_PrivateKey_String :: "privkey \<Rightarrow> string"
  sdk_PublicKey_String :: "pubkey \<Rightarrow> string"
  sdk_PrivateKeyFromBase58 :: "string \<Rightarrow> privkey res"
  sdk_PublicKeyFromBase58 :: "string \<Rightarrow> pubkey res"

text \<open>
  \<open>ed25519.PrivateKey.Public\<close> copies what follows the first 32 bytes into a new array of 32: it panics
  on a key shorter than that and fills up with zeros one shorter than 64.
\<close>

definition ed_Public :: "privkey \<Rightarrow> pubkey go" where
  "ed_Public priv = (if length priv < 32 then Panic else Ret (take 32 (drop 32 priv @ replicate 32 0)))"

definition ed_GenerateKey :: "'w keylib \<Rightarrow> ('w, (pubkey \<times> privkey) res) io" where
  "ed_GenerateKey K =
     bind_io (ext (Ev ''rand.Read'' []) (rand_seed K)) (\<lambda>r. case r of
         Inl err \<Rightarrow> ret_io (Inl err)
       | Inr seed \<Rightarrow> (let priv = seed @ ed_point K seed in
           bind_io (lift_go (ed_Public priv)) (\<lambda>pub. ret_io (Inr (pub, priv)))))"

section \<open>Keys of the standard library\<close>

definition generateKeyPair :: "'w keylib \<Rightarrow> ('w, (privkey \<times> pubkey \<times> string) res) io" where
  "generateKeyPair K =
     bind_io (ed_GenerateKey K) (\<lambda>r. case r of
         Inl err \<Rightarrow> ret_io (Inl err)
       | Inr (publicKey, privateKey) \<Rightarrow> ret_io (Inr (privateKey, publicKey, btc58_Encode K publicKey)))"

definition PrivateKeyHexToPrivateKey :: "string \<Rightarrow> privkey res" where
  "PrivateKeyHexToPrivateKey privateKeyHex =
     (case hex_decode privateKeyHex of
        Inl err \<Rightarrow> Inl (wrap_err ''failed to decode private key hex: '' err)
      | Inr privKeyByteList \<Rightarrow> Inr privKeyByteList)"

definition PrivateKeyToPubKey :: "privkey option \<Rightarrow> pubkey res go" where
  "PrivateKeyToPubKey privateKey =
     (case privateKey of
        None \<Rightarrow> Ret (Inl (Errorf ''private key is nil''))
      | Some k \<Rightarrow> bind_go (ed_Public k) (\<lambda>pubKey. Ret (Inr pubKey)))"

definition PrivateKeyHexToPubKey :: "string \<Rightarrow> pubkey res go" where
  "PrivateKeyHexToPubKey privateKeyHex =
     (case PrivateKeyHexToPrivateKey privateKeyHex of
        Inl err \<Rightarrow> Ret (Inl err)
      | Inr privKey \<Rightarrow> PrivateKeyToPubKey (Some privKey))"

definition PubKeyHexToPubKey :: "string \<Rightarrow> pubkey res" where
  "PubKeyHexToPubKey publicKeyHex =
     (case hex_decode publicKeyHex of
        Inl err \<Rightarrow> Inl (wrap_err ''failed to decode public key hex: '' err)
      | Inr pubKeyByteList \<Rightarrow> Inr pubKeyByteList)"

definition PubKeyToPubKeyHex :: "pubkey option \<Rightarrow> string res" where
  "PubKeyToPubKeyHex publicKey =
     (case publicKey of None \<Rightarrow> Inl (Errorf ''public key is nil'') | Some k \<Rightarrow> Inr (EncodeToString k))"

definition PubKeyToAddress :: "'w keylib \<Rightarrow> pubkey option \<Rightarrow> string res" where
  "PubKeyToAddress K publicKey =
     (case publicKey of None \<Rightarrow> Inl (Errorf ''public key is nil'') | Some k \<Rightarrow> Inr (btc58_Encode K k))"

definition PubKeyHexToAddressSDK :: "'w keylib \<Rightarrow> string \<Rightarrow> string res" where
  "PubKeyHexToAddressSDK K publicKeyHex =
     (case PubKeyHexToPubKey publicKeyHex of
        Inl err \<Rightarrow> Inl err
      | Inr pubKey \<Rightarrow> PubKeyToAddress K (Some pubKey))"

section \<open>Keys of solana-go\<close>

definition GenerateNewKeypair :: "'w keylib \<Rightarrow> ('w, privkey \<times> pubkey) io" where
  "GenerateNewKeypair K =
     bind_io (bind_io (ext (Ev ''solana.NewWallet'' []) (sdk_NewWallet K)) lift_go) (\<lambda>PrivateKey.
     bind_io (lift_go (sdk_PublicKey K PrivateKey)) (\<lambda>PublicKey. ret_io (PrivateKey, PublicKey)))"

definition PrivateKeyFromByteList :: "byte list \<Rightarrow> privkey res" where
  "PrivateKeyFromByteList privateKeyByteList =
     (if length privateKeyByteList \<noteq> 64 then Inl (Errorf ''invalid private key length'') else Inr privateKeyByteList)"

definition PrivateKeyFromHex :: "string \<Rightarrow> privkey res" where
  "PrivateKeyFromHex privateKeyHex =
     (case hex_decode privateKeyHex of
        Inl err \<Rightarrow> Inl (wrap_err ''decode hex error: '' err)
      | Inr privateKeyBytes \<Rightarrow> PrivateKeyFromByteList privateKeyBytes)"

definition PrivateKeyFromBase58 :: "'w keylib \<Rightarrow> string \<Rightarrow> privkey res" where
  "PrivateKeyFromBase58 K privateKeyBase58 =
     (case sdk_PrivateKeyFromBase58 K privateKeyBase58 of
        Inl err \<Rightarrow> Inl (wrap_err ''create private key from base58 error: '' err)
      | Inr privateKey \<Rightarrow> Inr privateKey)"

text \<open>A nil key is a nil dereference here.\<close>

definition PrivateKeyToBase58 :: "'w keylib \<Rightarrow> privkey option \<Rightarrow> string go" where
  "PrivateKeyToBase58 K privateKey = (case privateKey of None \<Rightarrow> Panic | Some k \<Rightarrow> Ret (sdk_PrivateKey_String K k))"

definition PublicKeyFromPrivateKey :: "'w keylib \<Rightarrow> privkey option \<Rightarrow> pubkey go" where
  "PublicKeyFromPrivateKey K privateKey = (case privateKey of None \<Rightarrow> Panic | Some k \<Rightarrow> sdk_PublicKey K k)"

definition sdk_key_of_base58 :: "'w keylib \<Rightarrow> string \<Rightarrow> pubkey res" where
  "sdk_key_of_base58 K publicKeyBase58 =
     (case sdk_PublicKeyFromBase58 K publicKeyBase58 of
        Inl err \<Rightarrow> Inl (wrap_err ''create public key error: '' err)
      | Inr publicKey \<Rightarrow> Inr publicKey)"

definition PublicKeyToBase58 :: "'w keylib \<Rightarrow> pubkey \<Rightarrow> string" where
  "PublicKeyToBase58 K publicKey = sdk_PublicKey_String K publicKey"

definition AddressFromPubKey :: "'w keylib \<Rightarrow> pubkey \<Rightarrow> string" where
  "AddressFromPubKey K publicKey = sdk_PublicKey_String K publicKey"

text \<open>The key of a text in either notation (\<open>getPrivateKey\<close> of \<open>solana.go\<close>): base58 is tried first.\<close>

definition getPrivateKey :: "'w keylib \<Rightarrow> string \<Rightarrow> privkey res" where
  "getPrivateKey K keyStr =
     (case sdk_PrivateKeyFromBase58 K keyStr of
        Inr prikey \<Rightarrow> Inr prikey
      | Inl err \<Rightarrow> (case hex_decode keyStr of
            Inr bytes \<Rightarrow> Inr bytes
          | Inl err' \<Rightarrow> Inl (Errorf ''invalid private key format'')))"

section \<open>Lemmas\<close>

text \<open>
  Documented of the libraries: a seed has 32 bytes, and so has its public key; the two base58 encodings
  are the same one, whose text reads back as the key; the public key of a private one is its second half.
\<close>

definition keylib_ok :: "'w keylib \<Rightarrow> bool" where
  "keylib_ok K \<longleftrightarrow>
     (\<forall>e seed e'. rand_seed K e = (Inr seed, e') \<longrightarrow> length seed = 32) \<and>
     (\<forall>seed. length seed = 32 \<longrightarrow> length (ed_point K seed) = 32) \<and>
     (\<forall>k. length k = 64 \<longrightarrow> sdk_PublicKey K k = Ret (drop 32 k) \<and>
        sdk_PrivateKeyFromBase58 K (sdk_PrivateKey_String K k) = Inr k) \<and>
     (\<forall>k. length k = 32 \<longrightarrow> sdk_PublicKey_String K k = btc58_Encode K k \<and>
        sdk_PublicKeyFromBase58 K (btc58_Encode K k) = Inr k)"

lemma getPrivateKey_notations:
  "sdk_PrivateKeyFromBase58 K s = Inr k \<Longrightarrow> getPrivateKey K s = Inr k"
  "isl (PrivateKeyFromBase58 K (EncodeToString k)) \<Longrightarrow> getPrivateKey K (EncodeToString k) = Inr k"
  by (auto simp: getPrivateKey_def PrivateKeyFromBase58_def split: sum.splits)

lemma ed_Public_whole: "length seed = 32 \<Longrightarrow> length pub = 32 \<Longrightarrow> ed_Public (seed @ pub) = Ret pub"
  by (simp add: ed_Public_def)

lemma ed_Public_length: "ed_Public k = Ret pub \<Longrightarrow> length pub = 32"
  by (auto simp: ed_Public_def split: if_splits)

lemma generateKeyPair_ok:
  assumes "keylib_ok K" and "generateKeyPair K w = (Ret (Inr (priv, pub, address)), w')"
  shows "length priv = 64 \<and> length pub = 32 \<and> drop 32 priv = pub \<and> ed_Public priv = Ret pub \<and> address = btc58_Encode K pub"
proof -
  obtain seed e where s: "rand_seed K (env w) = (Inr seed, e)" and
    p: "ed_Public (seed @ ed_point K seed) = Ret pub" "priv = seed @ ed_point K seed" "address = btc58_Encode K pub"
    using assms(2)
    by (auto simp: generateKeyPair_def ed_GenerateKey_def run_iff Let_def ext_def split: prod.splits sum.splits)
  have l: "length seed = 32" "length (ed_point K seed) = 32" using assms(1) s by (auto simp: keylib_ok_def)
  with p show ?thesis by (simp add: ed_Public_whole)
qed

lemma PrivateKeyHexToPubKey_panics:
  "PrivateKeyHexToPubKey s = Panic \<longleftrightarrow> (\<exists>bs. hex_decode s = Inr bs \<and> length bs < 32)"
  by (auto simp: PrivateKeyHexToPubKey_def PrivateKeyHexToPrivateKey_def PrivateKeyToPubKey_def ed_Public_def split: sum.split)

section \<open>Properties\<close>


definition sample_keylib :: "unit keylib" where
  "sample_keylib = \<lparr>rand_seed = \<lambda>e. (Inr (replicate 32 1), e), ed_point = rev, btc58_Encode = EncodeToString,
     sdk_NewWallet = \<lambda>e. (Ret (replicate 64 1), e), sdk_PublicKey = (\<lambda>k. Ret (drop 32 k)),
     sdk_PrivateKey_String = EncodeToString, sdk_PublicKey_String = EncodeToString,
     sdk_PrivateKeyFromBase58 = hex_decode, sdk_PublicKeyFromBase58 = hex_decode\<rparr>"


end
