(* ===== verification/Http_Server.thy ===== *)
theory Http_Server
  imports Lifecycle
begin

text \<open>
  The HTTP server (\<open>common/httputil\<close>): its options and start, the goroutine that serves and the call of
  \<open>Stop\<close> as a step relation, and the response writer that remembers its status. The parts of \<open>net/http\<close>
  are those of its documentation: \<open>Serve\<close> accepts connections until the server is shut down, \<open>Shutdown\<close>
  closes the listener and waits for the connections to end or the context to be done, \<open>Close\<close> ends them.
\<close>

section \<open>Options and start\<close>

text \<open>Times are in seconds.\<close>

record HTTPTimeouts =
  ReadTimeout :: int
  ReadHeaderTimeout :: int
  WriteTimeout :: int
  IdleTimeout :: int

definition DefaultTimeouts :: HTTPTimeouts where
  "DefaultTimeouts = \<lparr>ReadTimeout = 30, ReadHeaderTimeout = 30, WriteTimeout = 30, IdleTimeout = 120\<rparr>"

record 'h http_Server =
  srv_Handler :: 'h
  srv_timeouts :: HTTPTimeouts
  srv_MaxHeaderBytes :: int

record ('h, 'l) HTTPServer =
  hs_listener :: 'l
  hs_srv :: "'h http_Server"

type_synonym ('h, 'l) HTTPOption = "('h, 'l) HTTPServer \<Rightarrow> goerror option \<times> ('h, 'l) HTTPServer"

definition WithTimeouts :: "HTTPTimeouts \<Rightarrow> ('h, 'l) HTTPOption" where
  "WithTimeouts timeouts s = (None, s\<lparr>hs_srv := (hs_srv s)\<lparr>srv_timeouts := timeouts\<rparr>\<rparr>)"

definition WithMaxHeaderBytes :: "int \<Rightarrow> ('h, 'l) HTTPOption" where
  "WithMaxHeaderBytes m s = (None, s\<lparr>hs_srv := (hs_srv s)\<lparr>srv_MaxHeaderBytes := m\<rparr>\<rparr>)"

text \<open>The other constructor takes the timeouts of geth, a parameter.\<close>

definition NewHttpServer :: "HTTPTimeouts \<Rightarrow> 'h \<Rightarrow> 'h http_Server" where
  "NewHttpServer geth_timeouts handler =
     \<lparr>srv_Handler = handler, srv_timeouts = geth_timeouts, srv_MaxHeaderBytes = 0\<rparr>"

fun apply_options :: "('h, 'l) HTTPOption list \<Rightarrow> ('h, 'l) HTTPServer \<Rightarrow> goerror + ('h, 'l) HTTPServer" where
  "apply_options [] out = Inr out"
| "apply_options (opt # opts) out = (case opt out of (Some err, _) \<Rightarrow> Inl err | (None, out') \<Rightarrow> apply_options opts out')"

text \<open>An answer without error spawns the goroutine that serves; \<open>start_http\<close> below is its first state.\<close>

definition StartHTTPServer ::
  "(string \<Rightarrow> 'w \<Rightarrow> 'l res \<times> 'w) \<Rightarrow> ('l \<Rightarrow> 'w \<Rightarrow> goerror option \<times> 'w) \<Rightarrow> string \<Rightarrow> 'h \<Rightarrow> ('h, 'l) HTTPOption list \<Rightarrow>
   ('w, goerror option + ('h, 'l) HTTPServer) io" where
  "StartHTTPServer net_Listen close addr handler opts =
     bind_io (ext (Ev ''net.Listen'' [addr]) (net_Listen addr)) (\<lambda>r. case r of
         Inl err \<Rightarrow> ret_io (Inl (Some (wrap_err (''failed to bind to address '' @ quote addr @ '': '') err)))
       | Inr listener \<Rightarrow>
           (case apply_options opts \<lparr>hs_listener = listener, hs_srv =
               \<lparr>srv_Handler = handler, srv_timeouts = DefaultTimeouts, srv_MaxHeaderBytes = 0\<rparr>\<rparr> of
              Inl err \<Rightarrow> bind_io (ext (Ev ''listener.Close'' []) (close listener)) (\<lambda>c.
                  ret_io (Inl (errors_Join [Some (wrap_err ''failed to apply HTTP option: '' err), c])))
            | Inr out \<Rightarrow> ret_io (Inr out)))"

text \<open>The address the listener is bound to, for a server that listens on any port.\<close>

definition server_Addr :: "('l \<Rightarrow> 'a) \<Rightarrow> ('h, 'l) HTTPServer \<Rightarrow> 'a" where
  "server_Addr listener_Addr s = listener_Addr (hs_listener s)"

section \<open>Serving and stopping\<close>

text \<open>The goroutine: \<open>Serve\<close> runs, has returned, or the goroutine has ended, by a panic or not.\<close>

datatype serving = Accepting | Returned goerror | Served | ServePanic

text \<open>The caller of \<open>Stop\<close>: not yet, in \<open>Shutdown\<close>, with the answer of \<open>Shutdown\<close>, with that of \<open>Stop\<close>.\<close>

datatype stopping = NotYet | ShuttingDown | ShutdownReturned "goerror option" | StopReturned "goerror option"

definition ErrServerClosed :: goerror where
  "ErrServerClosed = Errorf ''http: Server closed''"

record http_run =
  serving :: serving
  stopping :: stopping
  listening :: bool
  inShutdown :: bool
  active :: nat              \<comment> \<open>open connections\<close>
  forced :: nat              \<comment> \<open>connections that were cut\<close>
  baseCtx :: ctx             \<comment> \<open>the base context of the requests\<close>
  stopDone :: "goerror option"  \<comment> \<open>\<open>ctx.Err()\<close> of the context of \<open>Stop\<close>\<close>
  http_closed :: bool        \<comment> \<open>the field \<open>closed\<close>\<close>

definition start_http :: http_run where
  "start_http = \<lparr>serving = Accepting, stopping = NotYet, listening = True, inShutdown = False, active = 0, forced = 0,
     baseCtx = Live, stopDone = None, http_closed = False\<rparr>"

definition Closed :: "http_run \<Rightarrow> bool" where
  "Closed s = http_closed s"

text \<open>What the goroutine does when \<open>Serve\<close> has returned: another error than the one of a shutdown panics.\<close>

definition after_serve :: "goerror \<Rightarrow> http_run \<Rightarrow> http_run" where
  "after_serve err s = (let s' = s\<lparr>baseCtx := cancel None (baseCtx s)\<rparr> in
     if err = ErrServerClosed then s'\<lparr>http_closed := True, serving := Served\<rparr> else s'\<lparr>serving := ServePanic\<rparr>)"

text \<open>\<open>Shutdown\<close> closes the listener; \<open>Close\<close> cuts the connections too.\<close>

definition Shutdown_begin :: "http_run \<Rightarrow> http_run" where
  "Shutdown_begin s = s\<lparr>listening := False, inShutdown := True\<rparr>"

definition Close_server :: "http_run \<Rightarrow> http_run" where
  "Close_server s = s\<lparr>listening := False, inShutdown := True, active := 0, forced := forced s + active s\<rparr>"

text \<open>\<open>Stop\<close> after the answer of \<open>Shutdown\<close>; \<open>errors.Is\<close> compares with the context's error, which may be nil.\<close>

definition after_shutdown :: "goerror option \<Rightarrow> goerror option \<Rightarrow> http_run \<Rightarrow> http_run" where
  "after_shutdown closeErr err s =
     (if err \<noteq> None
      then (if err = stopDone s then (Close_server s)\<lparr>stopping := StopReturned closeErr\<rparr>
            else s\<lparr>stopping := StopReturned err\<rparr>)
      else s\<lparr>stopping := StopReturned None\<rparr>)"

text \<open>
  The steps: \<open>closeErr\<close> is the answer of the listener's \<open>Close\<close>, \<open>e\<close> what the listener or the context
  fails with. A panic ends the process: no step follows it.
\<close>

inductive http_step :: "goerror option \<Rightarrow> http_run \<Rightarrow> http_run \<Rightarrow> bool" for closeErr where
  accept: "serving s = Accepting \<Longrightarrow> listening s \<Longrightarrow> http_step closeErr s (s\<lparr>active := Suc (active s)\<rparr>)"
| connection_ends: "serving s \<noteq> ServePanic \<Longrightarrow> active s = Suc n \<Longrightarrow> http_step closeErr s (s\<lparr>active := n\<rparr>)"
| listener_fails: "serving s = Accepting \<Longrightarrow> \<not> inShutdown s \<Longrightarrow> e \<noteq> ErrServerClosed \<Longrightarrow>
    http_step closeErr s (s\<lparr>serving := Returned e\<rparr>)"
| serve_returns: "serving s = Accepting \<Longrightarrow> inShutdown s \<Longrightarrow> http_step closeErr s (s\<lparr>serving := Returned ErrServerClosed\<rparr>)"
| goroutine: "serving s = Returned e \<Longrightarrow> http_step closeErr s (after_serve e s)"
| stop_called: "serving s \<noteq> ServePanic \<Longrightarrow> stopping s = NotYet \<Longrightarrow>
    http_step closeErr s ((Shutdown_begin s)\<lparr>stopping := ShuttingDown\<rparr>)"
| ctx_done: "serving s \<noteq> ServePanic \<Longrightarrow> stopDone s = None \<Longrightarrow> http_step closeErr s (s\<lparr>stopDone := Some e\<rparr>)"
| drained: "serving s \<noteq> ServePanic \<Longrightarrow> stopping s = ShuttingDown \<Longrightarrow> active s = 0 \<Longrightarrow>
    http_step closeErr s (s\<lparr>stopping := ShutdownReturned closeErr\<rparr>)"
| interrupted: "serving s \<noteq> ServePanic \<Longrightarrow> stopping s = ShuttingDown \<Longrightarrow> stopDone s = Some e \<Longrightarrow>
    http_step closeErr s (s\<lparr>stopping := ShutdownReturned (Some e)\<rparr>)"
| stop_returns: "serving s \<noteq> ServePanic \<Longrightarrow> stopping s = ShutdownReturned r \<Longrightarrow>
    http_step closeErr s (after_shutdown closeErr r s)"

inductive http_reachable :: "goerror option \<Rightarrow> http_run \<Rightarrow> bool" for closeErr where
  start: "http_reachable closeErr start_http"
| step: "http_reachable closeErr s \<Longrightarrow> http_step closeErr s s' \<Longrightarrow> http_reachable closeErr s'"

inductive_cases http_stepE: "http_step closeErr s s'"

section \<open>Lemmas\<close>

lemma Close_server_simps [simp]:
  "active (Close_server s) = 0" "listening (Close_server s) = False" "inShutdown (Close_server s) = True"
  "serving (Close_server s) = serving s" "http_closed (Close_server s) = http_closed s" "baseCtx (Close_server s) = baseCtx s"
  "stopDone (Close_server s) = stopDone s" "forced (Close_server s) = forced s + active s"
  by (simp_all add: Close_server_def)

definition stop_called_on :: "http_run \<Rightarrow> bool" where
  "stop_called_on s \<longleftrightarrow> stopping s \<noteq> NotYet"

definition http_inv :: "goerror option \<Rightarrow> http_run \<Rightarrow> bool" where
  "http_inv closeErr s \<longleftrightarrow>
     (inShutdown s \<longleftrightarrow> stop_called_on s) \<and> (listening s \<longleftrightarrow> \<not> stop_called_on s) \<and>
     (http_closed s \<longleftrightarrow> serving s = Served) \<and> (serving s = Served \<longrightarrow> stop_called_on s) \<and>
     (serving s = Returned ErrServerClosed \<longrightarrow> stop_called_on s) \<and>
     (baseCtx s = Live \<longleftrightarrow> (serving s \<noteq> Served \<and> serving s \<noteq> ServePanic)) \<and>
     (0 < forced s \<longrightarrow> stopDone s \<noteq> None) \<and>
     (case stopping s of
        ShutdownReturned r \<Rightarrow> active s = 0 \<and> r = closeErr \<or> r \<noteq> None \<and> r = stopDone s
      | StopReturned r \<Rightarrow> active s = 0 \<and> r = closeErr
      | _ \<Rightarrow> True)"

lemma http_step_inv: "http_step closeErr s s' \<Longrightarrow> http_inv closeErr s \<Longrightarrow> http_inv closeErr s'"
proof (induction rule: http_step.induct)
  case (connection_ends s n)
  then show ?case by (cases "stopping s") (auto simp: http_inv_def stop_called_on_def)
next
  case (goroutine s e)
  then show ?case by (cases "stopping s") (auto simp: http_inv_def stop_called_on_def after_serve_def Let_def simp del: cancel.simps)
next
  case (ctx_done s e)
  then show ?case by (cases "stopping s") (auto simp: http_inv_def stop_called_on_def)
next
  case (stop_returns s r)
  then show ?case by (cases "closeErr = stopDone s") (auto simp: http_inv_def stop_called_on_def after_shutdown_def)
qed (auto simp: http_inv_def stop_called_on_def Shutdown_begin_def split: stopping.splits)

lemma http_reachable_inv: "http_reachable closeErr s \<Longrightarrow> http_inv closeErr s"
proof (induction rule: http_reachable.induct)
  case start
  show ?case by (simp add: http_inv_def start_http_def stop_called_on_def)
next
  case (step s s')
  then show ?case using http_step_inv by blast
qed

text \<open>Once a server whose \<open>Serve\<close> still runs is shut down, the goroutine can only end without a panic.\<close>

lemma shutdown_steps:
  assumes "(http_step closeErr)\<^sup>*\<^sup>* s s'" and "inShutdown s" and "serving s \<in> {Accepting, Returned ErrServerClosed, Served}"
  shows "inShutdown s' \<and> serving s' \<in> {Accepting, Returned ErrServerClosed, Served}"
  using assms
proof (induction rule: rtranclp_induct)
  case (step s1 s2)
  from step(2) step(3) [OF step(4,5)] show ?case
    by cases (auto simp: Shutdown_begin_def after_serve_def after_shutdown_def Let_def)
qed simp

section \<open>The response writer\<close>

text \<open>What a handler calls, and a writer as the state of the answer with its methods.\<close>

datatype wcall = Write "byte list" | WriteHeader int

record 's ResponseWriter =
  rw_Write :: "byte list \<Rightarrow> 's \<Rightarrow> (nat \<times> goerror option) \<times> 's"
  rw_WriteHeader :: "int \<Rightarrow> 's \<Rightarrow> 's"

record 's WrappedResponseWriter =
  StatusCode :: int
  ResponseLen :: nat
  ww_w :: 's
  wroteHeader :: bool

definition NewWrappedResponseWriter :: "'s \<Rightarrow> 's WrappedResponseWriter" where
  "NewWrappedResponseWriter w = \<lparr>StatusCode = 200, ResponseLen = 0, ww_w = w, wroteHeader = False\<rparr>"

definition ww_Write :: "'s ResponseWriter \<Rightarrow> byte list \<Rightarrow> 's WrappedResponseWriter \<Rightarrow> (nat \<times> goerror option) \<times> 's WrappedResponseWriter" where
  "ww_Write R bytes w = (case rw_Write R bytes (ww_w w) of
     ((n, err), inner) \<Rightarrow> ((n, err), w\<lparr>ww_w := inner, ResponseLen := ResponseLen w + n\<rparr>))"

definition ww_WriteHeader :: "'s ResponseWriter \<Rightarrow> int \<Rightarrow> 's WrappedResponseWriter \<Rightarrow> 's WrappedResponseWriter" where
  "ww_WriteHeader R statusCode w =
     (if wroteHeader w then w
      else w\<lparr>wroteHeader := True, StatusCode := statusCode, ww_w := rw_WriteHeader R statusCode (ww_w w)\<rparr>)"

text \<open>A wrapped writer is a writer again.\<close>

definition wrapped_writer :: "'s ResponseWriter \<Rightarrow> 's WrappedResponseWriter ResponseWriter" where
  "wrapped_writer R = \<lparr>rw_Write = ww_Write R, rw_WriteHeader = ww_WriteHeader R\<rparr>"

fun call_writer :: "'s ResponseWriter \<Rightarrow> wcall \<Rightarrow> 's \<Rightarrow> 's" where
  "call_writer R (Write bytes) s = snd (rw_Write R bytes s)"
| "call_writer R (WriteHeader code) s = rw_WriteHeader R code s"

text \<open>
  The writer of \<open>net/http\<close>: the first status sent counts, later ones are ignored; a write sends 200 when
  none has been sent; the informational ones (100 to 199, but for 101) are sent at once and do not count.
  \<open>conn\<close> says how many of the bytes the connection takes, after those already sent.
\<close>

record response =
  sent_status :: "int option"
  informational :: "int list"
  sent_body :: "byte list"

definition informational_code :: "int \<Rightarrow> bool" where
  "informational_code code \<longleftrightarrow> 100 \<le> code \<and> code \<le> 199 \<and> code \<noteq> 101"

definition net_WriteHeader :: "int \<Rightarrow> response \<Rightarrow> response" where
  "net_WriteHeader code r =
     (if sent_status r \<noteq> None then r
      else if informational_code code then r\<lparr>informational := informational r @ [code]\<rparr>
      else r\<lparr>sent_status := Some code\<rparr>)"

definition net_Write :: "(byte list \<Rightarrow> byte list \<Rightarrow> nat \<times> goerror option) \<Rightarrow> byte list \<Rightarrow> response \<Rightarrow> (nat \<times> goerror option) \<times> response" where
  "net_Write conn bytes r =
     (let r' = net_WriteHeader 200 r; (n, err) = conn (sent_body r') bytes in
      ((min n (length bytes), err), r'\<lparr>sent_body := sent_body r' @ take n bytes\<rparr>))"

definition net_writer :: "(byte list \<Rightarrow> byte list \<Rightarrow> nat \<times> goerror option) \<Rightarrow> response ResponseWriter" where
  "net_writer conn = \<lparr>rw_Write = net_Write conn, rw_WriteHeader = net_WriteHeader\<rparr>"

definition fresh_response :: response where
  "fresh_response = \<lparr>sent_status = None, informational = [], sent_body = []\<rparr>"

text \<open>What the client gets when the handler returns: without a status it is 200.\<close>

definition client_status :: "response \<Rightarrow> int" where
  "client_status r = (case sent_status r of None \<Rightarrow> 200 | Some c \<Rightarrow> c)"

definition handled_by :: "(byte list \<Rightarrow> byte list \<Rightarrow> nat \<times> goerror option) \<Rightarrow> wcall list \<Rightarrow> response WrappedResponseWriter" where
  "handled_by conn cs = fold (call_writer (wrapped_writer (net_writer conn))) cs (NewWrappedResponseWriter fresh_response)"

text \<open>The writes before the first status the handler sets, and that status.\<close>

fun first_status :: "wcall list \<Rightarrow> bool \<times> int option" where
  "first_status [] = (False, None)"
| "first_status (Write bytes # cs) = (True, snd (first_status cs))"
| "first_status (WriteHeader code # cs) = (False, Some code)"

lemmas writer_defs = wrapped_writer_def net_writer_def ww_Write_def ww_WriteHeader_def net_Write_def net_WriteHeader_def

lemma informational_200 [simp]: "\<not> informational_code 200"
  by (simp add: informational_code_def)

lemma net_Write_sent [simp]:
  "sent_status (snd (net_Write conn bytes r)) = (case sent_status r of None \<Rightarrow> Some 200 | Some c \<Rightarrow> Some c)"
  by (cases "sent_status r") (simp_all add: net_Write_def net_WriteHeader_def Let_def split: prod.split)

lemma net_Write_body [simp]:
  "length (sent_body (snd (net_Write conn bytes r))) = length (sent_body r) + fst (fst (net_Write conn bytes r))"
  by (cases "sent_status r") (simp_all add: net_Write_def net_WriteHeader_def Let_def min.commute split: prod.split)

lemma wrapped_Write [simp]:
  "snd (rw_Write (wrapped_writer (net_writer conn)) bytes w) =
     w\<lparr>ww_w := snd (net_Write conn bytes (ww_w w)), ResponseLen := ResponseLen w + fst (fst (net_Write conn bytes (ww_w w)))\<rparr>"
  by (simp add: wrapped_writer_def net_writer_def ww_Write_def split: prod.split)

lemma wrapped_WriteHeader [simp]:
  "rw_WriteHeader (wrapped_writer (net_writer conn)) h w =
     (if wroteHeader w then w else w\<lparr>wroteHeader := True, StatusCode := h, ww_w := net_WriteHeader h (ww_w w)\<rparr>)"
  by (simp add: wrapped_writer_def net_writer_def ww_WriteHeader_def)

lemma wrapped_status:
  "StatusCode (fold (call_writer (wrapped_writer (net_writer conn))) cs w) =
     (if wroteHeader w then StatusCode w else case snd (first_status cs) of None \<Rightarrow> StatusCode w | Some h \<Rightarrow> h)"
proof (induction cs arbitrary: w)
  case (Cons c cs)
  then show ?case by (cases c) (simp_all split: option.split)
qed simp

lemma sent_after_status:
  "wroteHeader w \<Longrightarrow> client_status (ww_w (fold (call_writer (wrapped_writer (net_writer conn))) cs w)) = client_status (ww_w w)"
proof (induction cs arbitrary: w)
  case (Cons c cs)
  then show ?case by (cases c) (simp_all add: client_status_def split: option.split)
qed simp

lemma sent_after_write:
  "sent_status (ww_w w) = Some h \<Longrightarrow> client_status (ww_w (fold (call_writer (wrapped_writer (net_writer conn))) cs w)) = h"
proof (induction cs arbitrary: w)
  case (Cons c cs)
  then show ?case by (cases c) (simp_all add: net_WriteHeader_def)
qed (simp add: client_status_def)

lemma sent_status_of:
  assumes w: "\<not> wroteHeader w" "sent_status (ww_w w) = None"
  shows "client_status (ww_w (fold (call_writer (wrapped_writer (net_writer conn))) cs w)) =
     (case first_status cs of (written, None) \<Rightarrow> 200
      | (written, Some h) \<Rightarrow> if written \<or> informational_code h then 200 else h)"
proof (cases cs)
  case (Cons c ds)
  show ?thesis
  proof (cases c)
    case (Write bytes)
    have "sent_status (ww_w (call_writer (wrapped_writer (net_writer conn)) c w)) = Some 200"
      using w Write by simp
    from sent_after_write [OF this, of conn ds] Cons Write show ?thesis by (simp split: option.split)
  next
    case (WriteHeader h)
    have "wroteHeader (call_writer (wrapped_writer (net_writer conn)) c w)"
      using WriteHeader by simp
    from sent_after_status [OF this, of conn ds] Cons WriteHeader w show ?thesis
      by (simp add: net_WriteHeader_def client_status_def)
  qed
qed (use w in \<open>simp add: client_status_def\<close>)

lemma body_length:
  "ResponseLen w = length (sent_body (ww_w w)) \<Longrightarrow>
   ResponseLen (fold (call_writer (wrapped_writer (net_writer conn))) cs w) =
     length (sent_body (ww_w (fold (call_writer (wrapped_writer (net_writer conn))) cs w)))"
proof (induction cs arbitrary: w)
  case (Cons c cs)
  have "ResponseLen (call_writer (wrapped_writer (net_writer conn)) c w) =
    length (sent_body (ww_w (call_writer (wrapped_writer (net_writer conn)) c w)))"
    using Cons.prems by (cases c) (simp_all add: net_WriteHeader_def)
  from Cons.IH [OF this] show ?case by simp
qed simp

section \<open>Properties\<close>



text \<open>
  C40. The status a wrapped writer remembers is the one the client got exactly when the handler set none,
  or set 200 first, or set its first one before any write and that was not informational; in every other
  run the client got 200. The length is that of the body sent.
\<close>

theorem remembered_status:
  "client_status (ww_w (handled_by conn cs)) =
     (case first_status cs of (written, Some h) \<Rightarrow> if written \<or> informational_code h then 200 else h | _ \<Rightarrow> 200) \<and>
   (StatusCode (handled_by conn cs) = client_status (ww_w (handled_by conn cs)) \<longleftrightarrow>
     (case first_status cs of (written, Some h) \<Rightarrow> (if written \<or> informational_code h then h = 200 else True) | _ \<Rightarrow> True)) \<and>
   ResponseLen (handled_by conn cs) = length (sent_body (ww_w (handled_by conn cs)))"
proof (intro conjI)
  let ?w = "NewWrappedResponseWriter fresh_response"
  have w: "\<not> wroteHeader ?w" "sent_status (ww_w ?w) = None" "ResponseLen ?w = length (sent_body (ww_w ?w))" "StatusCode ?w = 200"
    by (simp_all add: NewWrappedResponseWriter_def fresh_response_def)
  have c: "client_status (ww_w (handled_by conn cs)) =
     (case first_status cs of (written, None) \<Rightarrow> 200 | (written, Some h) \<Rightarrow> if written \<or> informational_code h then 200 else h)"
    unfolding handled_by_def by (rule sent_status_of) (use w in simp_all)
  then show "client_status (ww_w (handled_by conn cs)) =
     (case first_status cs of (written, Some h) \<Rightarrow> if written \<or> informational_code h then 200 else h | _ \<Rightarrow> 200)"
    by (simp split: prod.split option.split)
  show "StatusCode (handled_by conn cs) = client_status (ww_w (handled_by conn cs)) \<longleftrightarrow>
     (case first_status cs of (written, Some h) \<Rightarrow> (if written \<or> informational_code h then h = 200 else True) | _ \<Rightarrow> True)"
    unfolding c unfolding handled_by_def wrapped_status using w by (auto split: prod.split option.split)
  show "ResponseLen (handled_by conn cs) = length (sent_body (ww_w (handled_by conn cs)))"
    unfolding handled_by_def by (rule body_length) (rule w(3))
qed

theorem remembered_status_witness:
  "StatusCode (handled_by (\<lambda>b bs. (length bs, None)) [Write [1, 2], WriteHeader 500]) = 500 \<and>
   client_status (ww_w (handled_by (\<lambda>b bs. (length bs, None)) [Write [1, 2], WriteHeader 500])) = 200"
  using remembered_status [of "\<lambda>b bs. (length bs, None)" "[Write [1, 2], WriteHeader 500]"]
  by (simp add: handled_by_def NewWrappedResponseWriter_def)

end
