(* ===== verification/Redis_Client.thy ===== *)
theory Redis_Client
  imports Go_Encoding
begin

text \<open>
  The redis client (\<open>redis/redis.go\<close>), one call of \<open>go-redis\<close> for each method, and the lock made of
  \<open>TryLock\<close> and \<open>Unlock\<close>: workers that take and free one lock side by side, over a server of which only
  the documented behaviour of \<open>SETNX\<close> and \<open>DEL\<close> is known. Contexts are left out: a call that times out
  is an error. Values are their texts, times are nanoseconds, a floating point number is its text.
\<close>

section \<open>The client\<close>

record redis_Config =
  rc_Address :: string
  rc_Password :: string
  rc_DB :: int

record redis_Options =
  ro_Addr :: string
  ro_Password :: string
  ro_DB :: int
  ro_PoolSize :: int
  ro_MinIdleConns :: int
  ro_DialTimeout :: int
  ro_ReadTimeout :: int
  ro_WriteTimeout :: int

text \<open>The commands of the library, with their answers; a pipeline and a subscription are its own objects.\<close>

record ('w, 'p, 's) rdb =
  rdb_Ping :: "'w \<Rightarrow> goerror option \<times> 'w"
  rdb_Set :: "string \<Rightarrow> string \<Rightarrow> int \<Rightarrow> 'w \<Rightarrow> goerror option \<times> 'w"
  rdb_Get :: "string \<Rightarrow> 'w \<Rightarrow> (string \<times> goerror option) \<times> 'w"
  rdb_Del :: "string list \<Rightarrow> 'w \<Rightarrow> (int \<times> goerror option) \<times> 'w"
  rdb_Exists :: "string list \<Rightarrow> 'w \<Rightarrow> (int \<times> goerror option) \<times> 'w"
  rdb_Incr :: "string \<Rightarrow> 'w \<Rightarrow> (int \<times> goerror option) \<times> 'w"
  rdb_SMembers :: "string \<Rightarrow> 'w \<Rightarrow> (string list \<times> goerror option) \<times> 'w"
  rdb_HSet :: "string \<Rightarrow> string list \<Rightarrow> 'w \<Rightarrow> (int \<times> goerror option) \<times> 'w"
  rdb_HGetAll :: "string \<Rightarrow> 'w \<Rightarrow> ((string \<rightharpoonup> string) \<times> goerror option) \<times> 'w"
  rdb_ZAdd :: "string \<Rightarrow> string \<Rightarrow> string \<Rightarrow> 'w \<Rightarrow> (int \<times> goerror option) \<times> 'w"
  rdb_ZRevRange :: "string \<Rightarrow> int \<Rightarrow> int \<Rightarrow> 'w \<Rightarrow> (string list \<times> goerror option) \<times> 'w"
  rdb_SetNX :: "string \<Rightarrow> string \<Rightarrow> int \<Rightarrow> 'w \<Rightarrow> (bool \<times> goerror option) \<times> 'w"
  rdb_Publish :: "string \<Rightarrow> string \<Rightarrow> 'w \<Rightarrow> (int \<times> goerror option) \<times> 'w"
  rdb_Pipeline :: 'p
  rdb_Subscribe :: "string list \<Rightarrow> 'w \<Rightarrow> 's \<times> 'w"

definition Second :: int where
  "Second = 1000000000"

definition redis_New ::
  "(redis_Options \<Rightarrow> ('w, 'p, 's) rdb) \<Rightarrow> redis_Config \<Rightarrow> ('w, ('w, 'p, 's) rdb res) io" where
  "redis_New NewClient cfg =
     (let R = NewClient \<lparr>ro_Addr = rc_Address cfg, ro_Password = rc_Password cfg, ro_DB = rc_DB cfg, ro_PoolSize = 50,
        ro_MinIdleConns = 10, ro_DialTimeout = 5 * Second, ro_ReadTimeout = 3 * Second, ro_WriteTimeout = 3 * Second\<rparr> in
      bind_io (ext (Ev ''PING'' []) (rdb_Ping R)) (\<lambda>r. ret_io (case r of Some err \<Rightarrow> Inl err | None \<Rightarrow> Inr R)))"

definition redis_Set :: "('w, 'p, 's) rdb \<Rightarrow> string \<Rightarrow> string \<Rightarrow> int \<Rightarrow> ('w, goerror option) io" where
  "redis_Set R key val expiration = ext (Ev ''SET'' [key, val]) (rdb_Set R key val expiration)"

definition redis_Get :: "('w, 'p, 's) rdb \<Rightarrow> string \<Rightarrow> ('w, string \<times> goerror option) io" where
  "redis_Get R key = ext (Ev ''GET'' [key]) (rdb_Get R key)"

definition err_of :: "('w, 'a \<times> goerror option) io \<Rightarrow> ('w, goerror option) io" where
  "err_of m = bind_io m (\<lambda>r. ret_io (snd r))"

definition redis_Del :: "('w, 'p, 's) rdb \<Rightarrow> string list \<Rightarrow> ('w, goerror option) io" where
  "redis_Del R keys = err_of (ext (Ev ''DEL'' keys) (rdb_Del R keys))"

definition redis_Exists :: "('w, 'p, 's) rdb \<Rightarrow> string \<Rightarrow> ('w, bool \<times> goerror option) io" where
  "redis_Exists R key = bind_io (ext (Ev ''EXISTS'' [key]) (rdb_Exists R [key])) (\<lambda>(n, err). ret_io (n > 0, err))"

definition redis_Incr :: "('w, 'p, 's) rdb \<Rightarrow> string \<Rightarrow> ('w, int \<times> goerror option) io" where
  "redis_Incr R key = ext (Ev ''INCR'' [key]) (rdb_Incr R key)"

definition redis_SMembers :: "('w, 'p, 's) rdb \<Rightarrow> string \<Rightarrow> ('w, string list \<times> goerror option) io" where
  "redis_SMembers R key = ext (Ev ''SMEMBERS'' [key]) (rdb_SMembers R key)"

definition redis_HSet :: "('w, 'p, 's) rdb \<Rightarrow> string \<Rightarrow> string list \<Rightarrow> ('w, goerror option) io" where
  "redis_HSet R key vals = err_of (ext (Ev ''HSET'' (key # vals)) (rdb_HSet R key vals))"

definition redis_HGetAll :: "('w, 'p, 's) rdb \<Rightarrow> string \<Rightarrow> ('w, (string \<rightharpoonup> string) \<times> goerror option) io" where
  "redis_HGetAll R key = ext (Ev ''HGETALL'' [key]) (rdb_HGetAll R key)"

definition redis_ZAdd :: "('w, 'p, 's) rdb \<Rightarrow> string \<Rightarrow> string \<Rightarrow> string \<Rightarrow> ('w, goerror option) io" where
  "redis_ZAdd R key score member = err_of (ext (Ev ''ZADD'' [key, score, member]) (rdb_ZAdd R key score member))"

definition redis_ZRevRange :: "('w, 'p, 's) rdb \<Rightarrow> string \<Rightarrow> int \<Rightarrow> int \<Rightarrow> ('w, string list \<times> goerror option) io" where
  "redis_ZRevRange R key start stop = ext (Ev ''ZREVRANGE'' [key]) (rdb_ZRevRange R key start stop)"

definition TryLock :: "('w, 'p, 's) rdb \<Rightarrow> string \<Rightarrow> string \<Rightarrow> int \<Rightarrow> ('w, bool \<times> goerror option) io" where
  "TryLock R key val expiration = ext (Ev ''SETNX'' [key, val]) (rdb_SetNX R key val expiration)"

definition Unlock :: "('w, 'p, 's) rdb \<Rightarrow> string \<Rightarrow> ('w, goerror option) io" where
  "Unlock R key = err_of (ext (Ev ''DEL'' [key]) (rdb_Del R [key]))"

definition redis_Pipeline :: "('w, 'p, 's) rdb \<Rightarrow> 'p" where
  "redis_Pipeline R = rdb_Pipeline R"

definition redis_Publish :: "('w, 'p, 's) rdb \<Rightarrow> string \<Rightarrow> string \<Rightarrow> ('w, goerror option) io" where
  "redis_Publish R channel message = err_of (ext (Ev ''PUBLISH'' [channel, message]) (rdb_Publish R channel message))"

definition redis_Subscribe :: "('w, 'p, 's) rdb \<Rightarrow> string list \<Rightarrow> ('w, 's) io" where
  "redis_Subscribe R channels = ext (Ev ''SUBSCRIBE'' channels) (rdb_Subscribe R channels)"

section \<open>Workers and one lock\<close>

text \<open>
  \<open>owners\<close> are the workers whose \<open>TryLock\<close> answered true and which have not called \<open>Unlock\<close> since;
  \<open>expired\<close> counts the times the server dropped the key by itself.
\<close>

record 'w lock_state =
  lk_world :: "'w world"
  owners :: "nat set"
  expired :: nat

inductive lock_run ::
  "('w, 'p, 's) rdb \<Rightarrow> ('w \<Rightarrow> string \<Rightarrow> string option) \<Rightarrow> string \<Rightarrow> (nat \<Rightarrow> string) \<Rightarrow> int \<Rightarrow> 'w world \<Rightarrow> 'w lock_state \<Rightarrow> bool"
  for R stored key val ttl w0 where
  begin_run: "stored (env w0) key = None \<Longrightarrow> lock_run R stored key val ttl w0 \<lparr>lk_world = w0, owners = {}, expired = 0\<rparr>"
| try_lock: "lock_run R stored key val ttl w0 s \<Longrightarrow> TryLock R key (val i) ttl (lk_world s) = (Ret (ok, err), w) \<Longrightarrow>
    lock_run R stored key val ttl w0 (s\<lparr>lk_world := w, owners := (if ok \<and> err = None then insert i (owners s) else owners s)\<rparr>)"
| free_lock: "lock_run R stored key val ttl w0 s \<Longrightarrow> i \<in> owners s \<Longrightarrow> Unlock R key (lk_world s) = (Ret err, w) \<Longrightarrow>
    lock_run R stored key val ttl w0 (s\<lparr>lk_world := w, owners := owners s - {i}\<rparr>)"
| expires: "lock_run R stored key val ttl w0 s \<Longrightarrow> stored e' key = None \<Longrightarrow>
    lock_run R stored key val ttl w0 (s\<lparr>lk_world := (lk_world s)\<lparr>env := e'\<rparr>, expired := Suc (expired s)\<rparr>)"

text \<open>
  Documented of redis: \<open>SETNX\<close> answers true when the key was not there, and then it has the value;
  false when it was there, and nothing changes; after an error it has the value it had, or the new one
  when there was none. \<open>DEL\<close> removes the key, but when it fails may have left it.
\<close>

definition redis_ok :: "('w, 'p, 's) rdb \<Rightarrow> ('w \<Rightarrow> string \<Rightarrow> string option) \<Rightarrow> bool" where
  "redis_ok R stored \<longleftrightarrow>
     (\<forall>key v ttl e ok err e'. rdb_SetNX R key v ttl e = ((ok, err), e') \<longrightarrow>
        (if err = None \<and> ok then stored e key = None \<and> stored e' key = Some v
         else if err = None then stored e key \<noteq> None \<and> stored e' key = stored e key
         else stored e' key = stored e key \<or> stored e key = None \<and> stored e' key = Some v)) \<and>
     (\<forall>key e n err e'. rdb_Del R [key] e = ((n, err), e') \<longrightarrow>
        stored e' key = None \<or> err \<noteq> None \<and> stored e' key = stored e key)"

lemma redis_ok_SetNX:
  assumes "redis_ok R stored" and "rdb_SetNX R key v ttl e = ((ok, err), e')"
  shows "(ok \<and> err = None \<longrightarrow> stored e key = None \<and> stored e' key = Some v) \<and>
    (stored e key \<noteq> None \<longrightarrow> stored e' key = stored e key)"
proof -
  have "if err = None \<and> ok then stored e key = None \<and> stored e' key = Some v
    else if err = None then stored e key \<noteq> None \<and> stored e' key = stored e key
    else stored e' key = stored e key \<or> stored e key = None \<and> stored e' key = Some v"
    using assms unfolding redis_ok_def by blast
  then show ?thesis by (auto split: if_splits)
qed

lemma TryLock_world:
  assumes "redis_ok R stored" and "TryLock R key v ttl w = (Ret (ok, err), w')"
  shows "(ok \<and> err = None \<longrightarrow> stored (env w) key = None \<and> stored (env w') key = Some v) \<and>
    (stored (env w) key \<noteq> None \<longrightarrow> stored (env w') key = stored (env w) key)"
proof -
  obtain e' where "rdb_SetNX R key v ttl (env w) = ((ok, err), e')" "env w' = e'"
    using assms(2) by (auto simp: TryLock_def ext_def split: prod.splits)
  with redis_ok_SetNX [OF assms(1)] show ?thesis by blast
qed

text \<open>Without expiry the key is there, with the owner's value, as long as there is one; there is one at most.\<close>

definition lock_inv :: "('w \<Rightarrow> string \<Rightarrow> string option) \<Rightarrow> string \<Rightarrow> (nat \<Rightarrow> string) \<Rightarrow> 'w lock_state \<Rightarrow> bool" where
  "lock_inv stored key val s \<longleftrightarrow> owners s = {} \<or>
     (\<exists>i. owners s = {i} \<and> stored (env (lk_world s)) key = Some (val i))"

lemma lock_run_inv:
  assumes "redis_ok R stored" and "lock_run R stored key val ttl w0 s" and "expired s = 0"
  shows "lock_inv stored key val s"
  using assms(2,3)
proof (induction rule: lock_run.induct)
  case (try_lock s i ok err w)
  then have inv: "lock_inv stored key val s" by simp
  from TryLock_world [OF assms(1) try_lock(2)] inv show ?case
    by (auto simp: lock_inv_def)
next
  case (free_lock s i err w)
  then show ?case by (auto simp: lock_inv_def)
qed (simp_all add: lock_inv_def)

section \<open>Properties\<close>

text \<open>
  As long as the server has not dropped the key by itself, at most one worker holds the lock, whatever
  the order of the calls and the errors of the network, and the key has the value of that worker.
\<close>

theorem lock_exclusive:
  assumes "redis_ok R stored" and "lock_run R stored key val ttl w0 s" and "expired s = 0"
  shows "(\<forall>i j. i \<in> owners s \<and> j \<in> owners s \<longrightarrow> i = j) \<and>
    (\<forall>i \<in> owners s. stored (env (lk_world s)) key = Some (val i))"
  using lock_run_inv [OF assms] by (auto simp: lock_inv_def)

text \<open>A server with one map, which answers without errors.\<close>

definition sample_rdb :: "(string \<rightharpoonup> string, unit, unit) rdb" where
  "sample_rdb = \<lparr>rdb_Ping = Pair None, rdb_Set = \<lambda>k v t m. (None, m(k \<mapsto> v)),
     rdb_Get = \<lambda>k m. (case m k of None \<Rightarrow> ([], Some NotFound) | Some v \<Rightarrow> (v, None), m),
     rdb_Del = \<lambda>ks m. ((int (length ks), None), m |` (- set ks)), rdb_Exists = \<lambda>ks m. ((if m (hd ks) = None then 0 else 1, None), m),
     rdb_Incr = \<lambda>k m. ((1, None), m), rdb_SMembers = \<lambda>k m. (([], None), m), rdb_HSet = \<lambda>k vs m. ((0, None), m),
     rdb_HGetAll = \<lambda>k m. ((Map.empty, None), m), rdb_ZAdd = \<lambda>k x y m. ((0, None), m),
     rdb_ZRevRange = \<lambda>k x y m. (([], None), m),
     rdb_SetNX = \<lambda>k v t m. (if m k = None then ((True, None), m(k \<mapsto> v)) else ((False, None), m)),
     rdb_Publish = \<lambda>c x m. ((0, None), m), rdb_Pipeline = (), rdb_Subscribe = \<lambda>cs m. ((), m)\<rparr>"

lemma sample_rdb_ok: "redis_ok sample_rdb (\<lambda>m. m)"
  by (auto simp: redis_ok_def sample_rdb_def restrict_map_def split: if_splits)

abbreviation sample_val :: "nat \<Rightarrow> string" where
  "sample_val \<equiv> \<lambda>i. replicate i CHR ''x''"

abbreviation sample_locks :: "(string \<rightharpoonup> string) lock_state \<Rightarrow> bool" where
  "sample_locks \<equiv> lock_run sample_rdb (\<lambda>m. m) ''k'' sample_val 5 \<lparr>env = Map.empty, trace = []\<rparr>"

lemma sample_TryLock:
  "env w ''k'' = None \<Longrightarrow> TryLock sample_rdb ''k'' v 5 w =
     (Ret (True, None), w\<lparr>env := (env w)(''k'' \<mapsto> v), trace := trace w @ [Ev ''SETNX'' [''k'', v]]\<rparr>)"
  by (simp add: TryLock_def ext_def sample_rdb_def)

lemma sample_try:
  assumes "sample_locks s" and "env (lk_world s) ''k'' = None"
  shows "\<exists>w. env w ''k'' = Some (sample_val i) \<and> sample_locks (s\<lparr>lk_world := w, owners := insert i (owners s)\<rparr>)"
  using lock_run.try_lock [OF assms(1) sample_TryLock [OF assms(2)], of i]
  by (intro exI [of _ "(lk_world s)\<lparr>env := (env (lk_world s))(''k'' \<mapsto> sample_val i),
      trace := trace (lk_world s) @ [Ev ''SETNX'' [''k'', sample_val i]]\<rparr>"]) simp

lemma sample_start: "sample_locks \<lparr>lk_world = \<lparr>env = Map.empty, trace = []\<rparr>, owners = {}, expired = 0\<rparr>"
  by (rule lock_run.begin_run) simp

theorem lock_exclusive_witness:
  "\<exists>s. sample_locks s \<and> owners s = {1} \<and> env (lk_world s) ''k'' = Some ''x''"
proof -
  obtain w where s: "sample_locks \<lparr>lk_world = w, owners = {1}, expired = 0\<rparr>" (is "sample_locks ?s")
    using sample_try [OF sample_start, of 1] by auto
  from lock_exclusive [OF sample_rdb_ok s] have "env (lk_world ?s) ''k'' = Some (sample_val 1)" by simp
  with s show ?thesis by (intro exI [of _ ?s]) simp
qed

text \<open>
  After an expiry it is otherwise: the worker that lost the lock removes the key of the one that took it
  then, so that a third one takes the lock while the second still has it.
\<close>

theorem unlock_frees_another:
  "\<exists>s. sample_locks s \<and> expired s = 1 \<and> owners s = {2, 3}"
proof -
  obtain w1 where "sample_locks \<lparr>lk_world = w1, owners = {1}, expired = 0\<rparr>"
    using sample_try [OF sample_start, of 1] by auto
  from lock_run.expires [OF this, of Map.empty]
  have e: "sample_locks \<lparr>lk_world = w1\<lparr>env := Map.empty\<rparr>, owners = {1}, expired = 1\<rparr>" by simp
  obtain w2 where s2: "sample_locks \<lparr>lk_world = w2, owners = {2, 1}, expired = 1\<rparr>"
    using sample_try [OF e, of 2] by auto
  obtain w3 where u: "Unlock sample_rdb ''k'' w2 = (Ret None, w3)" "env w3 ''k'' = None"
    by (simp add: Unlock_def err_of_def bind_io_apply ext_apply sample_rdb_def)
  have d: "{2, 1} - {1} = {2 :: nat}" by auto
  have s3: "sample_locks \<lparr>lk_world = w3, owners = {2}, expired = 1\<rparr>"
    using lock_run.free_lock [OF s2, of 1 None w3] u(1) by (simp add: d del: One_nat_def)
  obtain w4 where "sample_locks \<lparr>lk_world = w4, owners = {3, 2}, expired = 1\<rparr>"
    using sample_try [OF s3, of 3] u(2) by auto
  then show ?thesis by (intro exI conjI) (assumption, auto)
qed

end
