(* ===== verification/Signals.thy ===== *)
theory Signals
  imports Lifecycle
begin

text \<open>
  The rest of \<open>common/opio/interrupts.go\<close>: channels that catch signals, the blockers kept in a context, and
  a context that an interrupt cancels. A channel is the number of signals it holds, of those it is
  registered for; as documented, the package \<open>os/signal\<close> drops a signal when the channel is full and can
  not catch \<open>Kill\<close>.
\<close>

section \<open>Channels of signals\<close>

datatype signal = Interrupt | Kill | SIGTERM | SIGQUIT | OtherSignal nat

definition DefaultInterruptSignals :: "signal list" where
  "DefaultInterruptSignals = [Interrupt, Kill, SIGTERM, SIGQUIT]"

record channel =
  pending :: nat
  capacity :: nat
  wanted :: "signal list"

definition signal_Notify :: "nat \<Rightarrow> signal list \<Rightarrow> channel" where
  "signal_Notify n signals = \<lparr>pending = 0, capacity = n, wanted = signals\<rparr>"

definition signal_Stop :: "channel \<Rightarrow> channel" where
  "signal_Stop ch = ch\<lparr>wanted := []\<rparr>"

definition deliver :: "signal \<Rightarrow> channel \<Rightarrow> channel" where
  "deliver sig ch =
     (if sig \<in> set (wanted ch) \<and> sig \<noteq> Kill \<and> pending ch < capacity ch then ch\<lparr>pending := Suc (pending ch)\<rparr> else ch)"

text \<open>A receive from the channel; it blocks while there is nothing.\<close>

definition receive :: "channel \<Rightarrow> channel option" where
  "receive ch = (case pending ch of 0 \<Rightarrow> None | Suc n \<Rightarrow> Some (ch\<lparr>pending := n\<rparr>))"

text \<open>\<open>BlockOnInterrupts\<close>: the channel it waits on, and its return.\<close>

definition BlockOnInterrupts :: "signal list \<Rightarrow> channel" where
  "BlockOnInterrupts signals = signal_Notify 1 (if signals = [] then DefaultInterruptSignals else signals)"

text \<open>With a context there are two ways to return; the second unregisters the channel.\<close>

inductive context_block :: "channel \<Rightarrow> ctx \<Rightarrow> channel \<Rightarrow> bool" where
  by_signal: "receive ch = Some ch' \<Longrightarrow> context_block ch c ch'"
| by_context: "c \<noteq> Live \<Longrightarrow> context_block ch c (signal_Stop ch)"

section \<open>Blockers of a context\<close>

text \<open>A blocker is that of a catcher, by its number, or one given by the caller.\<close>

datatype 'f BlockFn = Catcher nat | Given 'f

record 'f go_context =
  ctx_state :: ctx
  ctx_blocker :: "'f BlockFn option"

definition BlockerFromContext :: "'f go_context \<Rightarrow> 'f BlockFn option" where
  "BlockerFromContext c = ctx_blocker c"

definition WithBlocker :: "'f go_context \<Rightarrow> 'f BlockFn \<Rightarrow> 'f go_context" where
  "WithBlocker c fn = c\<lparr>ctx_blocker := Some fn\<rparr>"

text \<open>\<open>catchers\<close> are the channels made so far.\<close>

definition WithInterruptBlocker :: "'f go_context \<Rightarrow> channel list \<Rightarrow> 'f go_context \<times> channel list" where
  "WithInterruptBlocker c catchers =
     (if ctx_blocker c \<noteq> None then (c, catchers)
      else (WithBlocker c (Catcher (length catchers)), catchers @ [signal_Notify 10 DefaultInterruptSignals]))"

text \<open>\<open>interruptCatcher.Block\<close>: when both are ready, Go takes either.\<close>

inductive Block :: "channel \<Rightarrow> ctx \<Rightarrow> channel \<Rightarrow> bool" where
  interrupted: "receive ch = Some ch' \<Longrightarrow> Block ch c ch'"
| cancelled: "c \<noteq> Live \<Longrightarrow> Block ch c ch"

section \<open>A context that an interrupt cancels\<close>

datatype canceller = Blocking "channel option" | Cancelling | Gone

record 'f cancel_run =
  outer :: "'f go_context"
  inner :: ctx
  canceller :: canceller         \<comment> \<open>with the channel of its own, if the context has no blocker\<close>
  cr_catchers :: "channel list"
  caught :: "signal list"

definition CancelOnInterrupt :: "'f go_context \<Rightarrow> channel list \<Rightarrow> 'f cancel_run" where
  "CancelOnInterrupt c catchers = \<lparr>outer = c, inner = ctx_state c,
     canceller = Blocking (case BlockerFromContext c of
         None \<Rightarrow> Some (BlockOnInterrupts []) | Some fn \<Rightarrow> None),
     cr_catchers = catchers, caught = []\<rparr>"

text \<open>
  The steps: a signal comes; the outer context is cancelled, and the inner one with it; the goroutine's
  blocker returns, then it cancels. \<open>given\<close> says when a blocker of the caller may return.
\<close>

inductive cancel_step :: "('f \<Rightarrow> ctx \<Rightarrow> bool) \<Rightarrow> 'f cancel_run \<Rightarrow> 'f cancel_run \<Rightarrow> bool" for given where
  signalled: "cancel_step given s (s\<lparr>cr_catchers := map (deliver sig) (cr_catchers s), caught := caught s @ [sig],
    canceller := (case canceller s of Blocking (Some ch) \<Rightarrow> Blocking (Some (deliver sig ch)) | t \<Rightarrow> t)\<rparr>)"
| outer_cancelled: "ctx_state (outer s) = Live \<Longrightarrow>
    cancel_step given s (s\<lparr>outer := (outer s)\<lparr>ctx_state := Cancelled e\<rparr>, inner := cancel (Some e) (inner s)\<rparr>)"
| own_channel: "canceller s = Blocking (Some ch) \<Longrightarrow> context_block ch (ctx_state (outer s)) ch' \<Longrightarrow>
    cancel_step given s (s\<lparr>canceller := Cancelling\<rparr>)"
| catcher: "canceller s = Blocking None \<Longrightarrow> BlockerFromContext (outer s) = Some (Catcher i) \<Longrightarrow> i < length (cr_catchers s) \<Longrightarrow>
    Block (cr_catchers s ! i) (ctx_state (outer s)) ch' \<Longrightarrow>
    cancel_step given s (s\<lparr>canceller := Cancelling, cr_catchers := (cr_catchers s)[i := ch']\<rparr>)"
| given_blocker: "canceller s = Blocking None \<Longrightarrow> BlockerFromContext (outer s) = Some (Given f) \<Longrightarrow> given f (ctx_state (outer s)) \<Longrightarrow>
    cancel_step given s (s\<lparr>canceller := Cancelling\<rparr>)"
| cancels: "canceller s = Cancelling \<Longrightarrow> cancel_step given s (s\<lparr>canceller := Gone, inner := cancel None (inner s)\<rparr>)"

inductive_cases cancel_stepE: "cancel_step given s s'"

section \<open>Lemmas\<close>

lemma deliver_simps [simp]: "capacity (deliver sig ch) = capacity ch" "wanted (deliver sig ch) = wanted ch"
  by (simp_all add: deliver_def)

lemma receive_Some: "receive ch = Some ch' \<longleftrightarrow> pending ch = Suc (pending ch') \<and> ch' = ch\<lparr>pending := pending ch'\<rparr>"
  by (auto simp: receive_def split: nat.split)

text \<open>The signals a registered channel has room for.\<close>

definition catchable :: "channel \<Rightarrow> signal list \<Rightarrow> nat" where
  "catchable ch sigs = length (filter (\<lambda>sig. sig \<in> set (wanted ch) \<and> sig \<noteq> Kill) sigs)"

lemma deliver_pending: "pending (deliver sig ch) = (if sig \<in> set (wanted ch) \<and> sig \<noteq> Kill then max (pending ch) (min (capacity ch) (Suc (pending ch))) else pending ch)"
  by (auto simp: deliver_def)

lemma deliver_all:
  "pending ch \<le> capacity ch \<Longrightarrow> pending (fold deliver sigs ch) = min (capacity ch) (pending ch + catchable ch sigs) \<and>
   capacity (fold deliver sigs ch) = capacity ch \<and> wanted (fold deliver sigs ch) = wanted ch"
proof (induction sigs arbitrary: ch)
  case (Cons sig sigs)
  have "pending (deliver sig ch) \<le> capacity (deliver sig ch)" using Cons.prems by (simp add: deliver_def)
  from Cons.IH [OF this] Cons.prems show ?case by (auto simp: deliver_pending catchable_def)
qed (simp add: catchable_def)

text \<open>How many times in a row a channel can be received from.\<close>

fun receives :: "nat \<Rightarrow> channel \<Rightarrow> channel option" where
  "receives 0 ch = Some ch"
| "receives (Suc n) ch = Option.bind (receive ch) (receives n)"

lemma receives_iff: "receives n ch \<noteq> None \<longleftrightarrow> n \<le> pending ch"
proof (induction n arbitrary: ch)
  case (Suc n)
  show ?case
  proof (cases "pending ch")
    case (Suc k)
    with Suc.IH [of "ch\<lparr>pending := k\<rparr>"] show ?thesis by (simp add: receive_def)
  qed (simp add: receive_def)
qed simp

text \<open>What holds while a context without a blocker is watched: its own channel has caught what it could.\<close>

definition interrupt_inv :: "'f cancel_run \<Rightarrow> bool" where
  "interrupt_inv s \<longleftrightarrow> ctx_blocker (outer s) = None \<and> (ctx_state (outer s) \<noteq> Live \<longrightarrow> inner s \<noteq> Live) \<and>
     (let heard = 0 < catchable (BlockOnInterrupts []) (caught s) in
      (inner s \<noteq> Live \<or> canceller s = Cancelling \<longrightarrow> ctx_state (outer s) \<noteq> Live \<or> heard) \<and>
      (case canceller s of
         Blocking (Some ch) \<Rightarrow> (pending ch = 0 \<longleftrightarrow> \<not> heard) \<and> capacity ch = 1 \<and> wanted ch = DefaultInterruptSignals
       | Blocking None \<Rightarrow> False
       | Cancelling \<Rightarrow> True
       | Gone \<Rightarrow> inner s \<noteq> Live))"

lemma catchable_append [simp]: "catchable ch (xs @ ys) = catchable ch xs + catchable ch ys"
  by (simp add: catchable_def)

lemma catchable_one: "catchable (BlockOnInterrupts []) [sig] = (if sig \<in> set DefaultInterruptSignals \<and> sig \<noteq> Kill then 1 else 0)"
  by (simp add: catchable_def BlockOnInterrupts_def signal_Notify_def)

lemma context_block_ready: "context_block ch c ch' \<Longrightarrow> c \<noteq> Live \<or> 0 < pending ch"
  by (auto simp: receive_Some elim: context_block.cases)

lemma context_block_possible: "0 < pending ch \<or> c \<noteq> Live \<Longrightarrow> \<exists>ch'. context_block ch c ch'"
proof (cases "pending ch")
  case (Suc n)
  then have "receive ch = Some (ch\<lparr>pending := n\<rparr>)" by (simp add: receive_def)
  then show ?thesis by (blast intro: context_block.by_signal)
qed (auto intro: context_block.by_context)

lemma cancel_step_inv: "cancel_step given s s' \<Longrightarrow> interrupt_inv s \<Longrightarrow> interrupt_inv s'"
proof (induction rule: cancel_step.induct)
  case (signalled s sig)
  show ?case
  proof (cases "canceller s")
    case (Blocking t)
    with signalled obtain ch where t: "t = Some ch" by (cases t) (simp_all add: interrupt_inv_def)
    with signalled Blocking show ?thesis
      by (auto simp: interrupt_inv_def Let_def catchable_one deliver_pending)
  qed (use signalled in \<open>auto simp: interrupt_inv_def Let_def\<close>)
next
  case (outer_cancelled s e)
  then show ?case
    by (cases "canceller s") (auto simp: interrupt_inv_def Let_def simp del: cancel.simps split: option.splits)
next
  case (own_channel s ch ch')
  then show ?case using context_block_ready [OF own_channel(2)]
    by (auto simp: interrupt_inv_def Let_def)
next
  case (cancels s)
  then show ?case by (auto simp: interrupt_inv_def Let_def simp del: cancel.simps)
qed (simp_all add: interrupt_inv_def BlockerFromContext_def)

lemma cancel_steps_inv:
  assumes "(cancel_step given)\<^sup>*\<^sup>* (CancelOnInterrupt c catchers) s" and "BlockerFromContext c = None" and "ctx_state c = Live"
  shows "interrupt_inv s"
  using assms(1)
proof (induction rule: rtranclp_induct)
  case base
  show ?case using assms(2,3)
    by (simp add: interrupt_inv_def CancelOnInterrupt_def BlockerFromContext_def catchable_def BlockOnInterrupts_def signal_Notify_def)
next
  case (step s s')
  then show ?case using cancel_step_inv by blast
qed

section \<open>Properties\<close>

text \<open>
  Consecutive interrupts: the context \<open>WithInterruptBlocker\<close> makes has a blocker, is left as it is when
  asked again, and after any signals so many calls of the blocker in a row return by a signal of their own
  as signals it can catch have come, at most ten; another call blocks.
\<close>

theorem consecutive_interrupts:
  assumes "ctx_blocker c = None"
  shows "\<exists>ch c'. WithInterruptBlocker c catchers = (c', catchers @ [ch]) \<and>
    BlockerFromContext c' = Some (Catcher (length catchers)) \<and> WithInterruptBlocker c' cs = (c', cs) \<and>
    (\<forall>sigs n. receives n (fold deliver sigs ch) \<noteq> None \<longleftrightarrow>
      n \<le> min 10 (length (filter (\<lambda>sig. sig \<in> {Interrupt, SIGTERM, SIGQUIT}) sigs)))"
proof -
  let ?ch = "signal_Notify 10 DefaultInterruptSignals"
  have "catchable ?ch sigs = length (filter (\<lambda>sig. sig \<in> {Interrupt, SIGTERM, SIGQUIT}) sigs)" for sigs
    unfolding catchable_def signal_Notify_def DefaultInterruptSignals_def by (induction sigs) auto
  then have "receives n (fold deliver sigs ?ch) \<noteq> None \<longleftrightarrow>
      n \<le> min 10 (length (filter (\<lambda>sig. sig \<in> {Interrupt, SIGTERM, SIGQUIT}) sigs))" for n sigs
    unfolding receives_iff using deliver_all [of ?ch sigs] by (simp add: signal_Notify_def)
  with assms show ?thesis
    by (simp add: WithInterruptBlocker_def WithBlocker_def BlockerFromContext_def)
qed

theorem consecutive_interrupts_witness:
  "receives 2 (fold deliver [Interrupt, Kill, SIGTERM] (signal_Notify 10 DefaultInterruptSignals)) \<noteq> None \<and>
   receives 3 (fold deliver [Interrupt, Kill, SIGTERM] (signal_Notify 10 DefaultInterruptSignals)) = None"
proof -
  obtain ch c' where c: "WithInterruptBlocker \<lparr>ctx_state = Live, ctx_blocker = None\<rparr> [] = (c' :: unit go_context, [] @ [ch])" and
    r: "\<And>sigs n. receives n (fold deliver sigs ch) \<noteq> None \<longleftrightarrow>
      n \<le> min 10 (length (filter (\<lambda>sig. sig \<in> {Interrupt, SIGTERM, SIGQUIT}) sigs))"
    using consecutive_interrupts [of "\<lparr>ctx_state = Live, ctx_blocker = None\<rparr> :: unit go_context" "[]" "[]"] by auto
  from c have "ch = signal_Notify 10 DefaultInterruptSignals" by (simp add: WithInterruptBlocker_def)
  with r [of 2 "[Interrupt, Kill, SIGTERM]"] r [of 3 "[Interrupt, Kill, SIGTERM]"] show ?thesis by auto
qed

text \<open>
  The context of \<open>CancelOnInterrupt\<close>, when no blocker is attached, is cancelled only by an interrupt or
  with the context it comes from; and after either, its goroutine can go on until it has cancelled it.
\<close>

theorem cancelled_by_interrupt:
  assumes "(cancel_step given)\<^sup>*\<^sup>* (CancelOnInterrupt c catchers) s" and "BlockerFromContext c = None" and "ctx_state c = Live"
  shows "(inner s \<noteq> Live \<longrightarrow> ctx_state (outer s) \<noteq> Live \<or> (\<exists>sig \<in> set (caught s). sig \<in> {Interrupt, SIGTERM, SIGQUIT})) \<and>
    (ctx_state (outer s) \<noteq> Live \<or> (\<exists>sig \<in> set (caught s). sig \<in> {Interrupt, SIGTERM, SIGQUIT}) \<longrightarrow>
      canceller s = Gone \<and> inner s \<noteq> Live \<or> (\<exists>s'. cancel_step given s s' \<and> canceller s' \<in> {Cancelling, Gone} - {canceller s}))"
proof -
  have h: "0 < catchable (BlockOnInterrupts []) sigs \<longleftrightarrow> (\<exists>sig \<in> set sigs. sig \<in> {Interrupt, SIGTERM, SIGQUIT})" for sigs
    by (induction sigs) (auto simp: catchable_def BlockOnInterrupts_def signal_Notify_def DefaultInterruptSignals_def)
  have inv: "interrupt_inv s" by (rule cancel_steps_inv [OF assms])
  have "canceller s = Gone \<and> inner s \<noteq> Live \<or> (\<exists>s'. cancel_step given s s' \<and> canceller s' \<in> {Cancelling, Gone} - {canceller s})"
    if "ctx_state (outer s) \<noteq> Live \<or> 0 < catchable (BlockOnInterrupts []) (caught s)"
  proof (cases "canceller s")
    case (Blocking t)
    with inv obtain ch where t: "t = Some ch" by (cases t) (simp_all add: interrupt_inv_def)
    from that Blocking t inv have "0 < pending ch \<or> ctx_state (outer s) \<noteq> Live"
      by (auto simp: interrupt_inv_def Let_def)
    then have "\<exists>ch'. context_block ch (ctx_state (outer s)) ch'" by (rule context_block_possible)
    with Blocking t show ?thesis using cancel_step.own_channel [of s ch _ given] by fastforce
  next
    case Cancelling
    with cancel_step.cancels [OF Cancelling, of given] show ?thesis by fastforce
  qed (use inv in \<open>simp add: interrupt_inv_def Let_def\<close>)
  with inv show ?thesis unfolding h [symmetric] by (auto simp: interrupt_inv_def Let_def)
qed

end
