(* ===== verification/Command.thy ===== *)
theory Command
  imports Signals Evm_Client Dispatcher
begin

text \<open>
  The process as a command: its flags (\<open>flags/flags.go\<close>, \<open>common/cliapp/flag.go\<close>), the application and
  its actions (\<open>cmd/wallet-api\<close>), and the helpers nothing else uses (\<open>common/helpers/jsonutil.go\<close>,
  \<open>common/util\<close>). \<open>urfave/cli\<close> is a library: what a flag's value is, and the run of an application, are
  parameters.
\<close>

section \<open>Flags\<close>

record StringFlag =
  fl_Name :: string
  fl_Usage :: string
  fl_EnvVars :: "string list"
  fl_Aliases :: "string list"
  fl_Value :: string

definition envVarPrefix :: string where
  "envVarPrefix = ''WALLET_API''"

definition prefixEnvVars :: "string \<Rightarrow> string list" where
  "prefixEnvVars name = [envVarPrefix @ ''_'' @ name]"

definition ConfigPathFlag :: StringFlag where
  "ConfigPathFlag = \<lparr>fl_Name = ''yaml-config'', fl_Usage = ''The path of the yaml config file'',
     fl_EnvVars = prefixEnvVars ''YAML_CONFIG'', fl_Aliases = [''c''], fl_Value = ''./config.yaml''\<rparr>"

definition SponsorPrivateKeyFlag :: StringFlag where
  "SponsorPrivateKeyFlag = \<lparr>fl_Name = ''sponsor-private-key'',
     fl_Usage = ''Sponsor EOA private key for AA SetCode transactions (hex, with or without 0x prefix)'',
     fl_EnvVars = ''SPONSOR_KEY'' # prefixEnvVars ''SPONSOR_KEY'', fl_Aliases = [], fl_Value = []\<rparr>"

definition PaymasterSignerKeyFlag :: StringFlag where
  "PaymasterSignerKeyFlag = \<lparr>fl_Name = ''paymaster-signer-key'',
     fl_Usage = ''Paymaster verifying signer private key for off-chain UserOp authorization (hex, with or without 0x prefix)'',
     fl_EnvVars = ''PAYMASTER_SIGNER_KEY'' # prefixEnvVars ''PAYMASTER_SIGNER_KEY'', fl_Aliases = [], fl_Value = []\<rparr>"

definition requireFlags :: "StringFlag list" where
  "requireFlags = [ConfigPathFlag]"

definition optionalFlags :: "StringFlag list" where
  "optionalFlags = [SponsorPrivateKeyFlag, PaymasterSignerKeyFlag]"

definition Flags :: "StringFlag list" where
  "Flags = requireFlags @ optionalFlags"

text \<open>
  A flag of the library: a generic one has a value of type \<open>'g\<close>. \<open>clone\<close> is \<open>None\<close> on a value that is not
  a \<open>CloneableGeneric\<close>, and \<open>Some None\<close> when the clone is not a \<open>Generic\<close>.
\<close>

datatype ('g, 'f) cli_Flag = GenericFlag "string list" 'g | OtherFlag "string list" 'f

primrec flag_Names :: "('g, 'f) cli_Flag \<Rightarrow> string list" where
  "flag_Names (GenericFlag names g) = names"
| "flag_Names (OtherFlag names f) = names"

primrec cloneFlag :: "('g \<Rightarrow> 'g option option) \<Rightarrow> ('g, 'f) cli_Flag \<Rightarrow> ('g, 'f) cli_Flag res" where
  "cloneFlag clone (GenericFlag names g) =
     (case clone g of
        None \<Rightarrow> Inl (Errorf ''cannot clone Generic value: *cli.GenericFlag'')
      | Some None \<Rightarrow> Inl (Errorf ''cloned Generic value is not Generic: *cli.GenericFlag'')
      | Some (Some cpyVal) \<Rightarrow> Inr (GenericFlag names cpyVal))"
| "cloneFlag clone (OtherFlag names f) = Inr (OtherFlag names f)"

fun ProtectFlags :: "('g \<Rightarrow> 'g option option) \<Rightarrow> ('g, 'f) cli_Flag list \<Rightarrow> ('g, 'f) cli_Flag list go" where
  "ProtectFlags clone [] = Ret []"
| "ProtectFlags clone (f # fs) =
     (case cloneFlag clone f of
        Inl err \<Rightarrow> Panic
      | Inr fCopy \<Rightarrow> bind_go (ProtectFlags clone fs) (\<lambda>out. Ret (fCopy # out)))"

section \<open>The application\<close>

text \<open>The actions of the three commands; the first two are those of \<open>Lifecycle\<close>.\<close>

datatype cli_action = LifecycleCmd_runRpc | LifecycleCmd_runApi | ShowVersion

record cli_Command =
  cmd_Name :: string
  cmd_Flags :: "StringFlag list"
  cmd_Description :: string
  cmd_Action :: cli_action

record cli_App =
  app_Version :: string
  app_Description :: string
  app_EnableBashCompletion :: bool
  app_Commands :: "cli_Command list"

definition NewCli :: cli_App where
  "NewCli = \<lparr>app_Version = ''v0.0.1-beta'', app_Description = ''wallet chain api gateway'', app_EnableBashCompletion = True,
     app_Commands =
       [\<lparr>cmd_Name = ''rpc'', cmd_Flags = Flags, cmd_Description = ''Run rpc services'', cmd_Action = LifecycleCmd_runRpc\<rparr>,
        \<lparr>cmd_Name = ''api'', cmd_Flags = Flags, cmd_Description = ''Run api services'', cmd_Action = LifecycleCmd_runApi\<rparr>,
        \<lparr>cmd_Name = ''version'', cmd_Flags = [], cmd_Description = ''Show project version'', cmd_Action = ShowVersion\<rparr>]\<rparr>"

text \<open>The action of \<open>rpc\<close>: \<open>ctx_String\<close> gives the value of a flag by its name.\<close>

definition run_rpc ::
  "(string \<Rightarrow> 'w \<Rightarrow> string res \<times> 'w) \<Rightarrow> (string \<Rightarrow> Config res) \<Rightarrow> (string \<Rightarrow> string) \<Rightarrow>
   GrpcService \<Rightarrow> ('w, (Config \<times> GrpcService Lifecycle) res) io" where
  "run_rpc readFile unmarshal ctx_String gs =
     bind_io (NewConfig readFile unmarshal (ctx_String (fl_Name ConfigPathFlag))
       (ctx_String (fl_Name SponsorPrivateKeyFlag)) (ctx_String (fl_Name PaymasterSignerKeyFlag))) (\<lambda>r. case r of
         Inl err \<Rightarrow> ret_io (Inl err)
       | Inr cfg \<Rightarrow> ret_io (map_sum id (Pair cfg) (fst (NewRpcService gs))))"

text \<open>
  \<open>main\<close>: a blocker is attached to the context, which catches signals from then on; an error of the
  application is the exit status 1.
\<close>

definition background :: "'f go_context" where
  "background = \<lparr>ctx_state = Live, ctx_blocker = None\<rparr>"

definition main ::
  "(cli_App \<Rightarrow> 'f go_context \<Rightarrow> channel list \<Rightarrow> string list \<Rightarrow> ('w, goerror option) io) \<Rightarrow> string list \<Rightarrow> ('w, nat) io" where
  "main runContext args =
     (case WithInterruptBlocker background [] of (ctx, catchers) \<Rightarrow>
        bind_io (runContext NewCli ctx catchers args) (\<lambda>err. ret_io (if err \<noteq> None then 1 else 0)))"

section \<open>Helpers\<close>

text \<open>Both packages have these; an error of the encoder gives the empty text.\<close>

definition ToJSON :: "('v \<Rightarrow> string res) \<Rightarrow> 'v \<Rightarrow> string" where
  "ToJSON json_Marshal v = (case json_Marshal v of Inl err \<Rightarrow> [] | Inr b \<Rightarrow> b)"

definition ToJSONString :: "('v \<Rightarrow> string res) \<Rightarrow> 'v \<Rightarrow> string" where
  "ToJSONString json_Marshal v = (case json_Marshal v of Inl err \<Rightarrow> [] | Inr b \<Rightarrow> b)"

definition ToPrettyJSON :: "('v \<Rightarrow> string \<Rightarrow> string \<Rightarrow> string res) \<Rightarrow> 'v \<Rightarrow> string" where
  "ToPrettyJSON json_MarshalIndent v = (case json_MarshalIndent v '''' ''  '' of Inl err \<Rightarrow> [] | Inr b \<Rightarrow> b)"

text \<open>The copy of \<open>IsURLAvailable\<close> in \<open>common/util/check.go\<close>.\<close>

definition util_IsURLAvailable ::
  "(string \<Rightarrow> parsed_url option) \<Rightarrow> (string \<Rightarrow> 'w \<Rightarrow> bool \<times> 'w) \<Rightarrow> string \<Rightarrow> ('w, bool) io" where
  "util_IsURLAvailable parse dial addr0 =
     (case parse addr0 of
        None \<Rightarrow> ret_io False
      | Some u \<Rightarrow>
          (let addr = (if HasPort u then Some (Host u)
             else if Scheme u \<in> {''http'', ''ws''} then Some (Host u @ '':80'')
             else if Scheme u \<in> {''https'', ''wss''} then Some (Host u @ '':443'') else None) in
           case addr of None \<Rightarrow> ret_io True | Some a \<Rightarrow> ext (Ev ''net.DialTimeout'' [a]) (dial a)))"

section \<open>Lemmas\<close>

lemma util_IsURLAvailable_same: "util_IsURLAvailable parse dial a = IsURLAvailable parse dial a"
  by (simp add: util_IsURLAvailable_def IsURLAvailable_def Let_def split: option.split)

lemma cloneFlag_Names: "cloneFlag clone f = Inr f' \<Longrightarrow> flag_Names f' = flag_Names f"
  by (cases f) (auto split: option.splits)

lemma ProtectFlags_Names: "ProtectFlags clone fs = Ret out \<Longrightarrow> map flag_Names out = map flag_Names fs"
  by (induction fs arbitrary: out) (auto simp: bind_go_Ret_iff cloneFlag_Names split: sum.splits)

lemma ProtectFlags_panics: "ProtectFlags clone fs = Panic \<longleftrightarrow> (\<exists>f \<in> set fs. isl (cloneFlag clone f))"
proof (induction fs)
  case (Cons f fs)
  then show ?case by (cases "ProtectFlags clone fs"; cases "cloneFlag clone f") auto
qed simp

text \<open>The blocker \<open>main\<close> attaches catches every signal that can be caught, up to ten.\<close>

lemma main_catches: "WithInterruptBlocker background [] =
    (\<lparr>ctx_state = Live, ctx_blocker = Some (Catcher 0)\<rparr>, [signal_Notify 10 DefaultInterruptSignals])"
  by (simp add: WithInterruptBlocker_def WithBlocker_def background_def)

section \<open>Properties\<close>

text \<open>
  The command \<open>rpc\<close> runs the service with the configuration decoded from the file that its flag names,
  in which the sponsor's key is that of \<open>sponsor-private-key\<close> and the paymaster's that of
  \<open>paymaster-signer-key\<close>, whatever the file says; the file is all it reads.
\<close>

theorem keys_from_flags:
  assumes "run_rpc readFile unmarshal ctx_String gs w = (Ret (Inr (cfg, serv)), w')"
  shows "\<exists>text c. fst (readFile (ctx_String ''yaml-config'') (env w)) = Inr text \<and> unmarshal text = Inr c \<and>
    aac_SponsorPrivateKey (AA (BNB (cfg_WalletNode cfg))) = ctx_String ''sponsor-private-key'' \<and>
    aac_VerifyingPrivateKey (AA (BNB (cfg_WalletNode cfg))) = ctx_String ''paymaster-signer-key'' \<and>
    set_aa_keys [] [] cfg = set_aa_keys [] [] c \<and>
    trace w' = trace w @ [Ev ''os.ReadFile'' [ctx_String ''yaml-config'']]"
  using assms
  by (auto simp: run_rpc_def NewConfig_def run_iff ext_def set_aa_keys_def ConfigPathFlag_def SponsorPrivateKeyFlag_def
      PaymasterSignerKeyFlag_def NewRpcService_def split: prod.splits sum.splits)

theorem keys_from_flags_witness:
  "\<exists>cfg serv w'. run_rpc (\<lambda>p e. (Inr p, e)) (\<lambda>t. Inr (sample_config [])) (\<lambda>n. n) \<lparr>gs_stopped = False, gs_server = NotStarted\<rparr>
      \<lparr>env = (), trace = []\<rparr> = (Ret (Inr (cfg, serv)), w') \<and>
    aac_SponsorPrivateKey (AA (BNB (cfg_WalletNode cfg))) = ''sponsor-private-key'' \<and>
    aac_VerifyingPrivateKey (AA (BNB (cfg_WalletNode cfg))) = ''paymaster-signer-key''"
proof -
  obtain cfg serv w' where r: "run_rpc (\<lambda>p e. (Inr p, e)) (\<lambda>t. Inr (sample_config [])) (\<lambda>n. n)
      \<lparr>gs_stopped = False, gs_server = NotStarted\<rparr> \<lparr>env = (), trace = []\<rparr> = (Ret (Inr (cfg, serv)), w')"
    by (simp add: run_rpc_def NewConfig_def bind_ext_apply bind_io_apply ext_apply NewRpcService_def)
  with keys_from_flags [OF r] show ?thesis by blast
qed

end
