(* ===== verification/Spec2Isabelle.thy ===== *)
theory Spec2Isabelle
  imports Dispatcher AA_Send Evm_Gas Ethereum Bnb_Props Bnb_Sponsor Bitcoin Tron_Props Sol_Props Lifecycle
    Replies Sponsor_Lock Sponsor_Flow Grpc_Service Evm_Sign Tron_Flow Sol_Flow Addressing Sol_Keys Http_Server Redis_Client Command
begin

text \<open>
  Verification of the wallet gateway \<open>dapplink-wallet-api\<close>, a gRPC server in Go that gives wallets one
  interface to several blockchains: addresses, blocks, transactions, balances, and the building, signing
  and broadcasting of transactions, with sponsored transfers by account abstraction on BNB.

  \<^bold>\<open>The program.\<close> \<open>cmd/wallet-api\<close> runs a command, which sets the gRPC service up, starts it and waits
  for a signal (\<open>common/cliapp\<close>, \<open>common/opio\<close>, \<open>services/grpc\<close>). The service makes the dispatcher
  (\<open>chaindispatcher\<close>) from the configuration (\<open>config\<close>): a registry from chain ids to adaptors. Every
  request passes the interceptor, which checks the consumer token and turns panics into errors, and the
  method of the dispatcher, which looks the chain up and calls the adaptor (\<open>chain/<name>\<close>). An adaptor
  calls its node through a client and answers with a wire message (\<open>protobuf/walletapi\<close>). The adaptors
  of Ethereum and BNB share the client, the fees and the transactions of \<open>chain/evmbase\<close>, and the
  sponsored transfers of BNB its package \<open>aa\<close>; that of Bitcoin shares \<open>chain/bitcoinbase\<close>.

  \<^bold>\<open>How it is modelled.\<close> \<open>Prelude\<close>: a Go call that may panic returns a \<open>go\<close>, one that may fail a \<open>res\<close>,
  a handler both a reply and an error. Code that leaves the process is a function on the state of a
  \<open>world\<close>, whose remote part is unknown and whose trace records the calls in order; a theorem about the
  calls of a handler is one about that trace. \<open>Go_Strings\<close> and \<open>Go_Encoding\<close> model what the code uses of
  Go's strings, hex, numbers and byte orders. \<open>int64\<close> is \<open>int\<close> with its range and \<open>wrap64\<close>, \<open>uint64\<close>
  a 64-bit word, \<open>big.Int\<close> an \<open>int\<close>, \<open>float64\<close> a rational with its rounding written out where the
  rounding matters. Libraries are records of functions, arguments of the definitions that call them; what
  a theorem takes from them is a named predicate (\<open>geth_ok\<close>, \<open>crypto_ok\<close>, \<open>base58_ok\<close>, ...), and a sample
  instance shows that it can hold. Log calls and the time limits of requests are not modelled.

  \<^bold>\<open>Theories, in the order of the code.\<close>
  \<^item> \<open>Walletapi\<close>: the messages of \<open>protobuf/walletapi\<close> and the return codes; \<open>Config\<close>: \<open>config.go\<close>.
  \<^item> \<open>Dispatcher\<close>: \<open>chaindispatcher/dispatcher.go\<close>, \<open>chain/chainadaptor.go\<close>. The locale \<open>route\<close> is what
    the sixteen methods share: the chain's adaptor is called, once, and nothing else; a request for an
    unregistered chain makes no call. A wrong token never reaches a handler, a panic never leaves the
    interceptor, and the registry has only chains that are configured and supported.
  \<^item> \<open>Lifecycle\<close>: \<open>common/cliapp/lifecycle.go\<close>, \<open>cmd/wallet-api/cli.go\<close>, \<open>services/grpc/service.go\<close>, as a
    step relation of goroutines, with the order of the calls as an invariant of the reachable states and
    termination by a measure. \<open>Signals\<close>: \<open>common/opio/interrupts.go\<close>, channels that catch signals, blockers
    and a context an interrupt cancels. \<open>Command\<close>: \<open>cmd/wallet-api\<close>, \<open>flags\<close>, \<open>common/cliapp/flag.go\<close> and
    the small helpers of \<open>common\<close>; the service gets each key from its own flag.
  \<^item> \<open>Retry\<close>: \<open>common/retry\<close>; at most the given number of attempts, delays within bounds.
  \<^item> \<open>Evm_Types\<close>, \<open>Evm_Client\<close>, \<open>Evm_Gas\<close>, \<open>Evm_Adaptor\<close>: \<open>chain/evmbase\<close>. Ranges of blocks, with
    the batches of the client and, on the ZkFair chains, the groups its goroutines fetch in any order; fees
    that are valid and, when bumped, high enough to replace a transaction; ERC-20 calls; signed transactions.
  \<^item> \<open>AA_UserOp\<close>, \<open>AA_Send\<close>: \<open>chain/evmbase/aa\<close>. The packed user operation and its hash, the data of
    the paymaster, the preflight checks and the final transaction.
  \<^item> \<open>Handlers\<close>: the locale \<open>batch_send\<close>, interpreted for every adaptor that broadcasts a list.
  \<^item> \<open>Ethereum\<close>; \<open>Bnb\<close>, \<open>Bnb_Props\<close>; \<open>Bnb_AA\<close>, \<open>Bnb_Sponsor\<close>: \<open>chain/ethereum\<close>, \<open>chain/bnbchain\<close>. The
    transfers of a block have no duplicates and are those of its receipts; transactions are signed by the
    sender asked for; a sponsored send refines the relation \<open>sponsor_run\<close>, which says when to retry.
    \<open>Evm_Sign\<close> and \<open>Sponsor_Flow\<close> compose the two calls of a transfer and of a sponsored one: when an honest
    signature is accepted. \<open>Sponsor_Lock\<close>: sponsored sends side by side, with the mutex.
  \<^item> \<open>Btc_Client\<close>, \<open>Bitcoin\<close>: \<open>chain/bitcoinbase\<close>, \<open>chain/bitcoin\<close>.
  \<^item> \<open>Tron_Types\<close>, \<open>Tron_Client\<close>, \<open>Tron_Adaptor\<close>, \<open>Tron_Props\<close>: \<open>chain/tron\<close>, with the rental of energy.
  \<^item> \<open>Sol_Types\<close>, \<open>Sol_Client\<close>, \<open>Solana_Adaptor\<close>, \<open>Sol_Props\<close>: \<open>chain/solana\<close>. Transfers read from
    balances, ranges of transactions fetched by goroutines, the assembly of signed transactions.
    \<open>Sol_Keys\<close>: the key helpers of \<open>solana_sdk.go\<close>, with their round trips.
  \<^item> \<open>Tron_Flow\<close>, \<open>Sol_Flow\<close>: the three calls of a transfer composed, from the payload to the node: what is
    broadcast is the transaction that was built, under the signatures that were given. \<open>Addressing\<close>: the
    locale \<open>addressing\<close>, interpreted for the chains; the gateway accepts the addresses it makes.
  \<^item> \<open>Read_Only\<close>, \<open>Gateway\<close>, \<open>Replies\<close>, and this theory: the dispatcher on the adaptors of its five chains.
    The locale \<open>broadcaster\<close> extends \<open>batch_send\<close> by the name of the call that broadcasts, the calculus
    \<open>returns\<close> proves of every handler that it answers and what the answer looks like. \<open>Sponsor_Gateway\<close>
    follows a sponsored send through the gateway to the node. \<open>Grpc_Service\<close>: the server side of
    \<open>walletapi_grpc.pb.go\<close>, that is the handler of each method, which decodes the request and passes it to
    the interceptor, and the table of the methods (\<open>serve\<close>); the abstract gateway \<open>call_spec\<close> says which
    broadcasts a call may make, and the sessions of the server, its calls in any order while the nodes
    change as they like, refine it (\<open>session_refines\<close>).
  \<^item> \<open>Http_Server\<close>, \<open>Redis_Client\<close>: \<open>common/httputil\<close> and \<open>redis\<close>, which the program does not import: the
    stop of a server as a step relation, the status a writer remembers, and a lock.

  \<^bold>\<open>Bounds.\<close> \<open>maxLen\<close> and \<open>mem\<close> are the greatest length a slice can have: a longer \<open>make\<close> panics. Two
  loops of the code may go on for ever (a batch of Tron or Solana that ends at the greatest number of its
  type); their models make at most \<open>mem\<close> passes and then panic, and the theorems \<open>tron_batch\<close> and
  \<open>sol_batch\<close> prove that every other range in memory is answered. \<open>range_run\<close> has one step for each
  attempt left, three for each signature, which \<open>range_run_complete\<close> proves to be enough. All other
  recursion is structural or has its termination proved.

  \<^bold>\<open>Concurrency.\<close> Goroutines that run side by side are interleaved by a parameter: \<open>schedule\<close> is the order
  in which the ZkFair groups run, \<open>pick\<close> chooses the next attempt of a range of transactions, \<open>map_order\<close>
  the order in which a map is visited; the theorems hold for all of them. Goroutines that live on
  are step relations: the command's (\<open>Lifecycle\<close>), the pool of sponsored sends (\<open>Sponsor_Lock\<close>, where a send
  is a program of steps, one for each call of the client or of a helper that calls it, and the node may be
  used by others between two steps), the server's, the workers of a lock. \<open>pool_run_bound\<close> bounds the steps
  of a pool by sixteen for each request.

  \<^bold>\<open>Not modelled.\<close> Of the generated code, all but the messages' fields and the server side of the gateway's
  service: the client stubs and the other services are called by nothing here. The tests; log calls and
  the reports they print (\<open>LogPreflight\<close>); the types that nothing uses (in \<open>tron/types.go\<close>, \<open>solana/types.go\<close>,
  \<open>bitcoinbase/types.go\<close>); the ABI texts of \<open>aa/entrypoint.go\<close>, which are the library's input. Timeouts
  of single requests. \<open>net/http\<close>, \<open>os/signal\<close> and \<open>redis\<close> are modelled by what their documentation says
  of the calls the code makes.
\<close>

section \<open>The gateway on the adaptors of its chains\<close>



text \<open>
  Only the two sends broadcast: in a gateway with the adaptors of the five chains, each of the other
  fourteen methods makes none of the calls that broadcast on some chain, whatever the request, the state
  of the nodes and the errors on the way.
\<close>

theorem broadcast_only_by_sends:
  assumes "NewChainDispatcher (chain_factories X) cfg w = (Ret (Some d), w')"
  shows "emits no_send (d_ConvertAddresses d r1) \<and>
    emits no_send (d_ValidAddresses d r2) \<and>
    emits no_send (d_GetLastestBlock d r3) \<and>
    emits no_send (d_GetBlock d r4) \<and>
    emits no_send (d_GetBatchBlock d r5) \<and>
    emits no_send (d_GetTransactionByHash d r6) \<and>
    emits no_send (d_GetTransactionByAddress d r7) \<and>
    emits no_send (d_GetAccountBalance d r8) \<and>
    emits no_send (d_BuildTransactionSchema d r9) \<and>
    emits no_send (d_BuildUnSignTransaction d r10) \<and>
    emits no_send (d_BuildSignedTransaction d r11) \<and>
    emits no_send (d_GetAddressApproveList d r12) \<and>
    emits no_send (d_BuildSponsoredTransfer d r13) \<and>
    emits no_send (d_CallContract d r14)"
  by (intro conjI gateway_quiet [OF assms])

theorem broadcast_only_by_sends_witness:
  "emits no_send (d_GetBatchBlock sample_gateway (sample_range ''5'' ''6''\<lparr>ChainId := ''DappLinkTron''\<rparr>))"
  using broadcast_only_by_sends [OF sample_gateway_made, where ?r5.0 = "sample_range ''5'' ''6''\<lparr>ChainId := ''DappLinkTron''\<rparr>"]
  by blast



text \<open>
  A sponsored transfer through the gateway broadcasts three times at most, however the call ends. It
  broadcasts nothing unless the chain is BNB, the request carries the configured token, account abstraction
  is configured and enabled, and the signature of the request recovers the sender of its operation from the
  hash of that operation, as the configuration completes it: the service pays for no operation its sender
  has not signed.
\<close>

theorem gateway_sponsored:
  assumes "NewChainDispatcher (chain_factories X) cfg w0 = (Ret (Some (d :: 'w ChainDispatcher)), w1)" and "geth_ok (x_geth X)"
    and "k = count_ev (broadcast_call (ChainId req))
      (new_events (Interceptor d (\<lambda>r. Some (ConsumerToken r)) meth req (d_SendSponsoredTransfer d)) w)"
  shows "k \<le> 3 \<and> (k = 0 \<or> ChainId req = bnbchain_ChainID \<and> ConsumerToken req = AccessToken cfg \<and>
    (\<exists>(c :: 'w bnbChainAdaptor) aa op0 op us h. bc_conf c = cfg \<and> bnb_aaConfig (x_geth X) c = Inr aa \<and> Enabled aa \<and>
       UserOpFromJSON (x_aalib X) (sps_UserOpJson req) = Inr op0 \<and>
       op = EnsurePaymasterSigPlaceholder (ApplyConfigToUserOp op0 aa) \<and>
       ParseSignatureHex (sps_UserOpSignature req) = Inr us \<and> GetUserOpHash (x_geth X) (x_aalib X) op = Ret h \<and>
       recoverPubkey (x_aalib X) (hash_bytes h) us = Inr (Sender op)))"
proof (cases "ConsumerToken req = AccessToken cfg \<and> registry d (ChainId req) \<noteq> None")
  case False
  then have "k = 0"
    using gateway_conf(1) [OF assms(1)] unfolding assms(3) intercepted_events
    by (auto simp: sponsored_send.rejected_silently new_events_def final_def)
  then show ?thesis by simp
next
  case True
  then obtain a where a: "registry d (ChainId req) = Some a" by blast
  have k: "k = count_ev (broadcast_call (ChainId req)) (new_events (SendSponsoredTransfer a req) w)"
    using True a gateway_conf(1) [OF assms(1)] unfolding assms(3)
    by (simp add: intercepted_events sponsored_send.handle_registered)
  have "sponsors_at_most (sponsored_limit (ChainId req)) a"
    using gateway_contract [OF assms(1) a] by (simp add: chain_contract_def)
  then have le: "k \<le> sponsored_limit (ChainId req)"
    unfolding k sponsors_at_most_def by (intro sends_call_count broadcast_call_name) blast
  show ?thesis
  proof (cases "k = 0")
    case True
    then show ?thesis by simp
  next
    case False
    with le have bnb: "ChainId req = bnbchain_ChainID" by (auto simp: sponsored_limit_def split: if_splits)
    then have "count_ev ''eth_sendRawTransaction'' (new_events (SendSponsoredTransfer a req) w) \<noteq> 0"
      using k False by (simp add: broadcast_call_def chain_id_defs)
    from sponsored_by_sender [OF assms(1) a bnb assms(2) this] bnb True le show ?thesis
      by (simp add: sponsored_limit_def)
  qed
qed

theorem gateway_sponsored_witness:
  "\<exists>op h. GetUserOpHash sample_geth sample_lib op = Ret h \<and>
     recoverPubkey sample_lib (hash_bytes h) sample_sig = Inr (Sender op) \<and>
     count_ev ''eth_sendRawTransaction'' (new_events (Interceptor aa_gateway (\<lambda>r. Some (ConsumerToken r)) ''/WalletApi/x'' send_request
       (d_SendSponsoredTransfer aa_gateway)) \<lparr>env = (), trace = []\<rparr>) \<in> {1, 2, 3}"
proof -
  obtain w1 where made: "NewChainDispatcher (chain_factories aa_externals) (bc_conf aa_bnb) \<lparr>env = (), trace = []\<rparr> =
      (Ret (Some aa_gateway), w1)" using aa_gateway_made by blast
  have x: "geth_ok (x_geth aa_externals)" "x_geth aa_externals = sample_geth" "x_aalib aa_externals = sample_lib"
    "broadcast_call (ChainId send_request) = ''eth_sendRawTransaction''" "ParseSignatureHex (sps_UserOpSignature send_request) = Inr sample_sig"
    using sample_geth_ok by (simp_all add: aa_externals_def sample_externals_def send_request_def send_request_fields broadcast_call_def chain_id_defs)
  obtain k where k: "count_ev ''eth_sendRawTransaction'' (new_events (Interceptor aa_gateway (\<lambda>r. Some (ConsumerToken r)) ''/WalletApi/x''
      send_request (d_SendSponsoredTransfer aa_gateway)) \<lparr>env = (), trace = []\<rparr>) = Suc k"
    using aa_gateway_sends by blast
  from gateway_sponsored [OF made x(1), of "Suc k" send_request "''/WalletApi/x''" "\<lparr>env = (), trace = []\<rparr>"] k x(2-)
  obtain op h where "Suc k \<le> 3" "GetUserOpHash sample_geth sample_lib op = Ret h"
    "recoverPubkey sample_lib (hash_bytes h) sample_sig = Inr (Sender op)" by fastforce
  moreover from this(1) have "Suc k \<in> {1, 2, 3}" by auto
  ultimately show ?thesis unfolding k by blast
qed



end
